(* ===== verification/Go_Prelude.thy ===== *)
theory Go_Prelude
  imports Main "HOL-Library.Char_ord" "HOL-Library.List_Lexorder" "HOL-Library.Multiset"
begin

text \<open>
  What the SDK uses of Go itself: strings (byte sequences with a UTF-8 reading), the functions of
  the packages strings, unicode, utf8 and strconv that the sources call, 64-bit integers and
  durations, and the generic lemmas the components share.

  A Go \<open>string\<close> is a \<open>string\<close> of Isabelle, one \<open>char\<close> per byte; \<open>len\<close> is
  \<open>length\<close> and \<open><\<close> is the bytewise lexicographic order.  A \<open>range\<close> loop over a string
  visits runes, which \<open>chunks\<close> computes, with U+FFFD for every byte that starts no valid
  sequence.  Fallible functions return \<open>'err + 'a\<close> with the error on the left.
\<close>

named_theorems go_simps \<open>evaluation of the Go library functions\<close>
named_theorems result_elims \<open>inversion of successful results\<close>

section \<open>Results\<close>

definition is_ok :: "'e + 'a \<Rightarrow> bool" where
  "is_ok r = (case r of Inl _ \<Rightarrow> False | Inr _ \<Rightarrow> True)"

lemma is_ok_simps [simp, go_simps]: "\<not> is_ok (Inl e)" "is_ok (Inr x)"
  by (simp_all add: is_ok_def)

lemma is_okE: "is_ok r \<Longrightarrow> (\<And>x. r = Inr x \<Longrightarrow> P) \<Longrightarrow> P"
  by (cases r) auto

fun bind_ok :: "'e + 'a \<Rightarrow> ('a \<Rightarrow> 'e + 'b) \<Rightarrow> 'e + 'b" where
  "bind_ok (Inl e) f = Inl e"
| "bind_ok (Inr x) f = f x"

lemma bind_ok_Inr_iff: "bind_ok r f = Inr y \<longleftrightarrow> (\<exists>x. r = Inr x \<and> f x = Inr y)"
  by (cases r) simp_all

lemma bind_ok_InrE [result_elims]:
  "bind_ok r f = Inr y \<Longrightarrow> (\<And>x. r = Inr x \<Longrightarrow> f x = Inr y \<Longrightarrow> P) \<Longrightarrow> P"
  by (cases r) auto

text \<open>The early return \<open>if bad { return err }\<close> of a validation function.\<close>

definition reject_if :: "bool \<Rightarrow> 'e \<Rightarrow> 'e + 'a \<Rightarrow> 'e + 'a" where
  "reject_if bad e k = (if bad then Inl e else k)"

lemma reject_if_simps [simp, go_simps]:
  "reject_if True e k = Inl e" "reject_if False e k = k"
  by (simp_all add: reject_if_def)

lemma reject_if_Inr [simp]: "reject_if b e k = Inr x \<longleftrightarrow> \<not> b \<and> k = Inr x"
  by (simp add: reject_if_def)

section \<open>Integers and durations\<close>

text \<open>Go's \<open>int64\<close> (and \<open>int\<close> on the 64-bit platforms) wraps around in two's complement.\<close>

definition int64 :: "int \<Rightarrow> int" where
  "int64 x = (x + 2 ^ 63) mod 2 ^ 64 - 2 ^ 63"

lemma int64_range: "- (2 ^ 63) \<le> int64 x \<and> int64 x < 2 ^ 63"
proof -
  have "0 \<le> (x + 2 ^ 63) mod 2 ^ 64" "(x + 2 ^ 63) mod 2 ^ 64 < (2 ^ 64 :: int)"
    by (simp_all only: pos_mod_sign pos_mod_bound zero_less_power zero_less_numeral)
  then show ?thesis by (simp add: int64_def)
qed

lemma int64_id: "- (2 ^ 63) \<le> x \<Longrightarrow> x < 2 ^ 63 \<Longrightarrow> int64 x = x"
  by (simp add: int64_def)

text \<open>\<open>time.Duration\<close> counts nanoseconds.\<close>

abbreviation millisecond :: int where "millisecond \<equiv> 1000000"
abbreviation second :: int where "second \<equiv> 1000000000"
abbreviation minute :: int where "minute \<equiv> 60 * second"
abbreviation hour :: int where "hour \<equiv> 3600 * second"

text \<open>Go's \<open>/\<close> and \<open>%\<close> truncate towards zero.\<close>

definition go_div :: "int \<Rightarrow> int \<Rightarrow> int" where
  "go_div a b = sgn a * sgn b * (\<bar>a\<bar> div \<bar>b\<bar>)"

definition go_rem :: "int \<Rightarrow> int \<Rightarrow> int" where
  "go_rem a b = a - b * go_div a b"

lemma go_div_nonneg: "0 \<le> a \<Longrightarrow> 0 < b \<Longrightarrow> go_div a b = a div b"
  by (auto simp: go_div_def sgn_if)

lemma go_rem_nonneg: "0 \<le> a \<Longrightarrow> 0 < b \<Longrightarrow> go_rem a b = a mod b"
  by (simp add: go_rem_def go_div_nonneg minus_mult_div_eq_mod)

section \<open>Encodings\<close>

text \<open>
  An encoder and a decoder that fit together on the values for which \<open>good\<close> holds.  Whoever reads what
  the encoder wrote gets the value back, so the encoder loses nothing.
\<close>

locale codec =
  fixes encode :: "'a \<Rightarrow> 'b" and decode :: "'b \<Rightarrow> 'a option" and good :: "'a \<Rightarrow> bool"
  assumes decode_encode: "good x \<Longrightarrow> decode (encode x) = Some x"
begin

lemma encode_inject: "good x \<Longrightarrow> good y \<Longrightarrow> encode x = encode y \<longleftrightarrow> x = y"
  by (metis decode_encode option.inject)

lemma encode_distinct:
  assumes "\<forall>x \<in> set xs. good x"
  shows "distinct (map encode xs) \<longleftrightarrow> distinct xs"
  using assms by (induction xs) (auto simp: encode_inject)

end

section \<open>UTF-8\<close>

definition byte :: "char \<Rightarrow> nat" where
  "byte c = of_char c"

definition cont_byte :: "nat \<Rightarrow> bool" where
  "cont_byte b = (128 \<le> b \<and> b \<le> 191)"

text \<open>
  \<open>utf8.DecodeRune\<close> on a non-empty byte list: the rune and the number of bytes after the first
  that belong to it.
\<close>

definition decode_tail :: "nat \<Rightarrow> nat list \<Rightarrow> nat \<times> nat" where
  "decode_tail b0 bs =
     (if b0 < 128 then (b0, 0)
      else if 194 \<le> b0 \<and> b0 \<le> 223 then
        (case bs of b1 # _ \<Rightarrow>
           if cont_byte b1 then ((b0 - 192) * 64 + (b1 - 128), 1) else (65533, 0)
         | _ \<Rightarrow> (65533, 0))
      else if 224 \<le> b0 \<and> b0 \<le> 239 then
        (case bs of b1 # b2 # _ \<Rightarrow>
           if cont_byte b1 \<and> cont_byte b2 \<and> (b0 = 224 \<longrightarrow> 160 \<le> b1) \<and> (b0 = 237 \<longrightarrow> b1 \<le> 159)
           then ((b0 - 224) * 4096 + (b1 - 128) * 64 + (b2 - 128), 2) else (65533, 0)
         | _ \<Rightarrow> (65533, 0))
      else if 240 \<le> b0 \<and> b0 \<le> 244 then
        (case bs of b1 # b2 # b3 # _ \<Rightarrow>
           if cont_byte b1 \<and> cont_byte b2 \<and> cont_byte b3 \<and>
              (b0 = 240 \<longrightarrow> 144 \<le> b1) \<and> (b0 = 244 \<longrightarrow> b1 \<le> 143)
           then ((b0 - 240) * 262144 + (b1 - 128) * 4096 + (b2 - 128) * 64 + (b3 - 128), 3)
           else (65533, 0)
         | _ \<Rightarrow> (65533, 0))
      else (65533, 0))"

lemma decode_tail_ascii [simp]: "b < 128 \<Longrightarrow> decode_tail b bs = (b, 0)"
  by (simp add: decode_tail_def)

text \<open>The runes of a string, each with the bytes it was read from.\<close>

fun chunks :: "string \<Rightarrow> (nat \<times> string) list" where
  "chunks [] = []"
| "chunks (c # cs) =
     (let (r, k) = decode_tail (byte c) (map byte (take 3 cs))
      in (r, c # take k cs) # chunks (drop k cs))"

definition runes :: "string \<Rightarrow> nat list" where
  "runes s = map fst (chunks s)"

lemma concat_chunks [simp]: "concat (map snd (chunks s)) = s"
  by (induction s rule: chunks.induct) (auto split: prod.splits)

lemma chunks_eq_Nil [simp]: "chunks s = [] \<longleftrightarrow> s = []"
  by (cases s) (auto split: prod.splits)

definition ascii :: "string \<Rightarrow> bool" where
  "ascii s = list_all (\<lambda>c. byte c < 128) s"

lemma ascii_simps [simp]:
  "ascii []" "ascii (c # cs) \<longleftrightarrow> byte c < 128 \<and> ascii cs" "ascii (s @ t) \<longleftrightarrow> ascii s \<and> ascii t"
  by (auto simp: ascii_def)

lemma chunks_ascii: "ascii s \<Longrightarrow> chunks s = map (\<lambda>c. (byte c, [c])) s"
  by (induction s) auto

lemma runes_ascii: "ascii s \<Longrightarrow> runes s = map byte s"
  by (simp add: runes_def chunks_ascii)

text \<open>\<open>utf8.ValidString\<close>: no byte was replaced.  A literal U+FFFD is three bytes long.\<close>

definition valid_utf8 :: "string \<Rightarrow> bool" where
  "valid_utf8 s = list_all (\<lambda>(r, bs). \<not> (r = 65533 \<and> length bs = 1)) (chunks s)"

lemma valid_utf8_ascii: "ascii s \<Longrightarrow> valid_utf8 s"
  by (induction s) (auto simp: valid_utf8_def)

text \<open>\<open>utf16.RuneLen\<close> of a decoded rune (never a surrogate).\<close>

definition utf16_len :: "string \<Rightarrow> nat" where
  "utf16_len s = sum_list (map (\<lambda>r. if r < 65536 then 1 else 2) (runes s))"

text \<open>\<open>strings.Builder.WriteRune\<close>.\<close>

definition encode_rune :: "nat \<Rightarrow> string" where
  "encode_rune r = map char_of
     (if r < 128 then [r]
      else if r < 2048 then [192 + r div 64, 128 + r mod 64]
      else if r < 65536 then [224 + r div 4096, 128 + r div 64 mod 64, 128 + r mod 64]
      else [240 + r div 262144, 128 + r div 4096 mod 64, 128 + r div 64 mod 64, 128 + r mod 64])"

lemma char_of_byte [simp]: "char_of (byte c) = c"
  by (simp add: byte_def)

lemma byte_less: "byte c < 256"
  by (simp add: byte_def)

lemma radix64:
  fixes x y z u :: nat
  assumes "y < 64" and "z < 64" and "u < 64"
  shows "(x * 64 + y) div 64 = x" "(x * 64 + y) mod 64 = y"
    "(x * 4096 + y * 64 + z) div 4096 = x" "(x * 4096 + y * 64 + z) div 64 mod 64 = y"
    "(x * 4096 + y * 64 + z) mod 64 = z"
    "(x * 262144 + y * 4096 + z * 64 + u) div 262144 = x"
    "(x * 262144 + y * 4096 + z * 64 + u) div 4096 mod 64 = y"
    "(x * 262144 + y * 4096 + z * 64 + u) div 64 mod 64 = z"
    "(x * 262144 + y * 4096 + z * 64 + u) mod 64 = u"
proof -
  have a: "(q * 64 + w) div 64 = q" "(q * 64 + w) mod 64 = w" if "w < 64" for q w :: nat
    using that by simp_all
  have b: "n div 4096 = n div 64 div 64" "n div 262144 = n div 64 div 64 div 64" for n :: nat
    by (simp_all flip: div_mult2_eq)
  have c: "x * 4096 + y * 64 + z = (x * 64 + y) * 64 + z"
    "x * 262144 + y * 4096 + z * 64 + u = ((x * 64 + y) * 64 + z) * 64 + u"
    by simp_all
  show "(x * 64 + y) div 64 = x" "(x * 64 + y) mod 64 = y"
    "(x * 4096 + y * 64 + z) div 4096 = x" "(x * 4096 + y * 64 + z) div 64 mod 64 = y"
    "(x * 4096 + y * 64 + z) mod 64 = z"
    "(x * 262144 + y * 4096 + z * 64 + u) div 262144 = x"
    "(x * 262144 + y * 4096 + z * 64 + u) div 4096 mod 64 = y"
    "(x * 262144 + y * 4096 + z * 64 + u) div 64 mod 64 = z"
    "(x * 262144 + y * 4096 + z * 64 + u) mod 64 = u"
    by (simp_all only: c b a assms)
qed

text \<open>A rune that was not replaced is written back as the bytes it was read from.\<close>

lemma encode_decode:
  assumes "decode_tail b0 (map byte bs) = (r, k)" and "b0 = byte c" and "\<not> (r = 65533 \<and> k = 0)"
  shows "encode_rune r = c # take k bs"
proof -
  consider "b0 < 128" | "194 \<le> b0 \<and> b0 \<le> 223" | "224 \<le> b0 \<and> b0 \<le> 239" | "240 \<le> b0 \<and> b0 \<le> 244"
    using assms(1,3) by (force simp: decode_tail_def split: if_splits)
  then show ?thesis
  proof cases
    case 1
    with assms show ?thesis by (auto simp: encode_rune_def)
  next
    case 2
    then obtain c1 bs' where bs: "bs = c1 # bs'" and k: "k = 1" and c1: "cont_byte (byte c1)"
      and r: "r = (b0 - 192) * 64 + (byte c1 - 128)"
      using assms(1,3) by (cases bs) (auto simp: decode_tail_def split: if_splits)
    define x y where "x = b0 - 192" and "y = byte c1 - 128"
    have xy: "y < 64" "2 \<le> x" "x < 32" "b0 = 192 + x" "byte c1 = 128 + y"
      using 2 c1 by (auto simp: x_def y_def cont_byte_def)
    have r': "r = x * 64 + y" by (simp add: r x_def y_def)
    have "\<not> r < 128" "r < 2048" using xy by (auto simp: r')
    then have "encode_rune r = map char_of [192 + x, 128 + y]"
      using radix64(1,2) [of y 0 0 x] xy by (simp add: encode_rune_def r')
    also have "\<dots> = map char_of [b0, byte c1]" by (simp only: xy)
    finally show ?thesis using assms(2) bs k by simp
  next
    case 3
    obtain c1 c2 bs' where bs: "bs = c1 # c2 # bs'" and k: "k = 2"
      and c12: "cont_byte (byte c1)" "cont_byte (byte c2)" "b0 = 224 \<longrightarrow> 160 \<le> byte c1"
      and r: "r = (b0 - 224) * 4096 + (byte c1 - 128) * 64 + (byte c2 - 128)"
      using assms(1,3) 3 by (cases bs; cases "tl bs") (auto simp: decode_tail_def split: if_splits)
    define x y z where "x = b0 - 224" and "y = byte c1 - 128" and "z = byte c2 - 128"
    have xy: "y < 64" "z < 64" "x < 16" "x = 0 \<longrightarrow> 32 \<le> y" "b0 = 224 + x" "byte c1 = 128 + y"
        "byte c2 = 128 + z"
      using 3 c12 by (auto simp: x_def y_def z_def cont_byte_def)
    have r': "r = x * 4096 + y * 64 + z" by (simp add: r x_def y_def z_def)
    have "\<not> r < 128" "\<not> r < 2048" "r < 65536" using xy by (cases "x = 0"; auto simp: r')+
    then have "encode_rune r = map char_of [224 + x, 128 + y, 128 + z]"
      using radix64(3-5) [of y z 0 x] xy by (simp add: encode_rune_def r')
    also have "\<dots> = map char_of [b0, byte c1, byte c2]" by (simp only: xy)
    finally show ?thesis using assms(2) bs k by simp
  next
    case 4
    obtain c1 c2 c3 bs' where bs: "bs = c1 # c2 # c3 # bs'" and k: "k = 3"
      and c13: "cont_byte (byte c1)" "cont_byte (byte c2)" "cont_byte (byte c3)" "b0 = 240 \<longrightarrow> 144 \<le> byte c1"
      and r: "r = (b0 - 240) * 262144 + (byte c1 - 128) * 4096 + (byte c2 - 128) * 64 + (byte c3 - 128)"
      using assms(1,3) 4
      by (cases bs; cases "tl bs"; cases "tl (tl bs)") (auto simp: decode_tail_def split: if_splits)
    define x y z u where "x = b0 - 240" and "y = byte c1 - 128" and "z = byte c2 - 128" and "u = byte c3 - 128"
    have xy: "y < 64" "z < 64" "u < 64" "x = 0 \<longrightarrow> 16 \<le> y" "b0 = 240 + x" "byte c1 = 128 + y"
        "byte c2 = 128 + z" "byte c3 = 128 + u"
      using 4 c13 by (auto simp: x_def y_def z_def u_def cont_byte_def)
    have r': "r = x * 262144 + y * 4096 + z * 64 + u" by (simp add: r x_def y_def z_def u_def)
    have "\<not> r < 65536" using xy by (cases "x = 0") (auto simp: r')
    then have "encode_rune r = map char_of [240 + x, 128 + y, 128 + z, 128 + u]"
      using radix64(6-9) [of y z u x] xy by (simp add: encode_rune_def r')
    also have "\<dots> = map char_of [b0, byte c1, byte c2, byte c3]" by (simp only: xy)
    finally show ?thesis using assms(2) bs k by simp
  qed
qed

lemma take_map_byte: "decode_tail b0 (map byte (take 3 cs)) = (r, k) \<Longrightarrow> k \<le> 3"
  by (auto simp: decode_tail_def split: if_splits list.splits)

lemma decode_tail_replaced: "decode_tail b0 bs = (r, k) \<Longrightarrow> r = 65533 \<Longrightarrow> k = 0 \<or> k = 2"
  by (auto simp: decode_tail_def cont_byte_def split: if_splits list.splits)

lemma chunks_valid:
  assumes "valid_utf8 s" and "(r, bs) \<in> set (chunks s)"
  shows "encode_rune r = bs"
  using assms
proof (induction s rule: chunks.induct)
  case (2 c cs)
  obtain q k where d: "decode_tail (byte c) (map byte (take 3 cs)) = (q, k)" by fastforce
  then have split: "chunks (c # cs) = (q, c # take k cs) # chunks (drop k cs)" by simp
  from 2(2) split have v: "valid_utf8 (drop k cs)" "\<not> (q = 65533 \<and> k = 0)"
    by (auto simp: valid_utf8_def)
  have "encode_rune q = c # take k (take 3 cs)"
    using encode_decode [OF d refl v(2)] .
  then have "encode_rune q = c # take k cs"
    using take_map_byte [OF d] by (simp add: min_absorb1)
  moreover from 2(3) have "(r, bs) = (q, c # take k cs) \<or> (r, bs) \<in> set (chunks (drop k cs))"
    unfolding split by simp
  ultimately show ?case
    using 2(1) [OF d [symmetric] refl v(1)] by blast
qed simp

lemma encode_runes: "valid_utf8 s \<Longrightarrow> concat (map encode_rune (runes s)) = s"
proof -
  assume "valid_utf8 s"
  then have "map encode_rune (runes s) = map snd (chunks s)"
    by (auto simp: runes_def chunks_valid)
  then show ?thesis by simp
qed

section \<open>Characters\<close>

definition is_space :: "nat \<Rightarrow> bool" where
  "is_space r = (r \<in> {9, 10, 11, 12, 13, 32, 133, 160, 5760, 8232, 8233, 8239, 8287, 12288}
     \<or> 8192 \<le> r \<and> r \<le> 8202)"

definition is_control :: "nat \<Rightarrow> bool" where
  "is_control r = (r < 32 \<or> 127 \<le> r \<and> r < 160)"

text \<open>
  \<open>unicode.ToUpper\<close> and \<open>ToLower\<close>, on ASCII and on the runes outside ASCII whose image is an
  ASCII letter.  The sources only compare results with ASCII literals, so the other runes, whose
  images are outside ASCII, are left as they are.
\<close>

definition to_upper_rune :: "nat \<Rightarrow> nat" where
  "to_upper_rune r = (if 97 \<le> r \<and> r \<le> 122 then r - 32
     else if r = 383 then 83 else if r = 305 then 73 else r)"

definition to_lower_rune :: "nat \<Rightarrow> nat" where
  "to_lower_rune r = (if 65 \<le> r \<and> r \<le> 90 then r + 32
     else if r = 8490 then 107 else if r = 304 then 105 else r)"

text \<open>
  Simple case folding restricted in the same way: two runes fold together when \<open>fold_rune\<close>
  agrees; the Kelvin sign folds to \<open>k\<close> and the long s to \<open>s\<close>.
\<close>

definition fold_rune :: "nat \<Rightarrow> nat" where
  "fold_rune r = (if 65 \<le> r \<and> r \<le> 90 then r + 32
     else if r = 8490 then 107 else if r = 383 then 115 else r)"

definition equal_fold :: "string \<Rightarrow> string \<Rightarrow> bool" where
  "equal_fold s t = (map fold_rune (runes s) = map fold_rune (runes t))"

lemma equal_fold_refl [simp]: "equal_fold s s"
  by (simp add: equal_fold_def)

section \<open>The package strings\<close>

text \<open>\<open>strings.TrimSpace\<close> drops white-space runes at both ends.\<close>

definition trim_space :: "string \<Rightarrow> string" where
  "trim_space s =
     (let sp = (\<lambda>(r, bs). is_space r);
          front = dropWhile sp (chunks s)
      in concat (map snd (rev (dropWhile sp (rev front)))))"

definition blank :: "string \<Rightarrow> bool" where
  "blank s = (trim_space s = [])"

text \<open>\<open>strings.TrimRight (s, "/")\<close>.\<close>

definition trim_right :: "char \<Rightarrow> string \<Rightarrow> string" where
  "trim_right c s = rev (dropWhile (\<lambda>d. d = c) (rev s))"

definition has_prefix :: "string \<Rightarrow> string \<Rightarrow> bool" where
  "has_prefix p s = (take (length p) s = p)"

definition has_suffix :: "string \<Rightarrow> string \<Rightarrow> bool" where
  "has_suffix p s = (length p \<le> length s \<and> drop (length s - length p) s = p)"

definition trim_prefix :: "string \<Rightarrow> string \<Rightarrow> string" where
  "trim_prefix p s = (if has_prefix p s then drop (length p) s else s)"

text \<open>\<open>strings.Split (s, sep)\<close> for a one-byte separator, and the join of the parts.\<close>

fun split_on :: "char \<Rightarrow> string \<Rightarrow> string list" where
  "split_on sep [] = [[]]"
| "split_on sep (c # cs) =
     (if c = sep then [] # split_on sep cs
      else (case split_on sep cs of [] \<Rightarrow> [[c]] | p # ps \<Rightarrow> (c # p) # ps))"

fun join :: "string \<Rightarrow> string list \<Rightarrow> string" where
  "join sep [] = []"
| "join sep [p] = p"
| "join sep (p # q # ps) = p @ sep @ join sep (q # ps)"

lemma split_on_not_Nil [simp]: "split_on sep s \<noteq> []"
  by (induction s) (auto split: list.splits)

lemma join_split_on [simp]: "join [sep] (split_on sep s) = s"
proof (induction s)
  case (Cons c cs)
  then show ?case
    by (cases "split_on sep cs"; cases "tl (split_on sep cs)") auto
qed simp

lemma split_on_no_sep: "sep \<notin> set s \<Longrightarrow> split_on sep s = [s]"
  by (induction s) auto

lemma split_on_one:
  "sep \<notin> set a \<Longrightarrow> split_on sep (a @ sep # b) = a # split_on sep b"
  by (induction a) auto

lemma length_split_on: "length (split_on sep s) = Suc (count_list s sep)"
  by (induction s) (auto split: list.splits)

lemma split_on_pairD:
  assumes "split_on sep s = [a, b]"
  shows "s = a @ sep # b"
  using join_split_on [of sep s] assms by simp

lemma split_on_parts: "p \<in> set (split_on sep s) \<Longrightarrow> sep \<notin> set p"
  by (induction s arbitrary: p) (auto split: list.splits if_splits)

lemma split_on_pair_iff:
  "split_on sep s = [a, b] \<longleftrightarrow> s = a @ sep # b \<and> sep \<notin> set a \<and> sep \<notin> set b"
proof
  assume h: "split_on sep s = [a, b]"
  then show "s = a @ sep # b \<and> sep \<notin> set a \<and> sep \<notin> set b"
    using split_on_pairD [OF h] split_on_parts [of a sep s] split_on_parts [of b sep s] by simp
qed (auto simp: split_on_one split_on_no_sep)

text \<open>\<open>strings.Fields\<close> on ASCII white space and any other Unicode space.\<close>

fun fields_aux :: "string \<Rightarrow> (nat \<times> string) list \<Rightarrow> string list" where
  "fields_aux acc [] = (if acc = [] then [] else [acc])"
| "fields_aux acc ((r, bs) # cs) =
     (if is_space r then (if acc = [] then fields_aux [] cs else acc # fields_aux [] cs)
      else fields_aux (acc @ bs) cs)"

definition fields :: "string \<Rightarrow> string list" where
  "fields s = fields_aux [] (chunks s)"

section \<open>Character classes\<close>

text \<open>
  The anchored patterns of the sources are sequences of classes over ASCII with repetition
  bounds; on the strings they accept every rune is one byte, so they are read over bytes.
\<close>

definition lower_hex :: "char \<Rightarrow> bool" where
  "lower_hex c = (CHR ''0'' \<le> c \<and> c \<le> CHR ''9'' \<or> CHR ''a'' \<le> c \<and> c \<le> CHR ''f'')"

definition digit :: "char \<Rightarrow> bool" where
  "digit c = (CHR ''0'' \<le> c \<and> c \<le> CHR ''9'')"

definition any_hex :: "char \<Rightarrow> bool" where
  "any_hex c = (lower_hex c \<or> CHR ''A'' \<le> c \<and> c \<le> CHR ''F'')"

definition lower_alnum :: "char \<Rightarrow> bool" where
  "lower_alnum c = (CHR ''a'' \<le> c \<and> c \<le> CHR ''z'' \<or> digit c)"

definition alnum :: "char \<Rightarrow> bool" where
  "alnum c = (lower_alnum c \<or> CHR ''A'' \<le> c \<and> c \<le> CHR ''Z'')"

definition repeated :: "(char \<Rightarrow> bool) \<Rightarrow> nat \<Rightarrow> nat \<Rightarrow> string \<Rightarrow> bool" where
  "repeated p lo hi s = (lo \<le> length s \<and> length s \<le> hi \<and> list_all p s)"

text \<open>The class \<open>[a-z0-9_-]{1,128}\<close> that four of the files compile under different names.\<close>

definition segment_char :: "char \<Rightarrow> bool" where
  "segment_char c = (lower_alnum c \<or> c = CHR ''_'' \<or> c = CHR ''-'')"

lemma repeated_nonempty: "repeated p (Suc lo) hi s \<Longrightarrow> s \<noteq> []"
  by (auto simp: repeated_def)

lemma segment_char_not_punct:
  "\<not> segment_char (CHR '':'')" "\<not> segment_char (CHR ''*'')" "\<not> segment_char (CHR '','')"
  by code_simp+

lemma segment_ascii: "list_all segment_char s \<Longrightarrow> ascii s"
  by (auto simp: ascii_def list_all_iff segment_char_def lower_alnum_def digit_def less_eq_char_def byte_def)

section \<open>Decimal numbers\<close>

definition digit_val :: "char \<Rightarrow> int" where
  "digit_val c = int (byte c) - 48"

definition digits_val :: "string \<Rightarrow> int" where
  "digits_val s = foldl (\<lambda>a c. 10 * a + digit_val c) 0 s"

text \<open>\<open>strconv.Itoa\<close>.\<close>

fun show_nat :: "nat \<Rightarrow> string" where
  "show_nat n = (if n < 10 then [char_of (48 + n)] else show_nat (n div 10) @ [char_of (48 + n mod 10)])"

declare show_nat.simps [simp del]

definition itoa :: "int \<Rightarrow> string" where
  "itoa i = (if i < 0 then ''-'' @ show_nat (nat (- i)) else show_nat (nat i))"

section \<open>Sorting\<close>

text \<open>
  \<open>sort.Slice\<close> and \<open>sort.Strings\<close> return a sorted permutation.  \<open>sort_key\<close> is one of them, and
  the only one when the keys are distinct.
\<close>

lemma sorted_perm_unique:
  assumes "mset xs = mset ys" and "sorted (map f xs)" and "sorted (map f ys)"
    and "distinct (map f xs)"
  shows "xs = ys"
proof -
  have inj: "inj_on f (set xs)"
    using assms(4) by (simp add: distinct_map)
  have "set xs = set ys"
    using assms(1) by (metis set_mset_mset)
  moreover have "map f xs = map f ys"
  proof -
    have "mset (map f xs) = mset (map f ys)"
      using assms(1) by simp
    then show ?thesis
      using assms(2,3) by (metis sorted_list_of_multiset_mset sorted_sort_id)
  qed
  ultimately show ?thesis
    using inj by (metis map_inj_on sup.idem)
qed

end
