(* ===== verification/Go_Json.thy ===== *)
theory Go_Json
  imports Go_Prelude
begin

text \<open>
  The part of encoding/json that the SDK relies on, and the SDK's own strict layer over it
  (\<open>decodeStrictJSON\<close> and \<open>rejectDuplicateJSONMembers\<close> of permission_manifest.go).

  A document is read by a lexer and a shift machine over an explicit stack, as the scanner of
  encoding/json does; numbers keep their literal.  Struct decoding follows the package: a member
  goes to the field whose name it equals up to case, members are handled in their order, \<open>null\<close>
  leaves a plain field unchanged and empties a pointer or a slice, and a value of the wrong kind is
  an error.  The nesting limit of the package (10000) is not modelled.
\<close>

section \<open>Documents\<close>

datatype json = JNull | JBool bool | JNum string | JStr string
  | JArr "json list" | JObj "(string \<times> json) list"

datatype jtoken = LBrace | RBrace | LBrack | RBrack | Colon | Comma | Atom json

definition json_space :: "char \<Rightarrow> bool" where
  "json_space c = (c \<in> {CHR 0x20, CHR 0x09, CHR 0x0A, CHR 0x0D})"

definition hex_val :: "char \<Rightarrow> nat option" where
  "hex_val c = (if digit c then Some (byte c - 48)
     else if CHR ''a'' \<le> c \<and> c \<le> CHR ''f'' then Some (byte c - 87)
     else if CHR ''A'' \<le> c \<and> c \<le> CHR ''F'' then Some (byte c - 55) else None)"

fun hex4 :: "string \<Rightarrow> nat option" where
  "hex4 (a # b # c # d # _) =
     (case (hex_val a, hex_val b, hex_val c, hex_val d) of
        (Some w, Some x, Some y, Some z) \<Rightarrow> Some (w * 4096 + x * 256 + y * 16 + z)
      | _ \<Rightarrow> None)"
| "hex4 _ = None"

definition escape_char :: "char \<Rightarrow> char option" where
  "escape_char e =
     (if e \<in> {CHR 0x22, CHR 0x5C, CHR ''/''} then Some e
      else if e = CHR ''b'' then Some (CHR 0x08) else if e = CHR ''f'' then Some (CHR 0x0C)
      else if e = CHR ''n'' then Some (CHR 0x0A) else if e = CHR ''r'' then Some (CHR 0x0D)
      else if e = CHR ''t'' then Some (CHR 0x09) else None)"

text \<open>
  A \<open>\\u\<close> escape, after the \<open>u\<close>: a surrogate pair is one rune, a lone surrogate is replaced.
\<close>

definition unicode_escape :: "string \<Rightarrow> (string \<times> string) option" where
  "unicode_escape r = (case hex4 r of None \<Rightarrow> None | Some u \<Rightarrow>
     (if 55296 \<le> u \<and> u < 57344 then
        (case (if u < 56320 \<and> take 2 (drop 4 r) = [CHR 0x5C, CHR ''u''] then hex4 (drop 6 r) else None) of
           Some l \<Rightarrow>
             if 56320 \<le> l \<and> l < 57344
             then Some (encode_rune (65536 + (u - 55296) * 1024 + (l - 56320)), drop 10 r)
             else Some (encode_rune 65533, drop 4 r)
         | None \<Rightarrow> Some (encode_rune 65533, drop 4 r))
      else Some (encode_rune u, drop 4 r)))"

definition plain_rune :: "char \<Rightarrow> string \<Rightarrow> string \<times> string" where
  "plain_rune c cs = (let (r, k) = decode_tail (byte c) (map byte (take 3 cs))
     in (if r = 65533 \<and> k = 0 then encode_rune 65533 else c # take k cs, drop k cs))"

lemma unicode_escape_shorter: "unicode_escape r = Some (x, t) \<Longrightarrow> length t \<le> length r"
  by (auto simp: unicode_escape_def split: option.splits if_splits)

lemma plain_rune_shorter: "plain_rune c cs = (x, t) \<Longrightarrow> length t \<le> length cs"
  by (auto simp: plain_rune_def split: prod.splits)

text \<open>
  One item of a string literal, after the opening quote: \<open>None\<close> for a syntax error,
  \<open>Some (None, rest)\<close> at the closing quote, otherwise the decoded bytes.
\<close>

fun string_item :: "string \<Rightarrow> (string option \<times> string) option" where
  "string_item [] = None"
| "string_item (c # cs) =
     (if c = CHR 0x22 then Some (None, cs)
      else if c = CHR 0x5C then
        (case cs of [] \<Rightarrow> None | e # r \<Rightarrow>
           if e = CHR ''u'' then map_option (apfst Some) (unicode_escape r)
           else map_option (\<lambda>x. (Some [x], r)) (escape_char e))
      else if byte c < 32 then None
      else Some (apfst Some (plain_rune c cs)))"

lemma string_item_shorter:
  assumes "string_item s = Some (x, r)"
  shows "length r < length s"
proof (cases s)
  case Nil
  with assms show ?thesis by simp
next
  case (Cons c cs)
  have plain: "apfst Some (plain_rune c cs) = (x, r) \<Longrightarrow> length r \<le> length cs"
    using plain_rune_shorter [of c cs "fst (plain_rune c cs)" "snd (plain_rune c cs)"]
    by (metis prod.collapse snd_apfst snd_conv)
  consider "c = CHR 0x22" | "c \<noteq> CHR 0x22" "c = CHR 0x5C" | "c \<noteq> CHR 0x22" "c \<noteq> CHR 0x5C"
    by blast
  then show ?thesis
  proof cases
    case 1
    with assms Cons show ?thesis by simp
  next
    case 2
    with assms Cons obtain e q where cs: "cs = e # q" and
      "(if e = CHR ''u'' then map_option (apfst Some) (unicode_escape q)
        else map_option (\<lambda>x. (Some [x], q)) (escape_char e)) = Some (x, r)"
      by (cases cs) simp_all
    then have "length r \<le> length q"
      by (cases "e = CHR ''u''") (auto dest: unicode_escape_shorter)
    with Cons cs show ?thesis by simp
  next
    case 3
    with assms Cons have "apfst Some (plain_rune c cs) = (x, r)"
      by (simp split: if_split_asm)
    with Cons show ?thesis by (auto dest: plain)
  qed
qed

function lex_string :: "string \<Rightarrow> string \<Rightarrow> (string \<times> string) option" where
  "lex_string acc s = (case string_item s of
     None \<Rightarrow> None
   | Some (None, r) \<Rightarrow> Some (acc, r)
   | Some (Some bs, r) \<Rightarrow> lex_string (acc @ bs) r)"
  by pat_completeness auto
termination
  by (relation "measure (\<lambda>(acc, s). length s)") (auto dest: string_item_shorter)

declare lex_string.simps [simp del]

lemma lex_string_shorter: "lex_string acc s = Some (x, r) \<Longrightarrow> length r < length s"
proof (induction acc s rule: lex_string.induct)
  case (1 acc s)
  obtain i t where item: "string_item s = Some (i, t)"
    using "1.prems" by (subst (asm) lex_string.simps) (cases "string_item s"; force)
  show ?case
  proof (cases i)
    case None
    with "1.prems" item have "r = t" by (simp add: lex_string.simps [of acc s])
    with item show ?thesis by (simp add: string_item_shorter)
  next
    case (Some bs)
    with "1.prems" item have "lex_string (acc @ bs) t = Some (x, r)"
      by (simp add: lex_string.simps [of acc s])
    with "1.IH" item Some have "length r < length t" by blast
    with string_item_shorter [OF item] show ?thesis by simp
  qed
qed

text \<open>The number grammar: an optional sign, an integer part without leading zeros, an optional
  fraction and an optional exponent.\<close>

definition digits_of :: "string \<Rightarrow> string \<times> string" where
  "digits_of s = (takeWhile digit s, dropWhile digit s)"

definition lex_number :: "string \<Rightarrow> (string \<times> string) option" where
  "lex_number s =
     (let (sign, s1) = (case s of c # cs \<Rightarrow> if c = CHR ''-'' then ([c], cs) else ([], s) | [] \<Rightarrow> ([], s));
          (ds, s2) = digits_of s1;
          whole = (case ds of [] \<Rightarrow> None
                   | d # _ \<Rightarrow> if d = CHR ''0'' then Some ([d], tl ds @ s2) else Some (ds, s2))
      in case whole of None \<Rightarrow> None | Some (w, s3) \<Rightarrow>
        (case (case s3 of c # cs \<Rightarrow> if c = CHR ''.'' then
                 (let (fs, s4) = digits_of cs in if fs = [] then None else Some (c # fs, s4))
                 else Some ([], s3) | [] \<Rightarrow> Some ([], s3)) of
           None \<Rightarrow> None
         | Some (frac, s5) \<Rightarrow>
             (case s5 of c # cs \<Rightarrow> if c = CHR ''e'' \<or> c = CHR ''E'' then
                (let (sg, s6) = (case cs of d # t \<Rightarrow> if d = CHR ''+'' \<or> d = CHR ''-'' then ([d], t) else ([], cs)
                                 | [] \<Rightarrow> ([], cs));
                     (es, s7) = digits_of s6
                 in if es = [] then None else Some (sign @ w @ frac @ c # sg @ es, s7))
                else Some (sign @ w @ frac, s5) | [] \<Rightarrow> Some (sign @ w @ frac, s5))))"

definition lex_word :: "string \<Rightarrow> (json \<times> string) option" where
  "lex_word s =
     (if has_prefix ''null'' s then Some (JNull, drop 4 s)
      else if has_prefix ''true'' s then Some (JBool True, drop 4 s)
      else if has_prefix ''false'' s then Some (JBool False, drop 5 s) else None)"

definition punct :: "char \<Rightarrow> jtoken option" where
  "punct c = map_of [(CHR ''{'', LBrace), (CHR ''}'', RBrace), (CHR ''['', LBrack),
     (CHR '']'', RBrack), (CHR '':'', Colon), (CHR '','', Comma)] c"

fun lex_token :: "string \<Rightarrow> (jtoken \<times> string) option" where
  "lex_token [] = None"
| "lex_token (c # cs) = (case punct c of
     Some t \<Rightarrow> Some (t, cs)
   | None \<Rightarrow>
      (if c = CHR 0x22 then map_option (\<lambda>(x, r). (Atom (JStr x), r)) (lex_string [] cs)
       else if digit c \<or> c = CHR ''-'' then
         (case lex_number (c # cs) of
            Some (n, r) \<Rightarrow> if length r \<le> length cs then Some (Atom (JNum n), r) else None
          | None \<Rightarrow> None)
       else map_option (\<lambda>(v, r). (Atom v, r)) (lex_word (c # cs))))"

definition lex1 :: "string \<Rightarrow> (jtoken \<times> string) option" where
  "lex1 t = lex_token (dropWhile json_space t)"

lemma lex_word_shorter: "lex_word s = Some (v, r) \<Longrightarrow> length r < length s"
  by (cases s) (auto simp: lex_word_def has_prefix_def split: if_splits)

lemma lex_token_shorter:
  assumes "lex_token s = Some (k, r)"
  shows "length r < length s"
proof (cases s)
  case Nil
  with assms show ?thesis by simp
next
  case (Cons c cs)
  show ?thesis
  proof (cases "punct c")
    case (Some t)
    with assms Cons show ?thesis by simp
  next
    case None
    consider "c = CHR 0x22" | "c \<noteq> CHR 0x22" "digit c \<or> c = CHR ''-''"
      | "c \<noteq> CHR 0x22" "\<not> (digit c \<or> c = CHR ''-'')"
      by blast
    then show ?thesis
    proof cases
      case 1
      with assms Cons None show ?thesis by (auto dest: lex_string_shorter)
    next
      case 2
      with assms Cons None show ?thesis
        by (cases "lex_number (c # cs)") (auto split: if_split_asm)
    next
      case 3
      with assms Cons None show ?thesis by (auto dest: lex_word_shorter)
    qed
  qed
qed

lemma lex1_shorter: "lex1 t = Some (k, r) \<Longrightarrow> length r < length t"
  using lex_token_shorter [of "dropWhile json_space t" k r] length_dropWhile_le [of json_space t]
  by (simp add: lex1_def)

section \<open>The shift machine\<close>

datatype frame = InArr "json list" | InObj "(string \<times> json) list" string

datatype expect = Value | ValueOrEnd | KeyOrEnd | Key | ColonFor string | CommaOrEnd

text \<open>
  A finished value is put into the innermost open frame; with no frame left it is the document.
  \<open>ColonFor k\<close> has the members read so far in the frame below it, with \<open>k\<close> as the pending key.
\<close>

definition put :: "json \<Rightarrow> frame list \<Rightarrow> frame list" where
  "put v st = (case st of
     InArr vs # fs \<Rightarrow> InArr (v # vs) # fs
   | InObj ms k # fs \<Rightarrow> InObj ((k, v) # ms) k # fs
   | [] \<Rightarrow> [])"

datatype outcome = Done json | Go expect "frame list" | Bad

definition finish :: "json \<Rightarrow> frame list \<Rightarrow> outcome" where
  "finish v st = (if st = [] then Done v else Go CommaOrEnd (put v st))"

definition shift :: "expect \<Rightarrow> frame list \<Rightarrow> jtoken \<Rightarrow> outcome" where
  "shift e st t = (case t of
     Atom v \<Rightarrow>
       (if e = Value \<or> e = ValueOrEnd then finish v st
        else if e = Key \<or> e = KeyOrEnd then (case v of JStr k \<Rightarrow> Go (ColonFor k) st | _ \<Rightarrow> Bad)
        else Bad)
   | LBrace \<Rightarrow> if e = Value \<or> e = ValueOrEnd then Go KeyOrEnd (InObj [] [] # st) else Bad
   | LBrack \<Rightarrow> if e = Value \<or> e = ValueOrEnd then Go ValueOrEnd (InArr [] # st) else Bad
   | Colon \<Rightarrow> (case e of ColonFor k \<Rightarrow>
       (case st of InObj ms k0 # fs \<Rightarrow> Go Value (InObj ms k # fs) | _ \<Rightarrow> Bad) | _ \<Rightarrow> Bad)
   | Comma \<Rightarrow> if e = CommaOrEnd then
       (case st of InArr vs # fs \<Rightarrow> Go Value st | InObj ms k # fs \<Rightarrow> Go Key st | [] \<Rightarrow> Bad) else Bad
   | RBrace \<Rightarrow> if e = CommaOrEnd \<or> e = KeyOrEnd then
       (case st of InObj ms k # fs \<Rightarrow> finish (JObj (rev ms)) fs | _ \<Rightarrow> Bad) else Bad
   | RBrack \<Rightarrow> if e = CommaOrEnd \<or> e = ValueOrEnd then
       (case st of InArr vs # fs \<Rightarrow> finish (JArr (rev vs)) fs | _ \<Rightarrow> Bad) else Bad)"

function build :: "expect \<Rightarrow> frame list \<Rightarrow> string \<Rightarrow> (json \<times> string) option" where
  "build e st s = (case lex1 s of
     None \<Rightarrow> None
   | Some (t, r) \<Rightarrow> (case shift e st t of
       Done v \<Rightarrow> Some (v, r) | Go e' st' \<Rightarrow> build e' st' r | Bad \<Rightarrow> None))"
  by pat_completeness auto
termination
  by (relation "measure (\<lambda>(e, st, s). length s)") (auto dest: lex1_shorter)

declare build.simps [simp del]

text \<open>\<open>Decoder.Decode\<close> of the first value, and \<open>json.Unmarshal\<close>, which allows only space after it.\<close>

definition decode_first :: "string \<Rightarrow> (json \<times> string) option" where
  "decode_first s = build Value [] s"

definition only_space :: "string \<Rightarrow> bool" where
  "only_space s = list_all json_space s"

definition parse_json :: "string \<Rightarrow> json option" where
  "parse_json s = (case decode_first s of
     Some (v, r) \<Rightarrow> if only_space r then Some v else None | None \<Rightarrow> None)"

section \<open>rejectDuplicateJSONMembers\<close>

datatype json_error = JsonSyntax | DuplicateMember string | TrailingContent | UnknownField | BadField

text \<open>
  The token walk of the sources: in an object the member names seen so far are remembered and a
  repeated one stops the walk; values are walked recursively.  The result is the repeated name.
\<close>

fun walk :: "json \<Rightarrow> string option"
  and walk_members :: "string list \<Rightarrow> (string \<times> json) list \<Rightarrow> string option"
  and walk_items :: "json list \<Rightarrow> string option" where
  "walk (JObj ms) = walk_members [] ms"
| "walk (JArr vs) = walk_items vs"
| "walk v = None"
| "walk_members seen [] = None"
| "walk_members seen ((k, v) # ms) =
     (if k \<in> set seen then Some k
      else (case walk v of Some d \<Rightarrow> Some d | None \<Rightarrow> walk_members (k # seen) ms))"
| "walk_items [] = None"
| "walk_items (v # vs) = (case walk v of Some d \<Rightarrow> Some d | None \<Rightarrow> walk_items vs)"

definition rejectDuplicateJSONMembers :: "string \<Rightarrow> json_error + json" where
  "rejectDuplicateJSONMembers body = (case decode_first body of
     None \<Rightarrow> Inl JsonSyntax
   | Some (v, rest) \<Rightarrow> (case walk v of
       Some k \<Rightarrow> Inl (DuplicateMember k)
     | None \<Rightarrow> reject_if (\<not> only_space rest) TrailingContent (Inr v)))"

text \<open>What the walk is for: in no object of the document does a name occur twice.\<close>

inductive no_dups :: "json \<Rightarrow> bool" where
  null: "no_dups JNull"
| bool: "no_dups (JBool b)"
| num: "no_dups (JNum n)"
| str: "no_dups (JStr s)"
| arr: "(\<And>v. v \<in> set vs \<Longrightarrow> no_dups v) \<Longrightarrow> no_dups (JArr vs)"
| obj: "distinct (map fst ms) \<Longrightarrow> (\<And>k v. (k, v) \<in> set ms \<Longrightarrow> no_dups v) \<Longrightarrow> no_dups (JObj ms)"

inductive_simps no_dups_simps [simp]:
  "no_dups JNull" "no_dups (JBool b)" "no_dups (JNum n)" "no_dups (JStr s)"
  "no_dups (JArr vs)" "no_dups (JObj ms)"

lemma walk_iff:
  "walk v = None \<longleftrightarrow> no_dups v"
  "walk_members seen ms = None \<longleftrightarrow>
     distinct (map fst ms) \<and> set (map fst ms) \<inter> set seen = {} \<and> (\<forall>(k, v) \<in> set ms. no_dups v)"
  "walk_items vs = None \<longleftrightarrow> (\<forall>v \<in> set vs. no_dups v)"
  by (induction v and seen ms and vs rule: walk_walk_members_walk_items.induct)
    (auto split: option.splits)

lemma rejectDuplicate_Inr:
  "rejectDuplicateJSONMembers body = Inr v \<longleftrightarrow> parse_json body = Some v \<and> no_dups v"
  by (auto simp: rejectDuplicateJSONMembers_def parse_json_def walk_iff(1) [symmetric]
      split: option.splits prod.splits if_splits)

section \<open>Decoding into Go values\<close>

type_synonym members = "(string \<times> json) list"

text \<open>The values of the members that belong to the field \<open>name\<close>, in document order.\<close>

definition values_of :: "string \<Rightarrow> members \<Rightarrow> json list" where
  "values_of name ms = map snd (filter (\<lambda>(k, v). equal_fold k name) ms)"

definition only_fields :: "string list \<Rightarrow> members \<Rightarrow> bool" where
  "only_fields names ms = list_all (\<lambda>(k, v). list_ex (equal_fold k) names) ms"

text \<open>A decoder takes the value and the field's current content; \<open>None\<close> is a decoding error.\<close>

definition dec_field :: "(json \<Rightarrow> 'a \<Rightarrow> 'a option) \<Rightarrow> 'a \<Rightarrow> string \<Rightarrow> members \<Rightarrow> 'a option" where
  "dec_field d zero name ms = foldl (\<lambda>acc v. Option.bind acc (d v)) (Some zero) (values_of name ms)"

fun dec_string :: "json \<Rightarrow> string \<Rightarrow> string option" where
  "dec_string (JStr s) old = Some s"
| "dec_string JNull old = Some old"
| "dec_string v old = None"

fun dec_bool :: "json \<Rightarrow> bool \<Rightarrow> bool option" where
  "dec_bool (JBool b) old = Some b"
| "dec_bool JNull old = Some old"
| "dec_bool v old = None"

text \<open>An integer field takes an integer literal within 64 bits, nothing else.\<close>

definition num_int :: "string \<Rightarrow> int option" where
  "num_int lit =
     (let neg = has_prefix ''-'' lit; ds = trim_prefix ''-'' lit;
          n = (if neg then - digits_val ds else digits_val ds)
      in if ds \<noteq> [] \<and> list_all digit ds \<and> int64 n = n then Some n else None)"

fun dec_int :: "json \<Rightarrow> int \<Rightarrow> int option" where
  "dec_int (JNum lit) old = num_int lit"
| "dec_int JNull old = Some old"
| "dec_int v old = None"

fun dec_ptr :: "(json \<Rightarrow> 'a \<Rightarrow> 'a option) \<Rightarrow> 'a \<Rightarrow> json \<Rightarrow> 'a option \<Rightarrow> 'a option option" where
  "dec_ptr d zero JNull old = Some None"
| "dec_ptr d zero v old = map_option Some (d v (case old of None \<Rightarrow> zero | Some x \<Rightarrow> x))"

fun dec_items :: "(json \<Rightarrow> 'a \<Rightarrow> 'a option) \<Rightarrow> 'a \<Rightarrow> json list \<Rightarrow> 'a list option" where
  "dec_items d zero [] = Some []"
| "dec_items d zero (v # vs) = (case d v zero of None \<Rightarrow> None
     | Some x \<Rightarrow> map_option (Cons x) (dec_items d zero vs))"

text \<open>A slice is an option: \<open>null\<close> gives the nil slice.\<close>

fun dec_slice :: "(json \<Rightarrow> 'a \<Rightarrow> 'a option) \<Rightarrow> 'a \<Rightarrow> json \<Rightarrow> 'a list option \<Rightarrow> 'a list option option" where
  "dec_slice d zero (JArr vs) old = map_option Some (dec_items d zero vs)"
| "dec_slice d zero JNull old = Some None"
| "dec_slice d zero v old = None"

text \<open>A struct: \<open>f\<close> decodes the members into the struct, starting from its current content.\<close>

fun dec_struct :: "bool \<Rightarrow> string list \<Rightarrow> (members \<Rightarrow> 'a \<Rightarrow> 'a option) \<Rightarrow> json \<Rightarrow> 'a \<Rightarrow> 'a option" where
  "dec_struct strict names f (JObj ms) old =
     (if strict \<and> \<not> only_fields names ms then None else f ms old)"
| "dec_struct strict names f JNull old = Some old"
| "dec_struct strict names f v old = None"

text \<open>
  \<open>decodeStrictJSON\<close>: no repeated member, no unknown field, nothing after the document.
\<close>

definition decodeStrictJSON :: "(json \<Rightarrow> 'a \<Rightarrow> 'a option) \<Rightarrow> 'a \<Rightarrow> string \<Rightarrow> json_error + 'a" where
  "decodeStrictJSON d zero body = (case rejectDuplicateJSONMembers body of
     Inl e \<Rightarrow> Inl e
   | Inr v \<Rightarrow> (case d v zero of None \<Rightarrow> Inl BadField | Some x \<Rightarrow> Inr x))"

text \<open>\<open>json.NewDecoder(body).Decode(&out)\<close>: the first value only.\<close>

definition decodeFirstJSON :: "(json \<Rightarrow> 'a \<Rightarrow> 'a option) \<Rightarrow> 'a \<Rightarrow> string \<Rightarrow> json_error + 'a" where
  "decodeFirstJSON d zero body = (case decode_first body of
     None \<Rightarrow> Inl JsonSyntax
   | Some (v, rest) \<Rightarrow> (case d v zero of None \<Rightarrow> Inl BadField | Some x \<Rightarrow> Inr x))"

lemma decodeStrictJSON_Inr [result_elims]:
  assumes "decodeStrictJSON d zero body = Inr x"
  obtains v where "parse_json body = Some v" and "no_dups v" and "d v zero = Some x"
  using assms rejectDuplicate_Inr [of body]
  by (auto simp: decodeStrictJSON_def split: sum.splits option.splits)

lemma dec_items_length: "dec_items d zero vs = Some xs \<Longrightarrow> length xs = length vs"
  by (induction vs arbitrary: xs) (auto split: option.splits)

text \<open>A document as a \<open>map[string]json.RawMessage\<close>: exact names, the last member of a name.\<close>

definition raw_field :: "members \<Rightarrow> string \<Rightarrow> json option" where
  "raw_field ms k = map_of (rev ms) k"

lemma raw_field_map_of: "distinct (map fst ms) \<Longrightarrow> raw_field ms k = map_of ms k"
  by (metis distinct_rev map_of_inject_set raw_field_def rev_map set_rev)

section \<open>Evaluation\<close>

text \<open>The steps of the lexer and the machine on concrete text.\<close>

lemma lex_string_plain:
  "c \<noteq> CHR 0x22 \<Longrightarrow> c \<noteq> CHR 0x5C \<Longrightarrow> 32 \<le> byte c \<Longrightarrow> byte c < 128 \<Longrightarrow>
   lex_string acc (c # r) = lex_string (acc @ [c]) r"
  by (simp add: lex_string.simps [of acc] plain_rune_def)

lemma lex_string_end: "lex_string acc (CHR 0x22 # r) = Some (acc, r)"
  by (simp add: lex_string.simps [of acc])

lemma lex1_steps:
  "lex1 (c # cs) = (if json_space c then lex1 cs else lex_token (c # cs))" "lex1 [] = None"
  by (simp_all add: lex1_def)

lemma build_step:
  "lex1 s = Some (t, r) \<Longrightarrow> build e st s = (case shift e st t of
     Done v \<Rightarrow> Some (v, r) | Go e' st' \<Rightarrow> build e' st' r | Bad \<Rightarrow> None)"
  by (simp add: build.simps [of e st s])

lemma digit_byte: "digit c = (48 \<le> byte c \<and> byte c \<le> 57)"
  by (auto simp: digit_def less_eq_char_def byte_def)

definition quoted :: "string \<Rightarrow> string" where
  "quoted s = CHR 0x22 # s @ [CHR 0x22]"

lemmas json_eval = decode_first_def build_step lex1_steps lex_string_plain lex_string_end shift_def
  finish_def put_def only_space_def json_space_def punct_def lex_number_def lex_word_def has_prefix_def
  digits_of_def digit_byte Let_def byte_def

lemmas decode_eval = dec_field_def values_of_def only_fields_def equal_fold_def runes_def fold_rune_def
  num_int_def digits_val_def digit_val_def trim_prefix_def

lemma decodeStrictJSON_eval:
  "rejectDuplicateJSONMembers text = Inr v \<Longrightarrow> d v zero = Some x \<Longrightarrow> decodeStrictJSON d zero text = Inr x"
  by (simp add: decodeStrictJSON_def)

end
