(* ===== verification/Go_Http.thy ===== *)
theory Go_Http
  imports Go_Json
begin

text \<open>
  HTTP as the SDK sees it.  The network is an arbitrary function \<open>net\<close>: from the requests sent so
  far and the request being sent it gives how long the exchange takes and what comes back, a
  transport error or a response.  Since it sees the whole history, it stands for any server, load
  balancer or attacker, with any memory and any timing; every theorem holds for all of them.

  The world records the requests in the order they were sent and the clock.  A context is the instant
  at which it becomes done (deadline or cancellation), if there is one; an exchange that would end
  after that instant ends there with the context's error, as \<open>http.Client.Do\<close> does.
\<close>

type_synonym header = "(string \<times> string) list"

record request =
  meth :: string
  url :: string
  headers :: header
  payload :: string

record response =
  status :: int
  resp_headers :: header
  body :: string
  read_error :: bool

record world =
  sent :: "request list"
  clock :: int

datatype net_error = Refused string | CtxDone

type_synonym network = "request list \<Rightarrow> request \<Rightarrow> nat \<times> (net_error + response)"

record ctx =
  done_at :: "int option"
  tie :: bool

text \<open>\<open>http.Header.Get\<close>: the first value under the canonical name, or the empty string.\<close>

definition header_get :: "string \<Rightarrow> header \<Rightarrow> string" where
  "header_get k h = (case map_of h k of Some v \<Rightarrow> v | None \<Rightarrow> [])"

text \<open>\<open>http.Header.Set\<close> replaces every value of the name.\<close>

definition header_set :: "string \<Rightarrow> string \<Rightarrow> header \<Rightarrow> header" where
  "header_set k v h = filter (\<lambda>(k', v'). k' \<noteq> k) h @ [(k, v)]"

lemma map_of_filter_other:
  "map_of (filter (\<lambda>(k', v'). k' \<noteq> k) h) k' = (if k' = k then None else map_of h k')"
  by (induction h) auto

lemma header_get_set [simp]:
  "header_get k (header_set k v h) = v"
  "k' \<noteq> k \<Longrightarrow> header_get k' (header_set k v h) = header_get k' h"
  by (auto simp: header_get_def header_set_def map_of_filter_other map_add_def
      split: option.splits)

lemma fst_header_set [simp]: "fst ` set (header_set k v h) = insert k (fst ` set h)"
  by (auto simp: header_set_def image_iff split: prod.splits)

section \<open>Contexts and exchanges\<close>

definition expired :: "ctx \<Rightarrow> int \<Rightarrow> bool" where
  "expired c t = (case done_at c of None \<Rightarrow> False | Some d \<Rightarrow> d \<le> t)"

text \<open>\<open>context.WithTimeout\<close>.\<close>

definition with_timeout :: "int \<Rightarrow> world \<Rightarrow> ctx \<Rightarrow> ctx" where
  "with_timeout d w c = c\<lparr>done_at := Some (case done_at c of
     None \<Rightarrow> clock w + d | Some e \<Rightarrow> min e (clock w + d))\<rparr>"

text \<open>
  \<open>http.Client.Do\<close> followed by reading the body.  The request counts as sent in every case.
\<close>

definition exchange :: "network \<Rightarrow> ctx \<Rightarrow> request \<Rightarrow> world \<Rightarrow> (net_error + response) \<times> world" where
  "exchange net c r w =
     (let (d, out) = net (sent w) r;
          w' = w\<lparr>sent := sent w @ [r]\<rparr>
      in (case done_at c of
            Some e \<Rightarrow> (if e \<le> clock w + int d then (Inl CtxDone, w'\<lparr>clock := max e (clock w)\<rparr>)
                       else (out, w'\<lparr>clock := clock w + int d\<rparr>))
          | None \<Rightarrow> (out, w'\<lparr>clock := clock w + int d\<rparr>)))"

text \<open>
  \<open>waitContext\<close>: the timer or the context, whichever comes first.  When both are ready at the same
  instant Go's \<open>select\<close> picks one at random; \<open>tie\<close> is that choice.
\<close>

definition waitContext :: "ctx \<Rightarrow> int \<Rightarrow> world \<Rightarrow> (net_error + unit) \<times> world" where
  "waitContext c delay w =
     (let t = clock w + max 0 delay
      in (case done_at c of
            Some e \<Rightarrow> (if e < t \<or> e = t \<and> tie c then (Inl CtxDone, w\<lparr>clock := max e (clock w)\<rparr>)
                       else (Inr (), w\<lparr>clock := t\<rparr>))
          | None \<Rightarrow> (Inr (), w\<lparr>clock := t\<rparr>)))"

lemma exchange_sent [simp]: "sent (snd (exchange net c r w)) = sent w @ [r]"
  by (auto simp: exchange_def Let_def split: prod.splits option.splits)

lemma waitContext_sent [simp]: "sent (snd (waitContext c d w)) = sent w"
  by (auto simp: waitContext_def Let_def split: option.splits)

lemma exchange_clock_mono: "clock w \<le> clock (snd (exchange net c r w))"
  by (auto simp: exchange_def Let_def split: prod.splits option.splits)

lemma waitContext_clock_mono: "clock w \<le> clock (snd (waitContext c d w))"
  by (auto simp: waitContext_def Let_def split: option.splits)

text \<open>No exchange and no wait goes past the instant its context is done.\<close>

definition in_time :: "ctx \<Rightarrow> world \<Rightarrow> bool" where
  "in_time c w = (case done_at c of None \<Rightarrow> True | Some e \<Rightarrow> clock w \<le> e)"

lemma exchange_in_time: "in_time c w \<Longrightarrow> in_time c (snd (exchange net c r w))"
  by (auto simp: exchange_def in_time_def Let_def split: prod.splits option.splits)

lemma waitContext_in_time: "in_time c w \<Longrightarrow> in_time c (snd (waitContext c d w))"
  by (auto simp: waitContext_def in_time_def Let_def split: option.splits)

text \<open>A timeout only brings the end forward.\<close>

lemma with_timeout_in_time:
  assumes "in_time (with_timeout d w0 c) w"
  shows "in_time c w" and "clock w \<le> clock w0 + d"
  using assms by (auto simp: in_time_def with_timeout_def split: option.splits)

lemma in_time_with_timeout: "in_time c w \<Longrightarrow> 0 \<le> d \<Longrightarrow> in_time (with_timeout d w c) w"
  by (auto simp: in_time_def with_timeout_def split: option.splits)

lemma exchange_shorter_in_time:
  "in_time c w \<Longrightarrow> 0 \<le> d \<Longrightarrow> in_time c (snd (exchange net (with_timeout d w c) r w))"
  using exchange_in_time [OF in_time_with_timeout, of c w d net r] with_timeout_in_time(1) by blast

section \<open>The runtime\<close>

text \<open>
  What a client finds outside: the network, whether a string parses as a URL, the text of the errors
  of the standard library, and the normal-form test of golang.org/x/text.
\<close>

datatype fault = NetFault net_error | ReadFault | JsonFault json_error

record runtime =
  rt_net :: network
  rt_url_ok :: "string \<Rightarrow> bool"
  rt_text :: "fault \<Rightarrow> string"
  rt_nfc :: "string \<Rightarrow> bool"

text \<open>\<open>http.Client.Timeout\<close> bounds every exchange of the client, if it is set.\<close>

definition client_ctx :: "int option \<Rightarrow> world \<Rightarrow> ctx \<Rightarrow> ctx" where
  "client_ctx t w c = (case t of None \<Rightarrow> c | Some d \<Rightarrow> with_timeout d w c)"

section \<open>Token sources\<close>

text \<open>
  A client that keeps a machine token: \<open>acquire\<close> gives a token, \<open>kept\<close> is the token in the cache and
  \<open>now\<close> the clock.  A kept token that has not expired is given again without any change of state,
  a token that was given is kept, and a failure keeps what there was.
\<close>

locale token_source =
  fixes acquire :: "'s \<Rightarrow> ('e + 't) \<times> 's" and kept :: "'s \<Rightarrow> 't option"
    and expires :: "'t \<Rightarrow> int" and now :: "'s \<Rightarrow> int"
  assumes reuse: "kept s = Some t \<Longrightarrow> now s < expires t \<Longrightarrow> acquire s = (Inr t, s)"
    and keeps: "acquire s = (Inr t, s') \<Longrightarrow> kept s' = Some t"
    and failure: "acquire s = (Inl e, s') \<Longrightarrow> kept s' = kept s"
begin

text \<open>Asking again while the token lives costs nothing, however often.\<close>

lemma acquire_again:
  assumes "acquire s = (Inr t, s')" and "now s' < expires t"
  shows "acquire s' = (Inr t, s')"
  using assms reuse keeps by blast

lemma acquire_stable:
  assumes "acquire s = (Inr t, s')" and "now s' < expires t"
  shows "((\<lambda>u. snd (acquire u)) ^^ n) s' = s'"
  by (induction n) (simp_all add: acquire_again [OF assms])

lemma only_success_changes:
  "kept (snd (acquire s)) = kept s \<or> (\<exists>t. fst (acquire s) = Inr t \<and> kept (snd (acquire s)) = Some t)"
  by (cases "acquire s"; cases "fst (acquire s)") (auto dest: keeps failure)

end

end
