(* ===== verification/Jwt.thy ===== *)
theory Jwt
  imports Go_Http
begin

text \<open>
  The package jwt: the key-set provider with its refresh and rotation cooldown (jwt/jwks.go), the
  claims (jwt/claims.go) and the verifier (jwt/verifier.go).

  go-jose is a third-party package, so its operations are parameters: \<open>parse_set\<close> reads a key set,
  \<open>key_id\<close> is a key's kid, and the record \<open>jose\<close> holds the token operations.  A key is of any
  type \<open>'k\<close>, a token of any type \<open>'t\<close>.
\<close>

section \<open>The provider\<close>

record 'k jwks =
  jwksURL :: string
  refresh :: int
  cooldown :: int
  key_set :: "'k list option"
  lastFetch :: "int option"
  lastForcedRefresh :: "int option"

record JWKSOptions =
  j_URL :: string
  j_Refresh :: int
  j_RotationCooldown :: int

datatype jwt_error = EmptyURL | NilProvider | EmptyIssuer | RotationCooldown string | UnknownKid string
  | Transport net_error | BadStatus int | ReadFailed | BadKeySet
  | ParseError | MissingHeader | MissingKid | BadSignature | BadClaims

definition NewJWKSProvider :: "JWKSOptions \<Rightarrow> jwt_error + 'k jwks" where
  "NewJWKSProvider opts =
     (if j_URL opts = [] then Inl EmptyURL
      else Inr \<lparr>jwksURL = j_URL opts,
                refresh = (if j_Refresh opts \<le> 0 then hour else j_Refresh opts),
                cooldown = (if j_RotationCooldown opts \<le> 0 then 10 * second else j_RotationCooldown opts),
                key_set = None, lastFetch = None, lastForcedRefresh = None\<rparr>)"

text \<open>\<open>time.Since\<close>: of the zero time it is the longest duration.\<close>

definition since :: "int option \<Rightarrow> int \<Rightarrow> int" where
  "since t now = (case t of None \<Rightarrow> 2 ^ 63 - 1 | Some u \<Rightarrow> now - u)"

definition needsRefresh :: "'k jwks \<Rightarrow> int \<Rightarrow> bool" where
  "needsRefresh p now = (since (lastFetch p) now > refresh p)"

definition lookup :: "('k \<Rightarrow> string) \<Rightarrow> 'k jwks \<Rightarrow> int \<Rightarrow> string \<Rightarrow> 'k option" where
  "lookup key_id p now kid = (case key_set p of
     None \<Rightarrow> None
   | Some ks \<Rightarrow> if needsRefresh p now then None else find (\<lambda>k. key_id k = kid) ks)"

definition fetch ::
  "network \<Rightarrow> (string \<Rightarrow> 'k list option) \<Rightarrow> ctx \<Rightarrow> 'k jwks \<times> world \<Rightarrow> (jwt_error + 'k list) \<times> 'k jwks \<times> world" where
  "fetch net parse_set c s = (let (p, w) = s in
     (case exchange net c \<lparr>meth = ''GET'', url = jwksURL p, headers = [], payload = []\<rparr> w of
        (Inl e, w') \<Rightarrow> (Inl (Transport e), p, w')
      | (Inr resp, w') \<Rightarrow>
          (if status resp \<ge> 400 then (Inl (BadStatus (status resp)), p, w')
           else if read_error resp then (Inl ReadFailed, p, w')
           else (case parse_set (body resp) of
             None \<Rightarrow> (Inl BadKeySet, p, w')
           | Some ks \<Rightarrow> (Inr ks, p\<lparr>key_set := Some ks, lastFetch := Some (clock w')\<rparr>, w')))))"

text \<open>\<open>Preload\<close>.\<close>

definition Preload ::
  "network \<Rightarrow> (string \<Rightarrow> 'k list option) \<Rightarrow> ctx \<Rightarrow> 'k jwks \<times> world \<Rightarrow> (jwt_error + unit) \<times> 'k jwks \<times> world" where
  "Preload net parse_set c s = (case fetch net parse_set c s of
     (Inl e, s') \<Rightarrow> (Inl e, s') | (Inr _, s') \<Rightarrow> (Inr (), s'))"

definition KeyByID ::
  "network \<Rightarrow> (string \<Rightarrow> 'k list option) \<Rightarrow> ('k \<Rightarrow> string) \<Rightarrow> ctx \<Rightarrow> string \<Rightarrow>
   'k jwks \<times> world \<Rightarrow> (jwt_error + 'k) \<times> 'k jwks \<times> world" where
  "KeyByID net parse_set key_id c kid s = (let (p, w) = s in
     (case lookup key_id p (clock w) kid of
        Some k \<Rightarrow> (Inr k, p, w)
      | None \<Rightarrow>
          (if since (lastForcedRefresh p) (clock w) < cooldown p
           then (Inl (RotationCooldown kid), p, w)
           else (case fetch net parse_set c (p\<lparr>lastForcedRefresh := Some (clock w)\<rparr>, w) of
                   (Inl e, p', w') \<Rightarrow> (Inl e, p', w')
                 | (Inr ks, p', w') \<Rightarrow> (case lookup key_id p' (clock w') kid of
                     Some k \<Rightarrow> (Inr k, p', w')
                   | None \<Rightarrow> (Inl (UnknownKid kid), p', w'))))))"

section \<open>The verifier\<close>

record Claims =
  cl_Subject :: string
  cl_AppID :: string
  cl_Email :: string
  cl_WorkspaceID :: string
  cl_OrgID :: string
  cl_OrgSlug :: string
  cl_OrgRole :: string
  cl_Roles :: "string list"
  cl_AMR :: "string list"
  cl_ACR :: string
  cl_SessionID :: string
  cl_Actor :: "string option"

text \<open>
  go-jose: \<open>parse_signed\<close> accepts the allowed algorithms, \<open>kids\<close> gives the key ids of the token's
  headers, \<open>open_claims\<close> checks the signature with a key, and \<open>validate\<close> checks issuer, audience and
  times with a leeway.
\<close>

record Expected =
  x_Issuer :: string
  x_AnyAudience :: "string list"
  x_Time :: int

record ('t, 'k) jose =
  parse_signed :: "string \<Rightarrow> string list \<Rightarrow> 't option"
  kids :: "'t \<Rightarrow> string list"
  open_claims :: "'t \<Rightarrow> 'k \<Rightarrow> Claims option"
  validate :: "Claims \<Rightarrow> Expected \<Rightarrow> int \<Rightarrow> bool"

record Verifier =
  expectedIssuer :: string
  expectedAudience :: string
  allowedAlgorithms :: "string list"
  leeway :: int

definition NewVerifier :: "bool \<Rightarrow> Verifier \<Rightarrow> jwt_error + Verifier" where
  "NewVerifier has_jwks opts =
     (if \<not> has_jwks then Inl NilProvider
      else if expectedIssuer opts = [] then Inl EmptyIssuer
      else Inr (opts\<lparr>
        allowedAlgorithms := (if allowedAlgorithms opts = [] then [''RS256'', ''ES256''] else allowedAlgorithms opts),
        leeway := (if leeway opts \<le> 0 then 30 * second else leeway opts)\<rparr>))"

definition Verify ::
  "('t, 'k) jose \<Rightarrow> (string \<Rightarrow> 's \<Rightarrow> (jwt_error + 'k) \<times> 's) \<Rightarrow> ('s \<Rightarrow> int) \<Rightarrow> Verifier \<Rightarrow>
   string \<Rightarrow> 's \<Rightarrow> (jwt_error + Claims) \<times> 's" where
  "Verify j keyByID now v token s = (case parse_signed j token (allowedAlgorithms v) of
     None \<Rightarrow> (Inl ParseError, s)
   | Some parsed \<Rightarrow> (case kids j parsed of
       [] \<Rightarrow> (Inl MissingHeader, s)
     | kid # _ \<Rightarrow>
        (if kid = [] then (Inl MissingKid, s)
         else (case keyByID kid s of
           (Inl e, s') \<Rightarrow> (Inl e, s')
         | (Inr key, s') \<Rightarrow> (case open_claims j parsed key of
             None \<Rightarrow> (Inl BadSignature, s')
           | Some c \<Rightarrow>
              (if validate j c
                    \<lparr>x_Issuer = expectedIssuer v,
                     x_AnyAudience = (if expectedAudience v \<noteq> [] then [expectedAudience v] else []),
                     x_Time = now s'\<rparr> (leeway v)
               then (Inr c, s') else (Inl BadClaims, s')))))))"

section \<open>Facts\<close>

lemma find_SomeD: "find P xs = Some x \<Longrightarrow> x \<in> set xs \<and> P x"
  by (induction xs) (auto split: if_splits)

lemma lookup_Some:
  assumes "lookup key_id p now kid = Some k"
  obtains ks where "key_set p = Some ks" and "k \<in> set ks" and "key_id k = kid" and "\<not> needsRefresh p now"
  using assms by (auto simp: lookup_def split: option.splits if_splits dest!: find_SomeD)

lemma fetch_frame:
  assumes "fetch net parse_set c (p, w) = (r, p', w')"
  shows "refresh p' = refresh p" "cooldown p' = cooldown p" "jwksURL p' = jwksURL p"
    "lastForcedRefresh p' = lastForcedRefresh p" "length (sent w') = Suc (length (sent w))"
    "clock w \<le> clock w'"
proof -
  let ?r = "\<lparr>meth = ''GET'', url = jwksURL p, headers = [], payload = []\<rparr>"
  have w': "w' = snd (exchange net c ?r w)"
    using assms by (auto simp: fetch_def split: prod.splits sum.splits if_splits option.splits)
  show "length (sent w') = Suc (length (sent w))" "clock w \<le> clock w'"
    by (simp_all add: w' exchange_clock_mono)
  show "refresh p' = refresh p" "cooldown p' = cooldown p" "jwksURL p' = jwksURL p"
    "lastForcedRefresh p' = lastForcedRefresh p"
    using assms by (auto simp: fetch_def split: prod.splits sum.splits if_splits option.splits)
qed

text \<open>One call either sends nothing, or it forces a refresh that the cooldown allows.\<close>

lemma KeyByID_step:
  assumes "KeyByID net parse_set key_id c kid (p, w) = (r, p', w')"
  shows "cooldown p' = cooldown p \<and> clock w \<le> clock w' \<and>
    (sent w' = sent w \<and> lastForcedRefresh p' = lastForcedRefresh p \<or>
     length (sent w') = Suc (length (sent w)) \<and> lastForcedRefresh p' = Some (clock w) \<and>
     cooldown p \<le> since (lastForcedRefresh p) (clock w))"
proof (cases "lookup key_id p (clock w) kid")
  case (Some k)
  with assms show ?thesis by (auto simp: KeyByID_def)
next
  case None
  show ?thesis
  proof (cases "since (lastForcedRefresh p) (clock w) < cooldown p")
    case True
    with None assms show ?thesis by (auto simp: KeyByID_def)
  next
    case False
    obtain f p1 w1 where f: "fetch net parse_set c (p\<lparr>lastForcedRefresh := Some (clock w)\<rparr>, w) = (f, p1, w1)"
      by (metis prod_cases3)
    have "p' = p1 \<and> w' = w1"
      using assms None False f by (auto simp: KeyByID_def split: sum.splits option.splits)
    with fetch_frame [OF f] False show ?thesis by simp
  qed
qed

text \<open>A run: before each lookup some time passes.\<close>

fun lookups ::
  "network \<Rightarrow> (string \<Rightarrow> 'k list option) \<Rightarrow> ('k \<Rightarrow> string) \<Rightarrow> (nat \<times> ctx \<times> string) list \<Rightarrow>
   'k jwks \<times> world \<Rightarrow> 'k jwks \<times> world" where
  "lookups net parse_set key_id [] s = s"
| "lookups net parse_set key_id ((d, c, kid) # cs) (p, w) =
     lookups net parse_set key_id cs
       (snd (KeyByID net parse_set key_id c kid (p, w\<lparr>clock := clock w + int d\<rparr>)))"

lemma lookups_spacing:
  assumes "lookups net parse_set key_id cs (p, w) = (p', w')" and "0 \<le> cooldown p"
  shows "clock w \<le> clock w' \<and> length (sent w) \<le> length (sent w') \<and>
    (\<forall>t. lastForcedRefresh p = Some t \<longrightarrow> t \<le> clock w \<longrightarrow>
       int (length (sent w') - length (sent w)) * cooldown p \<le> clock w' - t) \<and>
    (int (length (sent w') - length (sent w)) - 1) * cooldown p \<le> clock w' - clock w"
  using assms
proof (induction cs arbitrary: p w)
  case Nil
  then show ?case by auto
next
  case (Cons call cs)
  obtain d c kid where call: "call = (d, c, kid)" by (metis prod_cases3)
  let ?w = "w\<lparr>clock := clock w + int d\<rparr>"
  obtain r p1 w1 where k: "KeyByID net parse_set key_id c kid (p, ?w) = (r, p1, w1)"
    by (metis prod_cases3)
  with Cons.prems call have rest: "lookups net parse_set key_id cs (p1, w1) = (p', w')" by simp
  note step = KeyByID_step [OF k]
  with Cons.prems have cd: "0 \<le> cooldown p1" "cooldown p1 = cooldown p" by simp_all
  note IH = Cons.IH [OF rest cd(1), unfolded cd(2)]
  from step consider
      "sent w1 = sent w" "lastForcedRefresh p1 = lastForcedRefresh p" "clock w + int d \<le> clock w1"
    | "length (sent w1) = Suc (length (sent w))" "lastForcedRefresh p1 = Some (clock w + int d)"
      "cooldown p \<le> since (lastForcedRefresh p) (clock w + int d)" "clock w + int d \<le> clock w1"
    by auto
  then show ?case
  proof cases
    case 1
    with IH show ?thesis by (auto simp: Cons.prems)
  next
    case 2
    define n where "n = length (sent w') - length (sent w1)"
    have len: "length (sent w') - length (sent w) = Suc n" "length (sent w) \<le> length (sent w')"
      using IH 2 by (auto simp: n_def)
    have n: "int n * cooldown p \<le> clock w' - (clock w + int d)"
      using IH 2 by (auto simp: n_def)
    have "int (Suc n) * cooldown p \<le> clock w' - t" if "lastForcedRefresh p = Some t" for t
    proof -
      have "cooldown p \<le> clock w + int d - t"
        using 2 that by (simp add: since_def)
      with n show ?thesis by (simp add: algebra_simps)
    qed
    moreover have "(int (Suc n) - 1) * cooldown p \<le> clock w' - clock w"
      using n by simp
    ultimately show ?thesis
      using len IH 2 by auto
  qed
qed

section \<open>Properties\<close>

text \<open>
  C16. Rotation cannot be turned against the issuer: whatever key ids are looked up, whenever and
  however the server answers, a run of lookups sends at most one key-set request per cooldown, that
  is \<open>n\<close> requests need at least \<open>(n - 1) * cooldown\<close> of time.
\<close>

theorem jwks_fetch_rate:
  assumes "lookups net parse_set key_id cs (p, w) = (p', w')" and "0 \<le> cooldown p"
  shows "(int (length (sent w') - length (sent w)) - 1) * cooldown p \<le> clock w' - clock w"
  using lookups_spacing [OF assms] by blast

theorem jwks_fetch_rate_witness:
  "\<exists>p' w'. lookups (\<lambda>h r. (3, Inl (Refused []))) (\<lambda>b. None) (\<lambda>k. k) [(0, \<lparr>done_at = None, tie = False\<rparr>, ''a'')]
     (\<lparr>jwksURL = ''u'', refresh = 9, cooldown = 7, key_set = None, lastFetch = None, lastForcedRefresh = None\<rparr>,
      \<lparr>sent = [], clock = 0\<rparr>) = (p', w')
   \<and> (int (length (sent w')) - 1) * 7 \<le> clock w'"
proof -
  let ?p = "\<lparr>jwksURL = ''u'', refresh = 9, cooldown = 7, key_set = None, lastFetch = None,
    lastForcedRefresh = None\<rparr> :: string jwks"
  obtain p' w' where run: "lookups (\<lambda>h r. (3, Inl (Refused []))) (\<lambda>b. None) (\<lambda>k. k)
      [(0, \<lparr>done_at = None, tie = False\<rparr>, ''a'')] (?p, \<lparr>sent = [], clock = 0\<rparr>) = (p', w')"
    by fastforce
  then show ?thesis
    using jwks_fetch_rate [OF run] by auto
qed

lemma KeyByID_found:
  assumes "KeyByID net parse_set key_id c kid (p, w) = (Inr k, p', w')"
  shows "key_id k = kid \<and> (\<exists>ks. key_set p' = Some ks \<and> k \<in> set ks) \<and>
    since (lastFetch p') (clock w') \<le> refresh p'"
proof -
  have "lookup key_id p' (clock w') kid = Some k"
    using assms by (auto simp: KeyByID_def split: option.splits if_splits prod.splits sum.splits)
  then show ?thesis
    by (auto elim!: lookup_Some simp: needsRefresh_def)
qed



lemma Verify_accepts:
  assumes "Verify j keyByID now v token s = (Inr c, s')"
  shows "\<exists>parsed kid rest key.
    parse_signed j token (allowedAlgorithms v) = Some parsed \<and>
    kids j parsed = kid # rest \<and> kid \<noteq> [] \<and> keyByID kid s = (Inr key, s') \<and>
    open_claims j parsed key = Some c \<and>
    validate j c \<lparr>x_Issuer = expectedIssuer v,
       x_AnyAudience = (if expectedAudience v \<noteq> [] then [expectedAudience v] else []),
       x_Time = now s'\<rparr> (leeway v)"
  using assms
  by (auto simp: Verify_def split: option.splits list.splits if_splits prod.splits sum.splits)

definition sample_claims :: Claims where
  "sample_claims = \<lparr>cl_Subject = ''u1'', cl_AppID = [], cl_Email = [], cl_WorkspaceID = [], cl_OrgID = [],
     cl_OrgSlug = [], cl_OrgRole = [], cl_Roles = [''admin''], cl_AMR = [], cl_ACR = [], cl_SessionID = [],
     cl_Actor = None\<rparr>"

definition sample_jose :: "(string, string) jose" where
  "sample_jose = \<lparr>parse_signed = (\<lambda>t algs. if t = ''t'' then Some t else None), kids = (\<lambda>t. [''k1'']),
     open_claims = (\<lambda>t k. if k = ''key'' then Some sample_claims else None),
     validate = (\<lambda>c e l. x_Issuer e = ''iss'' \<and> x_AnyAudience e = [])\<rparr>"

text \<open>
  C5. Claims are only returned for a token that parsed under the allowed algorithms, whose first
  header names a non-empty key id, whose signature opens with the key the provider gave for that id,
  and that passed validation for the configured issuer and, if configured, audience.
\<close>

theorem Verify_sound:
  assumes "Verify j keyByID now v token s = (Inr c, s')"
  shows "\<exists>parsed kid rest key.
    parse_signed j token (allowedAlgorithms v) = Some parsed \<and>
    kids j parsed = kid # rest \<and> kid \<noteq> [] \<and> keyByID kid s = (Inr key, s') \<and>
    open_claims j parsed key = Some c \<and>
    validate j c \<lparr>x_Issuer = expectedIssuer v,
       x_AnyAudience = (if expectedAudience v \<noteq> [] then [expectedAudience v] else []),
       x_Time = now s'\<rparr> (leeway v)"
  using assms by (rule Verify_accepts)

theorem Verify_sound_witness:
  "Verify sample_jose (\<lambda>kid s. (Inr ''key'', s)) (\<lambda>s. 5)
     \<lparr>expectedIssuer = ''iss'', expectedAudience = [], allowedAlgorithms = [''RS256''], leeway = 1\<rparr> ''t'' ()
     = (Inr sample_claims, ()) \<and> (\<exists>kid. kid \<in> set (kids sample_jose ''t'') \<and> kid \<noteq> [])"
proof -
  let ?v = "\<lparr>expectedIssuer = ''iss'', expectedAudience = [], allowedAlgorithms = [''RS256''], leeway = 1\<rparr>"
  have run: "Verify sample_jose (\<lambda>kid s. (Inr ''key'' :: jwt_error + string, s)) (\<lambda>s. 5) ?v ''t'' ()
      = (Inr sample_claims, ())"
    by (simp add: Verify_def sample_jose_def)
  obtain parsed kid rest where "parse_signed sample_jose ''t'' (allowedAlgorithms ?v) = Some parsed"
      "kids sample_jose parsed = kid # rest" "kid \<noteq> []"
    using Verify_sound [OF run] by blast
  then have "kid \<in> set (kids sample_jose ''t'') \<and> kid \<noteq> []"
    by (simp add: sample_jose_def)
  with run show ?thesis by auto
qed

end
