(* ===== verification/Authz.thy ===== *)
theory Authz
  imports Go_Prelude
begin

text \<open>
  The package authz: permission keys and their matching rules (authz/permission.go), the
  authenticated user and the request context (authz/context.go), and the resolver interface
  (authz/resolver.go) as the locale \<open>permission_resolver\<close>.
\<close>

section \<open>Permission keys\<close>

record PermissionKey =
  pk_resource :: string
  pk_action :: string

definition PKey :: "string \<Rightarrow> string \<Rightarrow> PermissionKey" where
  "PKey r a = \<lparr>pk_resource = r, pk_action = a\<rparr>"

lemma PKey_sel [simp]:
  "pk_resource (PKey r a) = r" "pk_action (PKey r a) = a"
  "PKey (pk_resource k) (pk_action k) = k"
  "PKey r a = k \<longleftrightarrow> r = pk_resource k \<and> a = pk_action k"
  by (auto simp: PKey_def)

definition concretePermissionSegment :: "string \<Rightarrow> bool" where
  "concretePermissionSegment s = repeated segment_char 1 128 s"

definition Authority :: "PermissionKey \<Rightarrow> string" where
  "Authority k = pk_resource k @ '':'' @ pk_action k"

definition IsZero :: "PermissionKey \<Rightarrow> bool" where
  "IsZero k = (pk_resource k = [] \<and> pk_action k = [])"

definition IsConcrete :: "PermissionKey \<Rightarrow> bool" where
  "IsConcrete k =
     (concretePermissionSegment (pk_resource k) \<and> concretePermissionSegment (pk_action k))"

datatype InvalidPermissionError = InvalidPermission string

text \<open>\<open>strings.Index (s, ":")\<close> where the separator occurs.\<close>

definition index_of :: "char \<Rightarrow> string \<Rightarrow> nat" where
  "index_of c s = length (takeWhile (\<lambda>d. d \<noteq> c) s)"

definition ParsePermission :: "string \<Rightarrow> InvalidPermissionError + PermissionKey" where
  "ParsePermission s =
     (if count_list s (CHR '':'') \<noteq> 1 then Inl (InvalidPermission s)
      else (let idx = index_of (CHR '':'') s
            in if idx = 0 \<or> idx = length s - 1 then Inl (InvalidPermission s)
               else Inr (PKey (take idx s) (drop (Suc idx) s))))"

section \<open>Matching\<close>

definition Matches :: "PermissionKey \<Rightarrow> string \<Rightarrow> bool" where
  "Matches target granted =
     (if \<not> IsConcrete target then False
      else (case ParsePermission granted of
        Inl _ \<Rightarrow> False
      | Inr gk \<Rightarrow>
          (if pk_resource gk = ''*'' then pk_action gk = ''*''
           else if \<not> concretePermissionSegment (pk_resource gk) then False
           else if pk_action gk = ''*'' then pk_resource gk = pk_resource target
           else concretePermissionSegment (pk_action gk) \<and> gk = target)))"

fun HasPermission :: "PermissionKey \<Rightarrow> string list \<Rightarrow> bool" where
  "HasPermission target [] = False"
| "HasPermission target (g # gs) = (if Matches target g then True else HasPermission target gs)"

fun all_loop :: "PermissionKey list \<Rightarrow> string list \<Rightarrow> bool" where
  "all_loop [] granted = True"
| "all_loop (t # ts) granted = (if \<not> HasPermission t granted then False else all_loop ts granted)"

definition HasAllPermissions :: "PermissionKey list \<Rightarrow> string list \<Rightarrow> bool" where
  "HasAllPermissions targets granted = (all_loop targets granted \<and> length targets > 0)"

fun HasAnyPermission :: "PermissionKey list \<Rightarrow> string list \<Rightarrow> bool" where
  "HasAnyPermission [] granted = False"
| "HasAnyPermission (t # ts) granted =
     (if HasPermission t granted then True else HasAnyPermission ts granted)"

section \<open>Users and contexts\<close>

record User =
  u_Subject :: string
  u_AppID :: string
  u_Email :: string
  u_OrgID :: string
  u_OrgRole :: string
  u_WorkspaceID :: string
  u_SessionID :: string
  u_Roles :: "string list"
  u_Permissions :: "string list"
  u_AMR :: "string list"
  u_ACR :: string
  u_Actor :: "string option"

definition IsImpersonating :: "User option \<Rightarrow> bool" where
  "IsImpersonating u = (case u of None \<Rightarrow> False
     | Some v \<Rightarrow> (case u_Actor v of None \<Rightarrow> False | Some sub \<Rightarrow> sub \<noteq> []))"

definition HasMFA :: "User option \<Rightarrow> bool" where
  "HasMFA u = (case u of None \<Rightarrow> False
     | Some v \<Rightarrow> list_ex (\<lambda>a. a = ''mfa'' \<or> a = ''totp'' \<or> a = ''webauthn'' \<or> a = ''pwd+mfa'') (u_AMR v))"

definition UserHasPermission :: "User option \<Rightarrow> string \<Rightarrow> string \<Rightarrow> bool" where
  "UserHasPermission u resource action =
     (case u of None \<Rightarrow> False | Some v \<Rightarrow> HasPermission (PKey resource action) (u_Permissions v))"

text \<open>A request context: \<open>None\<close> is the nil context, the payload is the user stored in it.\<close>

type_synonym user_ctx = "User option option"

definition WithUser :: "user_ctx \<Rightarrow> User option \<Rightarrow> user_ctx" where
  "WithUser c u = Some u"

definition FromContext :: "user_ctx \<Rightarrow> User option" where
  "FromContext c = (case c of None \<Rightarrow> None | Some u \<Rightarrow> u)"

datatype authz_error = ErrUnauthenticated | ErrForbidden

definition MustPermission :: "user_ctx \<Rightarrow> PermissionKey \<Rightarrow> authz_error + unit" where
  "MustPermission c perm = (case FromContext c of
     None \<Rightarrow> Inl ErrUnauthenticated
   | Some u \<Rightarrow> if \<not> HasPermission perm (u_Permissions u) then Inl ErrForbidden else Inr ())"

section \<open>Facts about keys\<close>

lemma segment_no_colon: "concretePermissionSegment s \<Longrightarrow> CHR '':'' \<notin> set s"
  using segment_char_not_punct(1) by (auto simp: concretePermissionSegment_def repeated_def list_all_iff)

lemma segment_not_star: "\<not> concretePermissionSegment ''*''"
  using segment_char_not_punct(2) by (auto simp: concretePermissionSegment_def repeated_def)

lemma segment_not_Nil: "concretePermissionSegment s \<Longrightarrow> s \<noteq> []"
  by (auto simp: concretePermissionSegment_def repeated_def)

lemma count_list_0_iff: "count_list s c = 0 \<longleftrightarrow> c \<notin> set s"
  by (induction s) auto

lemma one_occurrence:
  assumes "count_list s c = 1"
  obtains a b where "s = a @ c # b" and "c \<notin> set a" and "c \<notin> set b"
proof -
  have "c \<in> set s"
    using assms by (metis count_list_0_iff zero_neq_one)
  then obtain a b where s: "s = a @ c # b" and a: "c \<notin> set a"
    by (meson split_list_first)
  with assms have "count_list b c = 0"
    by (simp add: count_list_0_iff [THEN iffD2])
  with s a that show thesis
    by (simp add: count_list_0_iff)
qed

lemma index_of_append: "c \<notin> set a \<Longrightarrow> index_of c (a @ c # b) = length a"
  by (induction a) (auto simp: index_of_def)

lemma ParsePermission_pair:
  assumes "CHR '':'' \<notin> set a" and "CHR '':'' \<notin> set b"
  shows "ParsePermission (a @ CHR '':'' # b) =
    (if a = [] \<or> b = [] then Inl (InvalidPermission (a @ CHR '':'' # b)) else Inr (PKey a b))"
  using assms
  by (simp add: ParsePermission_def index_of_append count_list_0_iff [THEN iffD2] Let_def)

lemma ParsePermission_cases:
  assumes "ParsePermission s = Inr k"
  shows "s = Authority k" and "CHR '':'' \<notin> set (pk_resource k)" and "CHR '':'' \<notin> set (pk_action k)"
    and "pk_resource k \<noteq> []" and "pk_action k \<noteq> []"
proof -
  have "count_list s (CHR '':'') = 1"
    using assms by (auto simp: ParsePermission_def split: if_splits)
  then obtain a b where "s = a @ CHR '':'' # b" "CHR '':'' \<notin> set a" "CHR '':'' \<notin> set b"
    by (rule one_occurrence)
  with assms show "s = Authority k" "CHR '':'' \<notin> set (pk_resource k)"
    "CHR '':'' \<notin> set (pk_action k)" "pk_resource k \<noteq> []" "pk_action k \<noteq> []"
    by (auto simp: ParsePermission_pair Authority_def split: if_splits)
qed

lemma ParsePermission_Authority:
  "CHR '':'' \<notin> set (pk_resource k) \<Longrightarrow> CHR '':'' \<notin> set (pk_action k) \<Longrightarrow>
   pk_resource k \<noteq> [] \<Longrightarrow> pk_action k \<noteq> [] \<Longrightarrow> ParsePermission (Authority k) = Inr k"
  using ParsePermission_pair [of "pk_resource k" "pk_action k"] by (simp add: Authority_def)

text \<open>The matching rules, exactly.\<close>

lemma Matches_cases:
  "Matches target granted \<longleftrightarrow>
     IsConcrete target \<and>
     granted \<in> {''*:*'', pk_resource target @ '':*'', Authority target}"
proof (cases "IsConcrete target")
  case False
  then show ?thesis by (simp add: Matches_def)
next
  case True
  then have seg: "concretePermissionSegment (pk_resource target)"
    "concretePermissionSegment (pk_action target)"
    by (simp_all add: IsConcrete_def)
  have star: "ParsePermission ''*:*'' = Inr (PKey ''*'' ''*'')"
    using ParsePermission_pair [of "''*''" "''*''"] by simp
  have res: "ParsePermission (pk_resource target @ '':*'') = Inr (PKey (pk_resource target) ''*'')"
    using seg ParsePermission_pair [of "pk_resource target" "''*''"]
    by (simp add: segment_no_colon segment_not_Nil)
  have self: "ParsePermission (Authority target) = Inr target"
    using seg by (simp add: ParsePermission_Authority segment_no_colon segment_not_Nil)
  have not_star: "pk_resource target \<noteq> ''*''" "pk_action target \<noteq> ''*''"
    using seg segment_not_star by auto
  show ?thesis
  proof
    assume "Matches target granted"
    with True obtain gk where gk: "ParsePermission granted = Inr gk"
      and m: "if pk_resource gk = ''*'' then pk_action gk = ''*''
        else if pk_action gk = ''*'' then pk_resource gk = pk_resource target else gk = target"
      by (auto simp: Matches_def split: sum.splits if_splits)
    from m have "granted = ''*:*'' \<or> granted = pk_resource target @ '':*'' \<or> granted = Authority target"
      using ParsePermission_cases(1) [OF gk] by (auto simp: Authority_def split: if_splits)
    with True show "IsConcrete target \<and>
        granted \<in> {''*:*'', pk_resource target @ '':*'', Authority target}"
      by simp
  next
    assume "IsConcrete target \<and>
      granted \<in> {''*:*'', pk_resource target @ '':*'', Authority target}"
    with True star res self seg not_star show "Matches target granted"
      by (auto simp: Matches_def)
  qed
qed

text \<open>A string has at most one reading as a resource and an action.\<close>

lemma key_unique:
  assumes "r @ CHR '':'' # a = x @ CHR '':'' # y" and "CHR '':'' \<notin> set x" and "CHR '':'' \<notin> set y"
  shows "r = x \<and> a = y"
proof -
  have split: "split_on (CHR '':'') (x @ CHR '':'' # y) = [x, y]"
    using assms(2,3) by (simp add: split_on_pair_iff)
  then have "count_list (r @ CHR '':'' # a) (CHR '':'') = 1"
    using length_split_on [of "CHR '':''" "x @ CHR '':'' # y"] assms(1) by simp
  then have "count_list r (CHR '':'') = 0" "count_list a (CHR '':'') = 0" by simp_all
  then have "CHR '':'' \<notin> set r" "CHR '':'' \<notin> set a" by (simp_all only: count_list_0_iff not_False_eq_True)
  then have "split_on (CHR '':'') (r @ CHR '':'' # a) = [r, a]"
    by (simp add: split_on_pair_iff)
  with split have "[r, a] = [x, y]" by (simp only: assms(1))
  then show ?thesis by simp
qed

lemma HasPermission_iff: "HasPermission t gs \<longleftrightarrow> (\<exists>g \<in> set gs. Matches t g)"
  by (induction gs) auto

lemma HasAnyPermission_iff: "HasAnyPermission ts gs \<longleftrightarrow> (\<exists>t \<in> set ts. HasPermission t gs)"
  by (induction ts) auto

lemma all_loop_iff: "all_loop ts gs \<longleftrightarrow> (\<forall>t \<in> set ts. HasPermission t gs)"
  by (induction ts) auto

lemma HasAllPermissions_iff:
  "HasAllPermissions ts gs \<longleftrightarrow> ts \<noteq> [] \<and> (\<forall>t \<in> set ts. HasPermission t gs)"
  by (auto simp: HasAllPermissions_def all_loop_iff)

lemmas permission_iffs = HasPermission_iff HasAnyPermission_iff HasAllPermissions_iff

lemma HasPermission_mono: "set gs \<subseteq> set gs' \<Longrightarrow> HasPermission t gs \<Longrightarrow> HasPermission t gs'"
  by (auto simp: HasPermission_iff)

section \<open>The resolver interface\<close>

text \<open>
  \<open>authz.Resolver\<close>: from a client id and roles to permissions, over a state \<open>'s\<close> (caches, the
  network).  The contract every provider keeps and the middleware relies on: no roles, no
  permissions, and nothing is asked of anyone.
\<close>

locale permission_resolver =
  fixes resolve :: "string \<Rightarrow> string list \<Rightarrow> 's \<Rightarrow> ('e + string list) \<times> 's"
  assumes no_roles: "resolve cid [] s = (Inr [], s)"
begin

text \<open>What a caller with the resolved permissions may do.\<close>

lemma no_roles_no_permission:
  "fst (resolve cid [] s) = Inr perms \<Longrightarrow> \<not> HasPermission t perms"
  by (simp add: no_roles)

lemma no_roles_nothing:
  "fst (resolve cid [] s) = Inr perms \<Longrightarrow> \<not> HasAnyPermission ts perms \<and> \<not> HasAllPermissions ts perms"
  by (auto simp: no_roles permission_iffs)

end

section \<open>Properties\<close>

text \<open>
  C2. The matching rules, exactly: a granted string satisfies a target if and only if the target is
  concrete and the string is the full wildcard, the target's resource with the action wildcard, or
  the target itself.
\<close>

theorem Matches_iff:
  "Matches target granted \<longleftrightarrow>
     IsConcrete target \<and>
     granted \<in> {''*:*'', pk_resource target @ '':*'', Authority target}"
  by (rule Matches_cases)

text \<open>
  Parsing is exactly the inverse of \<open>Authority\<close> on the keys with two non-empty parts without a
  colon: every other string is refused, and every refused string is returned in the error.
\<close>

lemma ParsePermission_spec:
  "(ParsePermission s = Inr k \<longleftrightarrow>
      s = Authority k \<and> pk_resource k \<noteq> [] \<and> pk_action k \<noteq> [] \<and>
      CHR '':'' \<notin> set (pk_resource k) \<and> CHR '':'' \<notin> set (pk_action k))
   \<and> (ParsePermission s = Inl e \<longrightarrow> e = InvalidPermission s)"
proof
  show "ParsePermission s = Inr k \<longleftrightarrow>
      s = Authority k \<and> pk_resource k \<noteq> [] \<and> pk_action k \<noteq> [] \<and>
      CHR '':'' \<notin> set (pk_resource k) \<and> CHR '':'' \<notin> set (pk_action k)"
    using ParsePermission_cases [of s k] ParsePermission_Authority [of k] by blast
  show "ParsePermission s = Inl e \<longrightarrow> e = InvalidPermission s"
    by (auto simp: ParsePermission_def Let_def split: if_splits)
qed

lemma ParsePermission_spec_witness:
  "ParsePermission ''posts:read'' = Inr (PKey ''posts'' ''read'') \<and>
   ParsePermission ''posts'' = Inl (InvalidPermission ''posts'')"
proof -
  obtain e where "ParsePermission ''posts'' = Inl e"
    by (simp add: ParsePermission_def)
  then show ?thesis
    using ParsePermission_spec [of "''posts:read''" "PKey ''posts'' ''read''"]
      ParsePermission_spec [of "''posts''" _ e]
    by (simp add: Authority_def)
qed

text \<open>
  The resource wildcard is only good for the full wildcard: a grant \<open>*:a\<close> matches a concrete
  target if and only if \<open>a\<close> is the action wildcard, so \<open>*:read\<close> does not match \<open>posts:read\<close>.
\<close>

lemma resource_wildcard_rejected:
  "Matches target (''*:'' @ a) \<longleftrightarrow> IsConcrete target \<and> a = ''*''"
proof (cases "ParsePermission (''*:'' @ a)")
  case (Inl e)
  moreover have "a \<noteq> ''*''"
    using Inl ParsePermission_pair [of "''*''" "''*''"] by auto
  ultimately show ?thesis by (simp add: Matches_def)
next
  case (Inr gk)
  have "pk_resource gk = ''*'' \<and> pk_action gk = a"
    using ParsePermission_cases [OF Inr]
    by (cases "pk_resource gk"; cases "tl (pk_resource gk)") (auto simp: Authority_def)
  with Inr show ?thesis by (simp add: Matches_def)
qed

end
