(* ===== verification/Resolver.thy ===== *)
theory Resolver
  imports Authz Go_Http
begin

text \<open>
  \<open>authz.HttpResolver\<close> (authz/http_resolver.go): roles are resolved by the IAM server, the answer is
  cached under a key made of the client id and the sorted roles; and \<open>iamtest.MockResolver\<close>
  (iamtest/mock_resolver.go), the other provider of the resolver interface.

  The cache is ristretto, a third-party package: it is the parameter \<open>ops\<close>, and what is relied on is
  \<open>cache_law\<close>, its documented behaviour: a lookup may miss at any time, but a hit is a value that
  was stored under that key and has not expired.  The client is the parameter \<open>client\<close>, the
  interface \<open>ResolveClient\<close> of the source.  singleflight only matters for calls that overlap; this
  theory runs one call at a time, where \<open>Do\<close> calls the function (\<open>Resolver_Concurrent\<close> has the others).
\<close>

section \<open>The cache\<close>

record ('c, 'v) cache_ops =
  c_get :: "'c \<Rightarrow> string \<Rightarrow> int \<Rightarrow> 'v option \<times> 'c"
  c_set :: "'c \<Rightarrow> string \<Rightarrow> 'v \<Rightarrow> int \<Rightarrow> int \<Rightarrow> 'c"
  c_del :: "'c \<Rightarrow> string \<Rightarrow> 'c"
  c_clear :: "'c \<Rightarrow> 'c"

text \<open>
  \<open>stored c\<close> bounds what the cache may return: keys, values and the instants until which they live.
\<close>

definition cache_law :: "('c, 'v) cache_ops \<Rightarrow> ('c \<Rightarrow> (string \<times> 'v \<times> int) set) \<Rightarrow> bool" where
  "cache_law ops stored \<longleftrightarrow>
     (\<forall>c k t v c'. c_get ops c k t = (Some v, c') \<longrightarrow> (\<exists>e \<ge> t. (k, v, e) \<in> stored c)) \<and>
     (\<forall>c k t. stored (snd (c_get ops c k t)) \<subseteq> stored c) \<and>
     (\<forall>c k v ttl t. stored (c_set ops c k v ttl t) \<subseteq> insert (k, v, t + ttl) (stored c)) \<and>
     (\<forall>c k. stored (c_del ops c k) \<subseteq> stored c) \<and>
     (\<forall>c. stored (c_clear ops c) \<subseteq> stored c)"

lemma cache_lawD:
  assumes "cache_law ops stored"
  shows "c_get ops c k t = (Some v, c') \<Longrightarrow> \<exists>e \<ge> t. (k, v, e) \<in> stored c"
    and "x \<in> stored (snd (c_get ops c k t)) \<Longrightarrow> x \<in> stored c"
    and "x \<in> stored (c_set ops c k v ttl t) \<Longrightarrow> x = (k, v, t + ttl) \<or> x \<in> stored c"
    and "x \<in> stored (c_del ops c k) \<Longrightarrow> x \<in> stored c"
    and "x \<in> stored (c_clear ops c) \<Longrightarrow> x \<in> stored c"
  using assms unfolding cache_law_def by blast+

text \<open>A cache that keeps everything until it expires satisfies the law.\<close>

definition list_cache :: "((string \<times> 'v \<times> int) list, 'v) cache_ops" where
  "list_cache = \<lparr>
     c_get = (\<lambda>c k t. (case map_of c k of Some (v, e) \<Rightarrow> if t \<le> e then Some v else None | None \<Rightarrow> None, c)),
     c_set = (\<lambda>c k v ttl t. (k, v, t + ttl) # c),
     c_del = (\<lambda>c k. filter (\<lambda>(k', _). k' \<noteq> k) c),
     c_clear = (\<lambda>c. [])\<rparr>"

lemma list_cache_law: "cache_law list_cache set"
  by (auto simp: cache_law_def list_cache_def split: option.splits if_splits dest!: map_of_SomeD)

section \<open>HttpResolver\<close>

definition cacheKey :: "string \<Rightarrow> string list \<Rightarrow> string" where
  "cacheKey clientID roles = clientID @ ''|'' @ join '','' (sort roles)"

type_synonym 'e resolve_client = "string \<Rightarrow> string list \<Rightarrow> world \<Rightarrow> ('e + string list) \<times> world"

record HttpResolverOptions =
  o_TTL :: int
  o_MaxEntries :: int
  o_FailOpen :: bool

text \<open>\<open>NewHttpResolver\<close>: the defaults; the client is never nil here.\<close>

definition NewHttpResolver :: "HttpResolverOptions \<Rightarrow> HttpResolverOptions" where
  "NewHttpResolver opts =
     (let o1 = (if o_TTL opts \<le> 0 then opts\<lparr>o_TTL := 5 * minute\<rparr> else opts)
      in if o_MaxEntries o1 \<le> 0 then o1\<lparr>o_MaxEntries := 10000\<rparr> else o1)"

definition Resolve ::
  "('c, string list) cache_ops \<Rightarrow> 'e resolve_client \<Rightarrow> HttpResolverOptions \<Rightarrow>
   string \<Rightarrow> string list \<Rightarrow> 'c \<times> world \<Rightarrow> ('e + string list) \<times> 'c \<times> world" where
  "Resolve ops client opts clientID roles s =
     (if length roles = 0 then (Inr [], s)
      else
        (let (c, w) = s; key = cacheKey clientID roles
         in case c_get ops c key (clock w) of
              (Some v, c1) \<Rightarrow> (Inr v, c1, w)
            | (None, c1) \<Rightarrow>
                (case client clientID roles w of
                   (Inr perms, w1) \<Rightarrow> (Inr perms, c_set ops c1 key perms (o_TTL opts) (clock w1), w1)
                 | (Inl e, w1) \<Rightarrow> (if o_FailOpen opts then (Inr [], c1, w1) else (Inl e, c1, w1)))))"

definition Invalidate :: "('c, string list) cache_ops \<Rightarrow> string \<Rightarrow> string list \<Rightarrow> 'c \<Rightarrow> 'c" where
  "Invalidate ops clientID roles c = c_del ops c (cacheKey clientID roles)"

definition Clear :: "('c, string list) cache_ops \<Rightarrow> 'c \<Rightarrow> 'c" where
  "Clear ops c = c_clear ops c"

interpretation http_resolver: permission_resolver "Resolve ops client opts"
  for ops :: "('c, string list) cache_ops" and client :: "'e resolve_client"
    and opts :: HttpResolverOptions
  by unfold_locales (simp add: Resolve_def)

section \<open>MockResolver\<close>

text \<open>\<open>Given\<close> replaces the role's permissions in the map; \<open>Resolve\<close> is the sorted union.\<close>

definition Given :: "string \<Rightarrow> string list \<Rightarrow> (string \<rightharpoonup> string list) \<Rightarrow> (string \<rightharpoonup> string list)" where
  "Given role perms m = m(role \<mapsto> perms)"

fun collect_perms :: "string list \<Rightarrow> string list \<Rightarrow> string list" where
  "collect_perms out [] = out"
| "collect_perms out (p # ps) =
     (if p \<in> set out then collect_perms out ps else collect_perms (out @ [p]) ps)"

fun collect_roles :: "(string \<rightharpoonup> string list) \<Rightarrow> string list \<Rightarrow> string list \<Rightarrow> string list" where
  "collect_roles m out [] = out"
| "collect_roles m out (r # rs) =
     collect_roles m (collect_perms out (case m r of None \<Rightarrow> [] | Some ps \<Rightarrow> ps)) rs"

definition MockResolve ::
  "string \<Rightarrow> string list \<Rightarrow> (string \<rightharpoonup> string list) \<Rightarrow> (unit + string list) \<times> (string \<rightharpoonup> string list)" where
  "MockResolve cid roles m = (Inr (sort (collect_roles m [] roles)), m)"

interpretation mock_resolver: permission_resolver MockResolve
  by unfold_locales (simp add: MockResolve_def)

lemma collect_perms: "distinct out \<Longrightarrow>
  set (collect_perms out ps) = set out \<union> set ps \<and> distinct (collect_perms out ps)"
  by (induction out ps rule: collect_perms.induct) auto

lemma collect_roles: "distinct out \<Longrightarrow>
  set (collect_roles m out rs) = set out \<union> (\<Union>r \<in> set rs. case m r of None \<Rightarrow> {} | Some ps \<Rightarrow> set ps)
  \<and> distinct (collect_roles m out rs)"
proof (induction m out rs rule: collect_roles.induct)
  case (2 m out r rs)
  then show ?case
    using collect_perms [of out "case m r of None \<Rightarrow> [] | Some ps \<Rightarrow> ps"]
    by (auto split: option.splits)
qed simp

section \<open>The cache key\<close>

lemma split_join: "ps \<noteq> [] \<Longrightarrow> (\<And>p. p \<in> set ps \<Longrightarrow> sep \<notin> set p) \<Longrightarrow> split_on sep (join [sep] ps) = ps"
  by (induction "[sep]" ps rule: join.induct) (auto simp: split_on_one split_on_no_sep)

lemma sort_Nil_iff [simp]: "sort xs = [] \<longleftrightarrow> xs = []"
  by (metis set_empty set_sort)

lemma cacheKey_perm: "mset roles = mset roles' \<Longrightarrow> cacheKey cid roles = cacheKey cid roles'"
  by (metis cacheKey_def mset_sort properties_for_sort sorted_sort)

section \<open>Properties\<close>

text \<open>
  The cache key identifies the client and the multiset of roles, provided no client id contains
  a bar and no role contains a comma.
\<close>

lemma cacheKey_eq_iff:
  assumes "CHR ''|'' \<notin> set cid" and "CHR ''|'' \<notin> set cid'"
    and "\<And>r. r \<in> set roles \<union> set roles' \<Longrightarrow> CHR '','' \<notin> set r"
    and "roles \<noteq> []" and "roles' \<noteq> []"
  shows "cacheKey cid roles = cacheKey cid' roles' \<longleftrightarrow> cid = cid' \<and> mset roles = mset roles'"
proof
  assume eq: "cacheKey cid roles = cacheKey cid' roles'"
  then have "cid = cid'"
    using assms(1,2) index_of_append [of "CHR ''|''" cid "join '','' (sort roles)"]
      index_of_append [of "CHR ''|''" cid' "join '','' (sort roles')"]
    by (simp add: cacheKey_def append_eq_append_conv)
  with eq have "join '','' (sort roles) = join '','' (sort roles')"
    by (simp add: cacheKey_def)
  moreover have "split_on (CHR '','') (join '','' (sort rs)) = sort rs"
    if "rs \<in> {roles, roles'}" for rs
    using assms(3-5) that by (intro split_join) auto
  ultimately have "sort roles = sort roles'"
    by (metis insertI1 insertI2)
  then have "mset roles = mset roles'"
    by (metis mset_sort)
  with \<open>cid = cid'\<close> show "cid = cid' \<and> mset roles = mset roles'" by simp
qed (auto dest: cacheKey_perm)

text \<open>
  Without that proviso distinct role sets share an entry: the single role \<open>r,s\<close> has the key of
  the two roles \<open>r\<close> and \<open>s\<close>, so a cached answer for one is served for the other.
\<close>

lemma cacheKey_collision:
  "cacheKey cid [''admin,viewer''] = cacheKey cid [''admin'', ''viewer'']
   \<and> fst (Resolve list_cache client opts cid [''admin,viewer'']
       ([(cacheKey cid [''admin'', ''viewer''], perms, clock w)], w)) = Inr perms"
proof -
  have "sort [''admin'', ''viewer''] = [''admin'', ''viewer'']"
    by (intro sorted_sort_id) code_simp
  then have "cacheKey cid [''admin,viewer''] = cacheKey cid [''admin'', ''viewer'']"
    by (simp add: cacheKey_def)
  then show ?thesis
    by (simp add: Resolve_def list_cache_def)
qed

lemma Resolve_hit:
  "roles \<noteq> [] \<Longrightarrow> c_get ops c (cacheKey cid roles) (clock w) = (Some v, c1) \<Longrightarrow>
   Resolve ops client opts cid roles (c, w) = (Inr v, c1, w)"
  by (simp add: Resolve_def Let_def)

lemma Resolve_miss_Inr:
  "roles \<noteq> [] \<Longrightarrow> c_get ops c (cacheKey cid roles) (clock w) = (None, c1) \<Longrightarrow>
   client cid roles w = (Inr perms, w1) \<Longrightarrow>
   Resolve ops client opts cid roles (c, w) =
     (Inr perms, c_set ops c1 (cacheKey cid roles) perms (o_TTL opts) (clock w1), w1)"
  by (simp add: Resolve_def Let_def)

lemma Resolve_miss_Inl:
  "roles \<noteq> [] \<Longrightarrow> c_get ops c (cacheKey cid roles) (clock w) = (None, c1) \<Longrightarrow>
   client cid roles w = (Inl e, w1) \<Longrightarrow>
   Resolve ops client opts cid roles (c, w) =
     (if o_FailOpen opts then Inr [] else Inl e, c1, w1)"
  by (simp add: Resolve_def Let_def)

text \<open>
  \<open>fresh_store\<close>: everything the cache may hold was an answer (\<open>ok\<close>) for its key, given \<open>ttl\<close> before
  it expires.
\<close>

definition fresh_store :: "(string \<Rightarrow> 'v \<Rightarrow> int \<Rightarrow> bool) \<Rightarrow> int \<Rightarrow> (string \<times> 'v \<times> int) set \<Rightarrow> bool" where
  "fresh_store ok ttl S \<longleftrightarrow> (\<forall>(k, v, e) \<in> S. ok k v (e - ttl))"

lemma fresh_store_get:
  "cache_law ops stored \<Longrightarrow> fresh_store ok ttl (stored c) \<Longrightarrow> c_get ops c k t = (r, c1) \<Longrightarrow>
   fresh_store ok ttl (stored c1)"
  using cache_lawD(2) [of ops stored _ c k t] by (fastforce simp: fresh_store_def)

lemma fresh_store_hit:
  assumes "cache_law ops stored" and "fresh_store ok ttl (stored c)"
    and "c_get ops c k t = (Some v, c1)"
  obtains t0 where "ok k v t0" and "t \<le> t0 + ttl"
proof -
  obtain e where "t \<le> e" and "(k, v, e) \<in> stored c"
    using cache_lawD(1) [OF assms(1,3)] by blast
  then show thesis
    using assms(2) that [of "e - ttl"] by (auto simp: fresh_store_def)
qed

lemma fresh_store_set:
  "cache_law ops stored \<Longrightarrow> fresh_store ok ttl (stored c) \<Longrightarrow> ok k v t \<Longrightarrow>
   fresh_store ok ttl (stored (c_set ops c k v ttl t))"
  using cache_lawD(3) [of ops stored _ c k v ttl t] by (fastforce simp: fresh_store_def)

lemma resolve_provenance:
  assumes law: "cache_law ops stored" and ttl: "0 \<le> o_TTL opts"
    and inv: "fresh_store ok (o_TTL opts) (stored c)"
    and srv: "\<And>cid rs w0 perms w1. client cid rs w0 = (Inr perms, w1) \<Longrightarrow> ok (cacheKey cid rs) perms (clock w1)"
    and run: "Resolve ops client opts cid roles (c, w) = (res, c', w')"
  shows "fresh_store ok (o_TTL opts) (stored c') \<and>
    (\<forall>perms. res = Inr perms \<longrightarrow>
       perms = [] \<and> (roles = [] \<or> o_FailOpen opts) \<or>
       (\<exists>t. ok (cacheKey cid roles) perms t \<and> clock w' \<le> t + o_TTL opts))"
proof (cases "roles = []")
  case True
  with run have "res = Inr []" "c' = c"
    by (simp_all add: Resolve_def)
  with True inv show ?thesis by simp
next
  case False
  obtain r c1 where get: "c_get ops c (cacheKey cid roles) (clock w) = (r, c1)"
    by fastforce
  have c1: "fresh_store ok (o_TTL opts) (stored c1)"
    using fresh_store_get [OF law inv get] .
  obtain a w1 where cl: "client cid roles w = (a, w1)"
    by fastforce
  consider v where "r = Some v" | e where "r = None" "a = Inl e" | perms where "r = None" "a = Inr perms"
    by (cases r; cases a) auto
  then show ?thesis
  proof cases
    case 1
    with run False get have "res = Inr v" "c' = c1" "w' = w"
      by (simp_all add: Resolve_hit)
    with c1 get 1 show ?thesis
      by (auto elim: fresh_store_hit [OF law inv])
  next
    case 2
    with run False get cl have "res = (if o_FailOpen opts then Inr [] else Inl e)" "c' = c1"
      by (simp_all add: Resolve_miss_Inl)
    with c1 show ?thesis by simp
  next
    case 3
    with run False get cl have eqs: "res = Inr perms" "w' = w1"
        "c' = c_set ops c1 (cacheKey cid roles) perms (o_TTL opts) (clock w1)"
      by (auto simp: Resolve_miss_Inr)
    have ok: "ok (cacheKey cid roles) perms (clock w1)"
      using srv cl 3 by blast
    then have "fresh_store ok (o_TTL opts) (stored c')"
      using fresh_store_set [OF law c1] eqs by simp
    moreover have "clock w' \<le> clock w1 + o_TTL opts"
      using ttl eqs by simp
    ultimately show ?thesis
      using ok eqs by blast
  qed
qed

end
