(* ===== verification/Middleware.thy ===== *)
theory Middleware
  imports Jwt Authz Resolver
begin

text \<open>
  The package middleware (middleware/bearer.go, auth.go, require_perm.go) and the router adapters
  (chi/middleware.go, gin/middleware.go, echo/middleware.go).

  A handler turns a request, with the user its context carries, into what is written to the
  response (of any type \<open>'r\<close>), threading the state \<open>'s\<close> of the verifier, the resolver and the
  application.  The text of an error (\<open>err.Error ()\<close>) is a parameter.
\<close>

record http_req =
  r_headers :: header
  r_user :: user_ctx

type_synonym ('s, 'r) handler = "http_req \<Rightarrow> 's \<Rightarrow> 'r \<times> 's"
type_synonym 'r responder = "http_req \<Rightarrow> nat \<Rightarrow> string \<Rightarrow> string \<Rightarrow> 'r"

record reply =
  rp_status :: nat
  rp_headers :: header
  rp_body :: json

definition DefaultErrorResponder :: "reply responder" where
  "DefaultErrorResponder r st code msg =
     \<lparr>rp_status = st, rp_headers = [(''Content-Type'', ''application/json; charset=utf-8'')],
      rp_body = JObj [(''code'', JStr code), (''message'', JStr msg)]\<rparr>"

section \<open>Authentication\<close>

definition BearerToken :: "http_req \<Rightarrow> string" where
  "BearerToken r = (let h = header_get ''Authorization'' (r_headers r) in
     if length h \<le> length ''Bearer '' \<or> \<not> equal_fold (take (length ''Bearer '') h) ''Bearer '' then []
     else trim_space (drop (length ''Bearer '') h))"

record ('s, 'e, 'r) AuthConfig =
  a_verify :: "string \<Rightarrow> 's \<Rightarrow> (jwt_error + Claims) \<times> 's"
  a_resolve :: "string \<Rightarrow> string list \<Rightarrow> 's \<Rightarrow> ('e + string list) \<times> 's"
  a_ClientID :: string
  a_Responder :: "'r responder option"

definition user_of :: "Claims \<Rightarrow> string list \<Rightarrow> User" where
  "user_of c perms =
     \<lparr>u_Subject = cl_Subject c, u_AppID = cl_AppID c, u_Email = cl_Email c, u_OrgID = cl_OrgID c,
      u_OrgRole = cl_OrgRole c, u_WorkspaceID = cl_WorkspaceID c, u_SessionID = cl_SessionID c,
      u_Roles = cl_Roles c, u_Permissions = perms, u_AMR = cl_AMR c, u_ACR = cl_ACR c,
      u_Actor = cl_Actor c\<rparr>"

definition Auth ::
  "'r responder \<Rightarrow> (jwt_error \<Rightarrow> string) \<Rightarrow> ('e \<Rightarrow> string) \<Rightarrow> ('s, 'e, 'r) AuthConfig \<Rightarrow>
   ('s, 'r) handler \<Rightarrow> ('s, 'r) handler" where
  "Auth dflt verr rerr cfg next_h r s =
     (let respond = (case a_Responder cfg of None \<Rightarrow> dflt | Some f \<Rightarrow> f); token = BearerToken r in
      if token = [] then (respond r 401 ''UNAUTHORIZED'' ''missing bearer token'', s)
      else (case a_verify cfg token s of
        (Inl e, s1) \<Rightarrow> (respond r 401 ''UNAUTHORIZED'' (verr e), s1)
      | (Inr claims, s1) \<Rightarrow>
         (let clientID = (if a_ClientID cfg = [] \<and> cl_AppID claims \<noteq> [] then cl_AppID claims
                          else a_ClientID cfg)
          in (case a_resolve cfg clientID (cl_Roles claims) s1 of
               (Inl e, s2) \<Rightarrow> (respond r 403 ''FORBIDDEN'' (rerr e), s2)
             | (Inr perms, s2) \<Rightarrow>
                 next_h (r\<lparr>r_user := WithUser (r_user r) (Some (user_of claims perms))\<rparr>) s2))))"

section \<open>Guards\<close>

text \<open>The functional options: a later option overrides an earlier one.\<close>

datatype 'r option_fn = WithResponder "'r responder"

fun applyOptions :: "'r responder \<Rightarrow> 'r option_fn list \<Rightarrow> 'r responder" where
  "applyOptions dflt [] = dflt"
| "applyOptions dflt (WithResponder f # fs) = applyOptions f fs"

definition RequirePerm :: "'r responder \<Rightarrow> PermissionKey \<Rightarrow> ('s, 'r) handler \<Rightarrow> ('s, 'r) handler" where
  "RequirePerm respond perm next_h r s = (case FromContext (r_user r) of
     None \<Rightarrow> (respond r 401 ''UNAUTHORIZED'' ''not authenticated'', s)
   | Some u \<Rightarrow> (if \<not> HasPermission perm (u_Permissions u)
       then (respond r 403 ''FORBIDDEN'' (''missing permission: '' @ Authority perm), s)
       else next_h r s))"

definition RequireAnyPerm :: "'r responder \<Rightarrow> PermissionKey list \<Rightarrow> ('s, 'r) handler \<Rightarrow> ('s, 'r) handler" where
  "RequireAnyPerm respond perms next_h r s = (case FromContext (r_user r) of
     None \<Rightarrow> (respond r 401 ''UNAUTHORIZED'' ''not authenticated'', s)
   | Some u \<Rightarrow> (if \<not> HasAnyPermission perms (u_Permissions u)
       then (respond r 403 ''FORBIDDEN'' ''missing any of required permissions'', s)
       else next_h r s))"

definition RequireAllPerms :: "'r responder \<Rightarrow> PermissionKey list \<Rightarrow> ('s, 'r) handler \<Rightarrow> ('s, 'r) handler" where
  "RequireAllPerms respond perms next_h r s = (case FromContext (r_user r) of
     None \<Rightarrow> (respond r 401 ''UNAUTHORIZED'' ''not authenticated'', s)
   | Some u \<Rightarrow> (if \<not> HasAllPermissions perms (u_Permissions u)
       then (respond r 403 ''FORBIDDEN'' ''missing required permissions'', s)
       else next_h r s))"

definition RequireStepUp :: "'r responder \<Rightarrow> string \<Rightarrow> ('s, 'r) handler \<Rightarrow> ('s, 'r) handler" where
  "RequireStepUp respond acr next_h r s = (case FromContext (r_user r) of
     None \<Rightarrow> (respond r 401 ''UNAUTHORIZED'' ''not authenticated'', s)
   | Some u \<Rightarrow> (if u_ACR u \<noteq> acr
       then (respond r 403 ''STEP_UP_REQUIRED'' (''acr '' @ acr @ '' required''), s)
       else next_h r s))"

definition RequireNoImpersonation :: "'r responder \<Rightarrow> ('s, 'r) handler \<Rightarrow> ('s, 'r) handler" where
  "RequireNoImpersonation respond next_h r s = (case FromContext (r_user r) of
     None \<Rightarrow> (respond r 401 ''UNAUTHORIZED'' ''not authenticated'', s)
   | Some u \<Rightarrow> (if IsImpersonating (Some u)
       then (respond r 403 ''FORBIDDEN'' ''impersonated sessions may not perform this action'', s)
       else next_h r s))"

section \<open>The adapters\<close>

text \<open>
  gin runs the rest of the chain unless a handler aborts; echo calls \<open>next\<close>.  Both write the refusal
  through the framework's JSON writer, the parameter \<open>write\<close>.
\<close>

definition errPayload :: "string \<Rightarrow> string \<Rightarrow> json" where
  "errPayload code message = JObj [(''code'', JStr code), (''message'', JStr message)]"

definition gin_RequirePerm :: "(nat \<Rightarrow> json \<Rightarrow> 'r) \<Rightarrow> PermissionKey \<Rightarrow> ('s, 'r) handler \<Rightarrow> ('s, 'r) handler" where
  "gin_RequirePerm write perm next_h r s = (case FromContext (r_user r) of
     None \<Rightarrow> (write 401 (errPayload ''UNAUTHORIZED'' ''not authenticated''), s)
   | Some u \<Rightarrow> (if \<not> HasPermission perm (u_Permissions u)
       then (write 403 (errPayload ''FORBIDDEN'' (''missing permission: '' @ Authority perm)), s)
       else next_h r s))"

definition gin_RequireAnyPerm :: "(nat \<Rightarrow> json \<Rightarrow> 'r) \<Rightarrow> PermissionKey list \<Rightarrow> ('s, 'r) handler \<Rightarrow> ('s, 'r) handler" where
  "gin_RequireAnyPerm write perms next_h r s = (let u = FromContext (r_user r) in
     if u = None \<or> \<not> HasAnyPermission perms (u_Permissions (the u))
     then (write 403 (errPayload ''FORBIDDEN'' ''missing any of required permissions''), s)
     else next_h r s)"

definition gin_RequireAllPerms :: "(nat \<Rightarrow> json \<Rightarrow> 'r) \<Rightarrow> PermissionKey list \<Rightarrow> ('s, 'r) handler \<Rightarrow> ('s, 'r) handler" where
  "gin_RequireAllPerms write perms next_h r s = (let u = FromContext (r_user r) in
     if u = None \<or> \<not> HasAllPermissions perms (u_Permissions (the u))
     then (write 403 (errPayload ''FORBIDDEN'' ''missing required permissions''), s)
     else next_h r s)"

definition gin_RequireStepUp :: "(nat \<Rightarrow> json \<Rightarrow> 'r) \<Rightarrow> string \<Rightarrow> ('s, 'r) handler \<Rightarrow> ('s, 'r) handler" where
  "gin_RequireStepUp write acr next_h r s = (let u = FromContext (r_user r) in
     if u = None \<or> u_ACR (the u) \<noteq> acr
     then (write 403 (errPayload ''STEP_UP_REQUIRED'' (''acr '' @ acr @ '' required'')), s)
     else next_h r s)"

definition gin_RequireNoImpersonation :: "(nat \<Rightarrow> json \<Rightarrow> 'r) \<Rightarrow> ('s, 'r) handler \<Rightarrow> ('s, 'r) handler" where
  "gin_RequireNoImpersonation write next_h r s = (let u = FromContext (r_user r) in
     if u = None \<or> IsImpersonating u
     then (write 403 (errPayload ''FORBIDDEN'' ''impersonated sessions may not perform this action''), s)
     else next_h r s)"

definition echo_RequirePerm :: "(nat \<Rightarrow> json \<Rightarrow> 'r) \<Rightarrow> PermissionKey \<Rightarrow> ('s, 'r) handler \<Rightarrow> ('s, 'r) handler" where
  "echo_RequirePerm write perm next_h r s = (case FromContext (r_user r) of
     None \<Rightarrow> (write 401 (errPayload ''UNAUTHORIZED'' ''not authenticated''), s)
   | Some u \<Rightarrow> (if \<not> HasPermission perm (u_Permissions u)
       then (write 403 (errPayload ''FORBIDDEN'' (''missing permission: '' @ Authority perm)), s)
       else next_h r s))"

definition echo_RequireAnyPerm :: "(nat \<Rightarrow> json \<Rightarrow> 'r) \<Rightarrow> PermissionKey list \<Rightarrow> ('s, 'r) handler \<Rightarrow> ('s, 'r) handler" where
  "echo_RequireAnyPerm write perms next_h r s = (let u = FromContext (r_user r) in
     if u = None \<or> \<not> HasAnyPermission perms (u_Permissions (the u))
     then (write 403 (errPayload ''FORBIDDEN'' ''missing any of required permissions''), s)
     else next_h r s)"

definition echo_RequireAllPerms :: "(nat \<Rightarrow> json \<Rightarrow> 'r) \<Rightarrow> PermissionKey list \<Rightarrow> ('s, 'r) handler \<Rightarrow> ('s, 'r) handler" where
  "echo_RequireAllPerms write perms next_h r s = (let u = FromContext (r_user r) in
     if u = None \<or> \<not> HasAllPermissions perms (u_Permissions (the u))
     then (write 403 (errPayload ''FORBIDDEN'' ''missing required permissions''), s)
     else next_h r s)"

definition echo_RequireStepUp :: "(nat \<Rightarrow> json \<Rightarrow> 'r) \<Rightarrow> string \<Rightarrow> ('s, 'r) handler \<Rightarrow> ('s, 'r) handler" where
  "echo_RequireStepUp write acr next_h r s = (let u = FromContext (r_user r) in
     if u = None \<or> u_ACR (the u) \<noteq> acr
     then (write 403 (errPayload ''STEP_UP_REQUIRED'' (''acr '' @ acr @ '' required'')), s)
     else next_h r s)"

definition echo_RequireNoImpersonation :: "(nat \<Rightarrow> json \<Rightarrow> 'r) \<Rightarrow> ('s, 'r) handler \<Rightarrow> ('s, 'r) handler" where
  "echo_RequireNoImpersonation write next_h r s = (let u = FromContext (r_user r) in
     if u = None \<or> IsImpersonating u
     then (write 403 (errPayload ''FORBIDDEN'' ''impersonated sessions may not perform this action''), s)
     else next_h r s)"

text \<open>
  Authentication in gin and echo runs the core handler around the rest of the chain.  gin aborts the
  chain when that rest was not reached and echo then returns no error, so the answer is the core's.
\<close>

definition gin_Authenticate ::
  "'r responder \<Rightarrow> (jwt_error \<Rightarrow> string) \<Rightarrow> ('e \<Rightarrow> string) \<Rightarrow> ('s, 'e, 'r) AuthConfig \<Rightarrow>
   ('s, 'r) handler \<Rightarrow> ('s, 'r) handler" where
  "gin_Authenticate dflt verr rerr cfg next_h = Auth dflt verr rerr cfg (\<lambda>r s. next_h r s)"

definition echo_Authenticate ::
  "'r responder \<Rightarrow> (jwt_error \<Rightarrow> string) \<Rightarrow> ('e \<Rightarrow> string) \<Rightarrow> ('s, 'e, 'r) AuthConfig \<Rightarrow>
   ('s, 'r) handler \<Rightarrow> ('s, 'r) handler" where
  "echo_Authenticate dflt verr rerr cfg next_h = Auth dflt verr rerr cfg (\<lambda>r s. next_h r s)"

text \<open>The chi adapter forwards to the core package.\<close>

definition chi_RequirePerm :: "'r responder \<Rightarrow> PermissionKey \<Rightarrow> ('s, 'r) handler \<Rightarrow> ('s, 'r) handler" where
  "chi_RequirePerm respond perm = RequirePerm respond perm"

definition chi_RequireAnyPerm :: "'r responder \<Rightarrow> PermissionKey list \<Rightarrow> ('s, 'r) handler \<Rightarrow> ('s, 'r) handler" where
  "chi_RequireAnyPerm respond perms = RequireAnyPerm respond perms"

definition chi_RequireAllPerms :: "'r responder \<Rightarrow> PermissionKey list \<Rightarrow> ('s, 'r) handler \<Rightarrow> ('s, 'r) handler" where
  "chi_RequireAllPerms respond perms = RequireAllPerms respond perms"

definition chi_RequireStepUp :: "'r responder \<Rightarrow> string \<Rightarrow> ('s, 'r) handler \<Rightarrow> ('s, 'r) handler" where
  "chi_RequireStepUp respond acr = RequireStepUp respond acr"

definition chi_RequireNoImpersonation :: "'r responder \<Rightarrow> ('s, 'r) handler \<Rightarrow> ('s, 'r) handler" where
  "chi_RequireNoImpersonation respond = RequireNoImpersonation respond"

text \<open>A guard of each package, by what it requires.\<close>

datatype requirement = Perm PermissionKey | AnyPerm "PermissionKey list" | AllPerms "PermissionKey list"
  | StepUp string | NoImpersonation

fun core_guard :: "'r responder \<Rightarrow> requirement \<Rightarrow> ('s, 'r) handler \<Rightarrow> ('s, 'r) handler" where
  "core_guard respond (Perm p) = RequirePerm respond p"
| "core_guard respond (AnyPerm ps) = RequireAnyPerm respond ps"
| "core_guard respond (AllPerms ps) = RequireAllPerms respond ps"
| "core_guard respond (StepUp a) = RequireStepUp respond a"
| "core_guard respond NoImpersonation = RequireNoImpersonation respond"

fun gin_guard :: "(nat \<Rightarrow> json \<Rightarrow> 'r) \<Rightarrow> requirement \<Rightarrow> ('s, 'r) handler \<Rightarrow> ('s, 'r) handler" where
  "gin_guard write (Perm p) = gin_RequirePerm write p"
| "gin_guard write (AnyPerm ps) = gin_RequireAnyPerm write ps"
| "gin_guard write (AllPerms ps) = gin_RequireAllPerms write ps"
| "gin_guard write (StepUp a) = gin_RequireStepUp write a"
| "gin_guard write NoImpersonation = gin_RequireNoImpersonation write"

fun echo_guard :: "(nat \<Rightarrow> json \<Rightarrow> 'r) \<Rightarrow> requirement \<Rightarrow> ('s, 'r) handler \<Rightarrow> ('s, 'r) handler" where
  "echo_guard write (Perm p) = echo_RequirePerm write p"
| "echo_guard write (AnyPerm ps) = echo_RequireAnyPerm write ps"
| "echo_guard write (AllPerms ps) = echo_RequireAllPerms write ps"
| "echo_guard write (StepUp a) = echo_RequireStepUp write a"
| "echo_guard write NoImpersonation = echo_RequireNoImpersonation write"

text \<open>What a requirement asks of the user.\<close>

fun satisfies :: "User \<Rightarrow> requirement \<Rightarrow> bool" where
  "satisfies u (Perm p) = HasPermission p (u_Permissions u)"
| "satisfies u (AnyPerm ps) = (\<exists>p \<in> set ps. HasPermission p (u_Permissions u))"
| "satisfies u (AllPerms ps) = (ps \<noteq> [] \<and> (\<forall>p \<in> set ps. HasPermission p (u_Permissions u)))"
| "satisfies u (StepUp a) = (u_ACR u = a)"
| "satisfies u NoImpersonation = (\<forall>sub. u_Actor u = Some sub \<longrightarrow> sub = [])"

fun refusal :: "requirement \<Rightarrow> string \<times> string" where
  "refusal (Perm p) = (''FORBIDDEN'', ''missing permission: '' @ Authority p)"
| "refusal (AnyPerm ps) = (''FORBIDDEN'', ''missing any of required permissions'')"
| "refusal (AllPerms ps) = (''FORBIDDEN'', ''missing required permissions'')"
| "refusal (StepUp a) = (''STEP_UP_REQUIRED'', ''acr '' @ a @ '' required'')"
| "refusal NoImpersonation = (''FORBIDDEN'', ''impersonated sessions may not perform this action'')"

section \<open>Facts\<close>

lemmas core_defs = RequirePerm_def RequireAnyPerm_def RequireAllPerms_def RequireStepUp_def
  RequireNoImpersonation_def
lemmas gin_defs = gin_RequirePerm_def gin_RequireAnyPerm_def gin_RequireAllPerms_def
  gin_RequireStepUp_def gin_RequireNoImpersonation_def
lemmas echo_defs = echo_RequirePerm_def echo_RequireAnyPerm_def echo_RequireAllPerms_def
  echo_RequireStepUp_def echo_RequireNoImpersonation_def

lemma FromContext_WithUser [simp]: "FromContext (WithUser c u) = u"
  by (simp add: FromContext_def WithUser_def)

lemma IsImpersonating_Some: "IsImpersonating (Some u) \<longleftrightarrow> (\<exists>sub. u_Actor u = Some sub \<and> sub \<noteq> [])"
  by (simp add: IsImpersonating_def split: option.splits)

lemma echo_is_gin: "echo_guard write g next_h r s = gin_guard write g next_h r s"
  by (cases g) (simp_all add: gin_defs echo_defs)

lemma core_guard_Some:
  "FromContext (r_user r) = Some u \<Longrightarrow>
   core_guard respond g next_h r s =
     (if satisfies u g then next_h r s else (respond r 403 (fst (refusal g)) (snd (refusal g)), s))"
  by (cases g) (auto simp: core_defs IsImpersonating_Some HasAnyPermission_iff HasAllPermissions_iff)

lemma core_guard_None:
  "FromContext (r_user r) = None \<Longrightarrow>
   core_guard respond g next_h r s = (respond r 401 ''UNAUTHORIZED'' ''not authenticated'', s)"
  by (cases g) (auto simp: core_defs)

lemma gin_guard_Some:
  "FromContext (r_user r) = Some u \<Longrightarrow>
   gin_guard write g next_h r s =
     (if satisfies u g then next_h r s else (write 403 (errPayload (fst (refusal g)) (snd (refusal g))), s))"
  by (cases g) (auto simp: gin_defs IsImpersonating_Some HasAnyPermission_iff HasAllPermissions_iff)

lemma gin_guard_None:
  "FromContext (r_user r) = None \<Longrightarrow>
   gin_guard write g next_h r s =
     (case g of Perm p \<Rightarrow> (write 401 (errPayload ''UNAUTHORIZED'' ''not authenticated''), s)
      | _ \<Rightarrow> (write 403 (errPayload (fst (refusal g)) (snd (refusal g))), s))"
  by (cases g) (auto simp: gin_defs)

lemma Auth_verified:
  assumes "BearerToken r \<noteq> []" and "a_verify cfg (BearerToken r) s = (Inr claims, s1)"
    and "a_resolve cfg (if a_ClientID cfg = [] \<and> cl_AppID claims \<noteq> [] then cl_AppID claims else a_ClientID cfg)
           (cl_Roles claims) s1 = (Inr perms, s2)"
  shows "Auth dflt verr rerr cfg next_h r s =
    next_h (r\<lparr>r_user := WithUser (r_user r) (Some (user_of claims perms))\<rparr>) s2"
  using assms by (simp add: Auth_def Let_def)

lemma permission_guard_empty:
  assumes "\<forall>g'. g \<noteq> StepUp g'" and "g \<noteq> NoImpersonation" and "u_Permissions u = []"
  shows "\<not> satisfies u g"
  using assms by (cases g) (auto simp: HasPermission_iff)

section \<open>Properties\<close>

text \<open>
  C3. Complete mediation.  A handler behind \<open>Auth\<close> and a guard runs if and only if the request has
  a bearer token that the verifier accepts, the resolver gives permissions for the roles of its
  claims, and the user made of these claims and permissions satisfies the guard; that user is the one
  the handler sees.  (The handler answers \<open>Inr\<close>, a refusal is \<open>Inl\<close> with its status.)
\<close>

theorem protected_route_iff:
  "fst (Auth (\<lambda>r st code msg. Inl st) verr rerr (cfg\<lparr>a_Responder := None\<rparr>)
        (core_guard (\<lambda>r st code msg. Inl st) g (\<lambda>r s. (Inr r, s))) r s) = Inr r'
   \<longleftrightarrow> (\<exists>claims s1 perms s2.
        BearerToken r \<noteq> [] \<and> a_verify cfg (BearerToken r) s = (Inr claims, s1) \<and>
        a_resolve cfg (if a_ClientID cfg = [] \<and> cl_AppID claims \<noteq> [] then cl_AppID claims else a_ClientID cfg)
          (cl_Roles claims) s1 = (Inr perms, s2) \<and>
        satisfies (user_of claims perms) g \<and>
        r' = r\<lparr>r_user := Some (Some (user_of claims perms))\<rparr>)"
proof -
  have guard: "fst (core_guard (\<lambda>r st code msg. Inl st) g (\<lambda>r s. (Inr r, s))
        (q\<lparr>r_user := Some (Some u)\<rparr>) s) = Inr r' \<longleftrightarrow> satisfies u g \<and> r' = q\<lparr>r_user := Some (Some u)\<rparr>"
    for q s u r' and g
    by (subst core_guard_Some [where u = u]) (auto simp: FromContext_def)
  show ?thesis
    by (auto simp: Auth_def Let_def WithUser_def guard split: prod.splits sum.splits)
qed

text \<open>
  C39. The adapters decide as the core package does.  For an authenticated user the gin and echo
  guards run the handler in exactly the same cases and refuse with the same status, code and message;
  without a user all of them refuse, but only \<open>RequirePerm\<close> answers 401 there: the other four guards
  of gin and echo answer 403 where the core and chi answer 401.
\<close>

theorem adapters_agree:
  "gin_guard write g next_h r s = echo_guard write g next_h r s \<and>
   (FromContext (r_user r) \<noteq> None \<longrightarrow>
      gin_guard write g next_h r s =
        core_guard (\<lambda>_ st code msg. write st (errPayload code msg)) g next_h r s) \<and>
   (FromContext (r_user r) = None \<longrightarrow>
      core_guard (\<lambda>_ st code msg. write st (errPayload code msg)) g next_h r s =
        (write 401 (errPayload ''UNAUTHORIZED'' ''not authenticated''), s) \<and>
      gin_guard write g next_h r s =
        (case g of Perm p \<Rightarrow> (write 401 (errPayload ''UNAUTHORIZED'' ''not authenticated''), s)
         | _ \<Rightarrow> (write 403 (errPayload (fst (refusal g)) (snd (refusal g))), s)))"
proof (cases "FromContext (r_user r)")
  case None
  then show ?thesis
    by (simp only: echo_is_gin core_guard_None gin_guard_None simp_thms)
next
  case (Some u)
  then show ?thesis
    by (simp add: echo_is_gin core_guard_Some gin_guard_Some)
qed

theorem adapters_agree_witness:
  "gin_guard (\<lambda>st pl. st) (StepUp ''mfa'') (\<lambda>r s. (200, s)) \<lparr>r_headers = [], r_user = None\<rparr> () = (403, ()) \<and>
   core_guard (\<lambda>_ st code msg. st) (StepUp ''mfa'') (\<lambda>r s. (200, s)) \<lparr>r_headers = [], r_user = None\<rparr> ()
     = (401, ())"
  using adapters_agree [of "\<lambda>st pl. st" "StepUp ''mfa''" "\<lambda>r s. (200, s)"
      "\<lparr>r_headers = [], r_user = None\<rparr>" "()", THEN conjunct2]
  by (simp add: FromContext_def)

text \<open>
  A token without roles passes no permission guard, whatever the cache holds, however the server
  answers and even under fail-open, and nothing is asked of the server.
\<close>

lemma no_roles_denied:
  fixes ops :: "('c, string list) cache_ops" and client :: "'e resolve_client"
  assumes "a_resolve cfg = Resolve ops client opts"
    and "BearerToken r \<noteq> []" and "a_verify cfg (BearerToken r) s = (Inr claims, s1)" and "cl_Roles claims = []"
    and "g \<noteq> NoImpersonation" and "\<forall>acr. g \<noteq> StepUp acr"
  shows "\<exists>r1. Auth dflt verr rerr cfg (core_guard respond g next_h) r s =
    (respond r1 403 (fst (refusal g)) (snd (refusal g)), s1)"
proof -
  have "a_resolve cfg cid (cl_Roles claims) s1 = (Inr [], s1)" for cid
    using assms(1,4) http_resolver.no_roles by simp
  then have "Auth dflt verr rerr cfg (core_guard respond g next_h) r s =
      core_guard respond g next_h (r\<lparr>r_user := WithUser (r_user r) (Some (user_of claims []))\<rparr>) s1"
    using assms(2,3) by (simp add: Auth_verified)
  moreover have "\<not> satisfies (user_of claims []) g"
    using assms(5,6) by (intro permission_guard_empty) (simp_all add: user_of_def)
  ultimately show ?thesis
    by (auto simp: core_guard_Some)
qed

lemma no_roles_denied_witness:
  "fst (Auth (\<lambda>r st code msg. st) (\<lambda>e. []) (\<lambda>e :: unit. [])
      \<lparr>a_verify = \<lambda>t s. (Inr (sample_claims\<lparr>cl_Roles := []\<rparr>), s),
       a_resolve = Resolve list_cache (\<lambda>cid rs w. (Inr [''*:*''], w)) \<lparr>o_TTL = 1, o_MaxEntries = 1, o_FailOpen = True\<rparr>,
       a_ClientID = [], a_Responder = None\<rparr>
      (core_guard (\<lambda>r st code msg. st) (Perm (PKey ''posts'' ''read'')) (\<lambda>r s. (200, s)))
      \<lparr>r_headers = [(''Authorization'', ''bearer t'')], r_user = None\<rparr> ([], \<lparr>sent = [], clock = 0\<rparr>)) = 403"
proof -
  let ?r = "\<lparr>r_headers = [(''Authorization'', ''bearer t'')], r_user = None\<rparr>"
  have tok: "BearerToken ?r = ''t''"
    by (simp add: BearerToken_def header_get_def equal_fold_def runes_def byte_def fold_rune_def
        trim_space_def is_space_def)
  let ?o = "\<lparr>o_TTL = 1, o_MaxEntries = 1, o_FailOpen = True\<rparr>"
  let ?cl = "\<lambda>cid rs w. (Inr [''*:*''] :: unit + string list, w)"
  let ?s = "([], \<lparr>sent = [], clock = 0\<rparr>) :: (string \<times> string list \<times> int) list \<times> world"
  define cfg :: "(_, unit, nat) AuthConfig" where "cfg = \<lparr>a_verify = \<lambda>t s. (Inr (sample_claims\<lparr>cl_Roles := []\<rparr>), s),
       a_resolve = Resolve list_cache ?cl ?o, a_ClientID = [], a_Responder = None\<rparr>"
  have 1: "a_resolve cfg = Resolve list_cache ?cl ?o" by (simp add: cfg_def)
  have 2: "BearerToken ?r \<noteq> []" by (simp add: tok)
  have 3: "a_verify cfg (BearerToken ?r) ?s = (Inr (sample_claims\<lparr>cl_Roles := []\<rparr>), ?s)"
    by (simp add: cfg_def)
  obtain r1 where "Auth (\<lambda>r st code msg. st) (\<lambda>e. []) (\<lambda>e :: unit. []) cfg
      (core_guard (\<lambda>r st code msg. st) (Perm (PKey ''posts'' ''read'')) (\<lambda>r s. (200, s))) ?r ?s = (403, ?s)"
    using no_roles_denied [OF 1 2 3, where g = "Perm (PKey ''posts'' ''read'')"
        and respond = "\<lambda>r st code msg. st"] by auto
  then show ?thesis
    unfolding cfg_def by simp
qed

end
