(* ===== verification/Config.thy ===== *)
theory Config
  imports Go_Prelude
begin

text \<open>
  \<open>SDKConfig\<close> and its normalisation (config.go).  \<open>Validate\<close> mutates the configuration; here it
  returns the normalised one.  Durations are nanoseconds.
\<close>

datatype ResolveMode = ResolveOnDemand | ResolveFullSync

datatype FailMode = FailClose | FailOpen

record SDKConfig =
  Endpoint :: string
  ClientID :: string
  ClientSecret :: string
  Audience :: string
  Issuer :: string
  JWKSRefresh :: int
  PermissionCacheTTL :: int
  PermissionCacheMax :: int
  UserProfileCacheTTL :: int
  UserProfileCacheMax :: int
  DisableUserProfileCache :: bool
  cfg_ResolveMode :: ResolveMode
  cfg_FailMode :: FailMode
  HTTPTimeout :: int
  MaxRetries :: int

datatype config_error = NilConfig | EndpointRequired | ClientIDRequired | ClientSecretRequired

definition default_to :: "'a \<Rightarrow> 'a \<Rightarrow> ('a \<Rightarrow> bool) \<Rightarrow> 'a" where
  "default_to d x unset = (if unset x then d else x)"

definition Validate :: "SDKConfig option \<Rightarrow> config_error + SDKConfig" where
  "Validate c = (case c of
     None \<Rightarrow> Inl NilConfig
   | Some c \<Rightarrow>
      (if Endpoint c = [] then Inl EndpointRequired
       else if ClientID c = [] then Inl ClientIDRequired
       else if ClientSecret c = [] then Inl ClientSecretRequired
       else Inr (c\<lparr>
         Audience := default_to (ClientID c) (Audience c) (\<lambda>x. x = []),
         Issuer := default_to (Endpoint c) (Issuer c) (\<lambda>x. x = []),
         JWKSRefresh := default_to hour (JWKSRefresh c) (\<lambda>x. x \<le> 0),
         PermissionCacheTTL := default_to (5 * minute) (PermissionCacheTTL c) (\<lambda>x. x \<le> 0),
         PermissionCacheMax := default_to 10000 (PermissionCacheMax c) (\<lambda>x. x \<le> 0),
         UserProfileCacheTTL := default_to minute (UserProfileCacheTTL c) (\<lambda>x. x \<le> 0),
         UserProfileCacheMax := default_to 10000 (UserProfileCacheMax c) (\<lambda>x. x \<le> 0),
         HTTPTimeout := default_to (5 * second) (HTTPTimeout c) (\<lambda>x. x \<le> 0),
         MaxRetries := default_to 3 (MaxRetries c) (\<lambda>x. x \<le> 0)\<rparr>)))"

text \<open>What the rest of the SDK may assume of a validated configuration.\<close>

definition well_configured :: "SDKConfig \<Rightarrow> bool" where
  "well_configured c \<longleftrightarrow>
     Endpoint c \<noteq> [] \<and> ClientID c \<noteq> [] \<and> ClientSecret c \<noteq> [] \<and> Audience c \<noteq> [] \<and> Issuer c \<noteq> [] \<and>
     0 < JWKSRefresh c \<and> 0 < PermissionCacheTTL c \<and> 0 < PermissionCacheMax c \<and>
     0 < UserProfileCacheTTL c \<and> 0 < UserProfileCacheMax c \<and> 0 < HTTPTimeout c \<and> 0 < MaxRetries c"

lemma default_to_set:
  "d \<noteq> [] \<Longrightarrow> default_to d x (\<lambda>x. x = []) \<noteq> []" "(0 :: int) < e \<Longrightarrow> 0 < default_to e y (\<lambda>x. x \<le> 0)"
  by (simp_all add: default_to_def)

lemma Validate_well_configured:
  assumes "Validate (Some c) = Inr d"
  shows "well_configured d"
proof -
  have set: "Endpoint c \<noteq> []" "ClientID c \<noteq> []" "ClientSecret c \<noteq> []"
    using assms by (auto simp: Validate_def split: if_split_asm)
  have "\<forall>d. Validate (Some c) = Inr d \<longrightarrow> well_configured d"
    unfolding Validate_def well_configured_def using set by (simp add: default_to_set)
  with assms show ?thesis by blast
qed

text \<open>
  \<open>Validate\<close> succeeds exactly when the three required fields are present; its result is well
  configured, keeps those fields and everything that was set, and validating it again changes
  nothing: \<open>New\<close> and \<open>NewClient\<close> both call it.
\<close>

lemma Validate_spec:
  "(is_ok (Validate (Some c)) \<longleftrightarrow> Endpoint c \<noteq> [] \<and> ClientID c \<noteq> [] \<and> ClientSecret c \<noteq> [])
   \<and> (\<forall>d. Validate (Some c) = Inr d \<longrightarrow>
        well_configured d \<and> Validate (Some d) = Inr d \<and>
        Endpoint d = Endpoint c \<and> ClientID d = ClientID c \<and> ClientSecret d = ClientSecret c \<and>
        (well_configured c \<longrightarrow> d = c))"
  by (auto simp: Validate_def well_configured_def default_to_def is_ok_def)

lemma Validate_spec_witness:
  "is_ok (Validate (Some \<lparr>Endpoint = ''e'', ClientID = ''c'', ClientSecret = ''s'', Audience = [],
     Issuer = [], JWKSRefresh = 0, PermissionCacheTTL = 0, PermissionCacheMax = 0,
     UserProfileCacheTTL = 0, UserProfileCacheMax = 0, DisableUserProfileCache = False,
     cfg_ResolveMode = ResolveOnDemand, cfg_FailMode = FailClose, HTTPTimeout = 0, MaxRetries = 0\<rparr>))"
  by (subst Validate_spec [THEN conjunct1]) simp

end
