(* ===== verification/Go_Encode.thy ===== *)
theory Go_Encode
  imports Go_Json
begin

text \<open>
  The encoders of the standard library that the SDK's requests go through: \<open>json.Marshal\<close>,
  \<open>base64.StdEncoding\<close>, \<open>url.QueryEscape\<close>, \<open>url.PathEscape\<close> and \<open>url.Values.Encode\<close>.
\<close>

section \<open>JSON\<close>

definition hex_lower :: "nat \<Rightarrow> char" where
  "hex_lower n = char_of (if n < 10 then 48 + n else 87 + n)"

definition json_rune :: "nat \<times> string \<Rightarrow> string" where
  "json_rune p = (let (r, bs) = p in
     if r = 65533 \<and> length bs = 1 then CHR 0x5C # ''ufffd''
     else if r = 34 then [CHR 0x5C, CHR 0x22]
     else if r = 92 then [CHR 0x5C, CHR 0x5C]
     else if r = 8 then CHR 0x5C # ''b''
     else if r = 12 then CHR 0x5C # ''f''
     else if r = 10 then CHR 0x5C # ''n''
     else if r = 13 then CHR 0x5C # ''r''
     else if r = 9 then CHR 0x5C # ''t''
     else if r < 32 \<or> r = 60 \<or> r = 62 \<or> r = 38 then CHR 0x5C # ''u00'' @ [hex_lower (r div 16), hex_lower (r mod 16)]
     else if r = 8232 then CHR 0x5C # ''u2028''
     else if r = 8233 then CHR 0x5C # ''u2029''
     else bs)"

definition json_string :: "string \<Rightarrow> string" where
  "json_string s = [CHR 0x22] @ concat (map json_rune (chunks s)) @ [CHR 0x22]"

fun marshal :: "json \<Rightarrow> string"
  and marshal_items :: "json list \<Rightarrow> string"
  and marshal_members :: "(string \<times> json) list \<Rightarrow> string" where
  "marshal JNull = ''null''"
| "marshal (JBool b) = (if b then ''true'' else ''false'')"
| "marshal (JNum lit) = lit"
| "marshal (JStr s) = json_string s"
| "marshal (JArr vs) = ''['' @ marshal_items vs @ '']''"
| "marshal (JObj ms) = [CHR 0x7B] @ marshal_members ms @ [CHR 0x7D]"
| "marshal_items [] = []"
| "marshal_items (v # vs) = marshal v @ (if vs = [] then [] else '','' @ marshal_items vs)"
| "marshal_members [] = []"
| "marshal_members ((k, v) # ms) =
     json_string k @ '':'' @ marshal v @ (if ms = [] then [] else '','' @ marshal_members ms)"

section \<open>Base64\<close>

definition base64_alphabet :: string where
  "base64_alphabet = ''ABCDEFGHIJKLMNOPQRSTUVWXYZabcdefghijklmnopqrstuvwxyz0123456789+/''"

definition b64 :: "nat \<Rightarrow> char" where
  "b64 n = base64_alphabet ! (n mod 64)"

fun base64 :: "string \<Rightarrow> string" where
  "base64 [] = []"
| "base64 [a] = (let x = byte a in [b64 (x div 4), b64 (x mod 4 * 16), CHR ''='', CHR ''=''])"
| "base64 [a, b] = (let x = byte a; y = byte b in
     [b64 (x div 4), b64 (x mod 4 * 16 + y div 16), b64 (y mod 16 * 4), CHR ''=''])"
| "base64 (a # b # c # s) = (let x = byte a; y = byte b; z = byte c in
     [b64 (x div 4), b64 (x mod 4 * 16 + y div 16), b64 (y mod 16 * 4 + z div 64), b64 (z mod 64)] @ base64 s)"

section \<open>URLs\<close>

definition hex_upper :: "nat \<Rightarrow> char" where
  "hex_upper n = char_of (if n < 10 then 48 + n else 55 + n)"

definition percent :: "char \<Rightarrow> string" where
  "percent c = [CHR ''%'', hex_upper (byte c div 16), hex_upper (byte c mod 16)]"

definition unreserved :: "char \<Rightarrow> bool" where
  "unreserved c = (alnum c \<or> c \<in> set ''-_.~'')"

definition QueryEscape :: "string \<Rightarrow> string" where
  "QueryEscape s = concat (map (\<lambda>c. if c = CHR '' '' then ''+'' else if unreserved c then [c] else percent c) s)"

definition PathEscape :: "string \<Rightarrow> string" where
  "PathEscape s = concat (map (\<lambda>c. if unreserved c \<or> c \<in> set ''$&+=:@'' then [c] else percent c) s)"

text \<open>\<open>url.Values.Encode\<close>: the values are given as a list of pairs, which is sorted by key.\<close>

definition Encode :: "(string \<times> string) list \<Rightarrow> string" where
  "Encode vs = join ''&'' (map (\<lambda>(k, v). QueryEscape k @ ''='' @ QueryEscape v) (sort_key fst vs))"

section \<open>Facts\<close>

lemma alnum_not_slash: "\<not> alnum (CHR ''/'')" "\<not> alnum (CHR ''?'')" "\<not> alnum (CHR ''#'')" "\<not> alnum (CHR ''&'')"
  by code_simp+

lemma byte_hex_upper: "n < 16 \<Longrightarrow> byte (hex_upper n) = (if n < 10 then 48 + n else 55 + n)"
  by (simp add: hex_upper_def byte_def)

lemma percent_chars:
  assumes "c \<in> set (percent d)"
  shows "byte c = 37 \<or> 48 \<le> byte c \<and> byte c \<le> 57 \<or> 65 \<le> byte c \<and> byte c \<le> 70"
proof -
  have lt: "byte d div 16 < 16" "byte d mod 16 < 16" using byte_less [of d] by auto
  from assms consider "c = CHR ''%''" | n where "n < 16" "c = hex_upper n"
    unfolding percent_def by (metis lt empty_iff list.set(1) set_ConsD)
  then show ?thesis
  proof cases
    case 1
    then show ?thesis by (simp add: byte_def)
  next
    case 2
    then show ?thesis by (simp add: byte_hex_upper)
  qed
qed

lemma percent_not_delimiter: "c \<in> set (percent d) \<Longrightarrow> c \<notin> set ''/?#&''"
  using percent_chars [of c d] by (auto simp: byte_def)

text \<open>An escaped path segment cannot leave its place in the path.\<close>

lemma PathEscape_chars: "c \<in> set (PathEscape s) \<Longrightarrow> c \<noteq> CHR ''/'' \<and> c \<noteq> CHR ''?'' \<and> c \<noteq> CHR ''#''"
  using percent_not_delimiter alnum_not_slash by (auto simp: PathEscape_def unreserved_def split: if_splits)

lemma QueryEscape_chars: "c \<in> set (QueryEscape s) \<Longrightarrow> c \<noteq> CHR ''&'' \<and> c \<noteq> CHR ''#''"
  using percent_not_delimiter alnum_not_slash by (auto simp: QueryEscape_def unreserved_def split: if_splits)

end
