(* ===== verification/Go_Fill.thy ===== *)
theory Go_Fill
  imports Go_Json
begin

text \<open>
  Decoding into a variable that is used again.  encoding/json does not stop at a value of the wrong
  type: it remembers the error, skips the value and fills the rest, and a later \<open>Decode\<close> into the
  same variable starts from what is there.  A \<open>filler\<close> gives the new content beside whether there was
  no error.  The elements that a slice has beyond its length, in its capacity, are not modelled.
\<close>

type_synonym 'a filler = "json \<Rightarrow> 'a \<Rightarrow> 'a \<times> bool"

fun fill_string :: "string filler" where
  "fill_string (JStr s) old = (s, True)"
| "fill_string JNull old = (old, True)"
| "fill_string v old = (old, False)"

fun fill_bool :: "bool filler" where
  "fill_bool (JBool b) old = (b, True)"
| "fill_bool JNull old = (old, True)"
| "fill_bool v old = (old, False)"

fun fill_int :: "int filler" where
  "fill_int (JNum lit) old = (case num_int lit of Some n \<Rightarrow> (n, True) | None \<Rightarrow> (old, False))"
| "fill_int JNull old = (old, True)"
| "fill_int v old = (old, False)"

definition fill_ptr :: "'a filler \<Rightarrow> 'a \<Rightarrow> 'a option filler" where
  "fill_ptr f zero v old = (if v = JNull then (None, True)
     else apfst Some (f v (case old of None \<Rightarrow> zero | Some x \<Rightarrow> x)))"

text \<open>Elements are filled where there are any already, and the slice is cut to the new length.\<close>

fun fill_items :: "'a filler \<Rightarrow> 'a \<Rightarrow> json list \<Rightarrow> 'a list \<Rightarrow> 'a list \<times> bool" where
  "fill_items f zero [] old = ([], True)"
| "fill_items f zero (v # vs) old =
     (let (x, ok) = f v (case old of [] \<Rightarrow> zero | y # _ \<Rightarrow> y); (xs, oks) = fill_items f zero vs (tl old)
      in (x # xs, ok \<and> oks))"

fun fill_slice :: "'a filler \<Rightarrow> 'a \<Rightarrow> 'a list option filler" where
  "fill_slice f zero (JArr vs) old = apfst Some (fill_items f zero vs (case old of None \<Rightarrow> [] | Some l \<Rightarrow> l))"
| "fill_slice f zero JNull old = (None, True)"
| "fill_slice f zero v old = (old, False)"

text \<open>A struct is a table of its JSON names, each with the filler of its field.\<close>

definition field :: "('r \<Rightarrow> 'x) \<Rightarrow> (('x \<Rightarrow> 'x) \<Rightarrow> 'r \<Rightarrow> 'r) \<Rightarrow> 'x filler \<Rightarrow> 'r filler" where
  "field get upd f v r = (let (x, ok) = f v (get r) in (upd (\<lambda>_. x) r, ok))"

definition fill_member :: "(string \<times> 'r filler) list \<Rightarrow> string \<Rightarrow> 'r filler" where
  "fill_member table k v r = (case find (\<lambda>(n, f). equal_fold k n) table of
     None \<Rightarrow> (r, True) | Some (n, f) \<Rightarrow> f v r)"

fun fill_members :: "(string \<times> 'r filler) list \<Rightarrow> members \<Rightarrow> 'r \<Rightarrow> 'r \<times> bool" where
  "fill_members table [] r = (r, True)"
| "fill_members table ((k, v) # ms) r =
     (let (r1, ok) = fill_member table k v r; (r2, oks) = fill_members table ms r1 in (r2, ok \<and> oks))"

fun fill_struct :: "(string \<times> 'r filler) list \<Rightarrow> 'r filler" where
  "fill_struct table (JObj ms) r = fill_members table ms r"
| "fill_struct table JNull r = (r, True)"
| "fill_struct table v r = (r, False)"

text \<open>What every field keeps, the struct keeps, as long as there is no error.\<close>

lemma fill_members_keeps:
  assumes "\<And>n f v r r'. (n, f) \<in> set table \<Longrightarrow> P r \<Longrightarrow> f v r = (r', True) \<Longrightarrow> P r'"
  shows "P r \<Longrightarrow> fill_members table ms r = (r', True) \<Longrightarrow> P r'"
proof (induction ms arbitrary: r)
  case (Cons m ms)
  obtain k v where m: "m = (k, v)" by fastforce
  obtain r1 ok where one: "fill_member table k v r = (r1, ok)" by fastforce
  have ok and rest: "fill_members table ms r1 = (r', True)"
    using Cons.prems(2) by (auto simp: m one split: prod.splits)
  have "P r1"
  proof (cases "find (\<lambda>(n, f). equal_fold k n) table")
    case None
    with one Cons.prems(1) show ?thesis by (simp add: fill_member_def)
  next
    case (Some q)
    then have mem: "q \<in> set table" by (metis find_Some_iff nth_mem)
    obtain n f where "q = (n, f)" by fastforce
    with mem have q: "q = (n, f)" "(n, f) \<in> set table" by simp_all
    with one Some \<open>ok\<close> have "f v r = (r1, True)" by (simp add: fill_member_def)
    with assms q(2) Cons.prems(1) show ?thesis by blast
  qed
  with Cons.IH rest show ?case by blast
qed simp

lemma fill_struct_keeps:
  assumes "fill_struct table v r = (r', True)" and "P r"
    and "\<And>n f v r r'. (n, f) \<in> set table \<Longrightarrow> P r \<Longrightarrow> f v r = (r', True) \<Longrightarrow> P r'"
  shows "P r'"
proof (cases v)
  case (JObj ms)
  then have "fill_members table ms r = (r', True)" using assms(1) by simp
  then show ?thesis by (rule fill_members_keeps [where P = P, rotated 2]) (fact assms(3), fact assms(2))
qed (use assms(1,2) in simp_all)

lemmas fill_eval = fill_member_def field_def fill_ptr_def equal_fold_def runes_def fold_rune_def byte_def

end
