(* ===== verification/Transport.thy ===== *)
theory Transport
  imports Config Go_Http Go_Encode Go_Fill
begin

text \<open>
  The low-level client and its JSON transport (client.go): construction, request signing, one
  exchange (\<open>doJSONWithAuth\<close>, \<open>doJSONStrict\<close>) and the retries around it.

  The retry loop itself is \<open>backoff.Retry\<close> of github.com/cenkalti/backoff/v4, a third-party package:
  it is the parameter \<open>retry\<close>, and what is relied on is \<open>retry_law\<close>, its documented behaviour.
\<close>

section \<open>The client\<close>

record Client =
  cl_cfg :: SDKConfig
  cl_timeout :: "int option"

definition NewClient :: "SDKConfig option \<Rightarrow> config_error + Client" where
  "NewClient cfg = bind_ok (Validate cfg) (\<lambda>c. Inr \<lparr>cl_cfg = c, cl_timeout = Some (HTTPTimeout c)\<rparr>)"

definition ClientEndpoint :: "Client \<Rightarrow> string" where
  "ClientEndpoint c = trim_right (CHR ''/'') (Endpoint (cl_cfg c))"

datatype invalid_response =
    PermissionsMissing
  | MalformedKey string
  | DuplicateKey string
  | SnapshotIncomplete
  | RoleIncomplete
  | DuplicateRole string

datatype client_error =
    APIError (ae_status: int) (ae_body: string)
  | NetFailure net_error
  | URLInvalid
  | BodyUnread
  | BodyInvalid json_error
  | StrictInvalid json_error
  | StatusRefused int
  | Required string
  | InvalidResponse invalid_response

fun IsRetryable :: "client_error \<Rightarrow> bool" where
  "IsRetryable (APIError st b) = (st = 429 \<or> st \<ge> 500)"
| "IsRetryable e = False"

definition signRequest :: "SDKConfig \<Rightarrow> header \<Rightarrow> header" where
  "signRequest cfg h0 =
     (let h1 = (if ClientID cfg \<noteq> [] then header_set ''X-Iam-Client-Id'' (ClientID cfg) h0 else h0)
      in if ClientSecret cfg \<noteq> []
         then header_set ''Authorization'' (''Basic '' @ base64 (ClientID cfg @ '':'' @ ClientSecret cfg)) h1 else h1)"

definition bearer_sign :: "string \<Rightarrow> header \<Rightarrow> header" where
  "bearer_sign token h = header_set ''Authorization'' (''Bearer '' @ token) h"

definition normalizeBearer :: "string \<Rightarrow> string" where
  "normalizeBearer accessToken = (let token = trim_space accessToken in
     if length token \<ge> 7 \<and> equal_fold (take 7 token) ''Bearer '' then trim_space (drop 7 token) else token)"

section \<open>One exchange\<close>

definition client_request :: "Client \<Rightarrow> string \<Rightarrow> string \<Rightarrow> json option \<Rightarrow> (header \<Rightarrow> header) \<Rightarrow> request" where
  "client_request c m path bdy sign = \<lparr>meth = m, url = ClientEndpoint c @ path,
     headers = sign (header_set ''Accept'' ''application/json''
       (case bdy of None \<Rightarrow> [] | Some _ \<Rightarrow> header_set ''Content-Type'' ''application/json'' [])),
     payload = (case bdy of None \<Rightarrow> [] | Some v \<Rightarrow> marshal v)\<rparr>"

text \<open>
  \<open>json.NewDecoder(resp.Body).Decode(out)\<close>: the first value, even when reading fails behind it; but a
  literal is only complete when something follows or the body ends.
\<close>

fun composite :: "json \<Rightarrow> bool" where
  "composite (JObj ms) = True"
| "composite (JArr vs) = True"
| "composite v = False"

definition decode_into :: "'a filler \<Rightarrow> response \<Rightarrow> 'a \<Rightarrow> client_error option \<times> 'a" where
  "decode_into f resp out = (case decode_first (body resp) of
     None \<Rightarrow> (Some (if read_error resp then BodyUnread else BodyInvalid JsonSyntax), out)
   | Some (v, rest) \<Rightarrow>
       (if read_error resp \<and> rest = [] \<and> \<not> composite v then (Some BodyUnread, out)
        else (let (x, ok) = f v out in (if ok then None else Some (BodyInvalid BadField), x))))"

definition doJSONWithAuth ::
  "runtime \<Rightarrow> ctx \<Rightarrow> Client \<Rightarrow> string \<Rightarrow> string \<Rightarrow> json option \<Rightarrow> 'a filler option \<Rightarrow> (header \<Rightarrow> header) \<Rightarrow>
   'a \<times> world \<Rightarrow> client_error option \<times> 'a \<times> world" where
  "doJSONWithAuth rt cx c m path bdy target sign s = (let (out, w) = s; r = client_request c m path bdy sign in
     if \<not> rt_url_ok rt (url r) then (Some URLInvalid, out, w)
     else (case exchange (rt_net rt) (client_ctx (cl_timeout c) w cx) r w of
       (Inl e, w1) \<Rightarrow> (Some (NetFailure e), out, w1)
     | (Inr resp, w1) \<Rightarrow>
        (if status resp \<ge> 400 then (Some (APIError (status resp) (body resp)), out, w1)
         else (case target of
            None \<Rightarrow> (None, out, w1)
          | Some f \<Rightarrow> (let (e, x) = decode_into f resp out in (e, x, w1))))))"

definition doJSON ::
  "runtime \<Rightarrow> ctx \<Rightarrow> Client \<Rightarrow> string \<Rightarrow> string \<Rightarrow> json option \<Rightarrow> 'a filler option \<Rightarrow>
   'a \<times> world \<Rightarrow> client_error option \<times> 'a \<times> world" where
  "doJSON rt cx c m path bdy target = doJSONWithAuth rt cx c m path bdy target (signRequest (cl_cfg c))"

definition doJSONBearer ::
  "runtime \<Rightarrow> ctx \<Rightarrow> Client \<Rightarrow> string \<Rightarrow> string \<Rightarrow> string \<Rightarrow> json option \<Rightarrow> 'a filler option \<Rightarrow>
   'a \<times> world \<Rightarrow> client_error option \<times> 'a \<times> world" where
  "doJSONBearer rt cx c m path token bdy target = doJSONWithAuth rt cx c m path bdy target (bearer_sign token)"

text \<open>The strict variant reads the whole body and decodes it with \<open>decodeStrictJSON\<close>.\<close>

definition doJSONStrict ::
  "runtime \<Rightarrow> ctx \<Rightarrow> Client \<Rightarrow> string \<Rightarrow> string \<Rightarrow> json option \<Rightarrow> (json \<Rightarrow> 'a \<Rightarrow> 'a option) \<Rightarrow>
   'a \<times> world \<Rightarrow> client_error option \<times> 'a \<times> world" where
  "doJSONStrict rt cx c m path bdy d s =
     (let (out, w) = s; r = client_request c m path bdy (signRequest (cl_cfg c)) in
      if \<not> rt_url_ok rt (url r) then (Some URLInvalid, out, w)
      else (case exchange (rt_net rt) (client_ctx (cl_timeout c) w cx) r w of
        (Inl e, w1) \<Rightarrow> (Some (NetFailure e), out, w1)
      | (Inr resp, w1) \<Rightarrow>
         (if read_error resp then (Some BodyUnread, out, w1)
          else if status resp \<ge> 400 then (Some (APIError (status resp) (body resp)), out, w1)
          else (case decodeStrictJSON d out (body resp) of
             Inl e \<Rightarrow> (Some (StrictInvalid e), out, w1)
           | Inr x \<Rightarrow> (None, x, w1)))))"

section \<open>Retries\<close>

text \<open>What the function given to \<open>backoff.Retry\<close> returns: nil, a permanent error, or another error.\<close>

datatype verdict = Success | Permanent client_error | Again client_error

type_synonym 'a attempt = "'a \<times> world \<Rightarrow> verdict \<times> 'a \<times> world"

text \<open>
  \<open>retry n cx op s\<close> stands for
  \<open>backoff.Retry(op, backoff.WithContext(backoff.WithMaxRetries(exponentialBackoff(), n), cx))\<close>.
  With the intervals of \<open>exponentialBackoff\<close> a wait is at most one and a half times \<open>MaxInterval\<close>.
\<close>

type_synonym 'a retrier = "nat \<Rightarrow> ctx \<Rightarrow> 'a attempt \<Rightarrow> 'a \<times> world \<Rightarrow> client_error option \<times> 'a \<times> world"

definition max_wait :: int where "max_wait = 3 * second"
definition max_elapsed :: int where "max_elapsed = 15 * second"

definition waited :: "'a \<times> world \<Rightarrow> 'a \<times> world \<Rightarrow> bool" where
  "waited s s' \<longleftrightarrow> fst s' = fst s \<and> sent (snd s') = sent (snd s) \<and>
     clock (snd s) \<le> clock (snd s') \<and> clock (snd s') \<le> clock (snd s) + max_wait"

text \<open>
  The documented behaviour: the operation is run at least once; nil and a permanent error end the
  loop; after another error it is given up when there are no retries left, when the context is done,
  or when the next wait would pass \<open>MaxElapsedTime\<close>, with the last error or the error of the context;
  otherwise there is a wait and another attempt.
\<close>

inductive attempts ::
  "int \<Rightarrow> ctx \<Rightarrow> 'a attempt \<Rightarrow> nat \<Rightarrow> 'a \<times> world \<Rightarrow> client_error option \<Rightarrow> 'a \<times> world \<Rightarrow> bool"
  for t0 :: int and cx :: ctx and run :: "'a attempt" where
  success: "run s = (Success, s1) \<Longrightarrow> attempts t0 cx run n s None s1"
| permanent: "run s = (Permanent e, s1) \<Longrightarrow> attempts t0 cx run n s (Some e) s1"
| stopped: "run s = (Again e, s1) \<Longrightarrow>
    n = 0 \<or> expired cx (clock (snd s1)) \<or> max_elapsed < clock (snd s1) - t0 + max_wait \<Longrightarrow>
    attempts t0 cx run n s (Some e) s1"
| cancelled: "run s = (Again e, s1) \<Longrightarrow> waited s1 s2 \<Longrightarrow> expired cx (clock (snd s2)) \<Longrightarrow>
    attempts t0 cx run n s (Some (NetFailure CtxDone)) s2"
| again: "run s = (Again e, s1) \<Longrightarrow> waited s1 s2 \<Longrightarrow> attempts t0 cx run n s2 r s3 \<Longrightarrow>
    attempts t0 cx run (Suc n) s r s3"

definition retry_law :: "'a retrier \<Rightarrow> bool" where
  "retry_law retry \<longleftrightarrow> (\<forall>n cx run s. attempts (clock (snd s)) cx run n s (fst (retry n cx run s)) (snd (retry n cx run s)))"

lemma retry_attempts:
  "retry_law retry \<Longrightarrow> retry n cx run s = (r, s') \<Longrightarrow> attempts (clock (snd s)) cx run n s r s'"
  unfolding retry_law_def by (drule spec [of _ n], drule spec [of _ cx], drule spec [of _ run], drule spec [of _ s]) simp

text \<open>A retrier that never waits satisfies the law.\<close>

fun eager_retry :: "'a retrier" where
  "eager_retry 0 cx run s = (case run s of (Success, s1) \<Rightarrow> (None, s1) | (Permanent e, s1) \<Rightarrow> (Some e, s1)
     | (Again e, s1) \<Rightarrow> (Some e, s1))"
| "eager_retry (Suc n) cx run s = (case run s of (Success, s1) \<Rightarrow> (None, s1) | (Permanent e, s1) \<Rightarrow> (Some e, s1)
     | (Again e, s1) \<Rightarrow> eager_retry n cx run s1)"

lemma waited_refl: "waited s s"
  by (simp add: waited_def max_wait_def)

lemma eager_attempts: "attempts t0 cx run n s (fst (eager_retry n cx run s)) (snd (eager_retry n cx run s))"
proof (induction n arbitrary: s)
  case 0
  obtain v s1 where r: "run s = (v, s1)" by (metis surj_pair)
  then show ?case
    by (cases v) (auto intro: attempts.success attempts.permanent attempts.stopped)
next
  case (Suc n)
  obtain v s1 where r: "run s = (v, s1)" by (metis surj_pair)
  with Suc [of s1] show ?case
    by (cases v) (auto intro: attempts.success attempts.permanent attempts.again waited_refl)
qed

lemma eager_retry_law: "retry_law eager_retry"
  unfolding retry_law_def using eager_attempts by blast

text \<open>The conversion \<open>uint64(c.cfg.MaxRetries)\<close>.\<close>

definition retries_of :: "SDKConfig \<Rightarrow> nat" where
  "retries_of cfg = nat (MaxRetries cfg mod 2 ^ 64)"

text \<open>The plain variants retry everything but a client error.\<close>

definition lenient :: "client_error option \<Rightarrow> verdict" where
  "lenient e = (case e of None \<Rightarrow> Success
     | Some (APIError st b) \<Rightarrow> if IsRetryable (APIError st b) then Again (APIError st b) else Permanent (APIError st b)
     | Some e \<Rightarrow> Again e)"

definition doJSONRetry ::
  "'a retrier \<Rightarrow> runtime \<Rightarrow> ctx \<Rightarrow> Client \<Rightarrow> string \<Rightarrow> string \<Rightarrow> json option \<Rightarrow> 'a filler option \<Rightarrow>
   'a \<times> world \<Rightarrow> client_error option \<times> 'a \<times> world" where
  "doJSONRetry retry rt cx c m path bdy target =
     retry (retries_of (cl_cfg c)) cx (\<lambda>s. apfst lenient (doJSON rt cx c m path bdy target s))"

definition doJSONNoAuthRetry ::
  "'a retrier \<Rightarrow> runtime \<Rightarrow> ctx \<Rightarrow> Client \<Rightarrow> string \<Rightarrow> string \<Rightarrow> json option \<Rightarrow> 'a filler option \<Rightarrow>
   'a \<times> world \<Rightarrow> client_error option \<times> 'a \<times> world" where
  "doJSONNoAuthRetry retry rt cx c m path bdy target =
     retry (retries_of (cl_cfg c)) cx (\<lambda>s. apfst lenient (doJSONWithAuth rt cx c m path bdy target id s))"

definition doJSONBearerRetry ::
  "'a retrier \<Rightarrow> runtime \<Rightarrow> ctx \<Rightarrow> Client \<Rightarrow> string \<Rightarrow> string \<Rightarrow> string \<Rightarrow> json option \<Rightarrow> 'a filler option \<Rightarrow>
   'a \<times> world \<Rightarrow> client_error option \<times> 'a \<times> world" where
  "doJSONBearerRetry retry rt cx c m path token bdy target =
     retry (retries_of (cl_cfg c)) cx (\<lambda>s. apfst lenient (doJSONBearer rt cx c m path token bdy target s))"

text \<open>
  The strict variant also gives up on a context that is done, before and after the attempt, and on a
  body that does not decode.  The client's own timeout counts as the context being done:
  its error is \<open>context.DeadlineExceeded\<close> for \<open>errors.Is\<close>.
\<close>

definition strict_verdict :: "client_error option \<Rightarrow> verdict" where
  "strict_verdict e = (case e of None \<Rightarrow> Success
     | Some (NetFailure CtxDone) \<Rightarrow> Permanent (NetFailure CtxDone)
     | Some (APIError st b) \<Rightarrow> if IsRetryable (APIError st b) then Again (APIError st b) else Permanent (APIError st b)
     | Some (StrictInvalid j) \<Rightarrow> Permanent (StrictInvalid j)
     | Some e \<Rightarrow> Again e)"

definition doJSONStrictRetry ::
  "'a retrier \<Rightarrow> runtime \<Rightarrow> ctx \<Rightarrow> Client \<Rightarrow> string \<Rightarrow> string \<Rightarrow> json option \<Rightarrow> (json \<Rightarrow> 'a \<Rightarrow> 'a option) \<Rightarrow>
   'a \<times> world \<Rightarrow> client_error option \<times> 'a \<times> world" where
  "doJSONStrictRetry retry rt cx c m path bdy d =
     retry (retries_of (cl_cfg c)) cx (\<lambda>s. if expired cx (clock (snd s)) then (Permanent (NetFailure CtxDone), s)
       else apfst strict_verdict (doJSONStrict rt cx c m path bdy d s))"

section \<open>Facts about attempts\<close>

inductive_cases attemptsE: "attempts t0 cx run n s r s'"

text \<open>An invariant of every attempt and every wait is one of the whole loop.\<close>

lemma attempts_invariant:
  assumes "attempts t0 cx run n s r s'"
    and "\<And>k s v s1. I (Suc k) s \<Longrightarrow> run s = (v, s1) \<Longrightarrow> I k s1"
    and "\<And>k s s1. I k s \<Longrightarrow> waited s s1 \<Longrightarrow> I k s1"
    and "\<And>k s. I (Suc k) s \<Longrightarrow> I k s" and "I (Suc n) s"
  shows "I 0 s'"
proof -
  have down: "I k s \<Longrightarrow> I 0 s" for k s
    by (induction k) (auto intro: assms(4))
  show ?thesis
    using assms(1,5)
  proof (induction rule: attempts.induct)
    case (again s e s1 s2 n r s3)
    then show ?case using assms(2,3) by blast
  qed (use assms(2,3) down in blast)+
qed

text \<open>What ends the loop is its last attempt, made in a state that satisfies the invariant.\<close>

lemma attempts_result:
  assumes "attempts t0 cx run n s r s'" and "I s"
    and "\<And>s e s1 s2. I s \<Longrightarrow> run s = (Again e, s1) \<Longrightarrow> waited s1 s2 \<Longrightarrow> I s2"
  shows "\<exists>s0. I s0 \<and> (r = None \<longrightarrow> run s0 = (Success, s')) \<and>
    (\<forall>e. r = Some e \<longrightarrow> run s0 = (Permanent e, s') \<or> run s0 = (Again e, s') \<or>
       e = NetFailure CtxDone \<and> expired cx (clock (snd s')))"
  using assms(1,2)
proof (induction rule: attempts.induct)
  case (again s e s1 s2 n r s3)
  have "I s2" by (rule assms(3) [OF again.prems again.hyps(1,2)])
  then show ?case by (rule again.IH)
qed blast+

text \<open>A permanent error or a success of the first attempt is the result.\<close>

lemma attempts_first:
  "attempts t0 cx run n s r s' \<Longrightarrow> run s = (Success, s1) \<Longrightarrow> r = None \<and> s' = s1"
  "attempts t0 cx run n s r s' \<Longrightarrow> run s = (Permanent e, s1) \<Longrightarrow> r = Some e \<and> s' = s1"
  by (auto elim: attemptsE)

text \<open>Each attempt sends the same request at most once.\<close>

lemma doJSONWithAuth_sent:
  assumes "doJSONWithAuth rt cx c m path bdy target sign s = (e, s1)"
  shows "sent (snd s1) = sent (snd s) \<or> sent (snd s1) = sent (snd s) @ [client_request c m path bdy sign]"
proof -
  let ?r = "client_request c m path bdy sign"
  let ?ex = "exchange (rt_net rt) (client_ctx (cl_timeout c) (snd s) cx) ?r (snd s)"
  have "snd s1 = snd s \<or> snd s1 = snd ?ex"
    using assms
    by (auto simp: doJSONWithAuth_def Let_def split: prod.splits if_splits sum.splits option.splits)
  then show ?thesis by auto
qed

lemma doJSONStrict_sent:
  assumes "doJSONStrict rt cx c m path bdy d s = (e, s1)"
  shows "sent (snd s1) = sent (snd s) \<or>
    sent (snd s1) = sent (snd s) @ [client_request c m path bdy (signRequest (cl_cfg c))]"
proof -
  let ?r = "client_request c m path bdy (signRequest (cl_cfg c))"
  let ?ex = "exchange (rt_net rt) (client_ctx (cl_timeout c) (snd s) cx) ?r (snd s)"
  have "snd s1 = snd s \<or> snd s1 = snd ?ex"
    using assms
    by (auto simp: doJSONStrict_def Let_def split: prod.splits if_splits sum.splits)
  then show ?thesis by auto
qed

text \<open>\<open>sends r n s s'\<close>: from \<open>s\<close> to \<open>s'\<close> the request \<open>r\<close> was sent at most \<open>n\<close> times, and nothing else.\<close>

definition sends :: "request \<Rightarrow> nat \<Rightarrow> world \<Rightarrow> world \<Rightarrow> bool" where
  "sends r n w w' \<longleftrightarrow> (\<exists>k \<le> n. sent w' = sent w @ replicate k r)"

lemma attempts_sends:
  assumes "attempts t0 cx run n s r s'"
    and one: "\<And>s v s1. run s = (v, s1) \<Longrightarrow> sent (snd s1) = sent (snd s) \<or> sent (snd s1) = sent (snd s) @ [q]"
  shows "sends q (Suc n) (snd s) (snd s')"
proof -
  define I where "I = (\<lambda>k (u :: 'a \<times> world). k \<le> Suc n \<and> (\<exists>j \<le> Suc n - k. sent (snd u) = sent (snd s) @ replicate j q))"
  have "I 0 s'"
    using assms(1)
  proof (rule attempts_invariant)
    fix k u v u1
    assume i: "I (Suc k) u" and "run u = (v, u1)"
    then obtain j where j: "k < Suc n" "j \<le> n - k" "sent (snd u) = sent (snd s) @ replicate j q"
      by (auto simp: I_def)
    have "sent (snd u) @ [q] = sent (snd s) @ replicate (Suc j) q"
      using j(3) by (simp add: replicate_append_same)
    then have "\<exists>i \<le> Suc n - k. sent (snd u1) = sent (snd s) @ replicate i q"
      using one [OF \<open>run u = (v, u1)\<close>] j by (metis Suc_diff_le Suc_leD Suc_leI le_SucI not_less_eq_eq Suc_le_mono)
    with j show "I k u1" by (simp add: I_def)
  next
    fix k u u1
    assume "I k u" "waited u u1"
    then show "I k u1" by (simp add: I_def waited_def)
  next
    fix k u
    assume "I (Suc k) u"
    then show "I k u" unfolding I_def by (meson Suc_leD diff_le_mono2 le_SucI le_trans lessI less_imp_le)
  next
    show "I (Suc n) s" unfolding I_def by simp
  qed
  then show ?thesis by (simp add: I_def sends_def)
qed

text \<open>
  Transient failures are survived: if up to \<open>k\<close> attempts fail with a retryable error, each within
  \<open>d\<close>, and there is time for their waits, then the attempt after them decides.  \<open>P k\<close> describes the
  states in which \<open>k\<close> more failures are to come.
\<close>

lemma attempts_progress:
  assumes "attempts t0 cx run n s r s'"
    and fail: "\<And>j s. P (Suc j) s \<Longrightarrow> \<exists>e s1. run s = (Again e, s1) \<and> clock (snd s1) \<le> clock (snd s) + d \<and>
       (\<forall>s2. waited s1 s2 \<longrightarrow> P j s2)"
    and last: "\<And>s. P 0 s \<Longrightarrow> \<exists>s1. run s = (Success, s1) \<and> Q s1"
    and free: "done_at cx = None" and d: "0 \<le> d" and "P k s" and "k \<le> n"
    and "clock (snd s) - t0 + int k * (d + max_wait) \<le> max_elapsed"
  shows "r = None \<and> Q s'"
  using assms(1,6-8)
proof (induction arbitrary: k rule: attempts.induct)
  have notdone: "\<not> expired cx t" for t using free by (simp add: expired_def)
  have clean: "run s = (Again e, s1) \<Longrightarrow> P k s \<Longrightarrow> \<exists>j. k = Suc j \<and> clock (snd s1) \<le> clock (snd s) + d \<and>
      (\<forall>s2. waited s1 s2 \<longrightarrow> P j s2)" for s e s1 k
    using fail last by (cases k) fastforce+
  {
    case (success s s1 n)
    then show ?case using fail [of "k - 1" s] last [of s] by (cases k) fastforce+
  next
    case (permanent s e s1 n)
    then show ?case using fail [of "k - 1" s] last [of s] by (cases k) fastforce+
  next
    case (stopped s e s1 n)
    then obtain j where j: "k = Suc j" "clock (snd s1) \<le> clock (snd s) + d"
      using clean by blast
    then have "int k * (d + max_wait) = int j * (d + max_wait) + d + max_wait"
      by (simp add: algebra_simps)
    moreover have "0 \<le> int j * (d + max_wait)" using d by (simp add: max_wait_def)
    ultimately have False using stopped j notdone by auto
    then show ?case ..
  next
    case (cancelled s e s1 s2 n)
    then show ?case using notdone by simp
  next
    case (again s e s1 s2 n r s3)
    then obtain j where j: "k = Suc j" "clock (snd s1) \<le> clock (snd s) + d" "P j s2"
      using clean by blast
    moreover have "clock (snd s2) \<le> clock (snd s1) + max_wait" using again by (simp add: waited_def)
    moreover have "int k * (d + max_wait) = int j * (d + max_wait) + d + max_wait"
      using j(1) by (simp add: algebra_simps)
    ultimately show ?case using again.IH [of j] again.prems by simp
  }
qed

section \<open>The strict transport\<close>

lemma strict_verdict_simps:
  "strict_verdict e = Success \<longleftrightarrow> e = None"
  by (auto simp: strict_verdict_def split: option.splits client_error.splits net_error.splits)

lemma doJSONStrict_failed:
  assumes "doJSONStrict rt cx c m path bdy d s = (Some e, s1)"
  shows "fst s1 = fst s"
  using assms by (auto simp: doJSONStrict_def Let_def split: prod.splits if_splits sum.splits)

lemma doJSONStrict_success:
  assumes "doJSONStrict rt cx c m path bdy d (out, w) = (None, x, w')"
  obtains resp where "exchange (rt_net rt) (client_ctx (cl_timeout c) w cx)
      (client_request c m path bdy (signRequest (cl_cfg c))) w = (Inr resp, w')"
    "status resp < 400" "\<not> read_error resp" "decodeStrictJSON d out (body resp) = Inr x"
  using assms by (auto simp: doJSONStrict_def Let_def not_le split: prod.splits if_splits sum.splits)

text \<open>
  What a strict request returns was decoded, from the initial value, from one whole response below 400
  to exactly that request.
\<close>

lemma strict_retry_success:
  assumes "retry_law retry"
    and "doJSONStrictRetry retry rt cx c m path bdy d (out, w) = (None, x, w')"
  obtains w0 resp where "exchange (rt_net rt) (client_ctx (cl_timeout c) w0 cx)
      (client_request c m path bdy (signRequest (cl_cfg c))) w0 = (Inr resp, w')"
    "status resp < 400" "\<not> read_error resp" "decodeStrictJSON d out (body resp) = Inr x"
proof -
  let ?run = "\<lambda>s. if expired cx (clock (snd s)) then (Permanent (NetFailure CtxDone), s)
       else apfst strict_verdict (doJSONStrict rt cx c m path bdy d s)"
  have att: "attempts (clock w) cx ?run (retries_of (cl_cfg c)) (out, w) None (x, w')"
    using retry_attempts [OF assms(1) assms(2) [unfolded doJSONStrictRetry_def]] by simp
  have keep: "fst s2 = out" if "fst s = out" and "?run s = (Again e, s1)" and "waited s1 s2" for s e s1 s2
  proof -
    obtain v u where v: "doJSONStrict rt cx c m path bdy d s = (v, u)" by (metis surj_pair)
    with that(2) have "s1 = u" "strict_verdict v = Again e" by (simp_all split: if_splits)
    moreover from this have "\<exists>e'. v = Some e'" by (cases v) (simp_all add: strict_verdict_def)
    ultimately show ?thesis
      using v that(1,3) doJSONStrict_failed [of rt cx c m path bdy d s] by (auto simp: waited_def)
  qed
  have "\<exists>s0. fst s0 = out \<and> ((None :: client_error option) = None \<longrightarrow> ?run s0 = (Success, x, w')) \<and>
    (\<forall>e. None = Some e \<longrightarrow> ?run s0 = (Permanent e, x, w') \<or> ?run s0 = (Again e, x, w') \<or>
       e = NetFailure CtxDone \<and> expired cx (clock (snd (x, w'))))"
    by (rule attempts_result [OF att]) (simp, erule (2) keep)
  then obtain s0 where s0: "fst s0 = out" "?run s0 = (Success, x, w')" by auto
  then obtain v where "strict_verdict v = Success" "doJSONStrict rt cx c m path bdy d (out, snd s0) = (v, x, w')"
    by (cases s0; cases "doJSONStrict rt cx c m path bdy d s0") (auto split: if_splits)
  then show thesis
    using that by (auto simp: strict_verdict_simps elim: doJSONStrict_success)
qed

text \<open>A server that fails transiently \<open>k\<close> times, each time within \<open>d\<close>, and then answers.\<close>

definition recovers :: "network \<Rightarrow> request \<Rightarrow> request list \<Rightarrow> int \<Rightarrow> nat \<Rightarrow> response \<Rightarrow> bool" where
  "recovers net q hist d k resp \<longleftrightarrow>
     (\<forall>j < k. \<exists>t r. net (hist @ replicate j q) q = (t, Inr r) \<and> int t \<le> d \<and> \<not> read_error r \<and>
        IsRetryable (APIError (status r) (body r))) \<and>
     (\<exists>t. net (hist @ replicate k q) q = (t, Inr resp) \<and> int t \<le> d)"

definition answers_within :: "Client \<Rightarrow> int \<Rightarrow> bool" where
  "answers_within c d \<longleftrightarrow> 0 \<le> d \<and> (case cl_timeout c of None \<Rightarrow> True | Some t \<Rightarrow> d < t)"

lemma exchange_within:
  assumes "net (sent w) q = (t, out)" and "int t \<le> d" and "answers_within c d" and "done_at cx = None"
  shows "exchange net (client_ctx (cl_timeout c) w cx) q w = (out, w\<lparr>sent := sent w @ [q], clock := clock w + int t\<rparr>)"
  using assms
  by (auto simp: exchange_def client_ctx_def with_timeout_def answers_within_def split: option.splits)

lemma strict_retry_survives:
  assumes "retry_law retry" and q: "q = client_request c m path bdy (signRequest (cl_cfg c))"
    and "recovers (rt_net rt) q (sent w) d k resp" and "answers_within c d" and "rt_url_ok rt (url q)"
    and "done_at cx = None" and "k \<le> retries_of (cl_cfg c)" and "int k * (d + max_wait) \<le> max_elapsed"
    and "status resp < 400" and "\<not> read_error resp" and "decodeStrictJSON dec out (body resp) = Inr x"
  shows "\<exists>w'. doJSONStrictRetry retry rt cx c m path bdy dec (out, w) = (None, x, w')"
proof -
  let ?run = "\<lambda>s. if expired cx (clock (snd s)) then (Permanent (NetFailure CtxDone), s)
       else apfst strict_verdict (doJSONStrict rt cx c m path bdy dec s)"
  let ?P = "\<lambda>j (s :: 'a \<times> world). j \<le> k \<and> fst s = out \<and> sent (snd s) = sent w @ replicate (k - j) q"
  obtain r s' where res: "doJSONStrictRetry retry rt cx c m path bdy dec (out, w) = (r, s')" by (metis surj_pair)
  have att: "attempts (clock w) cx ?run (retries_of (cl_cfg c)) (out, w) r s'"
    using retry_attempts [OF assms(1) res [unfolded doJSONStrictRetry_def]] by simp
  have alive: "\<not> expired cx t" for t using assms(6) by (simp add: expired_def)
  have "r = None \<and> fst s' = x"
  proof (rule attempts_progress [OF att, where P = ?P and d = d and k = k])
    fix j s
    assume p: "?P (Suc j) s"
    then obtain t r where t: "rt_net rt (sent (snd s)) q = (t, Inr r)" "int t \<le> d" "\<not> read_error r"
        "IsRetryable (APIError (status r) (body r))"
      using assms(3) [unfolded recovers_def, THEN conjunct1, rule_format, of "k - Suc j"] p by auto
    let ?w1 = "(snd s)\<lparr>sent := sent (snd s) @ [q], clock := clock (snd s) + int t\<rparr>"
    have "status r \<ge> 400" using t(4) by auto
    then have "?run s = (Again (APIError (status r) (body r)), out, ?w1)"
      using p t assms(5) alive exchange_within [of "rt_net rt" "snd s" q t "Inr r" d c cx, OF t(1,2) assms(4,6)]
      by (cases s) (simp add: doJSONStrict_def q [symmetric] strict_verdict_def)
    moreover have "sent w @ replicate (k - Suc j) q @ [q] = sent w @ replicate (k - j) q"
      using p by (metis Suc_diff_Suc Suc_le_lessD replicate_Suc replicate_append_same)
    ultimately show "\<exists>e s1. ?run s = (Again e, s1) \<and> clock (snd s1) \<le> clock (snd s) + d \<and> (\<forall>s2. waited s1 s2 \<longrightarrow> ?P j s2)"
      using p t(2) by (intro exI [of _ "APIError (status r) (body r)"] exI [of _ "(out, ?w1)"]) (auto simp: waited_def)
  next
    fix s
    assume p: "?P 0 s"
    then obtain t where t: "rt_net rt (sent (snd s)) q = (t, Inr resp)" "int t \<le> d"
      using assms(3) by (auto simp: recovers_def)
    then show "\<exists>s1. ?run s = (Success, s1) \<and> fst s1 = x"
      using p assms(5,9-11) alive exchange_within [of "rt_net rt" "snd s" q t "Inr resp" d c cx, OF t assms(4,6)]
      by (cases s) (simp add: doJSONStrict_def q [symmetric] strict_verdict_def)
  qed (use assms in \<open>simp_all add: answers_within_def\<close>)
  then show ?thesis using res by (cases s') auto
qed

section \<open>Budget and finality\<close>

text \<open>A success, or an error of the server that is not worth a retry.\<close>

definition final :: "client_error option \<Rightarrow> bool" where
  "final e \<longleftrightarrow> (case e of None \<Rightarrow> True | Some (APIError st b) \<Rightarrow> \<not> IsRetryable (APIError st b) | Some _ \<Rightarrow> False)"

lemma final_verdicts:
  "final e \<Longrightarrow> lenient e = (case e of None \<Rightarrow> Success | Some x \<Rightarrow> Permanent x)"
  "final e \<Longrightarrow> strict_verdict e = (case e of None \<Rightarrow> Success | Some x \<Rightarrow> Permanent x)"
  by (auto simp: final_def lenient_def strict_verdict_def split: option.splits client_error.splits)

lemma retry_sends:
  assumes "retry_law retry"
    and "\<And>s v s1. run s = (v, s1) \<Longrightarrow> sent (snd s1) = sent (snd s) \<or> sent (snd s1) = sent (snd s) @ [q]"
  shows "sends q (Suc n) (snd s) (snd (snd (retry n cx run s)))"
  by (rule attempts_sends [OF retry_attempts [OF assms(1) prod.collapse [symmetric]] assms(2)])

lemma retry_final:
  assumes "retry_law retry" and "run s = (case e of None \<Rightarrow> Success | Some x \<Rightarrow> Permanent x, s1)"
  shows "retry n cx run s = (e, s1)"
proof -
  obtain r s' where r: "retry n cx run s = (r, s')" by (metis surj_pair)
  with attempts_first [OF retry_attempts [OF assms(1) r]] assms(2) show ?thesis
    by (cases e) auto
qed

lemma lenient_sends:
  assumes "retry_law retry"
  shows "sends (client_request c m path bdy sign) (Suc n) (snd s)
    (snd (snd (retry n cx (\<lambda>s. apfst lenient (doJSONWithAuth rt cx c m path bdy target sign s)) s)))"
  using assms by (rule retry_sends) (metis apfst_conv doJSONWithAuth_sent prod.collapse snd_conv)

lemma lenient_final:
  assumes "retry_law retry" and "final (fst (doJSONWithAuth rt cx c m path bdy target sign s))"
  shows "retry n cx (\<lambda>s. apfst lenient (doJSONWithAuth rt cx c m path bdy target sign s)) s =
    doJSONWithAuth rt cx c m path bdy target sign s"
  using retry_final [OF assms(1), of "\<lambda>s. apfst lenient (doJSONWithAuth rt cx c m path bdy target sign s)" s
      "fst (doJSONWithAuth rt cx c m path bdy target sign s)" "snd (doJSONWithAuth rt cx c m path bdy target sign s)"]
    final_verdicts(1) [OF assms(2)] by (simp add: prod_eq_iff)

lemma strict_sends:
  assumes "retry_law retry"
  shows "sends (client_request c m path bdy (signRequest (cl_cfg c))) (Suc (retries_of (cl_cfg c))) (snd s)
    (snd (snd (doJSONStrictRetry retry rt cx c m path bdy d s)))"
  unfolding doJSONStrictRetry_def
proof (rule retry_sends [OF assms])
  fix u v u1
  assume "(if expired cx (clock (snd u)) then (Permanent (NetFailure CtxDone), u)
      else apfst strict_verdict (doJSONStrict rt cx c m path bdy d u)) = (v, u1)"
  then show "sent (snd u1) = sent (snd u) \<or>
      sent (snd u1) = sent (snd u) @ [client_request c m path bdy (signRequest (cl_cfg c))]"
    using doJSONStrict_sent [of rt cx c m path bdy d u] by (cases "doJSONStrict rt cx c m path bdy d u") (auto split: if_splits)
qed

lemma strict_final:
  assumes "retry_law retry" and "\<not> expired cx (clock (snd s))" and "final (fst (doJSONStrict rt cx c m path bdy d s))"
  shows "doJSONStrictRetry retry rt cx c m path bdy d s = doJSONStrict rt cx c m path bdy d s"
  unfolding doJSONStrictRetry_def
  using retry_final [OF assms(1), of "\<lambda>s. if expired cx (clock (snd s)) then (Permanent (NetFailure CtxDone), s)
       else apfst strict_verdict (doJSONStrict rt cx c m path bdy d s)" s
      "fst (doJSONStrict rt cx c m path bdy d s)" "snd (doJSONStrict rt cx c m path bdy d s)"]
    final_verdicts(2) [OF assms(3)] assms(2) by (simp add: prod_eq_iff)

section \<open>Properties\<close>

definition sample_config :: SDKConfig where
  "sample_config = \<lparr>Endpoint = ''https://iam/'', ClientID = ''app'', ClientSecret = ''s'', Audience = ''app'',
     Issuer = ''https://iam'', JWKSRefresh = hour, PermissionCacheTTL = minute, PermissionCacheMax = 10,
     UserProfileCacheTTL = minute, UserProfileCacheMax = 10, DisableUserProfileCache = False,
     cfg_ResolveMode = ResolveOnDemand, cfg_FailMode = FailClose, HTTPTimeout = 5 * second, MaxRetries = 3\<rparr>"

lemma sample_config_fields:
  "Endpoint sample_config = ''https://iam/''" "ClientID sample_config = ''app''" "Audience sample_config = ''app''"
  "Issuer sample_config = ''https://iam''" "JWKSRefresh sample_config = hour" "PermissionCacheTTL sample_config = minute"
  "PermissionCacheMax sample_config = 10" "UserProfileCacheTTL sample_config = minute" "MaxRetries sample_config = 3"
  "DisableUserProfileCache sample_config = False" "cfg_FailMode sample_config = FailClose" "HTTPTimeout sample_config = 5 * second"
  by (simp_all add: sample_config_def)

definition sample_client :: Client where
  "sample_client = \<lparr>cl_cfg = sample_config, cl_timeout = Some (5 * second)\<rparr>"

text \<open>A server that gives one answer to everything, at once.\<close>

definition always :: "response \<Rightarrow> runtime" where
  "always resp = \<lparr>rt_net = (\<lambda>h r. (0, Inr resp)), rt_url_ok = (\<lambda>u. True), rt_text = (\<lambda>f. []), rt_nfc = (\<lambda>s. True)\<rparr>"

abbreviation start :: world where "start \<equiv> \<lparr>sent = [], clock = 0\<rparr>"
abbreviation background :: ctx where "background \<equiv> \<lparr>done_at = None, tie = False\<rparr>"



end
