(* ===== verification/Permission_Client.thy ===== *)
theory Permission_Client
  imports Transport Authz Resolver
begin

text \<open>
  Resolving roles and listing an application's permissions (client.go): the strict checks on what the
  server returns, the two calls over the strict transport, and the shim of sdk.go through which the
  cached resolver uses the client.
\<close>

section \<open>Resolved permission keys\<close>

definition permissionSegment :: "string \<Rightarrow> bool" where
  "permissionSegment s = repeated segment_char 1 128 s"

definition canonicalPermissionSnapshotUUID :: "string \<Rightarrow> bool" where
  "canonicalPermissionSnapshotUUID s = (case split_on (CHR ''-'') s of
     [a, b, c, d, e] \<Rightarrow> repeated lower_hex 8 8 a \<and> repeated lower_hex 4 4 b \<and> repeated lower_hex 4 4 c \<and>
       repeated lower_hex 4 4 d \<and> repeated lower_hex 12 12 e
   | _ \<Rightarrow> False)"

definition valid_resolved_key :: "string \<Rightarrow> bool" where
  "valid_resolved_key key = (case split_on (CHR '':'') key of
     [p0, p1] \<Rightarrow> (p0 = ''*'' \<and> p1 = ''*'') \<or>
       (p0 \<noteq> ''*'' \<and> permissionSegment p0 \<and> (p1 = ''*'' \<or> permissionSegment p1))
   | _ \<Rightarrow> False)"

fun resolved_keys :: "string list \<Rightarrow> string list \<Rightarrow> string list \<Rightarrow> invalid_response + string list" where
  "resolved_keys seen out [] = Inr out"
| "resolved_keys seen out (key # keys) =
     (if \<not> valid_resolved_key key then Inl (MalformedKey key)
      else if key \<in> set seen then Inl (DuplicateKey key)
      else resolved_keys (key # seen) (out @ [key]) keys)"

definition strictResolvedPermissionKeys :: "string list option \<Rightarrow> invalid_response + string list" where
  "strictResolvedPermissionKeys v = (case v of
     None \<Rightarrow> Inl PermissionsMissing | Some keys \<Rightarrow> resolved_keys [] [] keys)"

section \<open>ResolvePermissions\<close>

text \<open>
  A pointer to a slice: JSON null is the nil pointer, and the nil slice never shows behind it.
\<close>

definition dec_slice_ptr :: "(json \<Rightarrow> 'a \<Rightarrow> 'a option) \<Rightarrow> 'a \<Rightarrow> json \<Rightarrow> 'a list option option \<Rightarrow> 'a list option option option" where
  "dec_slice_ptr d zero = dec_ptr (dec_slice d zero) None"

definition slice_of :: "'a list option option \<Rightarrow> 'a list option" where
  "slice_of p = map_option (\<lambda>s. case s of None \<Rightarrow> [] | Some l \<Rightarrow> l) p"

record resolve_wire =
  rw_permissions :: "string list option option"

definition dec_resolve_wire :: "json \<Rightarrow> resolve_wire \<Rightarrow> resolve_wire option" where
  "dec_resolve_wire = dec_struct True [''permissions''] (\<lambda>ms old.
     Option.bind (dec_field (dec_slice_ptr dec_string []) (rw_permissions old) ''permissions'' ms) (\<lambda>p.
     Some \<lparr>rw_permissions = p\<rparr>))"

definition resolve_body :: "string \<Rightarrow> string list \<Rightarrow> json" where
  "resolve_body clientID roles = JObj [(''clientId'', JStr clientID), (''roles'', JArr (map JStr roles))]"

definition zero_resolve :: resolve_wire where "zero_resolve = \<lparr>rw_permissions = None\<rparr>"

definition ResolvePermissions ::
  "resolve_wire retrier \<Rightarrow> runtime \<Rightarrow> ctx \<Rightarrow> Client \<Rightarrow> string \<Rightarrow> string list \<Rightarrow> world \<Rightarrow>
   (client_error + string list) \<times> world" where
  "ResolvePermissions retry rt cx c clientID roles w =
     (if length roles = 0 then (Inr [], w)
      else (case doJSONStrictRetry retry rt cx c ''POST'' ''/open/v1/permissions:resolve''
              (Some (resolve_body clientID roles)) dec_resolve_wire (zero_resolve, w) of
        (Some e, wire, w1) \<Rightarrow> (Inl e, w1)
      | (None, wire, w1) \<Rightarrow> (case strictResolvedPermissionKeys (slice_of (rw_permissions wire)) of
            Inl e \<Rightarrow> (Inl (InvalidResponse e), w1)
          | Inr permissions \<Rightarrow> (Inr permissions, w1))))"

text \<open>\<open>resolverShim\<close> (sdk.go): the client as the resolver sees it, in the context of a request.\<close>

definition resolverShim ::
  "resolve_wire retrier \<Rightarrow> runtime \<Rightarrow> ctx \<Rightarrow> Client \<Rightarrow> client_error resolve_client" where
  "resolverShim retry rt cx c clientID roles w =
     (case ResolvePermissions retry rt cx c clientID roles w of
        (Inl e, w1) \<Rightarrow> (Inl e, w1) | (Inr permissions, w1) \<Rightarrow> (Inr permissions, w1))"

section \<open>ListPermissions\<close>

record PermissionDefinitionDTO =
  pd_Resource :: string
  pd_Action :: string
  pd_Description :: string

record snapshot_role_wire =
  sr_key :: "string option"
  sr_name :: "string option"
  sr_permissions :: "string list option option"

record snapshot_wire =
  sw_applicationId :: "string option"
  sw_clientId :: "string option"
  sw_roles :: "snapshot_role_wire list option option"

definition dec_snapshot_role :: "json \<Rightarrow> snapshot_role_wire \<Rightarrow> snapshot_role_wire option" where
  "dec_snapshot_role = dec_struct True [''key'', ''name'', ''permissions''] (\<lambda>ms old.
     Option.bind (dec_field (dec_ptr dec_string []) (sr_key old) ''key'' ms) (\<lambda>k.
     Option.bind (dec_field (dec_ptr dec_string []) (sr_name old) ''name'' ms) (\<lambda>n.
     Option.bind (dec_field (dec_slice_ptr dec_string []) (sr_permissions old) ''permissions'' ms) (\<lambda>p.
     Some \<lparr>sr_key = k, sr_name = n, sr_permissions = p\<rparr>))))"

definition zero_snapshot_role :: snapshot_role_wire where
  "zero_snapshot_role = \<lparr>sr_key = None, sr_name = None, sr_permissions = None\<rparr>"

definition dec_snapshot :: "json \<Rightarrow> snapshot_wire \<Rightarrow> snapshot_wire option" where
  "dec_snapshot = dec_struct True [''applicationId'', ''clientId'', ''roles''] (\<lambda>ms old.
     Option.bind (dec_field (dec_ptr dec_string []) (sw_applicationId old) ''applicationId'' ms) (\<lambda>a.
     Option.bind (dec_field (dec_ptr dec_string []) (sw_clientId old) ''clientId'' ms) (\<lambda>c.
     Option.bind (dec_field (dec_slice_ptr dec_snapshot_role zero_snapshot_role) (sw_roles old) ''roles'' ms) (\<lambda>r.
     Some \<lparr>sw_applicationId = a, sw_clientId = c, sw_roles = r\<rparr>))))"

definition zero_snapshot :: snapshot_wire where
  "zero_snapshot = \<lparr>sw_applicationId = None, sw_clientId = None, sw_roles = None\<rparr>"

text \<open>\<open>strings.SplitN(key, \":\", 2)\<close> of a key that has a colon.\<close>

definition split_key :: "string \<Rightarrow> PermissionDefinitionDTO" where
  "split_key key = \<lparr>pd_Resource = takeWhile (\<lambda>c. c \<noteq> CHR '':'') key,
     pd_Action = tl (dropWhile (\<lambda>c. c \<noteq> CHR '':'') key), pd_Description = []\<rparr>"

fun snapshot_keys :: "string list \<Rightarrow> PermissionDefinitionDTO list \<Rightarrow> string list \<Rightarrow> string list \<times> PermissionDefinitionDTO list" where
  "snapshot_keys permissionKeys out [] = (permissionKeys, out)"
| "snapshot_keys permissionKeys out (key # keys) =
     (if key \<in> set permissionKeys then snapshot_keys permissionKeys out keys
      else snapshot_keys (key # permissionKeys) (out @ [split_key key]) keys)"

fun snapshot_roles ::
  "string list \<Rightarrow> string list \<Rightarrow> PermissionDefinitionDTO list \<Rightarrow> snapshot_role_wire list \<Rightarrow>
   invalid_response + PermissionDefinitionDTO list" where
  "snapshot_roles roleKeys permissionKeys out [] = Inr out"
| "snapshot_roles roleKeys permissionKeys out (role # roles) =
     (case (sr_key role, sr_name role, slice_of (sr_permissions role)) of
        (Some k, Some n, Some ps) \<Rightarrow>
          (if \<not> permissionSegment k \<or> blank n then Inl RoleIncomplete
           else if k \<in> set roleKeys then Inl (DuplicateRole k)
           else (case strictResolvedPermissionKeys (Some ps) of
                  Inl e \<Rightarrow> Inl e
                | Inr keys \<Rightarrow> (case snapshot_keys permissionKeys out keys of
                    (permissionKeys', out') \<Rightarrow> snapshot_roles (k # roleKeys) permissionKeys' out' roles)))
      | _ \<Rightarrow> Inl RoleIncomplete)"

definition parsePermissionSnapshot :: "snapshot_wire \<Rightarrow> string \<Rightarrow> invalid_response + PermissionDefinitionDTO list" where
  "parsePermissionSnapshot wire clientID =
     (case (sw_applicationId wire, sw_clientId wire, slice_of (sw_roles wire)) of
        (Some a, Some c, Some roles) \<Rightarrow>
          (if \<not> canonicalPermissionSnapshotUUID a \<or> c \<noteq> clientID then Inl SnapshotIncomplete
           else snapshot_roles [] [] [] roles)
      | _ \<Rightarrow> Inl SnapshotIncomplete)"

definition ClientListPermissions ::
  "snapshot_wire retrier \<Rightarrow> runtime \<Rightarrow> ctx \<Rightarrow> Client \<Rightarrow> string \<Rightarrow> world \<Rightarrow>
   (client_error + PermissionDefinitionDTO list) \<times> world" where
  "ClientListPermissions retry rt cx c clientID w =
     (case doJSONStrictRetry retry rt cx c ''GET'' (''/open/v1/apps/'' @ PathEscape clientID @ ''/permissions'')
             None dec_snapshot (zero_snapshot, w) of
        (Some e, wire, w1) \<Rightarrow> (Inl e, w1)
      | (None, wire, w1) \<Rightarrow> (case parsePermissionSnapshot wire clientID of
            Inl e \<Rightarrow> (Inl (InvalidResponse e), w1)
          | Inr permissions \<Rightarrow> (Inr permissions, w1)))"

section \<open>Facts\<close>

text \<open>A key is valid exactly when it is a grant that some target matches.\<close>

lemma permission_segment: "permissionSegment s \<longleftrightarrow> concretePermissionSegment s"
  by (simp add: permissionSegment_def concretePermissionSegment_def)

lemma valid_key_split:
  "valid_resolved_key k \<longleftrightarrow> (\<exists>r a. split_on (CHR '':'') k = [r, a] \<and>
     (r = ''*'' \<and> a = ''*'' \<or> concretePermissionSegment r \<and> (a = ''*'' \<or> concretePermissionSegment a)))"
  unfolding valid_resolved_key_def permission_segment using segment_not_star by (auto split: list.splits)

lemma valid_key_cases:
  "valid_resolved_key k \<longleftrightarrow> k = ''*:*'' \<or>
     (\<exists>r a. k = r @ '':'' @ a \<and> concretePermissionSegment r \<and> (a = ''*'' \<or> concretePermissionSegment a))"
proof
  assume "valid_resolved_key k"
  then show "k = ''*:*'' \<or> (\<exists>r a. k = r @ '':'' @ a \<and> concretePermissionSegment r \<and> (a = ''*'' \<or> concretePermissionSegment a))"
    unfolding valid_key_split split_on_pair_iff by auto
next
  assume h: "k = ''*:*'' \<or> (\<exists>r a. k = r @ '':'' @ a \<and> concretePermissionSegment r \<and> (a = ''*'' \<or> concretePermissionSegment a))"
  have colon: "CHR '':'' \<notin> set a" if "a = ''*'' \<or> concretePermissionSegment a" for a
    using that segment_no_colon by auto
  from h show "valid_resolved_key k"
  proof (elim disjE exE conjE)
    assume k: "k = ''*:*''"
    have "split_on (CHR '':'') ''*:*'' = [''*'', ''*'']" by simp
    then show ?thesis unfolding k valid_key_split by blast
  next
    fix r a
    assume "k = r @ '':'' @ a" "concretePermissionSegment r" "a = ''*''"
    then show ?thesis unfolding valid_key_split split_on_pair_iff using colon segment_no_colon by auto
  next
    fix r a
    assume "k = r @ '':'' @ a" "concretePermissionSegment r" "concretePermissionSegment a"
    then show ?thesis unfolding valid_key_split split_on_pair_iff using segment_no_colon by auto
  qed
qed

lemma valid_key_iff: "valid_resolved_key k \<longleftrightarrow> (\<exists>target. Matches target k)"
proof
  have x: "concretePermissionSegment ''x''" by code_simp
  assume "valid_resolved_key k"
  then show "\<exists>target. Matches target k"
    unfolding valid_key_cases
  proof (elim disjE exE conjE)
    assume "k = ''*:*''"
    with x show ?thesis by (intro exI [of _ "PKey ''x'' ''x''"]) (simp add: Matches_cases IsConcrete_def)
  next
    fix r a
    assume "k = r @ '':'' @ a" "concretePermissionSegment r" "a = ''*''"
    with x show ?thesis by (intro exI [of _ "PKey r ''x''"]) (simp add: Matches_cases IsConcrete_def)
  next
    fix r a
    assume "k = r @ '':'' @ a" "concretePermissionSegment r" "concretePermissionSegment a"
    then show ?thesis by (intro exI [of _ "PKey r a"]) (simp add: Matches_cases IsConcrete_def Authority_def)
  qed
next
  assume "\<exists>target. Matches target k"
  then show "valid_resolved_key k"
    unfolding valid_key_cases Matches_cases IsConcrete_def Authority_def by auto
qed

lemma resolved_keys_Inr:
  "resolved_keys seen out keys = Inr res \<longleftrightarrow>
     res = out @ keys \<and> list_all valid_resolved_key keys \<and> distinct keys \<and> set keys \<inter> set seen = {}"
  by (induction keys arbitrary: seen out) auto

lemma strict_keys_Inr:
  "strictResolvedPermissionKeys v = Inr res \<longleftrightarrow> v = Some res \<and> list_all valid_resolved_key res \<and> distinct res"
  by (cases v) (auto simp: strictResolvedPermissionKeys_def resolved_keys_Inr)

text \<open>Keeping the first occurrence of each element, which is what the snapshot does with its keys.\<close>

definition first_occurrences :: "'a list \<Rightarrow> 'a list" where
  "first_occurrences xs = rev (remdups (rev xs))"

lemma first_occurrences_props [simp]:
  "set (first_occurrences xs) = set xs" "distinct (first_occurrences xs)" "first_occurrences [] = []"
  by (simp_all add: first_occurrences_def)

lemma first_occurrences_snoc:
  "first_occurrences (xs @ [x]) = (if x \<in> set xs then first_occurrences xs else first_occurrences xs @ [x])"
  by (simp add: first_occurrences_def)

lemma snapshot_keys:
  "set permissionKeys = set past \<Longrightarrow> out = map split_key (first_occurrences past) \<Longrightarrow>
   snapshot_keys permissionKeys out keys = (pk, out') \<Longrightarrow>
   set pk = set (past @ keys) \<and> out' = map split_key (first_occurrences (past @ keys))"
proof (induction keys arbitrary: permissionKeys out past)
  case (Cons key keys)
  show ?case
  proof (cases "key \<in> set past")
    case True
    with Cons.prems show ?thesis
      using Cons.IH [of permissionKeys "past @ [key]" out] by (auto simp: first_occurrences_snoc)
  next
    case False
    with Cons.prems show ?thesis
      using Cons.IH [of "key # permissionKeys" "past @ [key]" "out @ [split_key key]"]
      by (auto simp: first_occurrences_snoc)
  qed
qed simp

definition role_ok :: "snapshot_role_wire \<Rightarrow> bool" where
  "role_ok role \<longleftrightarrow> (\<exists>k n ps. sr_key role = Some k \<and> permissionSegment k \<and> sr_name role = Some n \<and> \<not> blank n \<and>
     slice_of (sr_permissions role) = Some ps \<and> list_all valid_resolved_key ps \<and> distinct ps)"

definition role_permissions :: "snapshot_role_wire \<Rightarrow> string list" where
  "role_permissions role = the (slice_of (sr_permissions role))"

lemma snapshot_roles_Inr:
  "set permissionKeys = set past \<Longrightarrow> out = map split_key (first_occurrences past) \<Longrightarrow>
   snapshot_roles roleKeys permissionKeys out roles = Inr res \<longleftrightarrow>
     list_all role_ok roles \<and> distinct (map sr_key roles) \<and> set (map sr_key roles) \<inter> Some ` set roleKeys = {} \<and>
     res = map split_key (first_occurrences (past @ concat (map role_permissions roles)))"
proof (induction roles arbitrary: roleKeys permissionKeys out past)
  case Nil
  then show ?case by auto
next
  case (Cons role roles)
  show ?case
  proof (cases "role_ok role")
    case False
    then have "snapshot_roles roleKeys permissionKeys out (role # roles) \<noteq> Inr res"
      by (auto simp: role_ok_def strict_keys_Inr split: option.splits sum.splits)
    with False show ?thesis by simp
  next
    case True
    then obtain k n ps where r: "sr_key role = Some k" "permissionSegment k" "sr_name role = Some n" "\<not> blank n"
        "slice_of (sr_permissions role) = Some ps" "strictResolvedPermissionKeys (Some ps) = Inr ps"
      by (auto simp: role_ok_def strict_keys_Inr)
    obtain pk out' where sk: "snapshot_keys permissionKeys out ps = (pk, out')" by fastforce
    with snapshot_keys [OF Cons.prems this]
    have next_state: "set pk = set (past @ ps)" "out' = map split_key (first_occurrences (past @ ps))" by blast+
    from r sk have "snapshot_roles roleKeys permissionKeys out (role # roles) =
        (if k \<in> set roleKeys then Inl (DuplicateRole k) else snapshot_roles (k # roleKeys) pk out' roles)"
      by simp
    then show ?thesis
      using Cons.IH [OF next_state, of "k # roleKeys"] r True by (auto simp: role_permissions_def)
  qed
qed

section \<open>Facts about the document\<close>

lemma foldl_bind_None: "foldl (\<lambda>acc v. Option.bind acc (d v)) None vs = None"
  by (induction vs) auto

lemma dec_field_last:
  assumes "dec_field d zero name ms = Some x" and "values_of name ms = vs @ [v]"
  shows "\<exists>old. d v old = Some x"
  using assms by (auto simp: dec_field_def Option.bind_eq_Some_conv split: Option.bind_splits)

lemma dec_strings:
  "dec_items dec_string [] vs = Some ks \<Longrightarrow> [] \<notin> set ks \<Longrightarrow> vs = map JStr ks"
proof (induction vs arbitrary: ks)
  case (Cons v vs)
  then obtain x xs where "dec_string v [] = Some x" "dec_items dec_string [] vs = Some xs" "ks = x # xs"
    by (auto split: option.splits)
  with Cons show ?case by (cases v) auto
qed simp

lemma dec_strings_map: "dec_items dec_string [] (map JStr ks) = Some ks"
  by (induction ks) auto

lemma valid_key_not_Nil: "list_all valid_resolved_key ks \<Longrightarrow> [] \<notin> set ks"
proof
  assume "list_all valid_resolved_key ks" "[] \<in> set ks"
  then have "valid_resolved_key []" by (auto simp: list_all_iff)
  then show False by (simp add: valid_resolved_key_def)
qed

text \<open>The only member the response may have, under any case; of several the last one counts.\<close>

lemma resolve_document:
  assumes "dec_resolve_wire doc zero_resolve = Some wire" and "slice_of (rw_permissions wire) = Some ks"
    and "list_all valid_resolved_key ks"
  shows "\<exists>ms name. doc = JObj (ms @ [(name, JArr (map JStr ks))]) \<and> equal_fold name ''permissions''"
proof (cases doc)
  case (JObj ms)
  with assms(1) have only: "only_fields [''permissions''] ms"
    and dec: "dec_field (dec_slice_ptr dec_string []) None ''permissions'' ms = Some (rw_permissions wire)"
    by (auto simp: dec_resolve_wire_def zero_resolve_def split: if_splits Option.bind_splits)
  have vals: "values_of ''permissions'' ms = map snd ms"
    using only by (auto simp: only_fields_def values_of_def list_all_iff filter_id_conv split: prod.splits)
  have "ms \<noteq> []"
    using dec assms(2) by (auto simp: dec_field_def values_of_def slice_of_def)
  then obtain ms' name v where ms: "ms = ms' @ [(name, v)]" by (metis prod.collapse rev_exhaust)
  with dec vals obtain old where "dec_slice_ptr dec_string [] v old = Some (rw_permissions wire)"
    using dec_field_last [OF dec, of "map snd ms'" v] by auto
  with assms(2) obtain vs where "v = JArr vs" "dec_items dec_string [] vs = Some ks"
    by (cases v; cases old) (auto simp: dec_slice_ptr_def slice_of_def)
  with valid_key_not_Nil [OF assms(3)] dec_strings have "v = JArr (map JStr ks)" by blast
  moreover have "equal_fold name ''permissions''"
    using only ms by (simp add: only_fields_def)
  ultimately show ?thesis using JObj ms by blast
qed (use assms in \<open>auto simp: dec_resolve_wire_def zero_resolve_def slice_of_def\<close>)

lemma resolve_document_decodes:
  "dec_resolve_wire (JObj [(''permissions'', JArr (map JStr ks))]) zero_resolve = Some \<lparr>rw_permissions = Some (Some ks)\<rparr>"
  by (simp add: dec_resolve_wire_def zero_resolve_def dec_slice_ptr_def dec_field_def values_of_def only_fields_def
      dec_strings_map)

text \<open>\<open>answers c clientID roles ks resp\<close>: a response that gives exactly these permissions.\<close>

definition resolve_request :: "Client \<Rightarrow> string \<Rightarrow> string list \<Rightarrow> request" where
  "resolve_request c clientID roles = client_request c ''POST'' ''/open/v1/permissions:resolve''
     (Some (resolve_body clientID roles)) (signRequest (cl_cfg c))"

definition lists_permissions :: "response \<Rightarrow> string list \<Rightarrow> bool" where
  "lists_permissions resp ks \<longleftrightarrow> status resp < 400 \<and>
     (\<exists>ms name. parse_json (body resp) = Some (JObj (ms @ [(name, JArr (map JStr ks))])) \<and>
        equal_fold name ''permissions'')"

text \<open>\<open>grants ks\<close>: every key can match some target, and none occurs twice.\<close>

definition grants :: "string list \<Rightarrow> bool" where
  "grants ks \<longleftrightarrow> distinct ks \<and> (\<forall>k \<in> set ks. \<exists>target. Matches target k)"

lemma strict_keys_grants:
  "strictResolvedPermissionKeys v = Inr ks \<longleftrightarrow> v = Some ks \<and> grants ks"
  by (auto simp: strict_keys_Inr grants_def list_all_iff valid_key_iff)

lemma ResolvePermissions_answer:
  assumes "retry_law retry" and "ResolvePermissions retry rt cx c cid roles w = (Inr ks, w')" and "roles \<noteq> []"
  obtains w0 resp where "exchange (rt_net rt) (client_ctx (cl_timeout c) w0 cx) (resolve_request c cid roles) w0 = (Inr resp, w')"
    "lists_permissions resp ks" "grants ks"
proof -
  obtain wire where run: "doJSONStrictRetry retry rt cx c ''POST'' ''/open/v1/permissions:resolve''
      (Some (resolve_body cid roles)) dec_resolve_wire (zero_resolve, w) = (None, wire, w')"
    and ks: "strictResolvedPermissionKeys (slice_of (rw_permissions wire)) = Inr ks"
    using assms(2,3) by (auto simp: ResolvePermissions_def split: prod.splits option.splits sum.splits)
  from strict_retry_success [OF assms(1) run] obtain w0 resp where
    x: "exchange (rt_net rt) (client_ctx (cl_timeout c) w0 cx) (resolve_request c cid roles) w0 = (Inr resp, w')"
    and st: "status resp < 400" and dec: "decodeStrictJSON dec_resolve_wire zero_resolve (body resp) = Inr wire"
    unfolding resolve_request_def by blast
  from dec obtain doc where "parse_json (body resp) = Some doc" "dec_resolve_wire doc zero_resolve = Some wire"
    by (rule decodeStrictJSON_Inr)
  moreover have "slice_of (rw_permissions wire) = Some ks" "list_all valid_resolved_key ks"
    using ks by (auto simp: strict_keys_Inr)
  ultimately have "lists_permissions resp ks"
    using resolve_document st unfolding lists_permissions_def by blast
  with x ks show thesis using that by (auto simp: strict_keys_grants)
qed

lemma ResolvePermissions_sends:
  assumes "retry_law retry"
  shows "sends (resolve_request c cid roles) (Suc (retries_of (cl_cfg c))) w (snd (ResolvePermissions retry rt cx c cid roles w))"
proof (cases "roles = []")
  case True
  then show ?thesis by (auto simp: ResolvePermissions_def sends_def intro: exI [of _ 0])
next
  case False
  let ?call = "doJSONStrictRetry retry rt cx c ''POST'' ''/open/v1/permissions:resolve'' (Some (resolve_body cid roles))
      dec_resolve_wire (zero_resolve, w)"
  have "snd (ResolvePermissions retry rt cx c cid roles w) = snd (snd ?call)"
    using False by (simp add: ResolvePermissions_def split: prod.splits option.splits sum.splits)
  then show ?thesis
    using strict_sends [OF assms, of c "''POST''" "''/open/v1/permissions:resolve''" "Some (resolve_body cid roles)"
        "(zero_resolve, w)" rt cx dec_resolve_wire]
    by (simp add: resolve_request_def)
qed

text \<open>
  The strict layer compares names exactly, encoding/json up to case: two members that differ in case
  pass as one, and the last of them wins.
\<close>

lemma duplicate_member_by_case:
  "dec_resolve_wire (JObj [(''permissions'', JArr [JStr ''posts:read'']), (''Permissions'', JArr [JStr ''*:*''])]) zero_resolve
     = Some \<lparr>rw_permissions = Some (Some [''*:*''])\<rparr> \<and>
   no_dups (JObj [(''permissions'', JArr [JStr ''posts:read'']), (''Permissions'', JArr [JStr ''*:*''])])"
  by (auto simp: dec_resolve_wire_def zero_resolve_def dec_slice_ptr_def decode_eval byte_def)

section \<open>Properties\<close>

definition sample_answer :: response where
  "sample_answer = \<lparr>status = 200, resp_headers = [],
     body = [CHR 0x7B, CHR 0x22] @ ''permissions'' @ [CHR 0x22] @ '':['' @ [CHR 0x22] @
       ''posts:read'' @ [CHR 0x22] @ '']'' @ [CHR 0x7D], read_error = False\<rparr>"

lemma sample_answer_parsed:
  "parse_json (body sample_answer) = Some (JObj [(''permissions'', JArr [JStr ''posts:read''])])"
  by (simp add: sample_answer_def parse_json_def json_eval)

lemma sample_answer_decodes:
  "decodeStrictJSON dec_resolve_wire zero_resolve (body sample_answer) = Inr \<lparr>rw_permissions = Some (Some [''posts:read''])\<rparr>"
proof -
  have "rejectDuplicateJSONMembers (body sample_answer) = Inr (JObj [(''permissions'', JArr (map JStr [''posts:read'']))])"
    using sample_answer_parsed by (simp add: rejectDuplicate_Inr)
  then show ?thesis by (rule decodeStrictJSON_eval) (rule resolve_document_decodes)
qed

lemma posts_read_valid: "grants [''posts:read'']"
proof -
  have "valid_resolved_key ''posts:read''" by code_simp
  then show ?thesis by (simp add: grants_def valid_key_iff)
qed


lemma resolution_at_once:
  assumes "rt_net rt (sent w) (resolve_request sample_client cid roles) = (0, Inr sample_answer)"
    and "rt_url_ok rt (url (resolve_request sample_client cid roles))" and "roles \<noteq> []"
  shows "ResolvePermissions eager_retry rt background sample_client cid roles w
     = (Inr [''posts:read''], w\<lparr>sent := sent w @ [resolve_request sample_client cid roles]\<rparr>)"
proof -
  let ?q = "resolve_request sample_client cid roles"
  have ex: "exchange (rt_net rt) (client_ctx (cl_timeout sample_client) w background) ?q w
      = (Inr sample_answer, w\<lparr>sent := sent w @ [?q]\<rparr>)"
    using exchange_within [of "rt_net rt" w ?q 0 "Inr sample_answer" 0 sample_client background] assms(1)
    by (simp add: answers_within_def sample_client_def)
  have one: "doJSONStrict rt background sample_client ''POST'' ''/open/v1/permissions:resolve''
      (Some (resolve_body cid roles)) dec_resolve_wire (zero_resolve, w)
      = (None, \<lparr>rw_permissions = Some (Some [''posts:read''])\<rparr>, w\<lparr>sent := sent w @ [?q]\<rparr>)"
    unfolding doJSONStrict_def Let_def prod.case resolve_request_def [symmetric] ex
    using assms(2) sample_answer_decodes by (simp add: sample_answer_def)
  then have "doJSONStrictRetry eager_retry rt background sample_client ''POST''
      ''/open/v1/permissions:resolve'' (Some (resolve_body cid roles)) dec_resolve_wire (zero_resolve, w)
      = (None, \<lparr>rw_permissions = Some (Some [''posts:read''])\<rparr>, w\<lparr>sent := sent w @ [?q]\<rparr>)"
    by (subst strict_final [OF eager_retry_law]) (simp_all add: expired_def final_def)
  moreover have "strictResolvedPermissionKeys (Some [''posts:read'']) = Inr [''posts:read'']"
    using posts_read_valid by (simp add: strict_keys_grants)
  ultimately show ?thesis
    using assms(3) by (simp add: ResolvePermissions_def slice_of_def)
qed

lemma sample_resolution:
  "ResolvePermissions eager_retry (always sample_answer) background sample_client ''app'' [''admin''] start
     = (Inr [''posts:read''], start\<lparr>sent := [resolve_request sample_client ''app'' [''admin'']]\<rparr>)"
  using resolution_at_once [of "always sample_answer" start "''app''" "[''admin'']"] by (simp add: always_def)


text \<open>
  C18. Transient failures do not surface.  If the server answers the request with 429 or a 5xx status
  at most \<open>MaxRetries\<close> times, each answer within \<open>d\<close> (less than the client's timeout) and few enough
  for their waits to fit into the fifteen seconds, and then with a valid list of grants, then the call
  returns that list.
\<close>

theorem ResolvePermissions_survives:
  assumes "retry_law retry" and "roles \<noteq> []"
    and "recovers (rt_net rt) (resolve_request c cid roles) (sent w) d k resp"
    and "answers_within c d" and "rt_url_ok rt (url (resolve_request c cid roles))" and "done_at cx = None"
    and "k \<le> retries_of (cl_cfg c)" and "int k * (d + max_wait) \<le> max_elapsed"
    and "status resp < 400" and "\<not> read_error resp" and "grants ks"
    and "parse_json (body resp) = Some (JObj [(''permissions'', JArr (map JStr ks))])"
  shows "fst (ResolvePermissions retry rt cx c cid roles w) = Inr ks"
proof -
  have "rejectDuplicateJSONMembers (body resp) = Inr (JObj [(''permissions'', JArr (map JStr ks))])"
    using assms(12) by (auto simp: rejectDuplicate_Inr)
  then have "decodeStrictJSON dec_resolve_wire zero_resolve (body resp) = Inr \<lparr>rw_permissions = Some (Some ks)\<rparr>"
    by (rule decodeStrictJSON_eval) (rule resolve_document_decodes)
  from strict_retry_survives [OF assms(1) resolve_request_def assms(3-10) this]
  obtain w' where "doJSONStrictRetry retry rt cx c ''POST'' ''/open/v1/permissions:resolve''
      (Some (resolve_body cid roles)) dec_resolve_wire (zero_resolve, w) = (None, \<lparr>rw_permissions = Some (Some ks)\<rparr>, w')"
    by auto
  moreover have "strictResolvedPermissionKeys (Some ks) = Inr ks"
    using assms(11) by (simp add: strict_keys_grants)
  ultimately show ?thesis
    using assms(2) by (simp add: ResolvePermissions_def slice_of_def)
qed

text \<open>A server that is busy until the third request.\<close>

definition busy_server :: runtime where
  "busy_server = (always sample_answer)\<lparr>rt_net := (\<lambda>h r. (1000000000, Inr (if length h < 2
     then \<lparr>status = 503, resp_headers = [], body = ''busy'', read_error = False\<rparr> else sample_answer)))\<rparr>"

theorem ResolvePermissions_survives_witness:
  "fst (ResolvePermissions eager_retry busy_server background sample_client ''app'' [''admin''] start) = Inr [''posts:read'']"
proof (rule ResolvePermissions_survives [OF eager_retry_law, where d = second and k = 2 and resp = sample_answer])
  show "recovers (rt_net busy_server) (resolve_request sample_client ''app'' [''admin'']) (sent start) second 2 sample_answer"
    by (auto simp: recovers_def busy_server_def)
  show "answers_within sample_client second" "2 \<le> retries_of (cl_cfg sample_client)"
    "int 2 * (second + max_wait) \<le> max_elapsed" "status sample_answer < 400" "\<not> read_error sample_answer"
    by (simp_all add: answers_within_def sample_client_def retries_of_def sample_config_def max_wait_def
        max_elapsed_def sample_answer_def)
qed (use posts_read_valid sample_answer_parsed in \<open>simp_all add: busy_server_def always_def\<close>)

text \<open>
  The snapshot of an application's permissions is accepted exactly when it carries a canonical
  application id, the client it was asked for and roles with distinct well-formed keys, non-blank
  names and valid, repetition-free permissions; its result is then the permissions of all roles in
  the order of their first occurrence, each once, split into resource and action.
\<close>

lemma parsePermissionSnapshot_iff:
  "parsePermissionSnapshot wire cid = Inr res \<longleftrightarrow>
     (\<exists>a roles. sw_applicationId wire = Some a \<and> canonicalPermissionSnapshotUUID a \<and> sw_clientId wire = Some cid \<and>
        slice_of (sw_roles wire) = Some roles \<and> list_all role_ok roles \<and> distinct (map sr_key roles) \<and>
        res = map split_key (first_occurrences (concat (map role_permissions roles))))"
  using snapshot_roles_Inr [of "[]" "[]" "[]" "[]"]
  by (auto simp: parsePermissionSnapshot_def split: option.splits if_splits)

end
