(* ===== verification/Account_Client.thy ===== *)
theory Account_Client
  imports Transport
begin

text \<open>
  The account operations of \<open>Client\<close> (client.go): the current user's profile, security, sessions,
  Organizations and permissions with a bearer token, and the public flows for email verification,
  password reset and invitations without credentials.

  Each operation decodes into one variable, which the retries share; \<open>zero_T\<close> is the zero value of
  the type and \<open>fill_T\<close> its decoding.
\<close>

section \<open>Data\<close>

record AccountOrganization =
  ao_OrganizationID :: string
  ao_Name :: string
  ao_Slug :: string
  ao_Role :: string
  ao_JoinedAt :: string
  ao_Current :: bool

definition fill_AccountOrganization :: "AccountOrganization filler" where
  "fill_AccountOrganization = fill_struct [
     (''organizationId'', field ao_OrganizationID ao_OrganizationID_update fill_string),
     (''name'', field ao_Name ao_Name_update fill_string),
     (''slug'', field ao_Slug ao_Slug_update fill_string),
     (''role'', field ao_Role ao_Role_update fill_string),
     (''joinedAt'', field ao_JoinedAt ao_JoinedAt_update fill_string),
     (''current'', field ao_Current ao_Current_update fill_bool)]"

definition zero_AccountOrganization :: AccountOrganization where
  "zero_AccountOrganization = \<lparr>ao_OrganizationID = [], ao_Name = [], ao_Slug = [], ao_Role = [], ao_JoinedAt = [],
     ao_Current = False\<rparr>"

record UserProfile =
  up_UserID :: string
  up_ApplicationID :: string
  up_GlobalIdentityID :: "string option"
  up_Email :: "string option"
  up_EmailVerified :: bool
  up_Username :: "string option"
  up_DisplayName :: "string option"
  up_AvatarURL :: "string option"
  up_Status :: string
  up_CreatedAt :: string
  up_UpdatedAt :: string
  up_CurrentOrganization :: "AccountOrganization option"

definition fill_UserProfile :: "UserProfile filler" where
  "fill_UserProfile = fill_struct [
     (''userId'', field up_UserID up_UserID_update fill_string),
     (''applicationId'', field up_ApplicationID up_ApplicationID_update fill_string),
     (''globalIdentityId'', field up_GlobalIdentityID up_GlobalIdentityID_update (fill_ptr fill_string [])),
     (''email'', field up_Email up_Email_update (fill_ptr fill_string [])),
     (''emailVerified'', field up_EmailVerified up_EmailVerified_update fill_bool),
     (''username'', field up_Username up_Username_update (fill_ptr fill_string [])),
     (''displayName'', field up_DisplayName up_DisplayName_update (fill_ptr fill_string [])),
     (''avatarUrl'', field up_AvatarURL up_AvatarURL_update (fill_ptr fill_string [])),
     (''status'', field up_Status up_Status_update fill_string),
     (''createdAt'', field up_CreatedAt up_CreatedAt_update fill_string),
     (''updatedAt'', field up_UpdatedAt up_UpdatedAt_update fill_string),
     (''currentOrganization'', field up_CurrentOrganization up_CurrentOrganization_update (fill_ptr fill_AccountOrganization zero_AccountOrganization))]"

definition zero_UserProfile :: UserProfile where
  "zero_UserProfile = \<lparr>up_UserID = [], up_ApplicationID = [], up_GlobalIdentityID = None, up_Email = None,
     up_EmailVerified = False, up_Username = None, up_DisplayName = None, up_AvatarURL = None,
     up_Status = [], up_CreatedAt = [], up_UpdatedAt = [], up_CurrentOrganization = None\<rparr>"

record AccountSecuritySummary =
  ss_EmailVerified :: bool
  ss_PasswordCredentialPresent :: bool
  ss_MFAEnrolled :: bool
  ss_TOTPEnrolled :: bool
  ss_WebAuthnEnrolled :: bool
  ss_ActiveSessionCount :: int

definition fill_AccountSecuritySummary :: "AccountSecuritySummary filler" where
  "fill_AccountSecuritySummary = fill_struct [
     (''emailVerified'', field ss_EmailVerified ss_EmailVerified_update fill_bool),
     (''passwordCredentialPresent'', field ss_PasswordCredentialPresent ss_PasswordCredentialPresent_update fill_bool),
     (''mfaEnrolled'', field ss_MFAEnrolled ss_MFAEnrolled_update fill_bool),
     (''totpEnrolled'', field ss_TOTPEnrolled ss_TOTPEnrolled_update fill_bool),
     (''webAuthnEnrolled'', field ss_WebAuthnEnrolled ss_WebAuthnEnrolled_update fill_bool),
     (''activeSessionCount'', field ss_ActiveSessionCount ss_ActiveSessionCount_update fill_int)]"

definition zero_AccountSecuritySummary :: AccountSecuritySummary where
  "zero_AccountSecuritySummary = \<lparr>ss_EmailVerified = False, ss_PasswordCredentialPresent = False, ss_MFAEnrolled = False,
     ss_TOTPEnrolled = False, ss_WebAuthnEnrolled = False, ss_ActiveSessionCount = 0\<rparr>"

record EmailVerificationResponse =
  ev_Message :: string
  ev_RetryAfterSeconds :: "int option"

definition fill_EmailVerificationResponse :: "EmailVerificationResponse filler" where
  "fill_EmailVerificationResponse = fill_struct [
     (''message'', field ev_Message ev_Message_update fill_string),
     (''retryAfterSeconds'', field ev_RetryAfterSeconds ev_RetryAfterSeconds_update (fill_ptr fill_int 0))]"

definition zero_EmailVerificationResponse :: EmailVerificationResponse where
  "zero_EmailVerificationResponse = \<lparr>ev_Message = [], ev_RetryAfterSeconds = None\<rparr>"

record SessionView =
  sv_SessionID :: string
  sv_IPAddress :: string
  sv_UserAgent :: string
  sv_DeviceID :: string
  sv_CreatedAt :: string
  sv_LastSeenAt :: string
  sv_Current :: bool

definition fill_SessionView :: "SessionView filler" where
  "fill_SessionView = fill_struct [
     (''sessionId'', field sv_SessionID sv_SessionID_update fill_string),
     (''ipAddress'', field sv_IPAddress sv_IPAddress_update fill_string),
     (''userAgent'', field sv_UserAgent sv_UserAgent_update fill_string),
     (''deviceId'', field sv_DeviceID sv_DeviceID_update fill_string),
     (''createdAt'', field sv_CreatedAt sv_CreatedAt_update fill_string),
     (''lastSeenAt'', field sv_LastSeenAt sv_LastSeenAt_update fill_string),
     (''current'', field sv_Current sv_Current_update fill_bool)]"

definition zero_SessionView :: SessionView where
  "zero_SessionView = \<lparr>sv_SessionID = [], sv_IPAddress = [], sv_UserAgent = [], sv_DeviceID = [], sv_CreatedAt = [],
     sv_LastSeenAt = [], sv_Current = False\<rparr>"

record AccountPermissionSummary =
  ps_ApplicationID :: string
  ps_OrganizationID :: string
  ps_Roles :: "string list option"
  ps_Permissions :: "string list option"

definition fill_AccountPermissionSummary :: "AccountPermissionSummary filler" where
  "fill_AccountPermissionSummary = fill_struct [
     (''applicationId'', field ps_ApplicationID ps_ApplicationID_update fill_string),
     (''organizationId'', field ps_OrganizationID ps_OrganizationID_update fill_string),
     (''roles'', field ps_Roles ps_Roles_update (fill_slice fill_string [])),
     (''permissions'', field ps_Permissions ps_Permissions_update (fill_slice fill_string []))]"

definition zero_AccountPermissionSummary :: AccountPermissionSummary where
  "zero_AccountPermissionSummary = \<lparr>ps_ApplicationID = [], ps_OrganizationID = [], ps_Roles = None, ps_Permissions = None\<rparr>"

record PermissionCheckResponse =
  pc_ApplicationID :: string
  pc_OrganizationID :: string
  pc_Permission :: string
  pc_Allowed :: bool
  pc_Roles :: "string list option"

definition fill_PermissionCheckResponse :: "PermissionCheckResponse filler" where
  "fill_PermissionCheckResponse = fill_struct [
     (''applicationId'', field pc_ApplicationID pc_ApplicationID_update fill_string),
     (''organizationId'', field pc_OrganizationID pc_OrganizationID_update fill_string),
     (''permission'', field pc_Permission pc_Permission_update fill_string),
     (''allowed'', field pc_Allowed pc_Allowed_update fill_bool),
     (''roles'', field pc_Roles pc_Roles_update (fill_slice fill_string []))]"

definition zero_PermissionCheckResponse :: PermissionCheckResponse where
  "zero_PermissionCheckResponse = \<lparr>pc_ApplicationID = [], pc_OrganizationID = [], pc_Permission = [], pc_Allowed = False,
     pc_Roles = None\<rparr>"

record OrganizationSwitchResponse =
  os_OrganizationID :: string
  os_Continuation :: string
  os_TokenRefreshRequired :: bool
  os_Message :: string

definition fill_OrganizationSwitchResponse :: "OrganizationSwitchResponse filler" where
  "fill_OrganizationSwitchResponse = fill_struct [
     (''organizationId'', field os_OrganizationID os_OrganizationID_update fill_string),
     (''continuation'', field os_Continuation os_Continuation_update fill_string),
     (''tokenRefreshRequired'', field os_TokenRefreshRequired os_TokenRefreshRequired_update fill_bool),
     (''message'', field os_Message os_Message_update fill_string)]"

definition zero_OrganizationSwitchResponse :: OrganizationSwitchResponse where
  "zero_OrganizationSwitchResponse = \<lparr>os_OrganizationID = [], os_Continuation = [], os_TokenRefreshRequired = False, os_Message = []\<rparr>"

record PublicOrganizationInvitationPreview =
  ip_ApplicationID :: string
  ip_ApplicationName :: string
  ip_OrganizationID :: string
  ip_OrganizationName :: string
  ip_InviteeEmail :: string
  ip_Role :: string
  ip_Status :: string
  ip_ExpiresAt :: string

definition fill_PublicOrganizationInvitationPreview :: "PublicOrganizationInvitationPreview filler" where
  "fill_PublicOrganizationInvitationPreview = fill_struct [
     (''applicationId'', field ip_ApplicationID ip_ApplicationID_update fill_string),
     (''applicationName'', field ip_ApplicationName ip_ApplicationName_update fill_string),
     (''organizationId'', field ip_OrganizationID ip_OrganizationID_update fill_string),
     (''organizationName'', field ip_OrganizationName ip_OrganizationName_update fill_string),
     (''inviteeEmail'', field ip_InviteeEmail ip_InviteeEmail_update fill_string),
     (''role'', field ip_Role ip_Role_update fill_string),
     (''status'', field ip_Status ip_Status_update fill_string),
     (''expiresAt'', field ip_ExpiresAt ip_ExpiresAt_update fill_string)]"

definition zero_PublicOrganizationInvitationPreview :: PublicOrganizationInvitationPreview where
  "zero_PublicOrganizationInvitationPreview = \<lparr>ip_ApplicationID = [], ip_ApplicationName = [], ip_OrganizationID = [],
     ip_OrganizationName = [], ip_InviteeEmail = [], ip_Role = [], ip_Status = [], ip_ExpiresAt = []\<rparr>"

record PublicOrganizationInvitationAcceptResponse =
  ia_Status :: string
  ia_Continuation :: string
  ia_ApplicationID :: string
  ia_OrganizationID :: string
  ia_OrganizationName :: string
  ia_Role :: string
  ia_AcceptedAt :: string

definition fill_PublicOrganizationInvitationAcceptResponse :: "PublicOrganizationInvitationAcceptResponse filler" where
  "fill_PublicOrganizationInvitationAcceptResponse = fill_struct [
     (''status'', field ia_Status ia_Status_update fill_string),
     (''continuation'', field ia_Continuation ia_Continuation_update fill_string),
     (''applicationId'', field ia_ApplicationID ia_ApplicationID_update fill_string),
     (''organizationId'', field ia_OrganizationID ia_OrganizationID_update fill_string),
     (''organizationName'', field ia_OrganizationName ia_OrganizationName_update fill_string),
     (''role'', field ia_Role ia_Role_update fill_string),
     (''acceptedAt'', field ia_AcceptedAt ia_AcceptedAt_update fill_string)]"

definition zero_PublicOrganizationInvitationAcceptResponse :: PublicOrganizationInvitationAcceptResponse where
  "zero_PublicOrganizationInvitationAcceptResponse = \<lparr>ia_Status = [], ia_Continuation = [], ia_ApplicationID = [], ia_OrganizationID = [],
     ia_OrganizationName = [], ia_Role = [], ia_AcceptedAt = []\<rparr>"


text \<open>Requests: \<open>omitempty\<close> drops an empty string.\<close>

definition omit_empty :: "string \<Rightarrow> string \<Rightarrow> members" where
  "omit_empty name v = (if v = [] then [] else [(name, JStr v)])"

record AccountUpdateProfileRequest =
  ar_DisplayName :: string
  ar_AvatarURL :: string

record PasswordChangeRequest =
  pr_CurrentPassword :: string
  pr_NewPassword :: string

definition update_profile_json :: "AccountUpdateProfileRequest \<Rightarrow> json" where
  "update_profile_json r = JObj (omit_empty ''displayName'' (ar_DisplayName r) @ omit_empty ''avatarUrl'' (ar_AvatarURL r))"

definition password_change_json :: "PasswordChangeRequest \<Rightarrow> json" where
  "password_change_json r = JObj [(''currentPassword'', JStr (pr_CurrentPassword r)), (''newPassword'', JStr (pr_NewPassword r))]"

section \<open>Operations\<close>

type_synonym 'a account_op = "world \<Rightarrow> (client_error + 'a) \<times> world"

text \<open>How the operations end: the variable, unless there was an error.\<close>

definition returned :: "client_error option \<times> 'a \<times> world \<Rightarrow> (client_error + 'a) \<times> world" where
  "returned r = (case r of (e, x, w) \<Rightarrow> (case e of None \<Rightarrow> Inr x | Some e \<Rightarrow> Inl e, w))"

text \<open>How they begin: the token, normalised, or an error before anything is sent.\<close>

definition with_token :: "string \<Rightarrow> (string \<Rightarrow> 'a account_op) \<Rightarrow> 'a account_op" where
  "with_token accessToken f w = (let token = normalizeBearer accessToken in
     if token = [] then (Inl (Required ''access token''), w) else f token w)"

definition needs :: "string \<Rightarrow> string \<Rightarrow> 'a account_op \<Rightarrow> 'a account_op" where
  "needs v what f w = (if v = [] then (Inl (Required what), w) else f w)"

definition bearer_call ::
  "'a retrier \<Rightarrow> runtime \<Rightarrow> ctx \<Rightarrow> Client \<Rightarrow> string \<Rightarrow> string \<Rightarrow> string \<Rightarrow> json option \<Rightarrow> 'a filler option \<Rightarrow> 'a \<Rightarrow> 'a account_op" where
  "bearer_call retry rt cx c m path token bdy target zero w =
     returned (doJSONBearerRetry retry rt cx c m path token bdy target (zero, w))"

definition public_call ::
  "'a retrier \<Rightarrow> runtime \<Rightarrow> ctx \<Rightarrow> Client \<Rightarrow> string \<Rightarrow> string \<Rightarrow> json option \<Rightarrow> 'a filler option \<Rightarrow> 'a \<Rightarrow> 'a account_op" where
  "public_call retry rt cx c m path bdy target zero w =
     returned (doJSONNoAuthRetry retry rt cx c m path bdy target (zero, w))"

definition GetAccountProfile :: "UserProfile retrier \<Rightarrow> runtime \<Rightarrow> ctx \<Rightarrow> Client \<Rightarrow> string \<Rightarrow> UserProfile account_op" where
  "GetAccountProfile retry rt cx c accessToken = with_token accessToken (\<lambda>token.
     bearer_call retry rt cx c ''GET'' ''/api/v1/auth/me/profile'' token None (Some fill_UserProfile) zero_UserProfile)"

definition ClientGetMe :: "UserProfile retrier \<Rightarrow> runtime \<Rightarrow> ctx \<Rightarrow> Client \<Rightarrow> string \<Rightarrow> UserProfile account_op" where
  "ClientGetMe retry rt cx c accessToken = GetAccountProfile retry rt cx c accessToken"

definition ClientUpdateAccountProfile ::
  "UserProfile retrier \<Rightarrow> runtime \<Rightarrow> ctx \<Rightarrow> Client \<Rightarrow> string \<Rightarrow> AccountUpdateProfileRequest \<Rightarrow> UserProfile account_op" where
  "ClientUpdateAccountProfile retry rt cx c accessToken input = with_token accessToken (\<lambda>token.
     bearer_call retry rt cx c ''PATCH'' ''/api/v1/auth/me/profile'' token (Some (update_profile_json input))
       (Some fill_UserProfile) zero_UserProfile)"

definition GetAccountSecuritySummary ::
  "AccountSecuritySummary retrier \<Rightarrow> runtime \<Rightarrow> ctx \<Rightarrow> Client \<Rightarrow> string \<Rightarrow> AccountSecuritySummary account_op" where
  "GetAccountSecuritySummary retry rt cx c accessToken = with_token accessToken (\<lambda>token.
     bearer_call retry rt cx c ''GET'' ''/api/v1/auth/me/security'' token None
       (Some fill_AccountSecuritySummary) zero_AccountSecuritySummary)"

text \<open>A map is encoded with its keys in order.\<close>

definition SendEmailVerification ::
  "EmailVerificationResponse retrier \<Rightarrow> runtime \<Rightarrow> ctx \<Rightarrow> Client \<Rightarrow> string \<Rightarrow> EmailVerificationResponse account_op" where
  "SendEmailVerification retry rt cx c email = needs (trim_space email) ''email''
     (public_call retry rt cx c ''POST'' ''/api/v1/auth/email/verification/send''
       (Some (JObj [(''client_id'', JStr (ClientID (cl_cfg c))), (''email'', JStr email)]))
       (Some fill_EmailVerificationResponse) zero_EmailVerificationResponse)"

definition VerifyEmail ::
  "EmailVerificationResponse retrier \<Rightarrow> runtime \<Rightarrow> ctx \<Rightarrow> Client \<Rightarrow> string \<Rightarrow> EmailVerificationResponse account_op" where
  "VerifyEmail retry rt cx c token = needs (trim_space token) ''verification token''
     (public_call retry rt cx c ''POST'' ''/api/v1/auth/email/verification/verify''
       (Some (JObj [(''token'', JStr (trim_space token))]))
       (Some fill_EmailVerificationResponse) zero_EmailVerificationResponse)"

definition ChangePassword ::
  "unit retrier \<Rightarrow> runtime \<Rightarrow> ctx \<Rightarrow> Client \<Rightarrow> string \<Rightarrow> PasswordChangeRequest \<Rightarrow> unit account_op" where
  "ChangePassword retry rt cx c accessToken input = with_token accessToken (\<lambda>token.
     bearer_call retry rt cx c ''POST'' ''/api/v1/auth/password/change'' token (Some (password_change_json input)) None ())"

definition RequestPasswordReset ::
  "unit retrier \<Rightarrow> runtime \<Rightarrow> ctx \<Rightarrow> Client \<Rightarrow> string \<Rightarrow> string \<Rightarrow> unit account_op" where
  "RequestPasswordReset retry rt cx c email redirectURI = needs (trim_space email) ''email''
     (public_call retry rt cx c ''POST'' ''/api/v1/auth/password/forgot''
       (Some (JObj ([(''client_id'', JStr (ClientID (cl_cfg c))), (''email'', JStr email)] @
         (if trim_space redirectURI \<noteq> [] then [(''redirect_uri'', JStr redirectURI)] else [])))) None ())"

definition ResetPassword ::
  "unit retrier \<Rightarrow> runtime \<Rightarrow> ctx \<Rightarrow> Client \<Rightarrow> string \<Rightarrow> string \<Rightarrow> unit account_op" where
  "ResetPassword retry rt cx c token newPassword = needs (trim_space token) ''reset token''
     (public_call retry rt cx c ''POST'' ''/api/v1/auth/password/reset''
       (Some (JObj [(''newPassword'', JStr newPassword), (''token'', JStr (trim_space token))])) None ())"

definition ListAccountSessions ::
  "SessionView list option retrier \<Rightarrow> runtime \<Rightarrow> ctx \<Rightarrow> Client \<Rightarrow> string \<Rightarrow> SessionView list option account_op" where
  "ListAccountSessions retry rt cx c accessToken = with_token accessToken (\<lambda>token.
     bearer_call retry rt cx c ''GET'' ''/api/v1/auth/sessions'' token None
       (Some (fill_slice fill_SessionView zero_SessionView)) None)"

definition RevokeAccountSession ::
  "unit retrier \<Rightarrow> runtime \<Rightarrow> ctx \<Rightarrow> Client \<Rightarrow> string \<Rightarrow> string \<Rightarrow> unit account_op" where
  "RevokeAccountSession retry rt cx c accessToken sessionID = with_token accessToken (\<lambda>token.
     needs (trim_space sessionID) ''session id''
       (bearer_call retry rt cx c ''DELETE'' (''/api/v1/auth/sessions/'' @ PathEscape (trim_space sessionID)) token None None ()))"

definition RevokeOtherAccountSessions :: "unit retrier \<Rightarrow> runtime \<Rightarrow> ctx \<Rightarrow> Client \<Rightarrow> string \<Rightarrow> unit account_op" where
  "RevokeOtherAccountSessions retry rt cx c accessToken = with_token accessToken (\<lambda>token.
     bearer_call retry rt cx c ''DELETE'' ''/api/v1/auth/sessions'' token None None ())"

definition LogoutAccount :: "unit retrier \<Rightarrow> runtime \<Rightarrow> ctx \<Rightarrow> Client \<Rightarrow> string \<Rightarrow> unit account_op" where
  "LogoutAccount retry rt cx c accessToken = with_token accessToken (\<lambda>token.
     bearer_call retry rt cx c ''POST'' ''/api/v1/auth/logout'' token None None ())"

definition ListAccountOrganizations ::
  "AccountOrganization list option retrier \<Rightarrow> runtime \<Rightarrow> ctx \<Rightarrow> Client \<Rightarrow> string \<Rightarrow> AccountOrganization list option account_op" where
  "ListAccountOrganizations retry rt cx c accessToken = with_token accessToken (\<lambda>token.
     bearer_call retry rt cx c ''GET'' ''/api/v1/auth/me/organizations'' token None
       (Some (fill_slice fill_AccountOrganization zero_AccountOrganization)) None)"

definition GetCurrentAccountOrganization ::
  "AccountOrganization option retrier \<Rightarrow> runtime \<Rightarrow> ctx \<Rightarrow> Client \<Rightarrow> string \<Rightarrow> AccountOrganization option account_op" where
  "GetCurrentAccountOrganization retry rt cx c accessToken = with_token accessToken (\<lambda>token.
     bearer_call retry rt cx c ''GET'' ''/api/v1/auth/me/organizations/current'' token None
       (Some (fill_ptr fill_AccountOrganization zero_AccountOrganization)) None)"

definition SwitchAccountOrganization ::
  "OrganizationSwitchResponse retrier \<Rightarrow> runtime \<Rightarrow> ctx \<Rightarrow> Client \<Rightarrow> string \<Rightarrow> string \<Rightarrow> OrganizationSwitchResponse account_op" where
  "SwitchAccountOrganization retry rt cx c accessToken organizationID = with_token accessToken (\<lambda>token.
     needs (trim_space organizationID) ''organization id''
       (bearer_call retry rt cx c ''POST'' ''/api/v1/auth/me/organizations/current'' token
         (Some (JObj [(''organizationId'', JStr organizationID)]))
         (Some fill_OrganizationSwitchResponse) zero_OrganizationSwitchResponse))"

definition HasAccountOrganizationMembership ::
  "AccountOrganization list option retrier \<Rightarrow> runtime \<Rightarrow> ctx \<Rightarrow> Client \<Rightarrow> string \<Rightarrow> string \<Rightarrow> bool account_op" where
  "HasAccountOrganizationMembership retry rt cx c accessToken organizationID =
     needs (trim_space organizationID) ''organization id'' (\<lambda>w.
       (case ListAccountOrganizations retry rt cx c accessToken w of
          (Inl e, w1) \<Rightarrow> (Inl e, w1)
        | (Inr orgs, w1) \<Rightarrow>
            (Inr (list_ex (\<lambda>org. ao_OrganizationID org = trim_space organizationID)
               (case orgs of None \<Rightarrow> [] | Some l \<Rightarrow> l)), w1)))"

definition GetAccountPermissionSummary ::
  "AccountPermissionSummary retrier \<Rightarrow> runtime \<Rightarrow> ctx \<Rightarrow> Client \<Rightarrow> string \<Rightarrow> string \<Rightarrow> AccountPermissionSummary account_op" where
  "GetAccountPermissionSummary retry rt cx c accessToken organizationID = with_token accessToken (\<lambda>token.
     bearer_call retry rt cx c ''GET''
       (''/api/v1/auth/me/permissions'' @ (if trim_space organizationID \<noteq> []
          then ''?organizationId='' @ QueryEscape (trim_space organizationID) else [])) token None
       (Some fill_AccountPermissionSummary) zero_AccountPermissionSummary)"

definition CheckAccountPermission ::
  "PermissionCheckResponse retrier \<Rightarrow> runtime \<Rightarrow> ctx \<Rightarrow> Client \<Rightarrow> string \<Rightarrow> string \<Rightarrow> string \<Rightarrow> PermissionCheckResponse account_op" where
  "CheckAccountPermission retry rt cx c accessToken permission organizationID = with_token accessToken (\<lambda>token.
     needs (trim_space permission) ''permission''
       (bearer_call retry rt cx c ''POST'' ''/api/v1/auth/me/permissions:check'' token
         (Some (JObj ((if trim_space organizationID \<noteq> [] then [(''organizationId'', JStr (trim_space organizationID))] else []) @
           [(''permission'', JStr (trim_space permission))])))
         (Some fill_PermissionCheckResponse) zero_PermissionCheckResponse))"

definition PreviewOrganizationInvitation ::
  "PublicOrganizationInvitationPreview retrier \<Rightarrow> runtime \<Rightarrow> ctx \<Rightarrow> Client \<Rightarrow> string \<Rightarrow>
   PublicOrganizationInvitationPreview account_op" where
  "PreviewOrganizationInvitation retry rt cx c invitationToken = needs (trim_space invitationToken) ''invitation token''
     (public_call retry rt cx c ''GET'' (''/api/v1/auth/organization-invitations/'' @ PathEscape (trim_space invitationToken))
       None (Some fill_PublicOrganizationInvitationPreview) zero_PublicOrganizationInvitationPreview)"

definition AcceptOrganizationInvitation ::
  "PublicOrganizationInvitationAcceptResponse retrier \<Rightarrow> runtime \<Rightarrow> ctx \<Rightarrow> Client \<Rightarrow> string \<Rightarrow> string \<Rightarrow>
   PublicOrganizationInvitationAcceptResponse account_op" where
  "AcceptOrganizationInvitation retry rt cx c invitationToken accessToken =
     needs (trim_space invitationToken) ''invitation token''
      (let path = ''/api/v1/auth/organization-invitations/'' @ PathEscape (trim_space invitationToken) @ ''/accept'';
           bearer = normalizeBearer accessToken;
           fill = Some fill_PublicOrganizationInvitationAcceptResponse;
           zero = zero_PublicOrganizationInvitationAcceptResponse
       in if bearer = [] then public_call retry rt cx c ''POST'' path (Some (JObj [])) fill zero
          else bearer_call retry rt cx c ''POST'' path bearer (Some (JObj [])) fill zero)"

text \<open>\<open>JWKS\<close>: the body of a key set, as it is.\<close>

definition JWKS :: "runtime \<Rightarrow> ctx \<Rightarrow> Client \<Rightarrow> string \<Rightarrow> string account_op" where
  "JWKS rt cx c jwksURL w =
     (if \<not> rt_url_ok rt jwksURL then (Inl URLInvalid, w)
      else (case exchange (rt_net rt) (client_ctx (cl_timeout c) w cx)
               \<lparr>meth = ''GET'', url = jwksURL, headers = [], payload = []\<rparr> w of
        (Inl e, w1) \<Rightarrow> (Inl (NetFailure e), w1)
      | (Inr resp, w1) \<Rightarrow>
         (if status resp \<ge> 400 then (Inl (StatusRefused (status resp)), w1)
          else if read_error resp then (Inl BodyUnread, w1) else (Inr (body resp), w1))))"

section \<open>Facts\<close>

text \<open>The headers of a request beside those that describe its content.\<close>

definition credentials :: "request \<Rightarrow> header" where
  "credentials q = filter (\<lambda>(k, v). k \<notin> {''Accept'', ''Content-Type''}) (headers q)"

definition bearer_credentials :: "string \<Rightarrow> header" where
  "bearer_credentials accessToken = (if normalizeBearer accessToken = [] then []
     else [(''Authorization'', ''Bearer '' @ normalizeBearer accessToken)])"

text \<open>
  \<open>uses c creds op\<close>: whatever the state, \<open>op\<close> sends one request, to the client's endpoint and with
  exactly these credentials, at most \<open>MaxRetries + 1\<close> times, or nothing.
\<close>

definition uses :: "Client \<Rightarrow> header \<Rightarrow> 'a account_op \<Rightarrow> bool" where
  "uses c creds f \<longleftrightarrow> (\<forall>w. sent (snd (f w)) = sent w \<or>
     (\<exists>q path. sends q (Suc (retries_of (cl_cfg c))) w (snd (f w)) \<and> credentials q = creds \<and>
        url q = ClientEndpoint c @ path))"

lemma credentials_bearer: "credentials (client_request c m path bdy (bearer_sign token)) = [(''Authorization'', ''Bearer '' @ token)]"
  by (cases bdy) (simp_all add: credentials_def client_request_def bearer_sign_def header_set_def)

lemma credentials_none: "credentials (client_request c m path bdy id) = []"
  by (cases bdy) (simp_all add: credentials_def client_request_def header_set_def)

lemma snd_returned: "snd (returned r) = snd (snd r)"
  by (simp add: returned_def split: prod.splits)

lemma uses_bearer:
  assumes "retry_law retry"
  shows "uses c [(''Authorization'', ''Bearer '' @ token)] (bearer_call retry rt cx c m path token bdy target zero)"
  unfolding uses_def
proof (intro allI disjI2 exI conjI)
  fix w
  show "sends (client_request c m path bdy (bearer_sign token)) (Suc (retries_of (cl_cfg c))) w
      (snd (bearer_call retry rt cx c m path token bdy target zero w))"
    using lenient_sends [OF assms, of c m path bdy "bearer_sign token" "retries_of (cl_cfg c)" "(zero, w)" cx rt target]
    by (simp add: bearer_call_def snd_returned doJSONBearerRetry_def doJSONBearer_def)
qed (rule credentials_bearer, simp add: client_request_def)

lemma uses_public:
  assumes "retry_law retry"
  shows "uses c [] (public_call retry rt cx c m path bdy target zero)"
  unfolding uses_def
proof (intro allI disjI2 exI conjI)
  fix w
  show "sends (client_request c m path bdy id) (Suc (retries_of (cl_cfg c))) w
      (snd (public_call retry rt cx c m path bdy target zero w))"
    using lenient_sends [OF assms, of c m path bdy id "retries_of (cl_cfg c)" "(zero, w)" cx rt target]
    by (simp add: public_call_def snd_returned doJSONNoAuthRetry_def)
qed (rule credentials_none, simp add: client_request_def)

lemma uses_needs: "uses c creds f \<Longrightarrow> uses c creds (needs v what f)"
  by (simp add: uses_def needs_def)

lemma uses_with_token:
  assumes "\<And>token. uses c [(''Authorization'', ''Bearer '' @ token)] (f token)"
  shows "uses c (bearer_credentials accessToken) (with_token accessToken f)"
  using assms [of "normalizeBearer accessToken"]
  by (simp add: uses_def with_token_def bearer_credentials_def Let_def)

lemma uses_map:
  assumes "uses c creds f" and "\<And>w. snd (g w) = snd (f w)"
  shows "uses c creds g"
  using assms by (simp add: uses_def)

lemma uses_accept:
  assumes "retry_law retry"
  shows "uses c (bearer_credentials tok) (AcceptOrganizationInvitation retry rt cx c itok tok)"
  unfolding AcceptOrganizationInvitation_def Let_def bearer_credentials_def
  by (rule uses_needs, cases "normalizeBearer tok = []";
      simp only: if_True if_False simp_thms; rule uses_public uses_bearer; rule assms)

lemma uses_organizations:
  "retry_law retry \<Longrightarrow> uses c (bearer_credentials tok) (ListAccountOrganizations retry rt cx c tok)"
  unfolding ListAccountOrganizations_def by (intro uses_with_token uses_bearer)

lemma uses_membership:
  assumes "retry_law retry"
  shows "uses c (bearer_credentials tok) (HasAccountOrganizationMembership retry rt cx c tok org)"
  unfolding HasAccountOrganizationMembership_def
  by (rule uses_needs, rule uses_map [OF uses_organizations [OF assms, of c tok rt cx]]) (simp split: prod.splits sum.splits)

lemmas uses_rules = uses_with_token uses_needs uses_bearer uses_public uses_accept uses_membership

section \<open>Properties\<close>



section \<open>One variable for all attempts\<close>

definition ok_body :: "string \<Rightarrow> response" where
  "ok_body b = \<lparr>status = 200, resp_headers = [], body = b, read_error = False\<rparr>"

text \<open>A first answer with an email address and an id that is not a string, then a good one without the address.\<close>

definition bad_profile :: string where
  "bad_profile = [CHR 0x7B, CHR 0x22] @ ''email'' @ [CHR 0x22] @ '':'' @ [CHR 0x22] @ ''a@x'' @ [CHR 0x22] @ '','' @
     [CHR 0x22] @ ''userId'' @ [CHR 0x22] @ '':5'' @ [CHR 0x7D]"

definition good_profile :: string where
  "good_profile = [CHR 0x7B, CHR 0x22] @ ''userId'' @ [CHR 0x22] @ '':'' @ [CHR 0x22] @ ''u'' @ [CHR 0x22] @ [CHR 0x7D]"

definition two_answers :: runtime where
  "two_answers = (always (ok_body []))\<lparr>rt_net := (\<lambda>h r. (0, Inr (ok_body (if h = [] then bad_profile else good_profile))))\<rparr>"

lemma profiles_parsed:
  "decode_first bad_profile = Some (JObj [(''email'', JStr ''a@x''), (''userId'', JNum ''5'')], [])"
  "decode_first good_profile = Some (JObj [(''userId'', JStr ''u'')], [])"
  by (simp_all add: bad_profile_def good_profile_def json_eval)

lemma profiles_filled:
  "fill_UserProfile (JObj [(''email'', JStr ''a@x''), (''userId'', JNum ''5'')]) p = (p\<lparr>up_Email := Some ''a@x''\<rparr>, False)"
  "fill_UserProfile (JObj [(''userId'', JStr ''u'')]) p = (p\<lparr>up_UserID := ''u''\<rparr>, True)"
  by (simp_all add: fill_UserProfile_def fill_eval)

text \<open>One good answer at once.\<close>

lemma bearer_at_once:
  assumes "retry_law retry" and "q = client_request c m path bdy (bearer_sign token)" and "rt_url_ok rt (url q)"
    and "rt_net rt (sent w) q = (0, Inr (ok_body b))" and "answers_within c 0" and "done_at cx = None"
    and "decode_first b = Some (v, r)" and "f v zero = (x, True)"
  shows "bearer_call retry rt cx c m path token bdy (Some f) zero w = (Inr x, w\<lparr>sent := sent w @ [q]\<rparr>)"
proof -
  have ex: "exchange (rt_net rt) (client_ctx (cl_timeout c) w cx) q w = (Inr (ok_body b), w\<lparr>sent := sent w @ [q]\<rparr>)"
    using exchange_within [of "rt_net rt" w q 0 "Inr (ok_body b)" 0 c cx] assms by simp
  have one: "doJSONWithAuth rt cx c m path bdy (Some f) (bearer_sign token) (zero, w) = (None, x, w\<lparr>sent := sent w @ [q]\<rparr>)"
    using assms by (simp add: doJSONWithAuth_def ex Let_def decode_into_def ok_body_def flip: assms(2))
  then show ?thesis
    using lenient_final [OF assms(1), of rt cx c m path bdy "Some f" "bearer_sign token" "(zero, w)" "retries_of (cl_cfg c)"]
    by (simp add: bearer_call_def returned_def doJSONBearerRetry_def doJSONBearer_def final_def)
qed

lemma two_answers_step:
  "doJSONBearer two_answers background sample_client ''GET'' path tok None (Some fill_UserProfile) (p, w) =
     (let q = client_request sample_client ''GET'' path None (bearer_sign tok); w1 = w\<lparr>sent := sent w @ [q]\<rparr>
      in if sent w = [] then (Some (BodyInvalid BadField), p\<lparr>up_Email := Some ''a@x''\<rparr>, w1)
         else (None, p\<lparr>up_UserID := ''u''\<rparr>, w1))"
  by (simp add: doJSONBearer_def doJSONWithAuth_def two_answers_def always_def exchange_def client_ctx_def
      with_timeout_def sample_client_def decode_into_def ok_body_def profiles_parsed profiles_filled Let_def)

text \<open>
  An answer that fails to decode is not forgotten.  The variable is shared by all attempts and a
  decoding error is retried, so a field of the refused answer shows up in the result although the
  answer that was accepted does not have it.
\<close>

lemma leftover_fields:
  assumes "retry_law retry"
  shows "fst (GetAccountProfile retry two_answers background sample_client ''t'' start) =
    Inr (zero_UserProfile\<lparr>up_Email := Some ''a@x'', up_UserID := ''u''\<rparr>)"
proof -
  let ?path = "''/api/v1/auth/me/profile''"
  let ?run = "\<lambda>s. apfst lenient (doJSONBearer two_answers background sample_client ''GET'' ?path ''t'' None (Some fill_UserProfile) s)"
  let ?P = "\<lambda>(k :: nat) (s :: UserProfile \<times> world). if k = 0 then fst s = zero_UserProfile\<lparr>up_Email := Some ''a@x''\<rparr> \<and> sent (snd s) \<noteq> []
      else k = 1 \<and> fst s = zero_UserProfile \<and> sent (snd s) = []"
  obtain r s' where res: "doJSONBearerRetry retry two_answers background sample_client ''GET'' ?path ''t'' None
      (Some fill_UserProfile) (zero_UserProfile, start) = (r, s')" by (metis surj_pair)
  have att: "attempts (clock start) background ?run (retries_of (cl_cfg sample_client)) (zero_UserProfile, start) r s'"
    using retry_attempts [OF assms res [unfolded doJSONBearerRetry_def]] by simp
  have "r = None \<and> fst s' = zero_UserProfile\<lparr>up_Email := Some ''a@x'', up_UserID := ''u''\<rparr>"
  proof (rule attempts_progress [OF att, where P = ?P and d = 0 and k = 1])
    fix j s
    assume "?P (Suc j) s"
    then show "\<exists>e s1. ?run s = (Again e, s1) \<and> clock (snd s1) \<le> clock (snd s) + 0 \<and> (\<forall>s2. waited s1 s2 \<longrightarrow> ?P j s2)"
      by (cases s) (auto simp: two_answers_step lenient_def waited_def Let_def)
  next
    fix s
    assume "?P 0 s"
    then show "\<exists>s1. ?run s = (Success, s1) \<and> fst s1 = zero_UserProfile\<lparr>up_Email := Some ''a@x'', up_UserID := ''u''\<rparr>"
      by (cases s) (auto simp: two_answers_step lenient_def Let_def)
  qed (simp_all add: retries_of_def sample_client_def sample_config_def max_wait_def max_elapsed_def)
  moreover have "normalizeBearer ''t'' = ''t''"
    by (simp add: normalizeBearer_def trim_space_def runes_def byte_def is_space_def)
  ultimately show ?thesis
    using res by (cases s') (simp add: GetAccountProfile_def with_token_def bearer_call_def returned_def Let_def)
qed

lemma leftover_fields_witness:
  "\<exists>p. fst (GetAccountProfile eager_retry two_answers background sample_client ''t'' start) = Inr p \<and>
     up_Email p = Some ''a@x''"
  using leftover_fields [OF eager_retry_law] by simp

end
