(* ===== verification/Sha256.thy ===== *)
theory Sha256
  imports Go_Prelude "HOL-Library.Word"
begin

text \<open>
  The package crypto/sha256 with encoding/hex: FIPS 180-4 on byte strings, over 32-bit words.
  The fingerprints and revisions of the permission manifest and the token keys of the profile cache
  are \<open>hex_encode (sha256 bytes)\<close>.
\<close>

unbundle bit_operations_syntax

type_synonym u32 = "32 word"

definition round_constants :: "u32 list" where
  "round_constants =
     [1116352408, 1899447441, 3049323471, 3921009573, 961987163, 1508970993,
      2453635748, 2870763221, 3624381080, 310598401, 607225278, 1426881987,
      1925078388, 2162078206, 2614888103, 3248222580, 3835390401, 4022224774,
      264347078, 604807628, 770255983, 1249150122, 1555081692, 1996064986,
      2554220882, 2821834349, 2952996808, 3210313671, 3336571891, 3584528711,
      113926993, 338241895, 666307205, 773529912, 1294757372, 1396182291,
      1695183700, 1986661051, 2177026350, 2456956037, 2730485921, 2820302411,
      3259730800, 3345764771, 3516065817, 3600352804, 4094571909, 275423344,
      430227734, 506948616, 659060556, 883997877, 958139571, 1322822218,
      1537002063, 1747873779, 1955562222, 2024104815, 2227730452, 2361852424,
      2428436474, 2756734187, 3204031479, 3329325298]"

definition initial_hash :: "u32 list" where
  "initial_hash =
     [1779033703, 3144134277, 1013904242, 2773480762, 1359893119, 2600822924,
      528734635, 1541459225]"

definition rotr :: "nat \<Rightarrow> u32 \<Rightarrow> u32" where
  "rotr n x = drop_bit n x OR push_bit (32 - n) x"

definition small0 :: "u32 \<Rightarrow> u32" where
  "small0 x = rotr 7 x XOR rotr 18 x XOR drop_bit 3 x"

definition small1 :: "u32 \<Rightarrow> u32" where
  "small1 x = rotr 17 x XOR rotr 19 x XOR drop_bit 10 x"

definition big0 :: "u32 \<Rightarrow> u32" where
  "big0 x = rotr 2 x XOR rotr 13 x XOR rotr 22 x"

definition big1 :: "u32 \<Rightarrow> u32" where
  "big1 x = rotr 6 x XOR rotr 11 x XOR rotr 25 x"

definition choose3 :: "u32 \<Rightarrow> u32 \<Rightarrow> u32 \<Rightarrow> u32" where
  "choose3 e f g = (e AND f) XOR (NOT e AND g)"

definition majority :: "u32 \<Rightarrow> u32 \<Rightarrow> u32 \<Rightarrow> u32" where
  "majority a b c = (a AND b) XOR (a AND c) XOR (b AND c)"

text \<open>The message schedule, newest word first.\<close>

fun schedule :: "nat \<Rightarrow> u32 list \<Rightarrow> u32 list" where
  "schedule 0 ws = ws"
| "schedule (Suc n) ws =
     schedule n ((small1 (ws ! 1) + ws ! 6 + small0 (ws ! 14) + ws ! 15) # ws)"

fun rounds :: "(u32 \<times> u32) list \<Rightarrow> u32 list \<Rightarrow> u32 list" where
  "rounds ((k, w) # kws) [a, b, c, d, e, f, g, h] =
     (let t1 = h + big1 e + choose3 e f g + k + w; t2 = big0 a + majority a b c
      in rounds kws [t1 + t2, a, b, c, d + t1, e, f, g])"
| "rounds _ st = st"

definition compress :: "u32 list \<Rightarrow> u32 list \<Rightarrow> u32 list" where
  "compress st block =
     map2 (+) st (rounds (zip round_constants (rev (schedule 48 (rev block)))) st)"

fun words_of :: "nat list \<Rightarrow> u32 list" where
  "words_of (a # b # c # d # bs) =
     word_of_nat (a * 16777216 + b * 65536 + c * 256 + d) # words_of bs"
| "words_of _ = []"

definition pad :: "nat list \<Rightarrow> nat list" where
  "pad bs = (let n = length bs; z = (119 - n mod 64) mod 64
     in bs @ 128 # replicate z 0 @ rev (map (\<lambda>i. (8 * n) div 256 ^ i mod 256) [0..<8]))"

fun absorb :: "u32 list \<Rightarrow> u32 list \<Rightarrow> u32 list" where
  "absorb st ws = (if length ws < 16 then st else absorb (compress st (take 16 ws)) (drop 16 ws))"

declare absorb.simps [simp del]

definition word_bytes :: "u32 \<Rightarrow> nat list" where
  "word_bytes w = map (\<lambda>i. unat w div 256 ^ i mod 256) [3, 2, 1, 0]"

definition sha256 :: "string \<Rightarrow> nat list" where
  "sha256 s = concat (map word_bytes (absorb initial_hash (words_of (pad (map byte s)))))"

definition hex_digit :: "nat \<Rightarrow> char" where
  "hex_digit n = (if n < 10 then char_of (48 + n) else char_of (87 + n))"

definition hex_encode :: "nat list \<Rightarrow> string" where
  "hex_encode bs = concat (map (\<lambda>b. [hex_digit (b div 16), hex_digit (b mod 16)]) bs)"

definition sha256Hex :: "string \<Rightarrow> string" where
  "sha256Hex s = hex_encode (sha256 s)"

section \<open>The digest is 64 lower-case hexadecimal characters\<close>

lemma length_rounds: "length (rounds kws st) = length st"
  by (induction kws st rule: rounds.induct) (auto simp: Let_def)

lemma length_compress: "length (compress st block) = length st"
  by (simp add: compress_def length_rounds)

lemma length_absorb: "length (absorb st ws) = length st"
  by (induction st ws rule: absorb.induct) (subst absorb.simps, simp add: length_compress)

lemma length_concat_word_bytes: "length (concat (map word_bytes ws)) = 4 * length ws"
  by (induction ws) (auto simp: word_bytes_def)

lemma length_hex_encode: "length (hex_encode bs) = 2 * length bs"
  by (induction bs) (auto simp: hex_encode_def)

lemma lower_hex_digit: "n < 16 \<Longrightarrow> lower_hex (hex_digit n)"
  by (auto simp: lower_hex_def hex_digit_def less_eq_char_def)

lemma hex_encode_lower:
  assumes "\<And>b. b \<in> set bs \<Longrightarrow> b < 256"
  shows "list_all lower_hex (hex_encode bs)"
proof -
  have "lower_hex (hex_digit (b div 16)) \<and> lower_hex (hex_digit (b mod 16))" if "b \<in> set bs" for b
    using assms [OF that] by (auto intro!: lower_hex_digit)
  then show ?thesis
    by (auto simp: hex_encode_def list_all_iff)
qed

lemma sha256Hex_length: "length (sha256Hex s) = 64"
  by (simp add: sha256Hex_def sha256_def length_hex_encode length_concat_word_bytes length_absorb
      initial_hash_def)

lemma sha256Hex_lower: "list_all lower_hex (sha256Hex s)"
  unfolding sha256Hex_def sha256_def
  by (rule hex_encode_lower) (auto simp: word_bytes_def)

end
