(* ===== verification/Sdk.thy ===== *)
theory Sdk
  imports Middleware Permission_Client Account_Client Sha256
begin

text \<open>
  \<open>SDK\<close> (sdk.go): construction with OIDC discovery, the middleware that ties the verifier and the
  resolver together, the profile cache, and the methods that forward to \<open>Client\<close>.

  The caches are ristretto's, parameters with \<open>cache_law\<close>; the two a new SDK starts with are
  parameters too.  Requests are handled one at a time.
\<close>

section \<open>State\<close>

record SDK =
  sdk_cfg :: SDKConfig
  sdk_client :: Client
  sdk_verifier :: Verifier
  sdk_resolver :: HttpResolverOptions
  sdk_has_profiles :: bool
  sdk_profileTTL :: int

record ('k, 'c, 'p) sdk_state =
  s_jwks :: "'k jwks"
  s_perms :: 'c
  s_profiles :: 'p
  s_world :: world

datatype sdk_error = ConfigFault config_error | DiscoveryFault client_error | DiscoveryMissing | JwtFault jwt_error

section \<open>Construction\<close>

definition fill_oidc :: "string filler" where
  "fill_oidc = fill_struct [(''jwks_uri'', fill_string)]"

definition discovery_request :: "Client \<Rightarrow> request" where
  "discovery_request c = \<lparr>meth = ''GET'',
     url = trim_right (CHR ''/'') (ClientEndpoint c) @ ''/.well-known/openid-configuration'', headers = [], payload = []\<rparr>"

definition discoverJWKS :: "runtime \<Rightarrow> ctx \<Rightarrow> Client \<Rightarrow> world \<Rightarrow> (sdk_error + string) \<times> world" where
  "discoverJWKS rt cx c w =
     (if \<not> rt_url_ok rt (url (discovery_request c)) then (Inl (DiscoveryFault URLInvalid), w)
      else (case exchange (rt_net rt) (client_ctx (cl_timeout c) w cx) (discovery_request c) w of
        (Inl e, w1) \<Rightarrow> (Inl (DiscoveryFault (NetFailure e)), w1)
      | (Inr resp, w1) \<Rightarrow>
         (if status resp \<ge> 400 then (Inl (DiscoveryFault (StatusRefused (status resp))), w1)
          else (case decode_into fill_oidc resp [] of
             (Some e, u) \<Rightarrow> (Inl (DiscoveryFault e), w1)
           | (None, u) \<Rightarrow> (if u = [] then (Inl DiscoveryMissing, w1) else (Inr u, w1))))))"

definition buildSDK ::
  "runtime \<Rightarrow> 'c \<Rightarrow> 'p \<Rightarrow> SDKConfig \<Rightarrow> Client \<Rightarrow> world \<Rightarrow> (sdk_error + SDK \<times> ('k, 'c, 'p) sdk_state) \<times> world" where
  "buildSDK rt perms0 profiles0 cfg c w =
     (case discoverJWKS rt background c w of
        (Inl e, w1) \<Rightarrow> (Inl e, w1)
      | (Inr jwks_url, w1) \<Rightarrow>
         (case NewJWKSProvider \<lparr>j_URL = jwks_url, j_Refresh = JWKSRefresh cfg, j_RotationCooldown = 0\<rparr> of
            Inl e \<Rightarrow> (Inl (JwtFault e), w1)
          | Inr jwks \<Rightarrow>
             (case NewVerifier True \<lparr>expectedIssuer = Issuer cfg, expectedAudience = Audience cfg,
                                     allowedAlgorithms = [], leeway = 0\<rparr> of
                Inl e \<Rightarrow> (Inl (JwtFault e), w1)
              | Inr v \<Rightarrow>
                 (Inr (\<lparr>sdk_cfg = cfg, sdk_client = c, sdk_verifier = v,
                        sdk_resolver = NewHttpResolver \<lparr>o_TTL = PermissionCacheTTL cfg, o_MaxEntries = PermissionCacheMax cfg,
                           o_FailOpen = (cfg_FailMode cfg = FailOpen)\<rparr>,
                        sdk_has_profiles = (\<not> DisableUserProfileCache cfg), sdk_profileTTL = UserProfileCacheTTL cfg\<rparr>,
                      \<lparr>s_jwks = jwks, s_perms = perms0, s_profiles = profiles0, s_world = w1\<rparr>), w1))))"

definition New ::
  "runtime \<Rightarrow> 'c \<Rightarrow> 'p \<Rightarrow> SDKConfig option \<Rightarrow> world \<Rightarrow> (sdk_error + SDK \<times> ('k, 'c, 'p) sdk_state) \<times> world" where
  "New rt perms0 profiles0 cfg w = (case Validate cfg of
     Inl e \<Rightarrow> (Inl (ConfigFault e), w)
   | Inr cfg1 \<Rightarrow> (case NewClient (Some cfg1) of
        Inl e \<Rightarrow> (Inl (ConfigFault e), w)
      | Inr c \<Rightarrow> buildSDK rt perms0 profiles0 (cl_cfg c) c w))"

section \<open>The middleware\<close>

text \<open>\<open>SDK.FromContext\<close> is that of \<open>authz\<close>; \<open>MustUser\<close> has its error as \<open>None\<close>.\<close>

definition MustUser :: "user_ctx \<Rightarrow> unit + User" where
  "MustUser uc = (case FromContext uc of None \<Rightarrow> Inl () | Some u \<Rightarrow> Inr u)"

text \<open>The parts of the state that the verifier and the resolver work on.\<close>

definition sdk_key ::
  "runtime \<Rightarrow> (string \<Rightarrow> 'k list option) \<Rightarrow> ('k \<Rightarrow> string) \<Rightarrow> ctx \<Rightarrow> Client \<Rightarrow> string \<Rightarrow>
   ('k, 'c, 'p) sdk_state \<Rightarrow> (jwt_error + 'k) \<times> ('k, 'c, 'p) sdk_state" where
  "sdk_key rt parse_set key_id cx c kid s =
     (case KeyByID (rt_net rt) parse_set key_id (client_ctx (cl_timeout c) (s_world s) cx) kid (s_jwks s, s_world s) of
        (r, p, w) \<Rightarrow> (r, s\<lparr>s_jwks := p, s_world := w\<rparr>))"

definition sdk_verify ::
  "('t, 'k) jose \<Rightarrow> runtime \<Rightarrow> (string \<Rightarrow> 'k list option) \<Rightarrow> ('k \<Rightarrow> string) \<Rightarrow> ctx \<Rightarrow> SDK \<Rightarrow> string \<Rightarrow>
   ('k, 'c, 'p) sdk_state \<Rightarrow> (jwt_error + Claims) \<times> ('k, 'c, 'p) sdk_state" where
  "sdk_verify j rt parse_set key_id cx sdk token s =
     Verify j (sdk_key rt parse_set key_id cx (sdk_client sdk)) (\<lambda>s. clock (s_world s)) (sdk_verifier sdk) token s"

definition sdk_resolve ::
  "('c, string list) cache_ops \<Rightarrow> resolve_wire retrier \<Rightarrow> runtime \<Rightarrow> ctx \<Rightarrow> SDK \<Rightarrow> string \<Rightarrow> string list \<Rightarrow>
   ('k, 'c, 'p) sdk_state \<Rightarrow> (client_error + string list) \<times> ('k, 'c, 'p) sdk_state" where
  "sdk_resolve ops retry rt cx sdk cid roles s =
     (case Resolve ops (resolverShim retry rt cx (sdk_client sdk)) (sdk_resolver sdk) cid roles (s_perms s, s_world s) of
        (r, c, w) \<Rightarrow> (r, s\<lparr>s_perms := c, s_world := w\<rparr>))"

definition Authenticate ::
  "('t, 'k) jose \<Rightarrow> ('c, string list) cache_ops \<Rightarrow> resolve_wire retrier \<Rightarrow> runtime \<Rightarrow> (string \<Rightarrow> 'k list option) \<Rightarrow>
   ('k \<Rightarrow> string) \<Rightarrow> ctx \<Rightarrow> SDK \<Rightarrow> 'r responder option \<Rightarrow>
   (('k, 'c, 'p) sdk_state, client_error, 'r) AuthConfig" where
  "Authenticate j ops retry rt parse_set key_id cx sdk responder =
     \<lparr>a_verify = sdk_verify j rt parse_set key_id cx sdk, a_resolve = sdk_resolve ops retry rt cx sdk,
      a_ClientID = ClientID (sdk_cfg sdk), a_Responder = responder\<rparr>"

text \<open>The guards of the SDK and \<open>Authenticate\<close> of the chi adapter are those of the packages below.\<close>

definition sdk_RequirePerm :: "'r responder \<Rightarrow> PermissionKey \<Rightarrow> ('s, 'r) handler \<Rightarrow> ('s, 'r) handler" where
  "sdk_RequirePerm respond perm = RequirePerm respond perm"

definition sdk_RequireAnyPerm :: "'r responder \<Rightarrow> PermissionKey list \<Rightarrow> ('s, 'r) handler \<Rightarrow> ('s, 'r) handler" where
  "sdk_RequireAnyPerm respond perms = RequireAnyPerm respond perms"

definition sdk_RequireAllPerms :: "'r responder \<Rightarrow> PermissionKey list \<Rightarrow> ('s, 'r) handler \<Rightarrow> ('s, 'r) handler" where
  "sdk_RequireAllPerms respond perms = RequireAllPerms respond perms"

definition sdk_RequireStepUp :: "'r responder \<Rightarrow> string \<Rightarrow> ('s, 'r) handler \<Rightarrow> ('s, 'r) handler" where
  "sdk_RequireStepUp respond acr = RequireStepUp respond acr"

definition sdk_RequireNoImpersonation :: "'r responder \<Rightarrow> ('s, 'r) handler \<Rightarrow> ('s, 'r) handler" where
  "sdk_RequireNoImpersonation respond = RequireNoImpersonation respond"

definition chi_Authenticate ::
  "('t, 'k) jose \<Rightarrow> ('c, string list) cache_ops \<Rightarrow> resolve_wire retrier \<Rightarrow> runtime \<Rightarrow> (string \<Rightarrow> 'k list option) \<Rightarrow>
   ('k \<Rightarrow> string) \<Rightarrow> ctx \<Rightarrow> SDK \<Rightarrow> 'r responder option \<Rightarrow>
   (('k, 'c, 'p) sdk_state, client_error, 'r) AuthConfig" where
  "chi_Authenticate j ops retry rt parse_set key_id cx sdk responder = Authenticate j ops retry rt parse_set key_id cx sdk responder"

section \<open>The profile cache\<close>

definition profileCacheKey :: "user_ctx \<Rightarrow> string \<Rightarrow> string" where
  "profileCacheKey uc accessToken = (case FromContext uc of
     Some u \<Rightarrow> (if u_Subject u \<noteq> [] then ''user:'' @ u_AppID u @ '':'' @ u_Subject u
        else ''token:'' @ sha256Hex (normalizeBearer accessToken))
   | None \<Rightarrow> ''token:'' @ sha256Hex (normalizeBearer accessToken))"

text \<open>The methods on the cache and the world; \<open>bypass\<close> is the option \<open>BypassProfileCache\<close>.\<close>

definition GetMe ::
  "('p, UserProfile) cache_ops \<Rightarrow> UserProfile retrier \<Rightarrow> runtime \<Rightarrow> ctx \<Rightarrow> SDK \<Rightarrow> user_ctx \<Rightarrow> bool \<Rightarrow> string \<Rightarrow>
   'p \<times> world \<Rightarrow> (client_error + UserProfile) \<times> 'p \<times> world" where
  "GetMe ops retry rt cx sdk uc bypass accessToken s = (let (p, w) = s in
     (if \<not> sdk_has_profiles sdk
      then (case ClientGetMe retry rt cx (sdk_client sdk) accessToken w of (r, w1) \<Rightarrow> (r, p, w1))
      else
       (let key = profileCacheKey uc accessToken;
            (hit, p1) = (if bypass then (None, p) else c_get ops p key (clock w))
        in (case hit of
              Some cached \<Rightarrow> (Inr cached, p1, w)
            | None \<Rightarrow> (case ClientGetMe retry rt cx (sdk_client sdk) accessToken w of
                (Inl e, w1) \<Rightarrow> (Inl e, p1, w1)
              | (Inr profile, w1) \<Rightarrow> (Inr profile, c_set ops p1 key profile (sdk_profileTTL sdk) (clock w1), w1))))))"

text \<open>An update forgets the entry, then asks the server: two steps that other calls may come between.\<close>

definition forget_profile :: "('p, UserProfile) cache_ops \<Rightarrow> SDK \<Rightarrow> user_ctx \<Rightarrow> string \<Rightarrow> 'p \<times> world \<Rightarrow> 'p \<times> world" where
  "forget_profile ops sdk uc accessToken s =
     (if sdk_has_profiles sdk then (c_del ops (fst s) (profileCacheKey uc accessToken), snd s) else s)"

definition UpdateAccountProfile ::
  "('p, UserProfile) cache_ops \<Rightarrow> UserProfile retrier \<Rightarrow> runtime \<Rightarrow> ctx \<Rightarrow> SDK \<Rightarrow> user_ctx \<Rightarrow> string \<Rightarrow>
   AccountUpdateProfileRequest \<Rightarrow> 'p \<times> world \<Rightarrow> (client_error + UserProfile) \<times> 'p \<times> world" where
  "UpdateAccountProfile ops retry rt cx sdk uc accessToken input s =
     (case forget_profile ops sdk uc accessToken s of (p, w) \<Rightarrow>
       (case ClientUpdateAccountProfile retry rt cx (sdk_client sdk) accessToken input w of (r, w1) \<Rightarrow> (r, p, w1)))"

section \<open>Forwarding methods\<close>

text \<open>The other account methods hand their arguments to the client.\<close>

definition sdk_GetAccountSecuritySummary ::
  "AccountSecuritySummary retrier \<Rightarrow> runtime \<Rightarrow> ctx \<Rightarrow> SDK \<Rightarrow> string \<Rightarrow> AccountSecuritySummary account_op" where
  "sdk_GetAccountSecuritySummary retry rt cx s accessToken = GetAccountSecuritySummary retry rt cx (sdk_client s) accessToken"

definition sdk_SendEmailVerification ::
  "EmailVerificationResponse retrier \<Rightarrow> runtime \<Rightarrow> ctx \<Rightarrow> SDK \<Rightarrow> string \<Rightarrow> EmailVerificationResponse account_op" where
  "sdk_SendEmailVerification retry rt cx s email = SendEmailVerification retry rt cx (sdk_client s) email"

definition sdk_VerifyEmail ::
  "EmailVerificationResponse retrier \<Rightarrow> runtime \<Rightarrow> ctx \<Rightarrow> SDK \<Rightarrow> string \<Rightarrow> EmailVerificationResponse account_op" where
  "sdk_VerifyEmail retry rt cx s token = VerifyEmail retry rt cx (sdk_client s) token"

definition sdk_ChangePassword ::
  "unit retrier \<Rightarrow> runtime \<Rightarrow> ctx \<Rightarrow> SDK \<Rightarrow> string \<Rightarrow> PasswordChangeRequest \<Rightarrow> unit account_op" where
  "sdk_ChangePassword retry rt cx s accessToken input = ChangePassword retry rt cx (sdk_client s) accessToken input"

definition sdk_RequestPasswordReset ::
  "unit retrier \<Rightarrow> runtime \<Rightarrow> ctx \<Rightarrow> SDK \<Rightarrow> string \<Rightarrow> string \<Rightarrow> unit account_op" where
  "sdk_RequestPasswordReset retry rt cx s email redirectURI = RequestPasswordReset retry rt cx (sdk_client s) email redirectURI"

definition sdk_ResetPassword ::
  "unit retrier \<Rightarrow> runtime \<Rightarrow> ctx \<Rightarrow> SDK \<Rightarrow> string \<Rightarrow> string \<Rightarrow> unit account_op" where
  "sdk_ResetPassword retry rt cx s token newPassword = ResetPassword retry rt cx (sdk_client s) token newPassword"

definition sdk_ListAccountSessions ::
  "(SessionView list option) retrier \<Rightarrow> runtime \<Rightarrow> ctx \<Rightarrow> SDK \<Rightarrow> string \<Rightarrow> (SessionView list option) account_op" where
  "sdk_ListAccountSessions retry rt cx s accessToken = ListAccountSessions retry rt cx (sdk_client s) accessToken"

definition sdk_RevokeAccountSession ::
  "unit retrier \<Rightarrow> runtime \<Rightarrow> ctx \<Rightarrow> SDK \<Rightarrow> string \<Rightarrow> string \<Rightarrow> unit account_op" where
  "sdk_RevokeAccountSession retry rt cx s accessToken sessionID = RevokeAccountSession retry rt cx (sdk_client s) accessToken sessionID"

definition sdk_RevokeOtherAccountSessions ::
  "unit retrier \<Rightarrow> runtime \<Rightarrow> ctx \<Rightarrow> SDK \<Rightarrow> string \<Rightarrow> unit account_op" where
  "sdk_RevokeOtherAccountSessions retry rt cx s accessToken = RevokeOtherAccountSessions retry rt cx (sdk_client s) accessToken"

definition sdk_LogoutAccount ::
  "unit retrier \<Rightarrow> runtime \<Rightarrow> ctx \<Rightarrow> SDK \<Rightarrow> string \<Rightarrow> unit account_op" where
  "sdk_LogoutAccount retry rt cx s accessToken = LogoutAccount retry rt cx (sdk_client s) accessToken"

definition sdk_ListAccountOrganizations ::
  "(AccountOrganization list option) retrier \<Rightarrow> runtime \<Rightarrow> ctx \<Rightarrow> SDK \<Rightarrow> string \<Rightarrow> (AccountOrganization list option) account_op" where
  "sdk_ListAccountOrganizations retry rt cx s accessToken = ListAccountOrganizations retry rt cx (sdk_client s) accessToken"

definition sdk_GetCurrentAccountOrganization ::
  "(AccountOrganization option) retrier \<Rightarrow> runtime \<Rightarrow> ctx \<Rightarrow> SDK \<Rightarrow> string \<Rightarrow> (AccountOrganization option) account_op" where
  "sdk_GetCurrentAccountOrganization retry rt cx s accessToken = GetCurrentAccountOrganization retry rt cx (sdk_client s) accessToken"

definition sdk_SwitchAccountOrganization ::
  "OrganizationSwitchResponse retrier \<Rightarrow> runtime \<Rightarrow> ctx \<Rightarrow> SDK \<Rightarrow> string \<Rightarrow> string \<Rightarrow> OrganizationSwitchResponse account_op" where
  "sdk_SwitchAccountOrganization retry rt cx s accessToken organizationID = SwitchAccountOrganization retry rt cx (sdk_client s) accessToken organizationID"

definition sdk_HasAccountOrganizationMembership ::
  "(AccountOrganization list option) retrier \<Rightarrow> runtime \<Rightarrow> ctx \<Rightarrow> SDK \<Rightarrow> string \<Rightarrow> string \<Rightarrow> bool account_op" where
  "sdk_HasAccountOrganizationMembership retry rt cx s accessToken organizationID = HasAccountOrganizationMembership retry rt cx (sdk_client s) accessToken organizationID"

definition sdk_GetAccountPermissionSummary ::
  "AccountPermissionSummary retrier \<Rightarrow> runtime \<Rightarrow> ctx \<Rightarrow> SDK \<Rightarrow> string \<Rightarrow> string \<Rightarrow> AccountPermissionSummary account_op" where
  "sdk_GetAccountPermissionSummary retry rt cx s accessToken organizationID = GetAccountPermissionSummary retry rt cx (sdk_client s) accessToken organizationID"

definition sdk_CheckAccountPermission ::
  "PermissionCheckResponse retrier \<Rightarrow> runtime \<Rightarrow> ctx \<Rightarrow> SDK \<Rightarrow> string \<Rightarrow> string \<Rightarrow> string \<Rightarrow> PermissionCheckResponse account_op" where
  "sdk_CheckAccountPermission retry rt cx s accessToken permission organizationID = CheckAccountPermission retry rt cx (sdk_client s) accessToken permission organizationID"

definition sdk_PreviewOrganizationInvitation ::
  "PublicOrganizationInvitationPreview retrier \<Rightarrow> runtime \<Rightarrow> ctx \<Rightarrow> SDK \<Rightarrow> string \<Rightarrow> PublicOrganizationInvitationPreview account_op" where
  "sdk_PreviewOrganizationInvitation retry rt cx s invitationToken = PreviewOrganizationInvitation retry rt cx (sdk_client s) invitationToken"

definition sdk_AcceptOrganizationInvitation ::
  "PublicOrganizationInvitationAcceptResponse retrier \<Rightarrow> runtime \<Rightarrow> ctx \<Rightarrow> SDK \<Rightarrow> string \<Rightarrow> string \<Rightarrow> PublicOrganizationInvitationAcceptResponse account_op" where
  "sdk_AcceptOrganizationInvitation retry rt cx s invitationToken accessToken = AcceptOrganizationInvitation retry rt cx (sdk_client s) invitationToken accessToken"

section \<open>Facts\<close>

text \<open>
  \<open>answered rt c k ks t\<close>: at the instant \<open>t\<close> the server answered a resolve request, for a client and
  roles with the cache key \<open>k\<close>, with exactly the grants \<open>ks\<close>; or \<open>ks\<close> is empty.
\<close>

definition answered :: "runtime \<Rightarrow> Client \<Rightarrow> string \<Rightarrow> string list \<Rightarrow> int \<Rightarrow> bool" where
  "answered rt c k ks t \<longleftrightarrow> ks = [] \<or> grants ks \<and>
     (\<exists>cid rs cx w0 resp w1. k = cacheKey cid rs \<and> lists_permissions resp ks \<and> clock w1 = t \<and>
        exchange (rt_net rt) cx (resolve_request c cid rs) w0 = (Inr resp, w1))"

definition perms_sound :: "runtime \<Rightarrow> SDK \<Rightarrow> ('c \<Rightarrow> (string \<times> string list \<times> int) set) \<Rightarrow> ('k, 'c, 'p) sdk_state \<Rightarrow> bool" where
  "perms_sound rt sdk stored s \<longleftrightarrow> fresh_store (answered rt (sdk_client sdk)) (o_TTL (sdk_resolver sdk)) (stored (s_perms s))"

lemma shim_answered:
  assumes "retry_law retry" and "resolverShim retry rt cx c cid rs w0 = (Inr ks, w1)"
  shows "answered rt c (cacheKey cid rs) ks (clock w1)"
proof -
  have res: "ResolvePermissions retry rt cx c cid rs w0 = (Inr ks, w1)"
    using assms(2) by (auto simp: resolverShim_def split: prod.splits sum.splits)
  show ?thesis
  proof (cases "rs = []")
    case True
    with res show ?thesis by (simp add: ResolvePermissions_def answered_def)
  next
    case False
    from ResolvePermissions_answer [OF assms(1) res False] show ?thesis
      unfolding answered_def by metis
  qed
qed

lemma sdk_resolve_sound:
  assumes "retry_law retry" and "cache_law ops stored" and "0 \<le> o_TTL (sdk_resolver sdk)"
    and "perms_sound rt sdk stored s" and "sdk_resolve ops retry rt cx sdk cid roles s = (res, s')"
  shows "perms_sound rt sdk stored s'"
    and "res = Inr ks \<Longrightarrow> ks = [] \<or> (\<exists>t. answered rt (sdk_client sdk) (cacheKey cid roles) ks t \<and>
       clock (s_world s') \<le> t + o_TTL (sdk_resolver sdk))"
proof -
  obtain c1 w1 where run: "Resolve ops (resolverShim retry rt cx (sdk_client sdk)) (sdk_resolver sdk) cid roles (s_perms s, s_world s)
      = (res, c1, w1)" and s': "s' = s\<lparr>s_perms := c1, s_world := w1\<rparr>"
    using assms(5) by (auto simp: sdk_resolve_def split: prod.splits)
  note prov = resolve_provenance [OF assms(2,3) assms(4) [unfolded perms_sound_def] shim_answered [OF assms(1)] run]
  show "perms_sound rt sdk stored s'"
    using prov by (simp add: perms_sound_def s')
  show "ks = [] \<or> (\<exists>t. answered rt (sdk_client sdk) (cacheKey cid roles) ks t \<and>
       clock (s_world s') \<le> t + o_TTL (sdk_resolver sdk))" if "res = Inr ks"
    using prov that by (auto simp: s')
qed

lemma sdk_key_frame:
  "sdk_key rt parse_set key_id cx c kid s = (r, s') \<Longrightarrow> s_perms s' = s_perms s \<and> s_profiles s' = s_profiles s"
  by (auto simp: sdk_key_def split: prod.splits)

lemma sdk_verify_frame:
  assumes "sdk_verify j rt parse_set key_id cx sdk token s = (r, s')"
  shows "s_perms s' = s_perms s"
proof -
  have "s' = s \<or> (\<exists>kid r. sdk_key rt parse_set key_id cx (sdk_client sdk) kid s = (r, s'))"
    using assms unfolding sdk_verify_def Verify_def
    by (auto split: option.splits list.splits if_splits prod.splits sum.splits)
  then show ?thesis using sdk_key_frame by blast
qed

text \<open>What a verified token rests on.\<close>

definition trusted ::
  "('t, 'k) jose \<Rightarrow> ('k \<Rightarrow> string) \<Rightarrow> SDK \<Rightarrow> string \<Rightarrow> Claims \<Rightarrow> ('k, 'c, 'p) sdk_state \<Rightarrow> bool" where
  "trusted j key_id sdk token claims s \<longleftrightarrow>
     (\<exists>parsed key ks. parse_signed j token (allowedAlgorithms (sdk_verifier sdk)) = Some parsed \<and>
        open_claims j parsed key = Some claims \<and> key_set (s_jwks s) = Some ks \<and> key \<in> set ks \<and>
        kids j parsed \<noteq> [] \<and> key_id key = hd (kids j parsed) \<and> key_id key \<noteq> [] \<and>
        since (lastFetch (s_jwks s)) (clock (s_world s)) \<le> refresh (s_jwks s) \<and>
        validate j claims \<lparr>x_Issuer = expectedIssuer (sdk_verifier sdk),
          x_AnyAudience = (if expectedAudience (sdk_verifier sdk) \<noteq> [] then [expectedAudience (sdk_verifier sdk)] else []),
          x_Time = clock (s_world s)\<rparr> (leeway (sdk_verifier sdk)))"

lemma sdk_verify_trusted:
  assumes "sdk_verify j rt parse_set key_id cx sdk token s = (Inr claims, s')"
  shows "trusted j key_id sdk token claims s'"
proof -
  from Verify_accepts [OF assms [unfolded sdk_verify_def]] obtain parsed kid rest key where
    v: "parse_signed j token (allowedAlgorithms (sdk_verifier sdk)) = Some parsed" "kids j parsed = kid # rest" "kid \<noteq> []"
      "open_claims j parsed key = Some claims"
      "validate j claims \<lparr>x_Issuer = expectedIssuer (sdk_verifier sdk),
          x_AnyAudience = (if expectedAudience (sdk_verifier sdk) \<noteq> [] then [expectedAudience (sdk_verifier sdk)] else []),
          x_Time = clock (s_world s')\<rparr> (leeway (sdk_verifier sdk))"
    and k: "sdk_key rt parse_set key_id cx (sdk_client sdk) kid s = (Inr key, s')"
    by blast
  from k obtain p w where "KeyByID (rt_net rt) parse_set key_id (client_ctx (cl_timeout (sdk_client sdk)) (s_world s) cx) kid
      (s_jwks s, s_world s) = (Inr key, p, w)" and s': "s' = s\<lparr>s_jwks := p, s_world := w\<rparr>"
    by (auto simp: sdk_key_def split: prod.splits)
  from KeyByID_found [OF this(1)] v show ?thesis
    unfolding trusted_def s' by (intro exI [of _ parsed] exI [of _ key]) auto
qed

text \<open>The way through \<open>Auth\<close> and a guard.\<close>

lemma guarded_route:
  assumes "fst (Auth (\<lambda>r st code msg. Inl st) verr rerr cfg
        (core_guard (\<lambda>r st code msg. Inl st) g (\<lambda>r s. (Inr (r, s), s))) r s) = Inr (r', s')"
    and "a_Responder cfg = None"
  shows "\<exists>claims s1 perms.
        a_verify cfg (BearerToken r) s = (Inr claims, s1) \<and>
        a_resolve cfg (if a_ClientID cfg = [] \<and> cl_AppID claims \<noteq> [] then cl_AppID claims else a_ClientID cfg)
          (cl_Roles claims) s1 = (Inr perms, s') \<and>
        satisfies (user_of claims perms) g \<and> FromContext (r_user r') = Some (user_of claims perms)"
proof -
  have guard: "fst (core_guard (\<lambda>r st code msg. Inl st) g (\<lambda>r s. (Inr (r, s), s))
        (q\<lparr>r_user := Some (Some u)\<rparr>) t) = Inr (r', s') \<longleftrightarrow>
      satisfies u g \<and> r' = q\<lparr>r_user := Some (Some u)\<rparr> \<and> s' = t" for q t u
    by (subst core_guard_Some [where u = u]) (auto simp: FromContext_def)
  from assms show ?thesis
    by (auto simp: Auth_def Let_def WithUser_def guard FromContext_def split: prod.splits sum.splits if_splits)
qed

text \<open>What construction establishes.\<close>

lemma New_sound:
  assumes "New rt perms0 profiles0 cfg w = (Inr (sdk, s0), w0)"
  shows "0 < o_TTL (sdk_resolver sdk)" "s_perms s0 = perms0" "s_profiles s0 = profiles0" "0 < sdk_profileTTL sdk"
    "expectedIssuer (sdk_verifier sdk) \<noteq> []" "expectedAudience (sdk_verifier sdk) \<noteq> []"
    "allowedAlgorithms (sdk_verifier sdk) = [''RS256'', ''ES256'']" "ClientID (sdk_cfg sdk) \<noteq> []"
proof -
  obtain d c where v: "Validate cfg = Inr d" and n: "NewClient (Some d) = Inr c"
    and b: "buildSDK rt perms0 profiles0 (cl_cfg c) c w = (Inr (sdk, s0), w0)"
    using assms by (auto simp: New_def split: sum.splits)
  then obtain d' where d: "Validate (Some d) = Inr d'" "cl_cfg c = d'"
    by (auto simp: NewClient_def elim!: bind_ok_InrE)
  then have ok: "0 < PermissionCacheTTL d'" "0 < UserProfileCacheTTL d'" "Issuer d' \<noteq> []" "Audience d' \<noteq> []" "ClientID d' \<noteq> []"
    using Validate_well_configured [OF d(1)] by (simp_all add: well_configured_def)
  from b have "0 < o_TTL (sdk_resolver sdk) \<and> s_perms s0 = perms0 \<and> s_profiles s0 = profiles0 \<and> 0 < sdk_profileTTL sdk \<and>
      expectedIssuer (sdk_verifier sdk) = Issuer d' \<and> expectedAudience (sdk_verifier sdk) = Audience d' \<and>
      allowedAlgorithms (sdk_verifier sdk) = [''RS256'', ''ES256''] \<and> sdk_cfg sdk = d'"
    using ok by (auto simp: buildSDK_def NewVerifier_def NewHttpResolver_def d(2) Let_def split: prod.splits sum.splits if_splits)
  with ok show "0 < o_TTL (sdk_resolver sdk)" "s_perms s0 = perms0" "s_profiles s0 = profiles0" "0 < sdk_profileTTL sdk"
    "expectedIssuer (sdk_verifier sdk) \<noteq> []" "expectedAudience (sdk_verifier sdk) \<noteq> []"
    "allowedAlgorithms (sdk_verifier sdk) = [''RS256'', ''ES256'']" "ClientID (sdk_cfg sdk) \<noteq> []"
    by simp_all
qed

section \<open>Properties\<close>


text \<open>An issuer, a key server and a permission server in one.\<close>

definition iam_server :: runtime where
  "iam_server = (always sample_answer)\<lparr>rt_net := (\<lambda>h r. (0, Inr (if meth r = ''POST'' then sample_answer
     else if url r = ''j'' then ok_body ''k1''
     else ok_body ([CHR 0x7B, CHR 0x22] @ ''jwks_uri'' @ [CHR 0x22] @ '':'' @ [CHR 0x22] @ ''j'' @ [CHR 0x22] @ [CHR 0x7D]))))\<rparr>"

definition iam_jose :: "(string, string) jose" where
  "iam_jose = \<lparr>parse_signed = (\<lambda>t algs. Some t), kids = (\<lambda>t. [''k1'']),
     open_claims = (\<lambda>t k. Some sample_claims), validate = (\<lambda>c e l. True)\<rparr>"

lemma iam_discovery:
  "discoverJWKS iam_server background sample_client start = (Inr ''j'', \<lparr>sent = [discovery_request sample_client], clock = 0\<rparr>)"
proof -
  have "decode_first ([CHR 0x7B, CHR 0x22] @ ''jwks_uri'' @ [CHR 0x22] @ '':'' @ [CHR 0x22] @ ''j'' @ [CHR 0x22] @ [CHR 0x7D])
      = Some (JObj [(''jwks_uri'', JStr ''j'')], [])"
    by (simp add: json_eval)
  moreover have "url (discovery_request sample_client) \<noteq> ''j''"
    by (simp add: discovery_request_def)
  ultimately show ?thesis
    by (simp add: discoverJWKS_def iam_server_def always_def exchange_def client_ctx_def with_timeout_def sample_client_def
        discovery_request_def decode_into_def ok_body_def fill_oidc_def fill_eval)
qed

definition iam_sdk :: SDK where
  "iam_sdk = \<lparr>sdk_cfg = sample_config, sdk_client = sample_client,
     sdk_verifier = \<lparr>expectedIssuer = ''https://iam'', expectedAudience = ''app'',
       allowedAlgorithms = [''RS256'', ''ES256''], leeway = 30 * second\<rparr>,
     sdk_resolver = \<lparr>o_TTL = minute, o_MaxEntries = 10, o_FailOpen = False\<rparr>, sdk_has_profiles = True,
     sdk_profileTTL = minute\<rparr>"

type_synonym 'v list_store = "(string \<times> 'v \<times> int) list"

definition iam_state :: "(string, string list list_store, UserProfile list_store) sdk_state" where
  "iam_state = \<lparr>s_jwks = \<lparr>jwksURL = ''j'', refresh = hour, cooldown = 10 * second, key_set = None, lastFetch = None,
       lastForcedRefresh = None\<rparr>, s_perms = [], s_profiles = [],
     s_world = \<lparr>sent = [discovery_request sample_client], clock = 0\<rparr>\<rparr>"

lemma iam_new: "New iam_server [] [] (Some sample_config) start = (Inr (iam_sdk, iam_state), s_world iam_state)"
proof -
  have v: "Validate (Some sample_config) = Inr sample_config"
    by (simp add: Validate_def sample_config_def default_to_def)
  have n: "NewClient (Some sample_config) = Inr sample_client"
    by (simp add: NewClient_def v sample_client_def sample_config_fields)
  have c: "cl_cfg sample_client = sample_config" by (simp add: sample_client_def)
  show ?thesis
    by (simp add: New_def v n c buildSDK_def iam_discovery NewJWKSProvider_def NewVerifier_def NewHttpResolver_def Let_def
        iam_sdk_def iam_state_def sample_config_fields)
qed

definition bearer_request :: http_req where
  "bearer_request = \<lparr>r_headers = [(''Authorization'', ''bearer t'')], r_user = None\<rparr>"

lemma bearer_request_token: "BearerToken bearer_request = ''t''"
  by (simp add: bearer_request_def BearerToken_def header_get_def equal_fold_def runes_def byte_def fold_rune_def
      trim_space_def is_space_def)

lemma iam_verify:
  "\<exists>s1. sdk_verify iam_jose iam_server (\<lambda>b. Some [b]) (\<lambda>k. k) background iam_sdk ''t'' iam_state = (Inr sample_claims, s1) \<and>
     s_perms s1 = []"
  by (simp add: sdk_verify_def Verify_def iam_jose_def iam_sdk_def sdk_key_def iam_state_def KeyByID_def lookup_def since_def
      fetch_def exchange_def client_ctx_def with_timeout_def sample_client_def iam_server_def always_def ok_body_def needsRefresh_def)

lemma iam_resolve:
  assumes "s_perms s1 = []"
  shows "\<exists>s2. sdk_resolve list_cache eager_retry iam_server background iam_sdk ''app'' [''admin''] s1 = (Inr [''posts:read''], s2)"
proof -
  have "meth (resolve_request sample_client ''app'' [''admin'']) = ''POST''"
    by (simp add: resolve_request_def client_request_def)
  then have "resolverShim eager_retry iam_server background sample_client ''app'' [''admin''] (s_world s1) =
      (Inr [''posts:read''], (s_world s1)\<lparr>sent := sent (s_world s1) @ [resolve_request sample_client ''app'' [''admin'']]\<rparr>)"
    using resolution_at_once [of iam_server "s_world s1" "''app''" "[''admin'']"]
    by (simp add: resolverShim_def iam_server_def always_def)
  then show ?thesis
    using assms by (simp add: sdk_resolve_def Resolve_def Let_def list_cache_def iam_sdk_def)
qed


section \<open>Profiles\<close>

text \<open>\<open>fetched k p t\<close>: at \<open>t\<close> the server gave the profile \<open>p\<close> for a token and a request with the cache key \<open>k\<close>.\<close>

definition fetched :: "UserProfile retrier \<Rightarrow> runtime \<Rightarrow> SDK \<Rightarrow> string \<Rightarrow> UserProfile \<Rightarrow> int \<Rightarrow> bool" where
  "fetched retry rt sdk k p t \<longleftrightarrow> (\<exists>uc tok cx w0 w1. k = profileCacheKey uc tok \<and> clock w1 = t \<and>
     ClientGetMe retry rt cx (sdk_client sdk) tok w0 = (Inr p, w1))"

text \<open>
  C40. Where a profile can come from.  \<open>GetMe\<close> keeps the profile cache sound, a profile it returns
  was given by the server for the same cache key no longer than the profile TTL ago, and with
  \<open>BypassProfileCache\<close> or without a cache it is the answer to this very call.
\<close>

theorem GetMe_provenance:
  assumes "cache_law ops stored" and "0 \<le> sdk_profileTTL sdk"
    and "fresh_store (fetched retry rt sdk) (sdk_profileTTL sdk) (stored p)"
    and "GetMe ops retry rt cx sdk uc bypass tok (p, w) = (res, p', w')"
  shows "fresh_store (fetched retry rt sdk) (sdk_profileTTL sdk) (stored p') \<and>
    (\<forall>v. res = Inr v \<longrightarrow> (\<exists>t. fetched retry rt sdk (profileCacheKey uc tok) v t \<and> clock w' \<le> t + sdk_profileTTL sdk) \<and>
       (bypass \<or> \<not> sdk_has_profiles sdk \<longrightarrow> ClientGetMe retry rt cx (sdk_client sdk) tok w = (Inr v, w')))"
proof -
  let ?k = "profileCacheKey uc tok" and ?fs = "fresh_store (fetched retry rt sdk) (sdk_profileTTL sdk)"
  obtain a w1 where cl: "ClientGetMe retry rt cx (sdk_client sdk) tok w = (a, w1)" by fastforce
  have fresh: "a = Inr v \<Longrightarrow> fetched retry rt sdk ?k v (clock w1)" for v
    using cl unfolding fetched_def by blast
  show ?thesis
  proof (cases "sdk_has_profiles sdk")
    case False
    with assms(4) cl have "res = a" "p' = p" "w' = w1" by (simp_all add: GetMe_def)
    with assms(2,3) cl fresh show ?thesis by fastforce
  next
    case True
    obtain hit p1 where get: "(if bypass then (None, p) else c_get ops p ?k (clock w)) = (hit, p1)" by fastforce
    have p1: "?fs (stored p1)"
      using get assms(3) fresh_store_get [OF assms(1,3)] by (auto split: if_splits)
    show ?thesis
    proof (cases hit)
      case (Some v)
      with get have "\<not> bypass" "c_get ops p ?k (clock w) = (Some v, p1)" by (auto split: if_splits)
      moreover have "res = Inr v" "p' = p1" "w' = w"
        using assms(4) True get Some by (simp_all add: GetMe_def)
      ultimately show ?thesis
        using p1 True by (auto elim: fresh_store_hit [OF assms(1,3)])
    next
      case None
      show ?thesis
      proof (cases a)
        case (Inl e)
        with assms(4) True get None cl have "res = Inl e" "p' = p1" by (simp_all add: GetMe_def)
        with p1 show ?thesis by simp
      next
        case (Inr v)
        with assms(4) True get None cl have "res = Inr v \<and> w' = w1 \<and> p' = c_set ops p1 ?k v (sdk_profileTTL sdk) (clock w1)"
          by (auto simp: GetMe_def)
        with fresh_store_set [OF assms(1) p1 fresh [OF Inr]] cl Inr fresh assms(2) show ?thesis by fastforce
      qed
    qed
  qed
qed

lemma iam_profile:
  assumes "rt_net rt (sent w) (client_request sample_client ''GET'' ''/api/v1/auth/me/profile'' None (bearer_sign ''t''))
      = (0, Inr (ok_body good_profile))" and "\<And>u. rt_url_ok rt u"
  shows "ClientGetMe eager_retry rt background sample_client ''t'' w = (Inr (zero_UserProfile\<lparr>up_UserID := ''u''\<rparr>),
     w\<lparr>sent := sent w @ [client_request sample_client ''GET'' ''/api/v1/auth/me/profile'' None (bearer_sign ''t'')]\<rparr>)"
proof -
  have "normalizeBearer ''t'' = ''t''"
    by (simp add: normalizeBearer_def trim_space_def runes_def byte_def is_space_def)
  moreover have "answers_within sample_client 0" by (simp add: answers_within_def sample_client_def)
  ultimately show ?thesis
    using bearer_at_once [OF eager_retry_law refl, of rt sample_client "''GET''" "''/api/v1/auth/me/profile''" None "''t''" w
        good_profile background _ _ fill_UserProfile zero_UserProfile, OF assms(2,1) _ _ profiles_parsed(2) profiles_filled(2)]
    by (simp add: ClientGetMe_def GetAccountProfile_def with_token_def Let_def)
qed

theorem GetMe_provenance_witness:
  "\<exists>p' w'. GetMe list_cache eager_retry (always (ok_body good_profile)) background iam_sdk None False ''t'' ([], start)
     = (Inr (zero_UserProfile\<lparr>up_UserID := ''u''\<rparr>), p', w') \<and>
     fresh_store (fetched eager_retry (always (ok_body good_profile)) iam_sdk) minute (set p')"
proof -
  let ?rt = "always (ok_body good_profile)"
  obtain res p' w' where run: "GetMe list_cache eager_retry ?rt background iam_sdk None False ''t'' ([], start) = (res, p', w')"
    by (metis prod_cases3)
  have "ClientGetMe eager_retry ?rt background sample_client ''t'' start = (Inr (zero_UserProfile\<lparr>up_UserID := ''u''\<rparr>),
      start\<lparr>sent := [client_request sample_client ''GET'' ''/api/v1/auth/me/profile'' None (bearer_sign ''t'')]\<rparr>)"
    using iam_profile [of ?rt start] by (simp add: always_def)
  with run have "res = Inr (zero_UserProfile\<lparr>up_UserID := ''u''\<rparr>)"
    by (simp add: GetMe_def iam_sdk_def list_cache_def Let_def)
  moreover have "fresh_store (fetched eager_retry ?rt iam_sdk) minute (set p')"
    using GetMe_provenance [OF list_cache_law _ _ run] by (simp add: fresh_store_def iam_sdk_def)
  ultimately show ?thesis using run by blast
qed

text \<open>
  The key joins application and subject with a colon, unescaped: different users may share an entry.
\<close>

lemma profile_key_collision:
  "profileCacheKey (Some (Some (user_of (sample_claims\<lparr>cl_AppID := ''a:b'', cl_Subject := ''c''\<rparr>) []))) tok =
   profileCacheKey (Some (Some (user_of (sample_claims\<lparr>cl_AppID := ''a'', cl_Subject := ''b:c''\<rparr>) []))) tok'"
  by (simp add: profileCacheKey_def FromContext_def user_of_def)

lemma GetMe_miss:
  assumes "sdk_has_profiles sdk" and "c_get ops p (profileCacheKey uc tok) (clock w) = (None, p1)"
    and "ClientGetMe retry rt cx (sdk_client sdk) tok w = (Inr v, w1)"
  shows "GetMe ops retry rt cx sdk uc False tok (p, w) =
    (Inr v, c_set ops p1 (profileCacheKey uc tok) v (sdk_profileTTL sdk) (clock w1), w1)"
  using assms by (simp add: GetMe_def Let_def)

lemma GetMe_hit:
  assumes "sdk_has_profiles sdk" and "c_get ops p (profileCacheKey uc tok) (clock w) = (Some v, p1)"
  shows "GetMe ops retry rt cx sdk uc False tok (p, w) = (Inr v, p1, w)"
  using assms by (simp add: GetMe_def Let_def)

lemma list_cache_forgotten: "c_get list_cache (c_del list_cache c k) k t = (None, c_del list_cache c k)"
  by (auto simp: list_cache_def split: option.splits dest!: map_of_SomeD)

text \<open>
  The order of forgetting and updating matters.  \<open>UpdateAccountProfile\<close> forgets the cached
  profile before it asks the server: when another request reads the profile in between, the old one is
  cached again, and after the update has succeeded \<open>GetMe\<close> still answers with it, without asking, for
  as long as it lives.
\<close>

lemma stale_after_update:
  assumes "sdk_has_profiles sdk"
    and "ClientGetMe retry rt cx (sdk_client sdk) tok w = (Inr old, w1)"
    and "ClientUpdateAccountProfile retry rt cx (sdk_client sdk) tok input w1 = (Inr new, w2)"
    and "clock w2 \<le> clock w1 + sdk_profileTTL sdk"
  shows "\<exists>p1. GetMe list_cache retry rt cx sdk uc False tok (forget_profile list_cache sdk uc tok (p, w)) = (Inr old, p1, w1) \<and>
    GetMe list_cache retry rt cx sdk uc False tok (p1, w2) = (Inr old, p1, w2)"
proof -
  let ?k = "profileCacheKey uc tok"
  let ?p1 = "c_set list_cache (c_del list_cache p ?k) ?k old (sdk_profileTTL sdk) (clock w1)"
  have "GetMe list_cache retry rt cx sdk uc False tok (forget_profile list_cache sdk uc tok (p, w)) = (Inr old, ?p1, w1)"
    using GetMe_miss [OF assms(1) list_cache_forgotten assms(2)] assms(1) by (simp add: forget_profile_def)
  moreover have "c_get list_cache ?p1 ?k (clock w2) = (Some old, ?p1)"
    using assms(4) by (simp add: list_cache_def)
  ultimately show ?thesis
    by (intro exI [of _ ?p1] conjI GetMe_hit [OF assms(1)])
qed

text \<open>Reading gives a profile, updating another one.\<close>

definition updating_server :: runtime where
  "updating_server = (always (ok_body []))\<lparr>rt_net := (\<lambda>h r. (0, Inr (ok_body
     (if meth r = ''GET'' then good_profile else [CHR 0x7B, CHR 0x7D]))))\<rparr>"

lemma stale_after_update_witness:
  "\<exists>p1 w1 w2. ClientUpdateAccountProfile eager_retry updating_server background sample_client ''t'' \<lparr>ar_DisplayName = ''n'', ar_AvatarURL = []\<rparr> w1
       = (Inr zero_UserProfile, w2) \<and>
     GetMe list_cache eager_retry updating_server background iam_sdk None False ''t'' (p1, w2) =
       (Inr (zero_UserProfile\<lparr>up_UserID := ''u''\<rparr>), p1, w2)"
proof -
  let ?q = "client_request sample_client ''GET'' ''/api/v1/auth/me/profile'' None (bearer_sign ''t'')"
  let ?w1 = "start\<lparr>sent := [?q]\<rparr>" and ?in = "\<lparr>ar_DisplayName = ''n'', ar_AvatarURL = []\<rparr>"
  let ?u = "client_request sample_client ''PATCH'' ''/api/v1/auth/me/profile'' (Some (update_profile_json ?in)) (bearer_sign ''t'')"
  have get: "ClientGetMe eager_retry updating_server background sample_client ''t'' start = (Inr (zero_UserProfile\<lparr>up_UserID := ''u''\<rparr>), ?w1)"
    using iam_profile [of updating_server start] by (simp add: updating_server_def always_def client_request_def)
  have "decode_first [CHR 0x7B, CHR 0x7D] = Some (JObj [], [])" by (simp add: json_eval)
  moreover have "fill_UserProfile (JObj []) zero_UserProfile = (zero_UserProfile, True)" by (simp add: fill_UserProfile_def)
  moreover have "normalizeBearer ''t'' = ''t''"
    by (simp add: normalizeBearer_def trim_space_def runes_def byte_def is_space_def)
  ultimately have upd: "ClientUpdateAccountProfile eager_retry updating_server background sample_client ''t'' ?in ?w1 =
      (Inr zero_UserProfile, ?w1\<lparr>sent := sent ?w1 @ [?u]\<rparr>)"
    using bearer_at_once [OF eager_retry_law refl, of updating_server sample_client "''PATCH''" "''/api/v1/auth/me/profile''"
        "Some (update_profile_json ?in)" "''t''" ?w1 "[CHR 0x7B, CHR 0x7D]" background "JObj []" "[]" fill_UserProfile zero_UserProfile zero_UserProfile]
    by (simp add: ClientUpdateAccountProfile_def with_token_def Let_def updating_server_def always_def client_request_def
        answers_within_def sample_client_def)
  have "sdk_has_profiles iam_sdk" "sdk_client iam_sdk = sample_client" "sdk_profileTTL iam_sdk = minute"
    by (simp_all add: iam_sdk_def)
  with stale_after_update [of iam_sdk eager_retry updating_server background "''t''" start _ ?w1 ?in _ _ None "[]"] get upd
  obtain p1 where "GetMe list_cache eager_retry updating_server background iam_sdk None False ''t'' (p1, ?w1\<lparr>sent := sent ?w1 @ [?u]\<rparr>) =
       (Inr (zero_UserProfile\<lparr>up_UserID := ''u''\<rparr>), p1, ?w1\<lparr>sent := sent ?w1 @ [?u]\<rparr>)"
    by auto
  with upd show ?thesis by blast
qed

end
