(* ===== verification/Resolver_Spec.thy ===== *)
theory Resolver_Spec
  imports Resolver
begin

text \<open>
  What \<open>HttpResolver\<close> promises, without its cache: a ledger of the answers that the server gave, each
  for a client and a multiset of roles.  A call is answered from an entry that is still fresh or by the
  server, and nothing is ever answered with the entry of another client or of other roles.  The
  resolver with its string keys and any cache that keeps its law refines this.
\<close>

section \<open>Calls\<close>

datatype call =
    CallResolve string "string list"
  | CallInvalidate string "string list"
  | CallClear
  | Idle nat

fun run_calls ::
  "('c, string list) cache_ops \<Rightarrow> 'e resolve_client \<Rightarrow> HttpResolverOptions \<Rightarrow> call list \<Rightarrow> 'c \<times> world \<Rightarrow>
   ('e + string list) list \<times> 'c \<times> world" where
  "run_calls ops client opts [] s = ([], s)"
| "run_calls ops client opts (CallResolve cid roles # cs) s =
     (let (r, s1) = Resolve ops client opts cid roles s; (out, s2) = run_calls ops client opts cs s1 in (r # out, s2))"
| "run_calls ops client opts (CallInvalidate cid roles # cs) s =
     run_calls ops client opts cs (Invalidate ops cid roles (fst s), snd s)"
| "run_calls ops client opts (CallClear # cs) s = run_calls ops client opts cs (Clear ops (fst s), snd s)"
| "run_calls ops client opts (Idle d # cs) s =
     run_calls ops client opts cs (fst s, (snd s)\<lparr>clock := clock (snd s) + int d\<rparr>)"

text \<open>Client ids without bars and roles without commas, as the IAM service issues them.\<close>

fun plain_call :: "call \<Rightarrow> bool" where
  "plain_call (CallResolve cid roles) = (CHR ''|'' \<notin> set cid \<and> list_all (\<lambda>r. CHR '','' \<notin> set r) roles)"
| "plain_call c = True"

section \<open>The specification\<close>

type_synonym ledger = "(string \<times> string multiset \<times> string list \<times> int) set"

inductive answered ::
  "'e resolve_client \<Rightarrow> HttpResolverOptions \<Rightarrow> string \<Rightarrow> string list \<Rightarrow> ledger \<times> world \<Rightarrow> 'e + string list \<Rightarrow>
   ledger \<times> world \<Rightarrow> bool" for client opts where
  no_roles: "answered client opts cid [] (L, w) (Inr []) (L, w)"
| ledger: "roles \<noteq> [] \<Longrightarrow> (cid, mset roles, perms, t) \<in> L \<Longrightarrow> clock w \<le> t + o_TTL opts \<Longrightarrow>
     answered client opts cid roles (L, w) (Inr perms) (L, w)"
| server: "roles \<noteq> [] \<Longrightarrow> client cid roles w = (Inr perms, w') \<Longrightarrow>
     answered client opts cid roles (L, w) (Inr perms) (insert (cid, mset roles, perms, clock w') L, w')"
| failure: "roles \<noteq> [] \<Longrightarrow> client cid roles w = (Inl e, w') \<Longrightarrow>
     answered client opts cid roles (L, w) (if o_FailOpen opts then Inr [] else Inl e) (L, w')"

inductive spec_run ::
  "'e resolve_client \<Rightarrow> HttpResolverOptions \<Rightarrow> call list \<Rightarrow> ledger \<times> world \<Rightarrow> ('e + string list) list \<Rightarrow>
   ledger \<times> world \<Rightarrow> bool" for client opts where
  finished: "spec_run client opts [] s [] s"
| resolve: "answered client opts cid roles s r s1 \<Longrightarrow> spec_run client opts cs s1 out s2 \<Longrightarrow>
     spec_run client opts (CallResolve cid roles # cs) s (r # out) s2"
| invalidate: "spec_run client opts cs s out s2 \<Longrightarrow> spec_run client opts (CallInvalidate cid roles # cs) s out s2"
| clear: "spec_run client opts cs s out s2 \<Longrightarrow> spec_run client opts (CallClear # cs) s out s2"
| idle: "spec_run client opts cs (L, w\<lparr>clock := clock w + int d\<rparr>) out s2 \<Longrightarrow>
     spec_run client opts (Idle d # cs) (L, w) out s2"

section \<open>Refinement\<close>

text \<open>Whatever the cache may still return is in the ledger, under what its key stands for.\<close>

definition covered :: "int \<Rightarrow> (string \<times> string list \<times> int) set \<Rightarrow> ledger \<Rightarrow> bool" where
  "covered ttl S L \<longleftrightarrow> (\<forall>(k, v, e) \<in> S. \<exists>cid roles. plain_call (CallResolve cid roles) \<and> roles \<noteq> [] \<and>
     k = cacheKey cid roles \<and> (cid, mset roles, v, e - ttl) \<in> L)"

lemma covered_mono: "covered ttl S L \<Longrightarrow> S' \<subseteq> S \<Longrightarrow> L \<subseteq> L' \<Longrightarrow> covered ttl S' L'"
  unfolding covered_def by blast

lemma covered_hit:
  assumes "covered ttl S L" and "(cacheKey cid roles, v, e) \<in> S" and "plain_call (CallResolve cid roles)" and "roles \<noteq> []"
  shows "(cid, mset roles, v, e - ttl) \<in> L"
proof -
  from assms(1,2) obtain cid' roles' where p: "plain_call (CallResolve cid' roles')" "roles' \<noteq> []"
    "cacheKey cid roles = cacheKey cid' roles'" "(cid', mset roles', v, e - ttl) \<in> L"
    unfolding covered_def by blast
  then have "cid = cid' \<and> mset roles = mset roles'"
    using cacheKey_eq_iff [of cid cid' roles roles'] assms(3,4) by (auto simp: list_all_iff)
  with p(4) show ?thesis by simp
qed

lemma covered_insert:
  "covered ttl S L \<Longrightarrow> plain_call (CallResolve cid roles) \<Longrightarrow> roles \<noteq> [] \<Longrightarrow>
   covered ttl (insert (cacheKey cid roles, v, t + ttl) S) (insert (cid, mset roles, v, t) L)"
  unfolding covered_def by fastforce

lemma Resolve_answered:
  assumes law: "cache_law ops stored" and cov: "covered (o_TTL opts) (stored c) L"
    and plain: "plain_call (CallResolve cid roles)" and run: "Resolve ops client opts cid roles (c, w) = (r, c', w')"
  obtains L' where "answered client opts cid roles (L, w) r (L', w')" and "covered (o_TTL opts) (stored c') L'"
proof (cases "roles = []")
  case True
  with run cov show thesis by (intro that [of L]) (auto simp: Resolve_def intro: answered.intros)
next
  case False
  obtain h c1 where get: "c_get ops c (cacheKey cid roles) (clock w) = (h, c1)" by fastforce
  have c1: "covered (o_TTL opts) (stored c1) L"
    using cov cache_lawD(2) [OF law, of _ c "cacheKey cid roles" "clock w"] get by (auto intro: covered_mono)
  obtain a w1 where cl: "client cid roles w = (a, w1)" by fastforce
  consider v where "h = Some v" | e where "h = None" "a = Inl e" | perms where "h = None" "a = Inr perms"
    by (cases h; cases a) auto
  then show thesis
  proof cases
    case 1
    with run False get have eqs: "r = Inr v" "c' = c1" "w' = w" by (simp_all add: Resolve_hit)
    from cache_lawD(1) [OF law get [unfolded 1]] obtain e where "clock w \<le> e" "(cacheKey cid roles, v, e) \<in> stored c"
      by blast
    with covered_hit [OF cov _ plain False] have "(cid, mset roles, v, e - o_TTL opts) \<in> L" "clock w \<le> (e - o_TTL opts) + o_TTL opts"
      by auto
    from answered.ledger [OF False this, of client] show thesis using that [of L] eqs c1 by simp
  next
    case 2
    with run False get cl have "r = (if o_FailOpen opts then Inr [] else Inl e)" "c' = c1" "w' = w1"
      by (auto simp: Resolve_miss_Inl)
    moreover have "answered client opts cid roles (L, w) (if o_FailOpen opts then Inr [] else Inl e) (L, w1)"
      using cl 2 False by (intro answered.failure) simp_all
    ultimately show thesis using that [of L] c1 by simp
  next
    case 3
    with run False get cl have eqs: "r = Inr perms" "w' = w1"
        "c' = c_set ops c1 (cacheKey cid roles) perms (o_TTL opts) (clock w1)"
      by (auto simp: Resolve_miss_Inr)
    have "stored c' \<subseteq> insert (cacheKey cid roles, perms, clock w1 + o_TTL opts) (stored c1)"
      using cache_lawD(3) [OF law] eqs by blast
    with covered_insert [OF c1 plain False] have "covered (o_TTL opts) (stored c') (insert (cid, mset roles, perms, clock w1) L)"
      by (rule covered_mono) auto
    moreover have "answered client opts cid roles (L, w) (Inr perms) (insert (cid, mset roles, perms, clock w1) L, w1)"
      using cl 3 False by (intro answered.server) simp_all
    ultimately show thesis using that eqs by blast
  qed
qed

lemma run_refines:
  assumes law: "cache_law ops stored"
  shows "covered (o_TTL opts) (stored c) L \<Longrightarrow> list_all plain_call cs \<Longrightarrow>
    run_calls ops client opts cs (c, w) = (out, c', w') \<Longrightarrow> \<exists>L'. spec_run client opts cs (L, w) out (L', w')"
proof (induction cs arbitrary: c L w out)
  case Nil
  then show ?case by (auto intro: spec_run.intros)
next
  case (Cons k cs)
  show ?case
  proof (cases k)
    case (CallResolve cid roles)
    obtain r c1 w1 where r: "Resolve ops client opts cid roles (c, w) = (r, c1, w1)" by (metis prod_cases3)
    obtain L1 where "answered client opts cid roles (L, w) r (L1, w1)" and "covered (o_TTL opts) (stored c1) L1"
      using Resolve_answered [OF law Cons.prems(1) _ r] Cons.prems(2) CallResolve by auto
    with Cons.IH [of c1 L1 w1] Cons.prems(2,3) CallResolve r show ?thesis
      by (auto intro: spec_run.intros split: prod.splits)
  next
    case (CallInvalidate cid roles)
    have "covered (o_TTL opts) (stored (Invalidate ops cid roles c)) L"
      using Cons.prems(1) cache_lawD(4) [OF law] by (auto simp: Invalidate_def intro: covered_mono)
    from Cons.IH [OF this, of w out] Cons.prems(2,3) CallInvalidate obtain L' where "spec_run client opts cs (L, w) out (L', w')"
      by auto
    with CallInvalidate show ?thesis by (blast intro: spec_run.invalidate)
  next
    case CallClear
    have "covered (o_TTL opts) (stored (Clear ops c)) L"
      using Cons.prems(1) cache_lawD(5) [OF law] by (auto simp: Clear_def intro: covered_mono)
    from Cons.IH [OF this, of w out] Cons.prems(2,3) CallClear obtain L' where "spec_run client opts cs (L, w) out (L', w')"
      by auto
    with CallClear show ?thesis by (blast intro: spec_run.clear)
  next
    case (Idle d)
    with Cons.IH [OF Cons.prems(1), of "w\<lparr>clock := clock w + int d\<rparr>" out] Cons.prems(2,3)
    obtain L' where "spec_run client opts cs (L, w\<lparr>clock := clock w + int d\<rparr>) out (L', w')" by auto
    with Idle show ?thesis by (blast intro: spec_run.idle)
  qed
qed

text \<open>
  C9. The resolver refines its specification.  Start with an empty cache, and let resolutions,
  invalidations, clearing and time follow each other in any order, for client ids without bars and
  roles without commas: every answer is one that the specification gives, from the ledger of what the
  server said for this client and these roles (in any order) no longer than the TTL ago, or from the
  server itself.
\<close>

theorem resolver_refines:
  assumes "cache_law ops stored" and "stored c = {}" and "list_all plain_call cs"
    and "run_calls ops client opts cs (c, w) = (out, c', w')"
  shows "\<exists>L'. spec_run client opts cs ({}, w) out (L', w')"
  using run_refines [OF assms(1) _ assms(3,4)] assms(2) by (simp add: covered_def)

definition counting_client :: "unit resolve_client" where
  "counting_client = (\<lambda>cid roles w. (Inr [''n:'' @ replicate (length (sent w)) (CHR ''x'')],
     w\<lparr>sent := sent w @ [\<lparr>meth = ''GET'', url = cid, headers = [], payload = []\<rparr>]\<rparr>))"

text \<open>Two orders of the roles share an answer until it expires.\<close>

theorem resolver_refines_witness:
  "\<exists>L' w'. spec_run counting_client \<lparr>o_TTL = 10, o_MaxEntries = 1, o_FailOpen = False\<rparr>
     [CallResolve ''app'' [''a'', ''b''], CallResolve ''app'' [''b'', ''a''], Idle 11, CallResolve ''app'' [''a'', ''b'']]
     ({}, \<lparr>sent = [], clock = 0\<rparr>) [Inr [''n:''], Inr [''n:''], Inr [''n:x'']] (L', w')"
proof -
  let ?opts = "\<lparr>o_TTL = 10, o_MaxEntries = 1, o_FailOpen = False\<rparr>"
  let ?cs = "[CallResolve ''app'' [''a'', ''b''], CallResolve ''app'' [''b'', ''a''], Idle 11, CallResolve ''app'' [''a'', ''b'']]"
  have key: "cacheKey ''app'' [''b'', ''a''] = cacheKey ''app'' [''a'', ''b'']" by (rule cacheKey_perm) simp
  obtain out c' w' where run: "run_calls list_cache counting_client ?opts ?cs ([], \<lparr>sent = [], clock = 0\<rparr>) = (out, c', w')"
    by (metis prod_cases3)
  have "out = [Inr [''n:''], Inr [''n:''], Inr [''n:x'']]"
    using run by (auto simp: Resolve_def list_cache_def counting_client_def Let_def key)
  with resolver_refines [OF list_cache_law _ _ run] show ?thesis by auto
qed

end
