(* ===== verification/Manifest.thy ===== *)
theory Manifest
  imports Go_Json Sha256
begin

text \<open>
  The pure part of permission_manifest.go: declarations and their validation, the canonical form and
  the fingerprint, the preparation of a manifest, and the checks on the server's result.

  Unicode normalisation comes from golang.org/x/text, so \<open>nfc\<close>, the test whether a string is in
  normal form C, is a parameter.
\<close>

section \<open>Data\<close>

record PermissionManifestDeclaration =
  d_Resource :: string
  d_Action :: string
  d_Name :: string
  d_Description :: "string option"

definition Key :: "PermissionManifestDeclaration \<Rightarrow> string" where
  "Key d = d_Resource d @ '':'' @ d_Action d"

text \<open>The mode is a string type; \<open>Permissions\<close> may be the nil slice.\<close>

definition PermissionManifestValidate :: string where "PermissionManifestValidate = ''validate''"
definition PermissionManifestUpsert :: string where "PermissionManifestUpsert = ''upsert''"

lemma modes_differ [simp]: "PermissionManifestValidate \<noteq> PermissionManifestUpsert"
  by (simp add: PermissionManifestValidate_def PermissionManifestUpsert_def)

record PermissionManifest =
  m_ManifestID :: string
  m_Revision :: string
  m_Permissions :: "PermissionManifestDeclaration list option"

record PreparedPermissionManifest =
  p_Mode :: string
  p_ManifestID :: string
  p_Revision :: string
  p_Fingerprint :: string
  p_Permissions :: "PermissionManifestDeclaration list"

record PermissionManifestItem =
  i_Key :: string
  i_Operation :: string
  i_Reason :: string

record PermissionManifestDrift =
  dr_Key :: string
  dr_Kind :: string
  dr_Source :: string

record PermissionManifestCounts =
  n_Created :: int
  n_Updated :: int
  n_Unchanged :: int
  n_Resurrected :: int
  n_Conflict :: int
  n_Drift :: int

record PermissionManifestResult =
  s_Mode :: string
  s_ManifestID :: string
  s_Revision :: string
  s_Fingerprint :: string
  s_Applied :: bool
  s_Results :: "PermissionManifestItem list"
  s_Drift :: "PermissionManifestDrift list"
  s_Counts :: PermissionManifestCounts

datatype manifest_error = BadMode | BadManifestID | BadRevision | TooManyPermissions | DuplicateKey
  | BadConcreteKey | BadText string | NotNFC string
  | IdentityMismatch | BadResultItem | UnknownOperation | BadDrift | CountsMismatch | MissingField
  | BadIdempotencyKey

section \<open>Patterns\<close>

definition manifestIDPattern :: "string \<Rightarrow> bool" where
  "manifestIDPattern s = (case s of [] \<Rightarrow> False
     | c # cs \<Rightarrow> lower_alnum c \<and>
         repeated (\<lambda>d. lower_alnum d \<or> d = CHR ''.'' \<or> d = CHR ''_'' \<or> d = CHR ''-'') 0 127 cs)"

definition revisionPattern :: "string \<Rightarrow> bool" where
  "revisionPattern = repeated (\<lambda>c. alnum c \<or> c \<in> set ''._:@/+~-'') 1 128"

definition segmentPattern :: "string \<Rightarrow> bool" where
  "segmentPattern = repeated segment_char 1 128"

definition fingerprintPattern :: "string \<Rightarrow> bool" where
  "fingerprintPattern = repeated lower_hex 64 64"

definition idempotencyPattern :: "string \<Rightarrow> bool" where
  "idempotencyPattern = repeated (\<lambda>c. CHR 0x21 \<le> c \<and> c \<le> CHR 0x7E) 8 128"

definition requireManifestIdempotencyKey :: "string \<Rightarrow> manifest_error + unit" where
  "requireManifestIdempotencyKey v = (if \<not> idempotencyPattern v then Inl BadIdempotencyKey else Inr ())"

definition validManifestKey :: "string \<Rightarrow> bool" where
  "validManifestKey v = (let parts = split_on (CHR '':'') v in
     length parts = 2 \<and> segmentPattern (parts ! 0) \<and> segmentPattern (parts ! 1))"

section \<open>Declarations\<close>

definition utf16Length :: "string \<Rightarrow> nat" where
  "utf16Length s = utf16_len s"

definition validateManifestText :: "string \<Rightarrow> nat \<Rightarrow> string \<Rightarrow> manifest_error + unit" where
  "validateManifestText v mx field =
     (if v = [] \<or> utf16Length v > mx \<or> trim_space v \<noteq> v then Inl (BadText field)
      else if list_ex is_control (runes v) then Inl (BadText field) else Inr ())"

text \<open>
  The map of fields is visited in an unspecified order, which only decides whose name the error
  carries; here it is resource, action, name.
\<close>

fun require_nfc :: "(string \<Rightarrow> bool) \<Rightarrow> (string \<times> string) list \<Rightarrow> manifest_error + unit" where
  "require_nfc nfc [] = Inr ()"
| "require_nfc nfc ((field, v) # fs) =
     (if \<not> valid_utf8 v \<or> \<not> nfc v then Inl (NotNFC field) else require_nfc nfc fs)"

definition validateManifestDeclaration ::
  "(string \<Rightarrow> bool) \<Rightarrow> PermissionManifestDeclaration \<Rightarrow> manifest_error + unit" where
  "validateManifestDeclaration nfc v =
     (if \<not> segmentPattern (d_Resource v) \<or> \<not> segmentPattern (d_Action v) then Inl BadConcreteKey
      else bind_ok (validateManifestText (d_Name v) 128 ''name'') (\<lambda>_.
        bind_ok (case d_Description v of None \<Rightarrow> Inr ()
                 | Some t \<Rightarrow> validateManifestText t 512 ''description'') (\<lambda>_.
        bind_ok (require_nfc nfc [(''resource'', d_Resource v), (''action'', d_Action v), (''name'', d_Name v)]) (\<lambda>_.
        (case d_Description v of None \<Rightarrow> Inr ()
         | Some t \<Rightarrow> if \<not> valid_utf8 t \<or> \<not> nfc t then Inl (NotNFC ''description'') else Inr ())))))"

section \<open>The canonical form\<close>

definition hex_digit :: "nat \<Rightarrow> char" where
  "hex_digit n = char_of (if n < 10 then 48 + n else 87 + n)"

definition jcs_rune :: "nat \<Rightarrow> string" where
  "jcs_rune r =
     (if r = 34 then [CHR 0x5C, CHR 0x22]
      else if r = 92 then [CHR 0x5C, CHR 0x5C]
      else if r = 8 then [CHR 0x5C, CHR ''b'']
      else if r = 12 then [CHR 0x5C, CHR ''f'']
      else if r = 10 then [CHR 0x5C, CHR ''n'']
      else if r = 13 then [CHR 0x5C, CHR ''r'']
      else if r = 9 then [CHR 0x5C, CHR ''t'']
      else if r \<le> 31 then [CHR 0x5C, CHR ''u'', CHR ''0'', CHR ''0'', hex_digit (r div 16), hex_digit (r mod 16)]
      else encode_rune r)"

definition appendJCSString :: "string \<Rightarrow> string" where
  "appendJCSString v = [CHR 0x22] @ concat (map jcs_rune (runes v)) @ [CHR 0x22]"

definition canonicalDeclaration :: "PermissionManifestDeclaration \<Rightarrow> string" where
  "canonicalDeclaration v =
     [CHR 0x7B, CHR 0x22] @ ''action'' @ [CHR 0x22] @ '':'' @ appendJCSString (d_Action v) @
     '','' @ [CHR 0x22] @ ''description'' @ [CHR 0x22] @ '':'' @
       (case d_Description v of None \<Rightarrow> ''null'' | Some t \<Rightarrow> appendJCSString t) @
     '','' @ [CHR 0x22] @ ''name'' @ [CHR 0x22] @ '':'' @ appendJCSString (d_Name v) @
     '','' @ [CHR 0x22] @ ''resource'' @ [CHR 0x22] @ '':'' @ appendJCSString (d_Resource v) @ [CHR 0x7D]"

fun canonical_items :: "PermissionManifestDeclaration list \<Rightarrow> string" where
  "canonical_items [] = []"
| "canonical_items [p] = canonicalDeclaration p"
| "canonical_items (p # q # ps) = canonicalDeclaration p @ '','' @ canonical_items (q # ps)"

definition canonicalManifest :: "PermissionManifestDeclaration list \<Rightarrow> string" where
  "canonicalManifest ps = [CHR 0x7B, CHR 0x22] @ ''permissions'' @ [CHR 0x22] @ '':['' @ canonical_items ps @ '']'' @ [CHR 0x7D]"

definition PermissionDeclarationRevision ::
  "(string \<Rightarrow> bool) \<Rightarrow> PermissionManifestDeclaration \<Rightarrow> manifest_error + string" where
  "PermissionDeclarationRevision nfc d =
     bind_ok (validateManifestDeclaration nfc d) (\<lambda>_. Inr (sha256Hex (canonicalDeclaration d)))"

section \<open>Preparation\<close>

fun validate_all :: "(string \<Rightarrow> bool) \<Rightarrow> PermissionManifestDeclaration list \<Rightarrow> manifest_error + unit" where
  "validate_all nfc [] = Inr ()"
| "validate_all nfc (d # ds) = bind_ok (validateManifestDeclaration nfc d) (\<lambda>_. validate_all nfc ds)"

fun adjacent_equal :: "string list \<Rightarrow> bool" where
  "adjacent_equal (a # b # ks) = (a = b \<or> adjacent_equal (b # ks))"
| "adjacent_equal ks = False"

definition PreparePermissionManifest ::
  "(string \<Rightarrow> bool) \<Rightarrow> PermissionManifest \<Rightarrow> string \<Rightarrow> manifest_error + PreparedPermissionManifest" where
  "PreparePermissionManifest nfc m mode =
     (if mode \<noteq> PermissionManifestValidate \<and> mode \<noteq> PermissionManifestUpsert then Inl BadMode
      else if \<not> manifestIDPattern (m_ManifestID m) then Inl BadManifestID
      else if \<not> revisionPattern (m_Revision m) then Inl BadRevision
      else (case m_Permissions m of
        None \<Rightarrow> Inl TooManyPermissions
      | Some ds \<Rightarrow>
         (if length ds > 1000 then Inl TooManyPermissions
          else bind_ok (validate_all nfc ds) (\<lambda>_.
            let ps = sort_key Key ds in
            if adjacent_equal (map Key ps) then Inl DuplicateKey
            else Inr \<lparr>p_Mode = mode, p_ManifestID = m_ManifestID m, p_Revision = m_Revision m,
                      p_Fingerprint = sha256Hex (canonicalManifest ps), p_Permissions = ps\<rparr>))))"

section \<open>The server's result\<close>

definition known_reasons :: "string list" where
  "known_reasons = [''DECLARATION_ACCEPTED'', ''MANUAL_COLLISION'', ''LEGACY_CODE_UNATTRIBUTED'', ''CODE_OWNER_COLLISION'']"

definition known_drifts :: "string list" where
  "known_drifts = [''MANUAL_COLLISION'', ''LEGACY_CODE_UNATTRIBUTED'', ''CODE_OWNER_COLLISION'', ''ABSENT_DECLARATION'']"

definition operations0 :: "string \<rightharpoonup> int" where
  "operations0 = map_of [(''CREATE'', 0), (''UPDATE'', 0), (''UNCHANGED'', 0), (''RESURRECT'', 0), (''CONFLICT'', 0)]"

fun check_results ::
  "(string \<rightharpoonup> int) \<Rightarrow> string \<Rightarrow> PermissionManifestItem list \<Rightarrow> manifest_error + (string \<rightharpoonup> int)" where
  "check_results ops prev [] = Inr ops"
| "check_results ops prev (x # xs) =
     (if \<not> validManifestKey (i_Key x) \<or> i_Key x \<le> prev \<or> i_Reason x \<notin> set known_reasons then Inl BadResultItem
      else (case ops (i_Operation x) of
        None \<Rightarrow> Inl UnknownOperation
      | Some n \<Rightarrow> check_results (ops(i_Operation x \<mapsto> n + 1)) (i_Key x) xs))"

fun check_drift :: "string \<Rightarrow> PermissionManifestDrift list \<Rightarrow> manifest_error + unit" where
  "check_drift prev [] = Inr ()"
| "check_drift prev (x # xs) =
     (if \<not> validManifestKey (dr_Key x) \<or> dr_Key x \<le> prev \<or> dr_Kind x \<notin> set known_drifts \<or>
         (dr_Source x \<noteq> ''CODE'' \<and> dr_Source x \<noteq> ''MANUAL'')
      then Inl BadDrift else check_drift (dr_Key x) xs)"

definition count_of :: "(string \<rightharpoonup> int) \<Rightarrow> string \<Rightarrow> int" where
  "count_of ops k = (case ops k of None \<Rightarrow> 0 | Some n \<Rightarrow> n)"

definition validateManifestResult ::
  "PermissionManifestResult \<Rightarrow> PreparedPermissionManifest \<Rightarrow> manifest_error + unit" where
  "validateManifestResult res req =
     (if s_Mode res \<noteq> p_Mode req \<or> s_ManifestID res \<noteq> p_ManifestID req \<or> s_Revision res \<noteq> p_Revision req \<or>
         s_Fingerprint res \<noteq> p_Fingerprint req \<or> \<not> fingerprintPattern (s_Fingerprint res) \<or>
         s_Applied res \<noteq> (p_Mode req = PermissionManifestUpsert)
      then Inl IdentityMismatch
      else bind_ok (check_results operations0 [] (s_Results res)) (\<lambda>ops.
        bind_ok (check_drift [] (s_Drift res)) (\<lambda>_.
        (let c = s_Counts res in
         if n_Created c \<noteq> count_of ops ''CREATE'' \<or> n_Updated c \<noteq> count_of ops ''UPDATE'' \<or>
            n_Unchanged c \<noteq> count_of ops ''UNCHANGED'' \<or> n_Resurrected c \<noteq> count_of ops ''RESURRECT'' \<or>
            n_Conflict c \<noteq> count_of ops ''CONFLICT'' \<or> n_Drift c \<noteq> int (length (s_Drift res))
         then Inl CountsMismatch else Inr ()))))"

section \<open>Retry-After\<close>

text \<open>\<open>strconv.Atoi\<close> on at most five bytes, which cannot overflow: an optional sign and digits.\<close>

definition atoi :: "string \<Rightarrow> int option" where
  "atoi s =
     (let neg = has_prefix ''-'' s; ds = (if neg \<or> has_prefix ''+'' s then tl s else s)
      in if ds = [] \<or> \<not> list_all digit ds then None
         else Some (if neg then - digits_val ds else digits_val ds))"

definition parseManifestRetryAfter :: "string \<Rightarrow> int \<times> bool" where
  "parseManifestRetryAfter v =
     (if v = [] \<or> length v > 5 \<or> v ! 0 = CHR ''0'' then (0, False)
      else (case atoi v of None \<Rightarrow> (0, False) | Some s \<Rightarrow> (s, s > 0 \<and> s \<le> 86400)))"

section \<open>Facts about the canonical form\<close>

text \<open>Escaping, byte by byte: a UTF-8 string is escaped at its ASCII bytes only.\<close>

definition jcs_byte :: "char \<Rightarrow> string" where
  "jcs_byte c = (if byte c < 128 then jcs_rune (byte c) else [c])"

lemma jcs_rune_encode: "31 < r \<Longrightarrow> r \<noteq> 34 \<Longrightarrow> r \<noteq> 92 \<Longrightarrow> jcs_rune r = encode_rune r"
  by (simp add: jcs_rune_def)

lemma decode_tail_high:
  assumes "decode_tail b0 bs = (r, k)" and "\<not> b0 < 128"
  shows "127 < r \<and> (\<forall>b \<in> set (take k bs). 128 \<le> b)"
  using assms by (auto simp: decode_tail_def cont_byte_def split: if_splits list.splits)

lemma chunks_jcs:
  assumes "valid_utf8 s" and "(r, bs) \<in> set (chunks s)"
  shows "jcs_rune r = concat (map jcs_byte bs)"
  using assms
proof (induction s rule: chunks.induct)
  case (2 c cs)
  obtain q k where d: "decode_tail (byte c) (map byte (take 3 cs)) = (q, k)" by fastforce
  then have split: "chunks (c # cs) = (q, c # take k cs) # chunks (drop k cs)" by simp
  from 2(2) split have v: "valid_utf8 (drop k cs)"
    by (auto simp: valid_utf8_def)
  have "encode_rune q = c # take k cs"
  proof (rule chunks_valid [OF 2(2)])
    show "(q, c # take k cs) \<in> set (chunks (c # cs))" unfolding split by simp
  qed
  have "jcs_rune q = concat (map jcs_byte (c # take k cs))"
  proof (cases "byte c < 128")
    case True
    with d show ?thesis by (simp add: jcs_byte_def)
  next
    case False
    note h = decode_tail_high [OF d False]
    have "take k (map byte (take 3 cs)) = map byte (take k cs)"
      using take_map_byte [OF d] by (simp add: take_map min_absorb1)
    with h False have "\<forall>x \<in> set (c # take k cs). jcs_byte x = [x]"
      by (auto simp: jcs_byte_def)
    then have "concat (map jcs_byte (c # take k cs)) = c # take k cs"
      by (metis (no_types, lifting) concat_map_singleton list.map_ident map_eq_conv)
    with h \<open>encode_rune q = c # take k cs\<close> show ?thesis by (simp add: jcs_rune_encode)
  qed
  moreover from 2(3) have "(r, bs) = (q, c # take k cs) \<or> (r, bs) \<in> set (chunks (drop k cs))"
    unfolding split by simp
  ultimately show ?case
    using 2(1) [OF d [symmetric] refl v] by blast
qed simp

lemma concat_map_jcs:
  "concat (map (\<lambda>(r, bs). concat (map jcs_byte bs)) xs) = concat (map jcs_byte (concat (map snd xs)))"
  by (induction xs) auto

lemma jcs_bytes: "valid_utf8 s \<Longrightarrow> concat (map jcs_rune (runes s)) = concat (map jcs_byte s)"
proof -
  assume v: "valid_utf8 s"
  have "concat (map jcs_rune (runes s)) = concat (map (\<lambda>(r, bs). concat (map jcs_byte bs)) (chunks s))"
    using chunks_jcs [OF v] by (auto simp: runes_def intro!: arg_cong [where f = concat] map_cong)
  also have "\<dots> = concat (map jcs_byte (concat (map snd (chunks s))))"
    by (rule concat_map_jcs)
  finally show ?thesis by simp
qed

text \<open>The escapes form a prefix code that avoids the quotation mark.\<close>

lemma jcs_byte_shape:
  "jcs_byte c = [c] \<and> c \<noteq> CHR 0x5C \<and> c \<noteq> CHR 0x22 \<or>
   (\<exists>d. jcs_byte c = [CHR 0x5C, d] \<and> d \<noteq> CHR ''u'') \<or>
   (\<exists>x y. jcs_byte c = [CHR 0x5C, CHR ''u'', CHR ''0'', CHR ''0'', x, y])"
proof (cases "byte c < 128")
  case True
  show ?thesis
  proof (cases "byte c \<in> {34, 92, 8, 12, 10, 13, 9} \<or> byte c \<le> 31")
    case True
    then show ?thesis by (auto simp: jcs_byte_def jcs_rune_def)
  next
    case False
    with \<open>byte c < 128\<close> have "jcs_byte c = [c]"
      by (simp add: jcs_byte_def jcs_rune_def encode_rune_def)
    with False show ?thesis by (auto simp: byte_def)
  qed
next
  case False
  then show ?thesis by (auto simp: jcs_byte_def byte_def)
qed

text \<open>Unescaping one byte.\<close>

definition hex_digit_val :: "char \<Rightarrow> nat" where
  "hex_digit_val d = (if byte d < 58 then byte d - 48 else byte d - 87)"

definition jcs_unescape :: "string \<Rightarrow> char" where
  "jcs_unescape s = (case s of
     [c] \<Rightarrow> c
   | [c, d] \<Rightarrow> (if d = CHR ''b'' then CHR 0x08 else if d = CHR ''f'' then CHR 0x0C else if d = CHR ''n'' then CHR 0x0A
       else if d = CHR ''r'' then CHR 0x0D else if d = CHR ''t'' then CHR 0x09 else d)
   | [a, b, c, d, x, y] \<Rightarrow> char_of (16 * hex_digit_val x + hex_digit_val y))"

lemma hex_digit_val: "n < 16 \<Longrightarrow> hex_digit_val (hex_digit n) = n"
  by (simp add: hex_digit_val_def hex_digit_def byte_def)

lemma jcs_unescape: "jcs_unescape (jcs_byte c) = c"
proof -
  consider "\<not> byte c < 128" | "byte c \<in> {34, 92, 8, 12, 10, 13, 9}"
    | "byte c \<notin> {34, 92, 8, 12, 10, 13, 9}" "byte c \<le> 31"
    | "byte c \<notin> {34, 92, 8, 12, 10, 13, 9}" "31 < byte c" "byte c < 128"
    by fastforce
  then show ?thesis
  proof cases
    case 1
    then show ?thesis by (simp add: jcs_byte_def jcs_unescape_def)
  next
    case 2
    then have "byte (jcs_unescape (jcs_byte c)) = byte c"
      by (auto simp: jcs_byte_def jcs_rune_def jcs_unescape_def) (simp_all add: byte_def)
    then show ?thesis by (metis char_of_byte)
  next
    case 3
    then have "hex_digit_val (hex_digit (byte c div 16)) = byte c div 16"
      "hex_digit_val (hex_digit (byte c mod 16)) = byte c mod 16"
      by (auto intro!: hex_digit_val)
    with 3 show ?thesis
      by (simp add: jcs_byte_def jcs_rune_def jcs_unescape_def)
  next
    case 4
    then show ?thesis
      by (simp add: jcs_byte_def jcs_rune_def jcs_unescape_def encode_rune_def)
  qed
qed

lemma inj_jcs_byte: "inj jcs_byte"
  by (metis injI jcs_unescape)

lemma jcs_byte_append_eq:
  assumes "jcs_byte c @ a = jcs_byte d @ b"
  shows "c = d \<and> a = b"
proof -
  have "length (jcs_byte c) = length (jcs_byte d)"
    using assms jcs_byte_shape [of c] jcs_byte_shape [of d] by auto
  with assms have "jcs_byte c = jcs_byte d" "a = b" by simp_all
  then show ?thesis using inj_jcs_byte by (simp add: inj_eq)
qed

lemma jcs_byte_not_quote: "jcs_byte c @ a \<noteq> CHR 0x22 # b"
  using jcs_byte_shape [of c] by auto

lemma jcs_body_inj:
  "concat (map jcs_byte s) @ CHR 0x22 # a = concat (map jcs_byte t) @ CHR 0x22 # b \<Longrightarrow> s = t \<and> a = b"
proof (induction s arbitrary: t)
  case Nil
  then show ?case by (cases t) (auto dest: sym [THEN jcs_byte_not_quote [THEN notE]])
next
  case (Cons c s)
  then show ?case
    by (cases t) (auto dest: jcs_byte_append_eq simp: jcs_byte_not_quote)
qed

lemma appendJCSString_inj:
  assumes "valid_utf8 s" and "valid_utf8 t" and "appendJCSString s @ a = appendJCSString t @ b"
  shows "s = t \<and> a = b"
  using assms jcs_body_inj [of s a t b] by (simp add: appendJCSString_def jcs_bytes)

text \<open>A declaration's text in the encoding the server reads.\<close>

definition utf8_declaration :: "PermissionManifestDeclaration \<Rightarrow> bool" where
  "utf8_declaration d = (valid_utf8 (d_Resource d) \<and> valid_utf8 (d_Action d) \<and> valid_utf8 (d_Name d) \<and>
     (case d_Description d of None \<Rightarrow> True | Some t \<Rightarrow> valid_utf8 t))"

lemma jcs_hd: "\<exists>x. appendJCSString v = CHR 0x22 # x"
  by (simp add: appendJCSString_def)

lemma description_inj:
  assumes "utf8_declaration d" and "utf8_declaration e"
    and "(case d_Description d of None \<Rightarrow> ''null'' | Some t \<Rightarrow> appendJCSString t) @ a
       = (case d_Description e of None \<Rightarrow> ''null'' | Some t \<Rightarrow> appendJCSString t) @ b"
  shows "d_Description d = d_Description e \<and> a = b"
proof (cases "d_Description d"; cases "d_Description e")
  fix t u
  assume "d_Description d = Some t" "d_Description e = Some u"
  with assms appendJCSString_inj [of t u a b] show ?thesis by (simp add: utf8_declaration_def)
next
  fix u
  assume h: "d_Description d = None" "d_Description e = Some u"
  obtain x where "appendJCSString u = CHR 0x22 # x" using jcs_hd by blast
  with assms(3) h show ?thesis by simp
next
  fix t
  assume h: "d_Description d = Some t" "d_Description e = None"
  obtain x where "appendJCSString t = CHR 0x22 # x" using jcs_hd by blast
  with assms(3) h show ?thesis by simp
qed (use assms in simp)

lemma canonicalDeclaration_inj:
  assumes "utf8_declaration d" and "utf8_declaration e"
    and eq: "canonicalDeclaration d @ a = canonicalDeclaration e @ b"
  shows "d = e \<and> a = b"
proof -
  note d = assms(1,2)[unfolded utf8_declaration_def]
  let ?D = "\<lambda>d. case d_Description d of None \<Rightarrow> ''null'' | Some t \<Rightarrow> appendJCSString t"
  let ?q = "[CHR 0x22]"
  define tl4 where "tl4 v x = appendJCSString (d_Resource v) @ [CHR 0x7D] @ x" for v :: PermissionManifestDeclaration and x :: string
  define tl3 where "tl3 v x = appendJCSString (d_Name v) @ '','' @ ?q @ ''resource'' @ ?q @ '':'' @ tl4 v x" for v :: PermissionManifestDeclaration and x :: string
  define tl2 where "tl2 v x = ?D v @ '','' @ ?q @ ''name'' @ ?q @ '':'' @ tl3 v x" for v :: PermissionManifestDeclaration and x :: string
  have split: "canonicalDeclaration v @ x = [CHR 0x7B] @ ?q @ ''action'' @ ?q @ '':'' @ appendJCSString (d_Action v) @
      '','' @ ?q @ ''description'' @ ?q @ '':'' @ tl2 v x" for v :: PermissionManifestDeclaration and x :: string
    by (simp add: canonicalDeclaration_def tl2_def tl3_def tl4_def)
  have 1: "appendJCSString (d_Action d) @ '','' @ ?q @ ''description'' @ ?q @ '':'' @ tl2 d a
      = appendJCSString (d_Action e) @ '','' @ ?q @ ''description'' @ ?q @ '':'' @ tl2 e b"
    using eq unfolding split by simp
  from appendJCSString_inj [OF _ _ 1] d have "d_Action d = d_Action e" and "tl2 d a = tl2 e b"
    by auto
  moreover from this(2) have 2: "?D d @ '','' @ ?q @ ''name'' @ ?q @ '':'' @ tl3 d a
      = ?D e @ '','' @ ?q @ ''name'' @ ?q @ '':'' @ tl3 e b"
    by (simp only: tl2_def)
  from description_inj [OF assms(1,2) 2] have "d_Description d = d_Description e" and 3: "tl3 d a = tl3 e b"
    by auto
  moreover from appendJCSString_inj [OF _ _ 3 [unfolded tl3_def]] d
    have "d_Name d = d_Name e" and 4: "tl4 d a = tl4 e b"
    by auto
  moreover from appendJCSString_inj [OF _ _ 4 [unfolded tl4_def]] d
    have "d_Resource d = d_Resource e" and "a = b"
    by auto
  ultimately show ?thesis by simp
qed

lemma canonicalDeclaration_hd: "\<exists>x. canonicalDeclaration d = CHR 0x7B # x"
  by (simp add: canonicalDeclaration_def)

lemma canonical_items_Cons:
  "canonical_items (p # ps) = canonicalDeclaration p @ concat (map (\<lambda>d. '','' @ canonicalDeclaration d) ps)"
  by (induction ps arbitrary: p) auto

lemma canonical_tail_inj:
  assumes "\<forall>d \<in> set ps. utf8_declaration d" and "\<forall>d \<in> set qs. utf8_declaration d"
    and "concat (map (\<lambda>d. '','' @ canonicalDeclaration d) ps) @ CHR '']'' # a
       = concat (map (\<lambda>d. '','' @ canonicalDeclaration d) qs) @ CHR '']'' # b"
  shows "ps = qs"
  using assms
proof (induction ps arbitrary: qs)
  case Nil
  then show ?case by (cases qs) auto
next
  case (Cons p ps)
  then obtain q qs' where qs: "qs = q # qs'" by (cases qs) auto
  let ?t = "\<lambda>ds a. concat (map (\<lambda>d. '','' @ canonicalDeclaration d) ds) @ CHR '']'' # a"
  have "canonicalDeclaration p @ ?t ps a = canonicalDeclaration q @ ?t qs' b"
    using Cons.prems(3) qs by simp
  moreover have "utf8_declaration p" "utf8_declaration q"
    using Cons.prems(1,2) qs by simp_all
  ultimately have "p = q" and "?t ps a = ?t qs' b"
    using canonicalDeclaration_inj by blast+
  then show ?case
    using Cons.IH [of qs'] Cons.prems(1,2) qs by simp
qed

lemma canonical_items_inj:
  assumes ps: "\<forall>d \<in> set ps. utf8_declaration d" and qs: "\<forall>d \<in> set qs. utf8_declaration d"
    and eq: "canonical_items ps @ CHR '']'' # a = canonical_items qs @ CHR '']'' # b"
  shows "ps = qs"
proof (cases ps; cases qs)
  fix q qs'
  assume h: "ps = []" "qs = q # qs'"
  obtain x where "canonicalDeclaration q = CHR 0x7B # x" using canonicalDeclaration_hd by blast
  with eq h show ?thesis by (simp add: canonical_items_Cons)
next
  fix p ps'
  assume h: "ps = p # ps'" "qs = []"
  obtain x where "canonicalDeclaration p = CHR 0x7B # x" using canonicalDeclaration_hd by blast
  with eq h show ?thesis by (simp add: canonical_items_Cons)
next
  fix p ps' q qs'
  assume h: "ps = p # ps'" "qs = q # qs'"
  let ?t = "\<lambda>ds a. concat (map (\<lambda>d. '','' @ canonicalDeclaration d) ds) @ CHR '']'' # a"
  have "canonicalDeclaration p @ ?t ps' a = canonicalDeclaration q @ ?t qs' b"
    using eq h by (simp add: canonical_items_Cons)
  moreover have "utf8_declaration p" "utf8_declaration q"
    using ps qs h by simp_all
  ultimately have "p = q" and t: "?t ps' a = ?t qs' b"
    using canonicalDeclaration_inj by blast+
  then show ?thesis
    using canonical_tail_inj [OF _ _ t] ps qs h by simp
qed (use eq in simp)

section \<open>Facts about preparation\<close>

lemma validate_all_iff: "validate_all nfc ds = Inr () \<longleftrightarrow> (\<forall>d \<in> set ds. validateManifestDeclaration nfc d = Inr ())"
proof (induction ds)
  case (Cons d ds)
  then show ?case by (cases "validateManifestDeclaration nfc d") auto
qed simp

lemma adjacent_equal_iff: "sorted ks \<Longrightarrow> adjacent_equal ks \<longleftrightarrow> \<not> distinct ks"
  by (induction ks rule: adjacent_equal.induct) auto

lemma validateManifestDeclaration_InrD:
  assumes "validateManifestDeclaration nfc d = Inr ()"
  shows "segmentPattern (d_Resource d)" "segmentPattern (d_Action d)" "utf8_declaration d"
  using assms
  by (auto simp: validateManifestDeclaration_def utf8_declaration_def split: if_splits option.splits
      elim!: bind_ok_InrE)

lemma segment_no_colon': "segmentPattern s \<Longrightarrow> CHR '':'' \<notin> set s"
  using segment_char_not_punct(1) by (auto simp: segmentPattern_def repeated_def list_all_iff)

lemma validManifestKey_iff:
  "validManifestKey k \<longleftrightarrow> (\<exists>r a. k = r @ '':'' @ a \<and> segmentPattern r \<and> segmentPattern a)"
proof
  assume h: "validManifestKey k"
  then obtain r a where "split_on (CHR '':'') k = [r, a]"
    by (auto simp: validManifestKey_def Let_def numeral_2_eq_2 length_Suc_conv)
  with h show "\<exists>r a. k = r @ '':'' @ a \<and> segmentPattern r \<and> segmentPattern a"
    by (auto simp: validManifestKey_def dest: split_on_pairD)
next
  assume "\<exists>r a. k = r @ '':'' @ a \<and> segmentPattern r \<and> segmentPattern a"
  then obtain r a where k: "k = r @ '':'' @ a" "segmentPattern r" "segmentPattern a" by blast
  then have "split_on (CHR '':'') k = [r, a]"
    using split_on_pair_iff [of "CHR '':''" k r a] by (simp add: segment_no_colon')
  with k show "validManifestKey k" by (simp add: validManifestKey_def)
qed

lemma Prepare_InrD:
  assumes "PreparePermissionManifest nfc m mode = Inr p"
  obtains ds where "m_Permissions m = Some ds" and "length ds \<le> 1000"
    and "\<forall>d \<in> set ds. validateManifestDeclaration nfc d = Inr ()"
    and "distinct (map Key ds)" and "mode = PermissionManifestValidate \<or> mode = PermissionManifestUpsert"
    and "p = \<lparr>p_Mode = mode, p_ManifestID = m_ManifestID m, p_Revision = m_Revision m,
           p_Fingerprint = sha256Hex (canonicalManifest (sort_key Key ds)), p_Permissions = sort_key Key ds\<rparr>"
proof -
  from assms obtain ds where ds: "m_Permissions m = Some ds" "length ds \<le> 1000"
      "validate_all nfc ds = Inr ()" "\<not> adjacent_equal (map Key (sort_key Key ds))"
      "mode = PermissionManifestValidate \<or> mode = PermissionManifestUpsert"
    and p: "p = \<lparr>p_Mode = mode, p_ManifestID = m_ManifestID m, p_Revision = m_Revision m,
           p_Fingerprint = sha256Hex (canonicalManifest (sort_key Key ds)), p_Permissions = sort_key Key ds\<rparr>"
    by (auto simp: PreparePermissionManifest_def Let_def split: if_splits option.splits elim!: bind_ok_InrE)
  have "distinct (map Key (sort_key Key ds))"
    using ds(4) by (simp add: adjacent_equal_iff)
  then have "distinct (map Key ds)"
    by (metis distinct_map distinct_sort set_sort)
  with ds p that show thesis by (simp add: validate_all_iff)
qed

lemma Prepare_Inr:
  assumes "m_Permissions m = Some ds" and "length ds \<le> 1000" and "validate_all nfc ds = Inr ()"
    and "distinct (map Key ds)" and "mode = PermissionManifestValidate \<or> mode = PermissionManifestUpsert"
    and "manifestIDPattern (m_ManifestID m)" and "revisionPattern (m_Revision m)"
  shows "PreparePermissionManifest nfc m mode =
    Inr \<lparr>p_Mode = mode, p_ManifestID = m_ManifestID m, p_Revision = m_Revision m,
         p_Fingerprint = sha256Hex (canonicalManifest (sort_key Key ds)), p_Permissions = sort_key Key ds\<rparr>"
proof -
  have "distinct (map Key (sort_key Key ds))"
    using assms(4) by (metis distinct_map distinct_sort set_sort)
  then have "\<not> adjacent_equal (map Key (sort_key Key ds))"
    by (simp add: adjacent_equal_iff)
  with assms show ?thesis
    by (auto simp: PreparePermissionManifest_def Let_def)
qed

lemma Prepare_given:
  assumes "PreparePermissionManifest nfc m mode = Inr p" and "m_Permissions m = Some ds"
  shows "length ds \<le> 1000" "\<forall>d \<in> set ds. validateManifestDeclaration nfc d = Inr ()" "distinct (map Key ds)"
    "mode = PermissionManifestValidate \<or> mode = PermissionManifestUpsert"
    "p = \<lparr>p_Mode = mode, p_ManifestID = m_ManifestID m, p_Revision = m_Revision m,
         p_Fingerprint = sha256Hex (canonicalManifest (sort_key Key ds)), p_Permissions = sort_key Key ds\<rparr>"
  by (rule Prepare_InrD [OF assms(1)]; simp only: assms(2) option.inject)+

lemma distinct_sort_Key: "distinct (map Key (sort_key Key ds)) \<longleftrightarrow> distinct (map Key ds)"
  by (simp add: distinct_map)

lemma Prepare_patterns:
  "PreparePermissionManifest nfc m mode = Inr p \<Longrightarrow>
   manifestIDPattern (m_ManifestID m) \<and> revisionPattern (m_Revision m)"
  by (auto simp: PreparePermissionManifest_def split: if_splits)

lemma sort_key_Key_unique:
  assumes "mset ds = mset ds'" and "distinct (map Key ds)"
  shows "sort_key Key ds = sort_key Key ds'"
proof (rule sorted_perm_unique [of _ _ Key])
  show "mset (sort_key Key ds) = mset (sort_key Key ds')" using assms(1) by simp
  show "distinct (map Key (sort_key Key ds))"
    using assms(2) by (metis distinct_map distinct_sort set_sort)
qed simp_all

lemma fingerprint_sha: "fingerprintPattern (sha256Hex x)"
  by (simp add: fingerprintPattern_def repeated_def sha256Hex_length sha256Hex_lower)

section \<open>Facts about the result checks\<close>

lemma check_results_iff:
  "check_results ops prev xs = Inr ops' \<longleftrightarrow>
     (\<forall>x \<in> set xs. validManifestKey (i_Key x) \<and> i_Reason x \<in> set known_reasons \<and> i_Operation x \<in> dom ops) \<and>
     sorted_wrt (<) (prev # map i_Key xs) \<and>
     ops' = (\<lambda>k. map_option (\<lambda>n. n + int (length (filter (\<lambda>x. i_Operation x = k) xs))) (ops k))"
proof (induction xs arbitrary: ops prev)
  case Nil
  have "(\<lambda>k. map_option (\<lambda>n. n) (ops k)) = ops" by (simp add: option.map_ident)
  then show ?case by (auto simp: option.map_ident)
next
  case (Cons x xs)
  show ?case
  proof (cases "\<not> validManifestKey (i_Key x) \<or> i_Key x \<le> prev \<or> i_Reason x \<notin> set known_reasons \<or> ops (i_Operation x) = None")
    case True
    then show ?thesis by (auto split: option.splits)
  next
    case False
    then obtain n where n: "ops (i_Operation x) = Some n" by auto
    let ?ops = "ops(i_Operation x \<mapsto> n + 1)"
    have step: "check_results ops prev (x # xs) = check_results ?ops (i_Key x) xs"
      using False n by simp
    have fin: "(\<lambda>k. map_option (\<lambda>m. m + int (length (filter (\<lambda>y. i_Operation y = k) xs))) (?ops k))
        = (\<lambda>k. map_option (\<lambda>m. m + int (length (filter (\<lambda>y. i_Operation y = k) (x # xs)))) (ops k))"
      using n by (auto simp: fun_eq_iff)
    have dom: "dom ?ops = dom ops" using n by auto
    have lt: "prev < i_Key x" using False by (simp add: not_le)
    have srt: "sorted_wrt (<) (prev # map i_Key (x # xs)) \<longleftrightarrow> sorted_wrt (<) (i_Key x # map i_Key xs)"
      using lt by (auto intro: less_trans)
    show ?thesis
      unfolding step Cons.IH fin dom srt using False n by auto
  qed
qed

lemma check_drift_iff:
  "check_drift prev xs = Inr () \<longleftrightarrow>
     (\<forall>x \<in> set xs. validManifestKey (dr_Key x) \<and> dr_Kind x \<in> set known_drifts \<and>
        (dr_Source x = ''CODE'' \<or> dr_Source x = ''MANUAL'')) \<and>
     sorted_wrt (<) (prev # map dr_Key xs)"
proof (induction xs arbitrary: prev)
  case (Cons x xs)
  then show ?case by (auto intro: less_trans)
qed simp

lemma empty_less_valid: "validManifestKey k \<Longrightarrow> [] < k"
  by (cases k) (auto simp: validManifestKey_iff)

lemma sorted_from_empty:
  "\<forall>k \<in> set ks. validManifestKey k \<Longrightarrow> sorted_wrt (<) ([] # ks) \<longleftrightarrow> sorted_wrt (<) ks"
  using empty_less_valid by simp

definition occurrences :: "string \<Rightarrow> PermissionManifestItem list \<Rightarrow> int" where
  "occurrences op xs = int (length (filter (\<lambda>x. i_Operation x = op) xs))"

lemma count_of_results:
  assumes "op \<in> dom operations0"
  shows "count_of (\<lambda>k. map_option (\<lambda>n. n + int (length (filter (\<lambda>x. i_Operation x = k) xs))) (operations0 k)) op
    = occurrences op xs"
  using assms by (auto simp: count_of_def occurrences_def operations0_def split: if_splits)

section \<open>Properties\<close>

text \<open>
  C4. What a prepared manifest satisfies, whatever the order of its declarations: it holds the
  declarations given, at most 1000, strictly sorted by key, every key a well-formed concrete
  permission key, and the fingerprint is the hash of their canonical form and has the shape the
  result check demands.
\<close>

theorem prepare_sound:
  assumes "PreparePermissionManifest nfc m mode = Inr p" and "m_Permissions m = Some ds"
  shows "mset (p_Permissions p) = mset ds \<and> length (p_Permissions p) \<le> 1000 \<and>
    sorted_wrt (<) (map Key (p_Permissions p)) \<and>
    (\<forall>d \<in> set (p_Permissions p). validManifestKey (Key d)) \<and>
    p_Fingerprint p = sha256Hex (canonicalManifest (p_Permissions p)) \<and> fingerprintPattern (p_Fingerprint p)"
proof -
  note ds = Prepare_given(1-3) [OF assms]
  have p: "p_Permissions p = sort_key Key ds" "p_Fingerprint p = sha256Hex (canonicalManifest (sort_key Key ds))"
    by (simp_all add: Prepare_given(5) [OF assms])
  have "distinct (map Key (sort_key Key ds))"
    using ds(3) by (simp only: distinct_sort_Key)
  then have "sorted_wrt (<) (map Key (p_Permissions p))"
    using p(1) by (simp add: strict_sorted_iff)
  moreover have "validManifestKey (Key d)" if "d \<in> set ds" for d
    using ds(2) that validateManifestDeclaration_InrD(1,2) [of nfc d]
    unfolding validManifestKey_iff Key_def by blast
  ultimately show ?thesis
    using p ds(1) by (simp add: fingerprint_sha)
qed

definition sample_declaration :: "string \<Rightarrow> PermissionManifestDeclaration" where
  "sample_declaration a = \<lparr>d_Resource = ''posts'', d_Action = a, d_Name = ''n'', d_Description = None\<rparr>"

definition sample_manifest :: "string list \<Rightarrow> PermissionManifest" where
  "sample_manifest as = \<lparr>m_ManifestID = ''m1'', m_Revision = ''v1'',
     m_Permissions = Some (map sample_declaration as)\<rparr>"

lemma sample_prepares:
  assumes "as = [''w'', ''r''] \<or> as = [''r'', ''w'']"
  obtains p where "PreparePermissionManifest (\<lambda>_. True) (sample_manifest as) ''validate'' = Inr p"
proof -
  have seg: "segmentPattern ''posts''" "segmentPattern ''r''" "segmentPattern ''w''"
    by code_simp+
  have name: "validateManifestText ''n'' 128 ''name'' = Inr ()"
    by (simp add: validateManifestText_def utf16Length_def utf16_len_def runes_def byte_def trim_space_def
        is_space_def is_control_def)
  have utf: "valid_utf8 ''posts''" "valid_utf8 ''r''" "valid_utf8 ''w''" "valid_utf8 ''n''"
    by (simp_all add: valid_utf8_ascii byte_def)
  have d: "validateManifestDeclaration (\<lambda>_. True) (sample_declaration ''r'') = Inr ()"
    "validateManifestDeclaration (\<lambda>_. True) (sample_declaration ''w'') = Inr ()"
    by (simp_all add: validateManifestDeclaration_def sample_declaration_def seg name utf)
  have k: "distinct (map Key (map sample_declaration as))"
    using assms by (auto simp: Key_def sample_declaration_def)
  have "manifestIDPattern ''m1''" "revisionPattern ''v1''"
    by code_simp+
  with assms d k show thesis
    using that Prepare_Inr [of "sample_manifest as" "map sample_declaration as" "\<lambda>_. True" "''validate''"]
    by (auto simp: sample_manifest_def PermissionManifestValidate_def)
qed

theorem prepare_sound_witness:
  "\<exists>p. PreparePermissionManifest (\<lambda>_. True) (sample_manifest [''w'', ''r'']) ''validate'' = Inr p \<and>
     sorted_wrt (<) (map Key (p_Permissions p))"
proof -
  obtain p where p: "PreparePermissionManifest (\<lambda>_. True) (sample_manifest [''w'', ''r'']) ''validate'' = Inr p"
    using sample_prepares by blast
  moreover have "m_Permissions (sample_manifest [''w'', ''r'']) = Some (map sample_declaration [''w'', ''r''])"
    by (simp add: sample_manifest_def)
  ultimately show ?thesis
    using prepare_sound by blast
qed

text \<open>
  C14. Preparation does not depend on the order of the declarations: a permuted manifest is accepted
  too, and gives the identical request and fingerprint.
\<close>

theorem prepare_order_insensitive:
  assumes "PreparePermissionManifest nfc m mode = Inr p" and "m_Permissions m = Some ds" and "mset ds' = mset ds"
  shows "PreparePermissionManifest nfc (m\<lparr>m_Permissions := Some ds'\<rparr>) mode = Inr p"
proof -
  note ds = Prepare_given(1-4) [OF assms(1,2)] and p = Prepare_given(5) [OF assms(1,2)]
  have st: "set ds' = set ds" and ln: "length ds' = length ds"
    using assms(3) by (metis set_mset_mset) (metis assms(3) size_mset)
  have "mset (map Key ds') = mset (map Key ds)" using assms(3) by simp
  then have dk: "distinct (map Key ds')"
    using ds(3) by (metis distinct_count_atmost_1 set_mset_mset)
  have "validate_all nfc ds' = Inr ()" using ds(2) st by (simp add: validate_all_iff)
  then show ?thesis
    using Prepare_Inr [of "m\<lparr>m_Permissions := Some ds'\<rparr>" ds' nfc mode] Prepare_patterns [OF assms(1)] ds ln dk p
      sort_key_Key_unique [OF assms(3) dk] by simp
qed

theorem prepare_order_insensitive_witness:
  "PreparePermissionManifest (\<lambda>_. True) (sample_manifest [''w'', ''r'']) ''validate''
     = PreparePermissionManifest (\<lambda>_. True) (sample_manifest [''r'', ''w'']) ''validate''"
proof -
  obtain p where p: "PreparePermissionManifest (\<lambda>_. True) (sample_manifest [''w'', ''r'']) ''validate'' = Inr p"
    using sample_prepares by blast
  have "PreparePermissionManifest (\<lambda>_. True)
      (sample_manifest [''w'', ''r'']\<lparr>m_Permissions := Some (map sample_declaration [''r'', ''w''])\<rparr>) ''validate'' = Inr p"
    by (rule prepare_order_insensitive [OF p, of "map sample_declaration [''w'', ''r'']"])
      (simp_all add: sample_manifest_def)
  with p show ?thesis by (simp add: sample_manifest_def)
qed

text \<open>
  C13. The fingerprint identifies the declarations: two accepted manifests have the same canonical
  form exactly when they declare the same set, so equal fingerprints of different sets would be a
  collision of SHA-256.
\<close>

theorem fingerprint_identifies:
  assumes "PreparePermissionManifest nfc m mode = Inr p" and "m_Permissions m = Some ds"
    and "PreparePermissionManifest nfc m' mode' = Inr p'" and "m_Permissions m' = Some ds'"
  shows "(canonicalManifest (p_Permissions p) = canonicalManifest (p_Permissions p') \<longleftrightarrow> set ds = set ds') \<and>
    (p_Fingerprint p = p_Fingerprint p' \<longleftrightarrow>
       set ds = set ds' \<or>
       canonicalManifest (p_Permissions p) \<noteq> canonicalManifest (p_Permissions p') \<and>
       sha256Hex (canonicalManifest (p_Permissions p)) = sha256Hex (canonicalManifest (p_Permissions p')))"
proof -
  note ds = Prepare_given(2,3) [OF assms(1,2)] and ds' = Prepare_given(2,3) [OF assms(3,4)]
  have p: "p_Permissions p = sort_key Key ds" "p_Fingerprint p = sha256Hex (canonicalManifest (sort_key Key ds))"
    by (simp_all add: Prepare_given(5) [OF assms(1,2)])
  have p': "p_Permissions p' = sort_key Key ds'" "p_Fingerprint p' = sha256Hex (canonicalManifest (sort_key Key ds'))"
    by (simp_all add: Prepare_given(5) [OF assms(3,4)])
  have "canonicalManifest (sort_key Key ds) = canonicalManifest (sort_key Key ds') \<longleftrightarrow> set ds = set ds'"
  proof
    assume "canonicalManifest (sort_key Key ds) = canonicalManifest (sort_key Key ds')"
    then have "canonical_items (sort_key Key ds) @ CHR '']'' # [CHR 0x7D]
        = canonical_items (sort_key Key ds') @ CHR '']'' # [CHR 0x7D]"
      by (simp add: canonicalManifest_def)
    moreover have "\<forall>d \<in> set (sort_key Key ds). utf8_declaration d" "\<forall>d \<in> set (sort_key Key ds'). utf8_declaration d"
      using ds(1) ds'(1) validateManifestDeclaration_InrD(3) by auto
    ultimately have "sort_key Key ds = sort_key Key ds'"
      by (blast intro: canonical_items_inj)
    then show "set ds = set ds'" by (metis set_sort)
  next
    assume "set ds = set ds'"
    moreover have "distinct ds" "distinct ds'" using ds(2) ds'(2) by (auto simp: distinct_map)
    ultimately have "mset ds = mset ds'" by (simp add: set_eq_iff_mset_eq_distinct)
    then show "canonicalManifest (sort_key Key ds) = canonicalManifest (sort_key Key ds')"
      using sort_key_Key_unique ds(2) by metis
  qed
  then show ?thesis
    unfolding p p' by auto
qed

theorem fingerprint_identifies_witness:
  "\<exists>p p'. PreparePermissionManifest (\<lambda>_. True) (sample_manifest [''w'', ''r'']) ''validate'' = Inr p \<and>
     PreparePermissionManifest (\<lambda>_. True) (sample_manifest [''r'', ''w'']) ''validate'' = Inr p' \<and>
     p_Fingerprint p = p_Fingerprint p'"
proof -
  obtain p where p: "PreparePermissionManifest (\<lambda>_. True) (sample_manifest [''w'', ''r'']) ''validate'' = Inr p"
    using sample_prepares by blast
  obtain p' where p': "PreparePermissionManifest (\<lambda>_. True) (sample_manifest [''r'', ''w'']) ''validate'' = Inr p'"
    using sample_prepares by blast
  have m: "m_Permissions (sample_manifest as) = Some (map sample_declaration as)" for as
    by (simp add: sample_manifest_def)
  show ?thesis
    using fingerprint_identifies [OF p m p' m] p p' by (auto simp: insert_commute)
qed

text \<open>
  C15. The result check accepts exactly the results that answer the request: same mode, identity and
  fingerprint, applied if and only if it was an upsert, items and drift strictly sorted with known
  keys, operations, reasons, kinds and sources, and each count the number of its items.
\<close>

theorem validateManifestResult_iff:
  "validateManifestResult res req = Inr () \<longleftrightarrow>
     s_Mode res = p_Mode req \<and> s_ManifestID res = p_ManifestID req \<and> s_Revision res = p_Revision req \<and>
     s_Fingerprint res = p_Fingerprint req \<and> fingerprintPattern (s_Fingerprint res) \<and>
     s_Applied res = (p_Mode req = PermissionManifestUpsert) \<and>
     (\<forall>x \<in> set (s_Results res). validManifestKey (i_Key x) \<and> i_Reason x \<in> set known_reasons \<and>
        i_Operation x \<in> {''CREATE'', ''UPDATE'', ''UNCHANGED'', ''RESURRECT'', ''CONFLICT''}) \<and>
     sorted_wrt (<) (map i_Key (s_Results res)) \<and>
     (\<forall>x \<in> set (s_Drift res). validManifestKey (dr_Key x) \<and> dr_Kind x \<in> set known_drifts \<and>
        dr_Source x \<in> {''CODE'', ''MANUAL''}) \<and>
     sorted_wrt (<) (map dr_Key (s_Drift res)) \<and>
     s_Counts res = \<lparr>n_Created = occurrences ''CREATE'' (s_Results res),
       n_Updated = occurrences ''UPDATE'' (s_Results res), n_Unchanged = occurrences ''UNCHANGED'' (s_Results res),
       n_Resurrected = occurrences ''RESURRECT'' (s_Results res), n_Conflict = occurrences ''CONFLICT'' (s_Results res),
       n_Drift = int (length (s_Drift res))\<rparr>"
proof -
  let ?ops = "\<lambda>k. map_option (\<lambda>n. n + int (length (filter (\<lambda>x. i_Operation x = k) (s_Results res)))) (operations0 k)"
  let ?items = "(\<forall>x \<in> set (s_Results res). validManifestKey (i_Key x) \<and> i_Reason x \<in> set known_reasons \<and>
        i_Operation x \<in> dom operations0) \<and> sorted_wrt (<) (map i_Key (s_Results res))"
  let ?drift = "(\<forall>x \<in> set (s_Drift res). validManifestKey (dr_Key x) \<and> dr_Kind x \<in> set known_drifts \<and>
        (dr_Source x = ''CODE'' \<or> dr_Source x = ''MANUAL'')) \<and> sorted_wrt (<) (map dr_Key (s_Drift res))"
  have dom: "dom operations0 = {''CREATE'', ''UPDATE'', ''UNCHANGED'', ''RESURRECT'', ''CONFLICT''}"
    by (auto simp: operations0_def split: if_splits)
  have cnt: "count_of ?ops op = occurrences op (s_Results res)" if "op \<in> dom operations0" for op
    using that by (rule count_of_results)
  have 1: "check_results operations0 [] (s_Results res) = Inr ops \<longleftrightarrow> ?items \<and> ops = ?ops" for ops
    unfolding check_results_iff using sorted_from_empty [of "map i_Key (s_Results res)"] by auto
  have 2: "check_drift [] (s_Drift res) = Inr () \<longleftrightarrow> ?drift"
    unfolding check_drift_iff using sorted_from_empty [of "map dr_Key (s_Drift res)"] by auto
  let ?counts = "s_Counts res = \<lparr>n_Created = count_of ?ops ''CREATE'', n_Updated = count_of ?ops ''UPDATE'',
     n_Unchanged = count_of ?ops ''UNCHANGED'', n_Resurrected = count_of ?ops ''RESURRECT'',
     n_Conflict = count_of ?ops ''CONFLICT'', n_Drift = int (length (s_Drift res))\<rparr>"
  let ?id = "s_Mode res = p_Mode req \<and> s_ManifestID res = p_ManifestID req \<and> s_Revision res = p_Revision req \<and>
     s_Fingerprint res = p_Fingerprint req \<and> fingerprintPattern (s_Fingerprint res) \<and>
     s_Applied res = (p_Mode req = PermissionManifestUpsert)"
  have "validateManifestResult res req = Inr () \<longleftrightarrow> ?id \<and> ?items \<and> ?drift \<and> ?counts"
  proof (cases "check_results operations0 [] (s_Results res)")
    case (Inl e)
    then have "\<not> ?items" using 1 [of ?ops] by auto
    moreover have "validateManifestResult res req \<noteq> Inr ()"
      using Inl by (simp add: validateManifestResult_def)
    ultimately show ?thesis by blast
  next
    case (Inr ops)
    then have items: "?items" "ops = ?ops" using 1 [of ops] by blast+
    show ?thesis
    proof (cases "check_drift [] (s_Drift res)")
      case (Inl e)
      then have "\<not> ?drift" using 2 by auto
      moreover have "validateManifestResult res req \<noteq> Inr ()"
        using Inl Inr by (simp add: validateManifestResult_def)
      ultimately show ?thesis by blast
    next
      case (Inr u)
      then have ?drift using 2 by simp
      have counts: "(n_Created c \<noteq> a1 \<or> n_Updated c \<noteq> a2 \<or> n_Unchanged c \<noteq> a3 \<or> n_Resurrected c \<noteq> a4 \<or>
          n_Conflict c \<noteq> a5 \<or> n_Drift c \<noteq> a6) \<longleftrightarrow> c \<noteq> \<lparr>n_Created = a1, n_Updated = a2, n_Unchanged = a3,
          n_Resurrected = a4, n_Conflict = a5, n_Drift = a6\<rparr>" for c :: PermissionManifestCounts and a1 a2 a3 a4 a5 a6
        by (cases c) auto
      show ?thesis
        unfolding validateManifestResult_def \<open>check_results _ _ _ = Inr ops\<close> Inr bind_ok.simps Let_def counts
        using items \<open>?drift\<close> by auto
    qed
  qed
  then show ?thesis
    by (simp only: cnt dom insert_iff simp_thms empty_iff) blast
qed

definition sample_result :: PermissionManifestResult where
  "sample_result = \<lparr>s_Mode = ''upsert'', s_ManifestID = ''m1'', s_Revision = ''v1'',
     s_Fingerprint = replicate 64 (CHR ''a''), s_Applied = True,
     s_Results = [\<lparr>i_Key = ''posts:r'', i_Operation = ''CREATE'', i_Reason = ''DECLARATION_ACCEPTED''\<rparr>,
                  \<lparr>i_Key = ''posts:w'', i_Operation = ''CONFLICT'', i_Reason = ''MANUAL_COLLISION''\<rparr>],
     s_Drift = [\<lparr>dr_Key = ''posts:w'', dr_Kind = ''MANUAL_COLLISION'', dr_Source = ''MANUAL''\<rparr>],
     s_Counts = \<lparr>n_Created = 1, n_Updated = 0, n_Unchanged = 0, n_Resurrected = 0, n_Conflict = 1, n_Drift = 1\<rparr>\<rparr>"

definition sample_prepared :: PreparedPermissionManifest where
  "sample_prepared = \<lparr>p_Mode = ''upsert'', p_ManifestID = ''m1'', p_Revision = ''v1'',
     p_Fingerprint = replicate 64 (CHR ''a''), p_Permissions = []\<rparr>"

theorem validateManifestResult_iff_witness:
  "validateManifestResult sample_result sample_prepared = Inr ()"
proof -
  have key: "validManifestKey ''posts:r''" "validManifestKey ''posts:w''"
    by code_simp+
  have hex: "fingerprintPattern (replicate 64 (CHR ''a''))"
    by (simp add: fingerprintPattern_def repeated_def list_all_iff lower_hex_def less_eq_char_def)
  have lt: "''posts:r'' < ''posts:w''"
    by (simp add: less_char_def)
  show ?thesis
    unfolding validateManifestResult_iff
    by (simp add: sample_result_def sample_prepared_def key hex lt known_reasons_def known_drifts_def
        PermissionManifestUpsert_def occurrences_def)
qed

end
