(* ===== verification/Manifest_Client.thy ===== *)
theory Manifest_Client
  imports Manifest Go_Http Go_Encode
begin

text \<open>
  \<open>PermissionManifestClient\<close> and the startup helper (permission_manifest.go): construction, the
  machine token and its cache, the retry loop with its attempt budget and deadlines, the two commands
  and the error responses.

  The network, URL parsing, error texts and the normal-form test are the record \<open>runtime\<close> of
  \<open>Go_Http\<close>; one exchange is one call of \<open>http.Client.Do\<close>.
\<close>

record PermissionManifestError =
  e_Status :: int
  e_Code :: string
  e_Message :: string
  e_CorrelationID :: string
  e_RetryAfterSeconds :: int
  e_Body :: string

datatype cmd_error = Invalid manifest_error | Protocol PermissionManifestError | ContextError net_error
  | BadURL | NilDereference | MissingConfig | NegativeConfig | TimeoutTooLong | StartupError string

definition protocol_error :: "int \<Rightarrow> string \<Rightarrow> string \<Rightarrow> string \<Rightarrow> PermissionManifestError" where
  "protocol_error st code msg bdy = \<lparr>e_Status = st, e_Code = code, e_Message = msg, e_CorrelationID = [],
     e_RetryAfterSeconds = 0, e_Body = bdy\<rparr>"

fun manifest_error_text :: "manifest_error \<Rightarrow> string" where
  "manifest_error_text MissingField = ''missing required manifest result field''"
| "manifest_error_text IdentityMismatch = ''manifest identity or applied state mismatch''"
| "manifest_error_text BadResultItem = ''invalid manifest result item''"
| "manifest_error_text UnknownOperation = ''unknown manifest operation''"
| "manifest_error_text BadDrift = ''invalid manifest drift''"
| "manifest_error_text CountsMismatch = ''manifest result counts mismatch''"
| "manifest_error_text _ = ''iam permission manifest''"

section \<open>The client\<close>

record machine_token =
  t_AccessToken :: string
  t_ExpiresAt :: int

record ManifestClient =
  issuerEndpoint :: string
  portalAPIEndpoint :: string
  mc_clientID :: string
  mc_clientSecret :: string
  tokenSkew :: int
  maxRetries :: int
  maxRetryDelay :: int
  http_timeout :: "int option"
  observed_by :: bool
  token :: "machine_token option"

text \<open>\<open>HTTPClient\<close> is the timeout of a given client, if one is given.\<close>

record PermissionManifestClientConfig =
  mc_IssuerEndpoint :: string
  mc_PortalAPIEndpoint :: string
  mc_ClientID :: string
  mc_ClientSecret :: string
  mc_Timeout :: int
  mc_TokenSkew :: int
  mc_MaxRetries :: int
  mc_MaxRetryDelay :: int
  mc_HTTPClient :: "int option option"
  mc_Observer :: bool

definition NewPermissionManifestClient :: "PermissionManifestClientConfig \<Rightarrow> cmd_error + ManifestClient" where
  "NewPermissionManifestClient cfg =
     (let issuer = trim_right (CHR ''/'') (trim_space (mc_IssuerEndpoint cfg));
          portal = trim_right (CHR ''/'') (trim_space (mc_PortalAPIEndpoint cfg));
          cid = trim_space (mc_ClientID cfg);
          sec = trim_space (mc_ClientSecret cfg) in
      if issuer = [] \<or> portal = [] \<or> cid = [] \<or> sec = [] then Inl MissingConfig
      else if mc_TokenSkew cfg < 0 \<or> mc_MaxRetries cfg < 0 \<or> mc_MaxRetryDelay cfg < 0 then Inl NegativeConfig
      else
       (let timeout = (if mc_Timeout cfg \<le> 0 then 5 * second else mc_Timeout cfg) in
        if timeout > 5 * second then Inl TimeoutTooLong
        else Inr \<lparr>issuerEndpoint = issuer, portalAPIEndpoint = portal, mc_clientID = cid, mc_clientSecret = sec,
               tokenSkew = (if mc_TokenSkew cfg = 0 then 30 * second else mc_TokenSkew cfg),
               maxRetries = mc_MaxRetries cfg,
               maxRetryDelay = (if mc_MaxRetryDelay cfg = 0 then 5 * second else mc_MaxRetryDelay cfg),
               http_timeout = (case mc_HTTPClient cfg of None \<Rightarrow> Some timeout | Some t \<Rightarrow> t),
               observed_by = mc_Observer cfg, token = None\<rparr>))"

definition ClearPermissionManifestTokenCache :: "ManifestClient \<Rightarrow> ManifestClient" where
  "ClearPermissionManifestTokenCache c = c\<lparr>token := None\<rparr>"

section \<open>The retry loop\<close>

definition retryableManifestStatus :: "int \<Rightarrow> bool" where
  "retryableManifestStatus st = (st \<in> {408, 429, 502, 503, 504})"

definition minDuration :: "int \<Rightarrow> int \<Rightarrow> int" where
  "minDuration a b = (if a < b then a else b)"

definition attempt_delay :: "int \<Rightarrow> int" where
  "attempt_delay attempt = int64 (250 * 2 ^ nat attempt * millisecond)"

definition retry_delay :: "int \<Rightarrow> response \<Rightarrow> int" where
  "retry_delay attempt resp =
     (case parseManifestRetryAfter (header_get ''Retry-After'' (resp_headers resp)) of
        (seconds, True) \<Rightarrow> seconds * second | (_, False) \<Rightarrow> attempt_delay attempt)"

text \<open>What follows the loop: \<open>last.Error ()\<close> of a nil error would panic.\<close>

definition after_loop :: "runtime \<Rightarrow> fault option \<Rightarrow> cmd_error" where
  "after_loop rt last_err = (case last_err of None \<Rightarrow> NilDereference
     | Some e \<Rightarrow> Protocol (protocol_error 0 ''TRANSPORT_ERROR'' (rt_text rt e) []))"

definition budget_error :: cmd_error where
  "budget_error = Protocol (protocol_error 0 ''COMMAND_TIMEOUT'' ''permission manifest command budget exhausted'' [])"

function execute_from ::
  "runtime \<Rightarrow> ManifestClient \<Rightarrow> ctx \<Rightarrow> request \<Rightarrow> int \<Rightarrow> fault option \<Rightarrow> nat \<Rightarrow> world \<Rightarrow>
   (cmd_error + response) \<times> nat \<times> world" where
  "execute_from rt c cx req attempt last_err budget w =
     (if \<not> attempt \<le> maxRetries c then (Inl (after_loop rt last_err), budget, w)
      else if budget = 0 then (Inl budget_error, budget, w)
      else (case exchange (rt_net rt) (client_ctx (http_timeout c) w (with_timeout (5 * second) w cx)) req w of
        (Inl e, w1) \<Rightarrow>
          (if attempt = maxRetries c \<or> budget - 1 = 0 then (Inl (after_loop rt (Some (NetFault e))), budget - 1, w1)
           else (case waitContext cx (minDuration (attempt_delay attempt) (maxRetryDelay c)) w1 of
                   (Inl e', w2) \<Rightarrow> (Inl (ContextError e'), budget - 1, w2)
                 | (Inr _, w2) \<Rightarrow> execute_from rt c cx req (attempt + 1) (Some (NetFault e)) (budget - 1) w2))
      | (Inr resp, w1) \<Rightarrow>
          (if read_error resp
           then (if attempt = maxRetries c then (Inl (after_loop rt (Some ReadFault)), budget - 1, w1)
                 else execute_from rt c cx req (attempt + 1) (Some ReadFault) (budget - 1) w1)
           else if length (body resp) > 1024 * 1024
           then (Inl (Protocol (protocol_error (status resp) ''RESPONSE_SIZE_EXCEEDED'' ''IAM response exceeds 1 MiB'' [])),
                 budget - 1, w1)
           else if \<not> retryableManifestStatus (status resp) \<or> attempt = maxRetries c \<or> budget - 1 = 0
           then (Inr resp, budget - 1, w1)
           else (case waitContext cx (minDuration (retry_delay attempt resp) (maxRetryDelay c)) w1 of
                   (Inl e', w2) \<Rightarrow> (Inl (ContextError e'), budget - 1, w2)
                 | (Inr _, w2) \<Rightarrow> execute_from rt c cx req (attempt + 1) last_err (budget - 1) w2))))"
  by pat_completeness auto
termination
  by (relation "measure (\<lambda>(rt, c, cx, req, attempt, last_err, budget, w). budget)") auto

declare execute_from.simps [simp del]

definition execute ::
  "runtime \<Rightarrow> ManifestClient \<Rightarrow> ctx \<Rightarrow> request \<Rightarrow> nat \<Rightarrow> world \<Rightarrow> (cmd_error + response) \<times> nat \<times> world" where
  "execute rt c cx req budget w = execute_from rt c cx req 0 None budget w"

section \<open>The machine token\<close>

definition PermissionsSyncScope :: string where "PermissionsSyncScope = ''permissions:sync''"

record token_payload =
  tk_access :: string
  tk_type :: string
  tk_expires :: int
  tk_scope :: string

definition dec_token_payload :: "json \<Rightarrow> token_payload \<Rightarrow> token_payload option" where
  "dec_token_payload = dec_struct True [''access_token'', ''token_type'', ''expires_in'', ''scope'']
     (\<lambda>ms old. Option.bind (dec_field dec_string (tk_access old) ''access_token'' ms) (\<lambda>a.
       Option.bind (dec_field dec_string (tk_type old) ''token_type'' ms) (\<lambda>t.
       Option.bind (dec_field dec_int (tk_expires old) ''expires_in'' ms) (\<lambda>e.
       Option.bind (dec_field dec_string (tk_scope old) ''scope'' ms) (\<lambda>s.
       Some \<lparr>tk_access = a, tk_type = t, tk_expires = e, tk_scope = s\<rparr>)))))"

definition dec_token_error :: "json \<Rightarrow> string \<times> string \<Rightarrow> (string \<times> string) option" where
  "dec_token_error = dec_struct True [''error'', ''error_description'']
     (\<lambda>ms old. Option.bind (dec_field dec_string (fst old) ''error'' ms) (\<lambda>e.
       Option.bind (dec_field dec_string (snd old) ''error_description'' ms) (\<lambda>d. Some (e, d))))"

definition parsePermissionManifestTokenError :: "response \<Rightarrow> PermissionManifestError" where
  "parsePermissionManifestTokenError resp =
     (case decodeStrictJSON dec_token_error ([], []) (body resp) of
        Inr (e, d) \<Rightarrow> (if e \<noteq> [] then protocol_error (status resp) e ''permission manifest machine token request failed'' []
                      else protocol_error (status resp) ''INVALID_ERROR_RESPONSE'' ''invalid machine token error response'' [])
      | Inl _ \<Rightarrow> protocol_error (status resp) ''INVALID_ERROR_RESPONSE'' ''invalid machine token error response'' [])"

definition token_request :: "ManifestClient \<Rightarrow> request" where
  "token_request c = \<lparr>meth = ''POST'', url = issuerEndpoint c @ ''/oauth2/token'',
     headers = header_set ''Accept'' ''application/json''
       (header_set ''Content-Type'' ''application/x-www-form-urlencoded''
       (header_set ''Authorization'' (''Basic '' @ base64 (mc_clientID c @ '':'' @ mc_clientSecret c)) [])),
     payload = Encode [(''grant_type'', ''client_credentials''), (''scope'', PermissionsSyncScope)]\<rparr>"

text \<open>A token lives \<open>expires_in\<close> seconds less the skew, in 64-bit nanoseconds.\<close>

definition token_ttl :: "int \<Rightarrow> int \<Rightarrow> int" where
  "token_ttl expires_in skew = max 0 (int64 (int64 (expires_in * second) - skew))"

definition machineToken ::
  "runtime \<Rightarrow> ctx \<Rightarrow> nat \<Rightarrow> ManifestClient \<times> world \<Rightarrow> (cmd_error + machine_token) \<times> nat \<times> ManifestClient \<times> world" where
  "machineToken rt cx budget s = (let (c, w) = s in
     if (case token c of None \<Rightarrow> False | Some t \<Rightarrow> t_ExpiresAt t > clock w)
     then (Inr (the (token c)), budget, c, w)
     else if \<not> rt_url_ok rt (url (token_request c)) then (Inl BadURL, budget, c, w)
     else (case execute rt c cx (token_request c) budget w of
       (Inl e, b1, w1) \<Rightarrow> (Inl e, b1, c, w1)
     | (Inr resp, b1, w1) \<Rightarrow>
        (if status resp \<ge> 400 then (Inl (Protocol (parsePermissionManifestTokenError resp)), b1, c, w1)
         else
          (let bad = (Inl (Protocol (protocol_error (status resp) ''INVALID_TOKEN_RESPONSE''
                 ''invalid exact-scope machine token response'' [])), b1, c, w1) in
           (case decodeStrictJSON dec_token_payload \<lparr>tk_access = [], tk_type = [], tk_expires = 0, tk_scope = []\<rparr> (body resp) of
              Inl _ \<Rightarrow> bad
            | Inr p \<Rightarrow>
               (if tk_access p = [] \<or> \<not> equal_fold (tk_type p) ''bearer'' \<or> tk_expires p \<le> 0 \<or>
                   tk_scope p \<noteq> PermissionsSyncScope then bad
                else
                 (let t = \<lparr>t_AccessToken = tk_access p,
                           t_ExpiresAt = clock w1 + token_ttl (tk_expires p) (tokenSkew c)\<rparr>
                  in (Inr t, b1, c\<lparr>token := Some t\<rparr>, w1))))))))"

section \<open>Responses\<close>

record error_payload =
  ep_status :: int
  ep_error :: string
  ep_message :: string
  ep_timestamp :: string
  ep_correlation :: string

definition dec_error_payload :: "json \<Rightarrow> error_payload \<Rightarrow> error_payload option" where
  "dec_error_payload = dec_struct True [''status'', ''error'', ''message'', ''timestamp'', ''correlationId'']
     (\<lambda>ms old. Option.bind (dec_field dec_int (ep_status old) ''status'' ms) (\<lambda>s.
       Option.bind (dec_field dec_string (ep_error old) ''error'' ms) (\<lambda>e.
       Option.bind (dec_field dec_string (ep_message old) ''message'' ms) (\<lambda>m.
       Option.bind (dec_field dec_string (ep_timestamp old) ''timestamp'' ms) (\<lambda>t.
       Option.bind (dec_field dec_string (ep_correlation old) ''correlationId'' ms) (\<lambda>c.
       Some \<lparr>ep_status = s, ep_error = e, ep_message = m, ep_timestamp = t, ep_correlation = c\<rparr>))))))"

definition parsePermissionManifestError :: "response \<Rightarrow> PermissionManifestError" where
  "parsePermissionManifestError resp =
     (let bad = protocol_error (status resp) ''INVALID_ERROR_RESPONSE''
                  ''invalid permission manifest error response'' (body resp) in
      (case decodeStrictJSON dec_error_payload
             \<lparr>ep_status = 0, ep_error = [], ep_message = [], ep_timestamp = [], ep_correlation = []\<rparr> (body resp) of
         Inl _ \<Rightarrow> bad
       | Inr p \<Rightarrow>
          (if ep_status p \<noteq> status resp \<or> ep_error p = [] \<or> ep_message p = [] \<or> ep_timestamp p = [] then bad
           else \<lparr>e_Status = ep_status p, e_Code = ep_error p, e_Message = ep_message p,
                 e_CorrelationID = ep_correlation p,
                 e_RetryAfterSeconds = fst (parseManifestRetryAfter (header_get ''Retry-After'' (resp_headers resp))),
                 e_Body = body resp\<rparr>)))"

text \<open>The result on the wire: every member is a pointer, so that a missing one shows as nil.\<close>

record counts_wire =
  cw_created :: "int option"
  cw_updated :: "int option"
  cw_unchanged :: "int option"
  cw_resurrected :: "int option"
  cw_conflict :: "int option"
  cw_drift :: "int option"

record result_wire =
  w_mode :: "string option"
  w_manifestId :: "string option"
  w_revision :: "string option"
  w_fingerprint :: "string option"
  w_applied :: "bool option"
  w_results :: "PermissionManifestItem list option option"
  w_drift :: "PermissionManifestDrift list option option"
  w_counts :: "counts_wire option"

definition dec_item :: "json \<Rightarrow> PermissionManifestItem \<Rightarrow> PermissionManifestItem option" where
  "dec_item = dec_struct True [''key'', ''operation'', ''reason'']
     (\<lambda>ms old. Option.bind (dec_field dec_string (i_Key old) ''key'' ms) (\<lambda>k.
       Option.bind (dec_field dec_string (i_Operation old) ''operation'' ms) (\<lambda>o'.
       Option.bind (dec_field dec_string (i_Reason old) ''reason'' ms) (\<lambda>r.
       Some \<lparr>i_Key = k, i_Operation = o', i_Reason = r\<rparr>))))"

definition dec_drift :: "json \<Rightarrow> PermissionManifestDrift \<Rightarrow> PermissionManifestDrift option" where
  "dec_drift = dec_struct True [''key'', ''kind'', ''source'']
     (\<lambda>ms old. Option.bind (dec_field dec_string (dr_Key old) ''key'' ms) (\<lambda>k.
       Option.bind (dec_field dec_string (dr_Kind old) ''kind'' ms) (\<lambda>o'.
       Option.bind (dec_field dec_string (dr_Source old) ''source'' ms) (\<lambda>r.
       Some \<lparr>dr_Key = k, dr_Kind = o', dr_Source = r\<rparr>))))"

abbreviation dec_int_ptr :: "json \<Rightarrow> int option \<Rightarrow> int option option" where
  "dec_int_ptr \<equiv> dec_ptr dec_int 0"
abbreviation dec_string_ptr :: "json \<Rightarrow> string option \<Rightarrow> string option option" where
  "dec_string_ptr \<equiv> dec_ptr dec_string []"

definition zero_counts :: counts_wire where
  "zero_counts = \<lparr>cw_created = None, cw_updated = None, cw_unchanged = None, cw_resurrected = None,
     cw_conflict = None, cw_drift = None\<rparr>"

definition dec_counts :: "json \<Rightarrow> counts_wire \<Rightarrow> counts_wire option" where
  "dec_counts = dec_struct True [''created'', ''updated'', ''unchanged'', ''resurrected'', ''conflict'', ''drift'']
     (\<lambda>ms old. Option.bind (dec_field dec_int_ptr (cw_created old) ''created'' ms) (\<lambda>a.
       Option.bind (dec_field dec_int_ptr (cw_updated old) ''updated'' ms) (\<lambda>b.
       Option.bind (dec_field dec_int_ptr (cw_unchanged old) ''unchanged'' ms) (\<lambda>c.
       Option.bind (dec_field dec_int_ptr (cw_resurrected old) ''resurrected'' ms) (\<lambda>d.
       Option.bind (dec_field dec_int_ptr (cw_conflict old) ''conflict'' ms) (\<lambda>e.
       Option.bind (dec_field dec_int_ptr (cw_drift old) ''drift'' ms) (\<lambda>f.
       Some \<lparr>cw_created = a, cw_updated = b, cw_unchanged = c, cw_resurrected = d, cw_conflict = e, cw_drift = f\<rparr>)))))))"

definition zero_wire :: result_wire where
  "zero_wire = \<lparr>w_mode = None, w_manifestId = None, w_revision = None, w_fingerprint = None, w_applied = None,
     w_results = None, w_drift = None, w_counts = None\<rparr>"

definition dec_result_wire :: "json \<Rightarrow> result_wire \<Rightarrow> result_wire option" where
  "dec_result_wire = dec_struct True
       [''mode'', ''manifestId'', ''revision'', ''fingerprint'', ''applied'', ''results'', ''drift'', ''counts'']
     (\<lambda>ms old. Option.bind (dec_field dec_string_ptr (w_mode old) ''mode'' ms) (\<lambda>a.
       Option.bind (dec_field dec_string_ptr (w_manifestId old) ''manifestId'' ms) (\<lambda>b.
       Option.bind (dec_field dec_string_ptr (w_revision old) ''revision'' ms) (\<lambda>c.
       Option.bind (dec_field dec_string_ptr (w_fingerprint old) ''fingerprint'' ms) (\<lambda>d.
       Option.bind (dec_field (dec_ptr dec_bool False) (w_applied old) ''applied'' ms) (\<lambda>e.
       Option.bind (dec_field (dec_ptr (dec_slice dec_item \<lparr>i_Key = [], i_Operation = [], i_Reason = []\<rparr>) None)
                      (w_results old) ''results'' ms) (\<lambda>f.
       Option.bind (dec_field (dec_ptr (dec_slice dec_drift \<lparr>dr_Key = [], dr_Kind = [], dr_Source = []\<rparr>) None)
                      (w_drift old) ''drift'' ms) (\<lambda>g.
       Option.bind (dec_field (dec_ptr dec_counts zero_counts) (w_counts old) ''counts'' ms) (\<lambda>h.
       Some \<lparr>w_mode = a, w_manifestId = b, w_revision = c, w_fingerprint = d, w_applied = e, w_results = f,
             w_drift = g, w_counts = h\<rparr>)))))))))"

definition need :: "'a option \<Rightarrow> manifest_error + 'a" where
  "need x = (case x of None \<Rightarrow> Inl MissingField | Some v \<Rightarrow> Inr v)"

definition slice :: "'a list option \<Rightarrow> 'a list" where
  "slice x = (case x of None \<Rightarrow> [] | Some v \<Rightarrow> v)"

definition result_of_wire :: "result_wire \<Rightarrow> manifest_error + PermissionManifestResult" where
  "result_of_wire w =
     bind_ok (need (w_mode w)) (\<lambda>mode. bind_ok (need (w_manifestId w)) (\<lambda>mid.
     bind_ok (need (w_revision w)) (\<lambda>rev. bind_ok (need (w_fingerprint w)) (\<lambda>fp.
     bind_ok (need (w_applied w)) (\<lambda>app. bind_ok (need (w_results w)) (\<lambda>res.
     bind_ok (need (w_drift w)) (\<lambda>dr. bind_ok (need (w_counts w)) (\<lambda>c.
     bind_ok (need (cw_created c)) (\<lambda>n1. bind_ok (need (cw_updated c)) (\<lambda>n2.
     bind_ok (need (cw_unchanged c)) (\<lambda>n3. bind_ok (need (cw_resurrected c)) (\<lambda>n4.
     bind_ok (need (cw_conflict c)) (\<lambda>n5. bind_ok (need (cw_drift c)) (\<lambda>n6.
     Inr \<lparr>s_Mode = mode, s_ManifestID = mid, s_Revision = rev, s_Fingerprint = fp, s_Applied = app,
          s_Results = slice res, s_Drift = slice dr,
          s_Counts = \<lparr>n_Created = n1, n_Updated = n2, n_Unchanged = n3, n_Resurrected = n4, n_Conflict = n5,
                      n_Drift = n6\<rparr>\<rparr>))))))))))))))"

section \<open>Commands\<close>

text \<open>
  \<open>json.Marshal\<close> of the prepared manifest.  The permissions were copied with \<open>append\<close> onto a nil
  slice, so no declarations at all are the nil slice, which is written as null.
\<close>

definition declaration_json :: "PermissionManifestDeclaration \<Rightarrow> json" where
  "declaration_json d = JObj [(''resource'', JStr (d_Resource d)), (''action'', JStr (d_Action d)),
     (''name'', JStr (d_Name d)), (''description'', case d_Description d of None \<Rightarrow> JNull | Some t \<Rightarrow> JStr t)]"

definition prepared_json :: "PreparedPermissionManifest \<Rightarrow> json" where
  "prepared_json p = JObj [(''mode'', JStr (p_Mode p)), (''manifestId'', JStr (p_ManifestID p)),
     (''revision'', JStr (p_Revision p)), (''fingerprint'', JStr (p_Fingerprint p)),
     (''permissions'', if p_Permissions p = [] then JNull else JArr (map declaration_json (p_Permissions p)))]"

definition sync_path :: string where "sync_path = ''/open/v1/permission-manifests:sync''"

definition sync_request :: "ManifestClient \<Rightarrow> string \<Rightarrow> PreparedPermissionManifest \<Rightarrow> string \<Rightarrow> request" where
  "sync_request c access p idem =
     (let h = header_set ''Accept'' ''application/json'' (header_set ''Content-Type'' ''application/json''
                (header_set ''Authorization'' (''Bearer '' @ access) []))
      in \<lparr>meth = ''POST'', url = portalAPIEndpoint c @ sync_path,
          headers = (if idem \<noteq> [] then header_set ''Idempotency-Key'' idem h else h),
          payload = marshal (prepared_json p)\<rparr>)"

definition check_response :: "runtime \<Rightarrow> PreparedPermissionManifest \<Rightarrow> response \<Rightarrow> cmd_error + PermissionManifestResult" where
  "check_response rt p resp =
     (if status resp \<ge> 400 then Inl (Protocol (parsePermissionManifestError resp))
      else (let invalid = (\<lambda>msg. Inl (Protocol (protocol_error 0 ''INVALID_MANIFEST_RESPONSE'' msg (body resp)))) in
       (case decodeStrictJSON dec_result_wire zero_wire (body resp) of
          Inl e \<Rightarrow> invalid (rt_text rt (JsonFault e))
        | Inr wire \<Rightarrow> (case result_of_wire wire of
            Inl e \<Rightarrow> invalid (manifest_error_text e)
          | Inr res \<Rightarrow> (case validateManifestResult res p of
              Inl e \<Rightarrow> invalid (manifest_error_text e)
            | Inr _ \<Rightarrow> Inr res)))))"

definition send ::
  "runtime \<Rightarrow> ctx \<Rightarrow> PreparedPermissionManifest \<Rightarrow> string \<Rightarrow> ManifestClient \<times> world \<Rightarrow>
   (cmd_error + PermissionManifestResult) \<times> ManifestClient \<times> world" where
  "send rt cx0 p idem s =
     (let cx = with_timeout (15 * second) (snd s) cx0 in
      (case machineToken rt cx 3 s of
        (Inl e, b, c1, w1) \<Rightarrow> (Inl e, c1, w1)
      | (Inr t, b, c1, w1) \<Rightarrow>
         (let req = sync_request c1 (t_AccessToken t) p idem in
          if \<not> rt_url_ok rt (url req) then (Inl BadURL, c1, w1)
          else (case execute rt c1 cx req b w1 of
            (Inl e, b2, w2) \<Rightarrow> (Inl e, c1, w2)
          | (Inr resp, b2, w2) \<Rightarrow> (check_response rt p resp, c1, w2)))))"

record observation =
  ob_Mode :: string
  ob_Outcome :: string
  ob_Status :: int
  ob_Duration :: int

definition error_status :: "cmd_error \<Rightarrow> int" where
  "error_status e = (case e of Protocol p \<Rightarrow> e_Status p | _ \<Rightarrow> 0)"

text \<open>\<open>observed\<close>: the list is what the observer is given, if there is one.\<close>

definition observed ::
  "runtime \<Rightarrow> ctx \<Rightarrow> PreparedPermissionManifest \<Rightarrow> string \<Rightarrow> ManifestClient \<times> world \<Rightarrow>
   (cmd_error + PermissionManifestResult) \<times> observation list \<times> ManifestClient \<times> world" where
  "observed rt cx p idem s = (case send rt cx p idem s of (res, c1, w1) \<Rightarrow>
     (res,
      (if observed_by (fst s) then
         [\<lparr>ob_Mode = p_Mode p, ob_Outcome = (case res of Inl _ \<Rightarrow> ''ERROR'' | Inr _ \<Rightarrow> ''SUCCESS''),
           ob_Status = (case res of Inl e \<Rightarrow> error_status e | Inr _ \<Rightarrow> 200),
           ob_Duration = clock w1 - clock (snd s)\<rparr>]
       else []), c1, w1))"

definition ValidatePermissionManifest ::
  "runtime \<Rightarrow> ctx \<Rightarrow> PermissionManifest \<Rightarrow> ManifestClient \<times> world \<Rightarrow>
   (cmd_error + PermissionManifestResult) \<times> observation list \<times> ManifestClient \<times> world" where
  "ValidatePermissionManifest rt cx m s =
     (case PreparePermissionManifest (rt_nfc rt) m PermissionManifestValidate of
        Inl e \<Rightarrow> (Inl (Invalid e), [], s)
      | Inr p \<Rightarrow> observed rt cx p [] s)"

definition UpsertPermissionManifest ::
  "runtime \<Rightarrow> ctx \<Rightarrow> PermissionManifest \<Rightarrow> string \<Rightarrow> ManifestClient \<times> world \<Rightarrow>
   (cmd_error + PermissionManifestResult) \<times> observation list \<times> ManifestClient \<times> world" where
  "UpsertPermissionManifest rt cx m idem s =
     (case requireManifestIdempotencyKey idem of
        Inl e \<Rightarrow> (Inl (Invalid e), [], s)
      | Inr _ \<Rightarrow> (case PreparePermissionManifest (rt_nfc rt) m PermissionManifestUpsert of
          Inl e \<Rightarrow> (Inl (Invalid e), [], s)
        | Inr p \<Rightarrow> observed rt cx p idem s))"

section \<open>Startup\<close>

datatype StartupMode = Disabled | CIValidate | DeploymentUpsert | DevelopmentStartup | OtherMode int
datatype FailurePolicy = PolicyUnset | FailFast | Continue | OtherPolicy int

record StartupOptions =
  so_Mode :: StartupMode
  so_FailurePolicy :: FailurePolicy
  so_IdempotencyKey :: string
  so_OnContinueError :: bool

record ContinueEvent =
  ce_Mode :: string
  ce_Outcome :: string
  ce_Status :: int
  ce_Code :: string

record StartupResult =
  sr_NetworkAttempted :: bool
  sr_Continued :: bool
  sr_Result :: "PermissionManifestResult option"

definition no_startup :: StartupResult where
  "no_startup = \<lparr>sr_NetworkAttempted = False, sr_Continued = False, sr_Result = None\<rparr>"

text \<open>
  The result, the error if any, the events given to \<open>OnContinueError\<close> and the state.  A nil client
  has no state, so \<open>has_client\<close> says whether there is one.
\<close>

definition RunPermissionManifestStartup ::
  "runtime \<Rightarrow> ctx \<Rightarrow> bool \<Rightarrow> PermissionManifest \<Rightarrow> StartupOptions \<Rightarrow> ManifestClient \<times> world \<Rightarrow>
   StartupResult \<times> cmd_error option \<times> ContinueEvent list \<times> ManifestClient \<times> world" where
  "RunPermissionManifestStartup rt cx has_client m opts s =
     (if so_Mode opts = Disabled then (no_startup, None, [], s)
      else if so_Mode opts = DevelopmentStartup \<and> so_FailurePolicy opts = PolicyUnset
      then (no_startup, Some (StartupError ''DEVELOPMENT_STARTUP requires explicit failurePolicy''), [], s)
      else if so_Mode opts = DevelopmentStartup \<and> so_FailurePolicy opts = Continue \<and> \<not> so_OnContinueError opts
      then (no_startup, Some (StartupError ''DEVELOPMENT_STARTUP with CONTINUE requires OnContinueError''), [], s)
      else if \<not> has_client then (no_startup, Some (StartupError ''client is required''), [], s)
      else
       (let finish = (\<lambda>(res, obs, s1).
          (case res of
             Inr r \<Rightarrow> (\<lparr>sr_NetworkAttempted = True, sr_Continued = False, sr_Result = Some r\<rparr>, None, [], s1)
           | Inl e \<Rightarrow>
              (if so_Mode opts = DevelopmentStartup \<and> so_FailurePolicy opts = Continue
               then (\<lparr>sr_NetworkAttempted = True, sr_Continued = True, sr_Result = None\<rparr>, None,
                     [\<lparr>ce_Mode = ''DEVELOPMENT_STARTUP'', ce_Outcome = ''CONTINUED'', ce_Status = error_status e,
                       ce_Code = (case e of Protocol p \<Rightarrow> e_Code p | _ \<Rightarrow> ''UNEXPECTED_ERROR'')\<rparr>], s1)
               else (\<lparr>sr_NetworkAttempted = True, sr_Continued = False, sr_Result = None\<rparr>, Some e, [], s1)))) in
        (case so_Mode opts of
           CIValidate \<Rightarrow> finish (ValidatePermissionManifest rt cx m s)
         | OtherMode n \<Rightarrow> (no_startup, Some (StartupError ''unknown startup mode''), [], s)
         | _ \<Rightarrow> finish (UpsertPermissionManifest rt cx m (so_IdempotencyKey opts) s))))"

section \<open>Facts about the retry loop\<close>

text \<open>A context that is done by the instant \<open>M\<close> keeps the clock below \<open>M\<close>.\<close>

definition done_by :: "ctx \<Rightarrow> int \<Rightarrow> bool" where
  "done_by c M = (case done_at c of None \<Rightarrow> False | Some e \<Rightarrow> e \<le> M)"

lemma done_by_with_timeout:
  "done_by c M \<Longrightarrow> done_by (with_timeout d w c) M"
  "done_by (with_timeout d w c) (clock w + d)"
  by (auto simp: done_by_def with_timeout_def split: option.splits)

lemma done_by_client_ctx: "done_by c M \<Longrightarrow> done_by (client_ctx t w c) M"
  by (auto simp: client_ctx_def done_by_with_timeout split: option.splits)

lemma exchange_done_by:
  "done_by c M \<Longrightarrow> clock w \<le> M \<Longrightarrow> clock (snd (exchange n c r w)) \<le> M"
  by (auto simp: done_by_def exchange_def Let_def split: prod.splits option.splits)

lemma waitContext_done_by:
  "done_by c M \<Longrightarrow> clock w \<le> M \<Longrightarrow> clock (snd (waitContext c d w)) \<le> M"
  by (auto simp: done_by_def waitContext_def Let_def split: option.splits)

text \<open>
  The loop's frame: it spends some of its budget, sends the request once for each unit spent and
  nothing else, stays below every bound of its context, and, if an attempt is left or an error was
  seen, does not reach the end without an error to report.
\<close>

definition loop_frame :: "ctx \<Rightarrow> request \<Rightarrow> bool \<Rightarrow> nat \<Rightarrow> world \<Rightarrow> (cmd_error + response) \<times> nat \<times> world \<Rightarrow> bool" where
  "loop_frame cx req safe budget w out = (case out of (res, b, w') \<Rightarrow>
     b \<le> budget \<and> sent w' = sent w @ replicate (budget - b) req \<and> clock w \<le> clock w' \<and>
     (\<forall>M. done_by cx M \<longrightarrow> clock w \<le> M \<longrightarrow> clock w' \<le> M) \<and> (safe \<longrightarrow> res \<noteq> Inl NilDereference))"

text \<open>What one attempt does to the world: an exchange under a shorter context, and perhaps a wait.\<close>

definition attempted :: "ctx \<Rightarrow> request \<Rightarrow> world \<Rightarrow> world \<Rightarrow> bool" where
  "attempted cx req w w1 = (sent w1 = sent w @ [req] \<and> clock w \<le> clock w1 \<and>
     (\<forall>M. done_by cx M \<longrightarrow> clock w \<le> M \<longrightarrow> clock w1 \<le> M))"

lemma attempted_exchange:
  "exchange n (client_ctx t w (with_timeout d w cx)) req w = (r, w1) \<Longrightarrow> attempted cx req w w1"
  using exchange_sent [of n "client_ctx t w (with_timeout d w cx)" req w]
    exchange_clock_mono [of w n "client_ctx t w (with_timeout d w cx)" req]
    exchange_done_by [of "client_ctx t w (with_timeout d w cx)" _ w n req]
  by (auto simp: attempted_def done_by_client_ctx done_by_with_timeout)

lemma attempted_wait:
  "attempted cx req w w1 \<Longrightarrow> waitContext cx d w1 = (r, w2) \<Longrightarrow> attempted cx req w w2"
  using waitContext_sent [of cx d w1] waitContext_clock_mono [of w1 cx d]
    waitContext_done_by [of cx _ w1 d]
  by (auto simp: attempted_def)

lemma loop_frame_end:
  "attempted cx req w w1 \<Longrightarrow> 0 < budget \<Longrightarrow> res \<noteq> Inl NilDereference \<Longrightarrow> loop_frame cx req safe budget w (res, budget - 1, w1)"
  by (simp add: loop_frame_def attempted_def)

lemma loop_frame_step:
  assumes "attempted cx req w w2" and "loop_frame cx req safe' (budget - 1) w2 out" and "0 < budget" and "safe'"
  shows "loop_frame cx req safe budget w out"
proof -
  obtain res b w' where out: "out = (res, b, w')" by (metis prod_cases3)
  with assms have "b \<le> budget - 1" by (simp add: loop_frame_def)
  then have "req # replicate (budget - 1 - b) req = replicate (budget - b) req"
    using assms(3) by (metis Suc_diff_le Suc_pred' diff_Suc_1 diff_commute replicate_Suc)
  with assms out show ?thesis by (auto simp: loop_frame_def attempted_def)
qed

lemma after_loop_safe [simp]: "after_loop rt (Some e) \<noteq> NilDereference" "after_loop rt last_err = NilDereference \<longleftrightarrow> last_err = None"
  by (auto simp: after_loop_def split: option.splits)

lemma execute_from_frame:
  "loop_frame cx req (attempt \<le> maxRetries c \<or> last_err \<noteq> None) budget w
     (execute_from rt c cx req attempt last_err budget w)"
proof (induction rt c cx req attempt last_err budget w rule: execute_from.induct)
  case (1 rt c cx req attempt last_err budget w)
  let ?cx = "client_ctx (http_timeout c) w (with_timeout (5 * second) w cx)"
  let ?safe = "attempt \<le> maxRetries c \<or> last_err \<noteq> None"
  show ?case
  proof (cases "attempt \<le> maxRetries c \<and> budget \<noteq> 0")
    case False
    then show ?thesis
      by (subst execute_from.simps) (auto simp: loop_frame_def budget_error_def)
  next
    case True
    then have go: "\<not> \<not> attempt \<le> maxRetries c" "budget \<noteq> 0" "0 < budget" by simp_all
    obtain r w1 where ex: "exchange (rt_net rt) ?cx req w = (r, w1)" by fastforce
    note w1 = attempted_exchange [OF ex]
    note unf = execute_from.simps [of rt c cx req attempt last_err budget w] go(1,2) if_False if_True ex prod.case sum.case
    note stop = loop_frame_end [OF _ go(3)] and next_step = loop_frame_step [OF _ _ go(3)]
    show ?thesis
    proof (cases r)
      case (Inl e)
      note IH = "1.IH"(1) [OF go(1,2) ex [symmetric] Inl]
      obtain q w2 where wt: "waitContext cx (minDuration (attempt_delay attempt) (maxRetryDelay c)) w1 = (q, w2)"
        by fastforce
      note w2 = attempted_wait [OF w1 wt]
      consider "attempt = maxRetries c \<or> budget - 1 = 0"
        | e' where "\<not> (attempt = maxRetries c \<or> budget - 1 = 0)" "q = Inl e'"
        | u where "\<not> (attempt = maxRetries c \<or> budget - 1 = 0)" "q = Inr u"
        by (metis sum.exhaust)
      then show ?thesis
      proof cases
        case 1
        then show ?thesis
          by (simp only: unf Inl if_True) (rule stop [OF w1], simp)
      next
        case 2
        then show ?thesis
          by (simp only: unf Inl if_False wt prod.case sum.case) (rule stop [OF w2], simp)
      next
        case 3
        with IH [OF 3(1) wt [symmetric] 3(2)] show ?thesis
          by (simp only: unf Inl if_False wt prod.case sum.case) (rule next_step [OF w2], simp_all)
      qed
    next
      case (Inr resp)
      obtain q w2 where wt: "waitContext cx (minDuration (retry_delay attempt resp) (maxRetryDelay c)) w1 = (q, w2)"
        by fastforce
      note w2 = attempted_wait [OF w1 wt]
      let ?last = "\<not> retryableManifestStatus (status resp) \<or> attempt = maxRetries c \<or> budget - 1 = 0"
      consider "read_error resp" "attempt = maxRetries c" | "read_error resp" "attempt \<noteq> maxRetries c"
        | "\<not> read_error resp" "length (body resp) > 1024 * 1024"
        | "\<not> read_error resp" "\<not> length (body resp) > 1024 * 1024" "?last"
        | e' where "\<not> read_error resp" "\<not> length (body resp) > 1024 * 1024" "\<not> ?last" "q = Inl e'"
        | u where "\<not> read_error resp" "\<not> length (body resp) > 1024 * 1024" "\<not> ?last" "q = Inr u"
        by (metis sum.exhaust)
      then show ?thesis
      proof cases
        case 1
        then have "execute_from rt c cx req attempt last_err budget w
            = (Inl (after_loop rt (Some ReadFault)), budget - 1, w1)"
          using go(2) by (subst execute_from.simps)
            (simp only: ex Inr prod.case sum.case if_True if_False order_refl simp_thms)
        then show ?thesis
          by (simp only:) (rule stop [OF w1], simp)
      next
        case 2
        with "1.IH"(2) [OF go(1,2) ex [symmetric] Inr 2] show ?thesis
          by (simp only: unf Inr if_False if_True) (rule next_step [OF w1], simp_all)
      next
        case 3
        then show ?thesis
          by (simp only: unf Inr if_True if_False) (rule stop [OF w1], simp)
      next
        case 4
        then show ?thesis
          by (simp only: unf Inr if_True if_False) (rule stop [OF w1], simp)
      next
        case 5
        then show ?thesis
          by (simp only: unf Inr if_False wt prod.case sum.case) (rule stop [OF w2], simp)
      next
        case 6
        have "attempt + 1 \<le> maxRetries c" using go(1) 6(3) by simp
        with "1.IH"(3) [OF go(1,2) ex [symmetric] Inr 6(1,2,3) wt [symmetric] 6(4)] 6 show ?thesis
          by (simp only: unf Inr if_False wt prod.case sum.case) (rule next_step [OF w2], simp_all)
      qed
    qed
  qed
qed

lemma execute_frame:
  assumes "execute rt c cx req budget w = (res, b, w')"
  shows "b \<le> budget" "sent w' = sent w @ replicate (budget - b) req" "clock w \<le> clock w'"
    "done_by cx M \<Longrightarrow> clock w \<le> M \<Longrightarrow> clock w' \<le> M" "0 \<le> maxRetries c \<Longrightarrow> res \<noteq> Inl NilDereference"
  using execute_from_frame [of cx req 0 c None budget w rt] assms
  by (auto simp: execute_def loop_frame_def)

section \<open>Facts about the token\<close>

lemma int64_le: "- (2 ^ 63) \<le> x \<Longrightarrow> int64 x \<le> x"
proof -
  assume "- (2 ^ 63) \<le> x"
  then have "(x + 2 ^ 63) mod 2 ^ 64 \<le> x + 2 ^ 63"
    by (intro zmod_le_nonneg_dividend) simp
  then show ?thesis by (simp add: int64_def)
qed

lemma int64_int64_diff: "int64 (int64 a - b) = int64 (a - b)"
proof -
  have "((a + 2 ^ 63) mod 2 ^ 64 - 2 ^ 63 - b + 2 ^ 63) mod (2 ^ 64 :: int) = ((a + 2 ^ 63) mod 2 ^ 64 - b) mod 2 ^ 64"
    by (rule arg_cong [where f = "\<lambda>x. x mod 2 ^ 64"]) (simp only: diff_add_eq diff_diff_eq add_diff_cancel_right')
  also have "\<dots> = (a + 2 ^ 63 - b) mod 2 ^ 64" by (rule mod_diff_left_eq)
  also have "a + 2 ^ 63 - b = a - b + 2 ^ 63" by simp
  finally show ?thesis by (simp only: int64_def)
qed

lemma token_ttl_bound:
  assumes "0 < e" and "0 \<le> skew" and "skew < 2 ^ 63"
  shows "0 \<le> token_ttl e skew" and "token_ttl e skew \<le> max 0 (e * second - skew)"
proof -
  show "0 \<le> token_ttl e skew" by (simp add: token_ttl_def)
  have "int64 (e * second - skew) \<le> e * second - skew"
    using assms by (intro int64_le) simp
  then show "token_ttl e skew \<le> max 0 (e * second - skew)"
    by (simp add: token_ttl_def int64_int64_diff)
qed

lemma token_ttl_exact:
  assumes "0 < e" and "0 \<le> skew" and "skew < 2 ^ 63" and "e * second < 2 ^ 63"
  shows "token_ttl e skew = max 0 (e * second - skew)"
proof -
  have "int64 (e * second - skew) = e * second - skew"
    using assms by (intro int64_id) linarith+
  then show ?thesis by (simp only: token_ttl_def int64_int64_diff)
qed

definition fresh_token :: "ManifestClient \<Rightarrow> int \<Rightarrow> bool" where
  "fresh_token c now = (case token c of None \<Rightarrow> False | Some t \<Rightarrow> t_ExpiresAt t > now)"

text \<open>The exits of \<open>machineToken\<close>.\<close>

lemma machineToken_cases:
  assumes "machineToken rt cx b (c, w) = (res, b', c', w')"
  obtains
    (cached) t where "token c = Some t" "t_ExpiresAt t > clock w" "res = Inr t" "b' = b" "c' = c" "w' = w"
  | (url) "res = Inl BadURL" "b' = b" "c' = c" "w' = w"
  | (failed) e where "execute rt c cx (token_request c) b w = (Inl e, b', w')" "res = Inl e" "c' = c"
  | (refused) e resp where "execute rt c cx (token_request c) b w = (Inr resp, b', w')" "res = Inl (Protocol e)" "c' = c"
  | (granted) t resp p where "execute rt c cx (token_request c) b w = (Inr resp, b', w')" "status resp < 400"
      "decodeStrictJSON dec_token_payload \<lparr>tk_access = [], tk_type = [], tk_expires = 0, tk_scope = []\<rparr> (body resp) = Inr p"
      "tk_access p \<noteq> []" "0 < tk_expires p" "tk_scope p = PermissionsSyncScope"
      "t = \<lparr>t_AccessToken = tk_access p, t_ExpiresAt = clock w' + token_ttl (tk_expires p) (tokenSkew c)\<rparr>"
      "res = Inr t" "c' = c\<lparr>token := Some t\<rparr>"
proof (cases "fresh_token c (clock w)")
  case True
  then obtain t where t: "token c = Some t" "t_ExpiresAt t > clock w"
    by (auto simp: fresh_token_def split: option.splits)
  with assms have "res = Inr t" "b' = b" "c' = c" "w' = w"
    by (simp_all add: machineToken_def)
  with t show ?thesis by (rule cached)
next
  case False
  then have cond: "\<not> (case token c of None \<Rightarrow> False | Some t \<Rightarrow> t_ExpiresAt t > clock w)"
    by (simp add: fresh_token_def)
  show ?thesis
  proof (cases "rt_url_ok rt (url (token_request c))")
    case False
    with assms cond have "res = Inl BadURL" "b' = b" "c' = c" "w' = w"
      by (simp_all add: machineToken_def)
    then show ?thesis by (rule url)
  next
    case True
    note pre = cond True
    obtain r b1 w1 where ex: "execute rt c cx (token_request c) b w = (r, b1, w1)" by (metis prod_cases3)
    show ?thesis
    proof (cases r)
      case (Inl e)
      with assms pre ex have "b' = b1" "w' = w1" "res = Inl e" "c' = c"
        by (simp_all add: machineToken_def)
      with ex Inl show ?thesis by (intro failed) simp_all
    next
      case (Inr resp)
      let ?zero = "\<lparr>tk_access = [], tk_type = [], tk_expires = 0, tk_scope = []\<rparr>"
      let ?e = "protocol_error (status resp) ''INVALID_TOKEN_RESPONSE'' ''invalid exact-scope machine token response'' []"
      let ?bad = "\<lambda>p. tk_access p = [] \<or> \<not> equal_fold (tk_type p) ''bearer'' \<or> tk_expires p \<le> 0 \<or> tk_scope p \<noteq> PermissionsSyncScope"
      consider "status resp \<ge> 400"
        | e where "\<not> status resp \<ge> 400" "decodeStrictJSON dec_token_payload ?zero (body resp) = Inl e"
        | p where "\<not> status resp \<ge> 400" "decodeStrictJSON dec_token_payload ?zero (body resp) = Inr p" "?bad p"
        | p where "\<not> status resp \<ge> 400" "decodeStrictJSON dec_token_payload ?zero (body resp) = Inr p" "\<not> ?bad p"
        by (metis sum.exhaust)
      then show ?thesis
      proof cases
        case 1
        with assms pre ex Inr have "b' = b1" "w' = w1" "res = Inl (Protocol (parsePermissionManifestTokenError resp))" "c' = c"
          by (simp_all add: machineToken_def)
        with ex Inr show ?thesis by (intro refused) simp_all
      next
        case 2
        with assms pre ex Inr have "b' = b1" "w' = w1" "res = Inl (Protocol ?e)" "c' = c"
          by (simp_all add: machineToken_def)
        with ex Inr show ?thesis by (intro refused) simp_all
      next
        case 3
        with assms pre ex Inr have "b' = b1" "w' = w1" "res = Inl (Protocol ?e)" "c' = c"
          by (simp_all add: machineToken_def Let_def)
        with ex Inr show ?thesis by (intro refused) simp_all
      next
        case 4
        let ?t = "\<lparr>t_AccessToken = tk_access p, t_ExpiresAt = clock w1 + token_ttl (tk_expires p) (tokenSkew c)\<rparr>"
        from 4 assms pre ex Inr have "b' = b1" "w' = w1" "res = Inr ?t" "c' = c\<lparr>token := Some ?t\<rparr>"
          by (auto simp add: machineToken_def Let_def)
        with ex Inr 4 show ?thesis by (intro granted [of resp p ?t]) simp_all
      qed
    qed
  qed
qed

lemma machineToken_frame:
  assumes "machineToken rt cx b (c, w) = (res, b', c', w')"
  shows "b' \<le> b" "sent w' = sent w @ replicate (b - b') (token_request c)" "clock w \<le> clock w'"
    "done_by cx M \<Longrightarrow> clock w \<le> M \<Longrightarrow> clock w' \<le> M" "0 \<le> maxRetries c \<Longrightarrow> res \<noteq> Inl NilDereference"
    "\<exists>t. c' = c\<lparr>token := t\<rparr>"
proof -
  have self: "\<exists>t. c = c\<lparr>token := t\<rparr>" by (rule exI [of _ "token c"]) simp
  have "b' \<le> b \<and> sent w' = sent w @ replicate (b - b') (token_request c) \<and> clock w \<le> clock w' \<and>
    (done_by cx M \<longrightarrow> clock w \<le> M \<longrightarrow> clock w' \<le> M) \<and> (0 \<le> maxRetries c \<longrightarrow> res \<noteq> Inl NilDereference) \<and>
    (\<exists>t. c' = c\<lparr>token := t\<rparr>)"
  proof (cases rule: machineToken_cases [OF assms, case_names cached url failed refused granted])
    case cached
    with self show ?thesis by simp
  next
    case url
    with self show ?thesis by simp
  next
    case failed
    from execute_frame [OF failed(1)] failed(2,3) self show ?thesis by simp
  next
    case refused
    from execute_frame [OF refused(1)] refused(2,3) self show ?thesis by simp
  next
    case granted
    from granted(9) have "\<exists>t. c' = c\<lparr>token := t\<rparr>" by blast
    with execute_frame [OF granted(1)] granted(8) show ?thesis by simp
  qed
  then show "b' \<le> b" "sent w' = sent w @ replicate (b - b') (token_request c)" "clock w \<le> clock w'"
    "done_by cx M \<Longrightarrow> clock w \<le> M \<Longrightarrow> clock w' \<le> M" "0 \<le> maxRetries c \<Longrightarrow> res \<noteq> Inl NilDereference"
    "\<exists>t. c' = c\<lparr>token := t\<rparr>"
    by blast+
qed

section \<open>Facts about the commands\<close>

definition only_requests :: "request \<Rightarrow> request \<Rightarrow> world \<Rightarrow> world \<Rightarrow> bool" where
  "only_requests a b w w' = (\<exists>i j. i + j \<le> 3 \<and> sent w' = sent w @ replicate i a @ replicate j b)"

lemma send_frame:
  assumes "send rt cx p idem (c, w) = (res, c', w')"
  shows "\<exists>access. only_requests (token_request c) (sync_request c access p idem) w w'"
    "clock w \<le> clock w'" "clock w' \<le> clock w + 15 * second"
    "0 \<le> maxRetries c \<Longrightarrow> res \<noteq> Inl NilDereference" "\<exists>t. c' = c\<lparr>token := t\<rparr>"
    "res = Inr r \<Longrightarrow> validateManifestResult r p = Inr ()"
proof -
  let ?cx = "with_timeout (15 * second) w cx" and ?M = "clock w + 15 * second"
  have M: "done_by ?cx ?M" "clock w \<le> ?M" by (simp_all add: done_by_with_timeout)
  obtain q b c1 w1 where mt: "machineToken rt ?cx 3 (c, w) = (q, b, c1, w1)" by (metis prod_cases4)
  note m = machineToken_frame [OF mt]
  from m(6) obtain t0 where c1: "c1 = c\<lparr>token := t0\<rparr>" by blast
  have req: "sync_request c1 a p idem = sync_request c a p idem" for a
    by (simp add: c1 sync_request_def)
  have quiet: "\<exists>access. only_requests (token_request c) (sync_request c access p idem) w w1"
    unfolding only_requests_def using m(1,2)
    by (intro exI [of _ "[]"] exI [of _ "3 - b"] exI [of _ "0 :: nat"]) simp
  have "(\<exists>access. only_requests (token_request c) (sync_request c access p idem) w w') \<and>
    clock w \<le> clock w' \<and> clock w' \<le> ?M \<and> (0 \<le> maxRetries c \<longrightarrow> res \<noteq> Inl NilDereference) \<and>
    (\<exists>t. c' = c\<lparr>token := t\<rparr>) \<and> (res = Inr r \<longrightarrow> validateManifestResult r p = Inr ())"
  proof (cases q)
    case (Inl e)
    with assms mt have "res = Inl e" "c' = c1" "w' = w1" by (simp_all add: send_def)
    with m(3-6) M quiet Inl show ?thesis by simp
  next
    case (Inr t)
    let ?req = "sync_request c1 (t_AccessToken t) p idem"
    show ?thesis
    proof (cases "rt_url_ok rt (url ?req)")
      case False
      with assms mt Inr have "res = Inl BadURL" "c' = c1" "w' = w1" by (simp_all add: send_def)
      with m(3-6) M quiet show ?thesis by simp
    next
      case True
      obtain q2 b2 w2 where ex: "execute rt c1 ?cx ?req b w1 = (q2, b2, w2)" by (metis prod_cases3)
      note e = execute_frame [OF ex]
      have "only_requests (token_request c) (sync_request c (t_AccessToken t) p idem) w w2"
        unfolding only_requests_def using m(1,2) e(1,2)
        by (intro exI [of _ "3 - b"] exI [of _ "b - b2"]) (simp add: req)
      moreover have "clock w \<le> clock w2" "clock w2 \<le> ?M"
        using e(3) m(3) e(4) [OF M(1) m(4) [OF M]] by simp_all
      moreover have "w' = w2" "c' = c1" "res = (case q2 of Inl e \<Rightarrow> Inl e | Inr resp \<Rightarrow> check_response rt p resp)"
        using assms mt Inr True ex by (auto simp: send_def Let_def split: sum.splits)
      moreover have "check_response rt p resp \<noteq> Inl NilDereference" for resp
        by (auto simp: check_response_def Let_def split: sum.splits)
      moreover have "check_response rt p resp = Inr r \<Longrightarrow> validateManifestResult r p = Inr ()" for resp
        by (auto simp: check_response_def Let_def split: sum.splits if_splits)
      ultimately show ?thesis
        using e(5) m(6) by (auto simp: c1 split: sum.splits)
    qed
  qed
  then show "\<exists>access. only_requests (token_request c) (sync_request c access p idem) w w'"
    "clock w \<le> clock w'" "clock w' \<le> clock w + 15 * second"
    "0 \<le> maxRetries c \<Longrightarrow> res \<noteq> Inl NilDereference" "\<exists>t. c' = c\<lparr>token := t\<rparr>"
    "res = Inr r \<Longrightarrow> validateManifestResult r p = Inr ()"
    by blast+
qed

text \<open>Both commands, by the idempotency key that an upsert carries.\<close>

definition command ::
  "runtime \<Rightarrow> ctx \<Rightarrow> PermissionManifest \<Rightarrow> string option \<Rightarrow> ManifestClient \<times> world \<Rightarrow>
   (cmd_error + PermissionManifestResult) \<times> observation list \<times> ManifestClient \<times> world" where
  "command rt cx m key s = (case key of None \<Rightarrow> ValidatePermissionManifest rt cx m s
     | Some idem \<Rightarrow> UpsertPermissionManifest rt cx m idem s)"

lemma command_cases:
  assumes "command rt cx m key s = (res, obs, s')"
  obtains (local) e where "res = Inl (Invalid e)" "obs = []" "s' = s"
  | (sent) p where "PreparePermissionManifest (rt_nfc rt) m
        (case key of None \<Rightarrow> PermissionManifestValidate | Some _ \<Rightarrow> PermissionManifestUpsert) = Inr p"
      "send rt cx p (case key of None \<Rightarrow> [] | Some idem \<Rightarrow> idem) s = (res, s')"
proof (cases key)
  case None
  show ?thesis
  proof (cases "PreparePermissionManifest (rt_nfc rt) m PermissionManifestValidate")
    case (Inl e)
    with None assms local [of e] show ?thesis by (auto simp: command_def ValidatePermissionManifest_def)
  next
    case (Inr p)
    with None assms have "send rt cx p [] s = (res, s')"
      by (auto simp: command_def ValidatePermissionManifest_def observed_def split: prod.splits)
    with None Inr sent show ?thesis by simp
  qed
next
  case (Some idem)
  show ?thesis
  proof (cases "requireManifestIdempotencyKey idem")
    case (Inl e)
    with Some assms local [of e] show ?thesis by (auto simp: command_def UpsertPermissionManifest_def)
  next
    case ok: (Inr u)
    show ?thesis
    proof (cases "PreparePermissionManifest (rt_nfc rt) m PermissionManifestUpsert")
      case (Inl e)
      with ok Some assms local [of e] show ?thesis by (auto simp: command_def UpsertPermissionManifest_def)
    next
      case (Inr p)
      with ok Some assms have "send rt cx p idem s = (res, s')"
        by (auto simp: command_def UpsertPermissionManifest_def observed_def split: prod.splits)
      with Some Inr sent show ?thesis by simp
    qed
  qed
qed

section \<open>Properties\<close>

text \<open>
  C10. A command is bounded whatever the network does: it takes at most 15 seconds and at most three
  exchanges in all, the token's and the manifest's together, and what it sends is token requests
  followed by repetitions of one and the same manifest request.
\<close>

theorem command_budget:
  "\<exists>access p idem. only_requests (token_request c) (sync_request c access p idem) w
       (snd (snd (snd (command rt cx m key (c, w))))) \<and>
     clock w \<le> clock (snd (snd (snd (command rt cx m key (c, w))))) \<and>
     clock (snd (snd (snd (command rt cx m key (c, w))))) \<le> clock w + 15 * second \<and>
     length (sent (snd (snd (snd (command rt cx m key (c, w)))))) \<le> length (sent w) + 3"
proof -
  obtain res obs c' w' where run: "command rt cx m key (c, w) = (res, obs, c', w')" by (metis prod_cases4)
  have bound: "\<And>a b. only_requests a b w w' \<Longrightarrow> length (sent w') \<le> length (sent w) + 3"
    by (auto simp: only_requests_def)
  show ?thesis
    unfolding run snd_conv
  proof (cases rule: command_cases [OF run, case_names local sent])
    case (local e)
    then have w': "w' = w" by simp
    then have "only_requests (token_request c) (sync_request c [] undefined []) w w'"
      by (auto simp: only_requests_def intro!: exI [of _ 0])
    then show "\<exists>access p idem. only_requests (token_request c) (sync_request c access p idem) w w' \<and>
        clock w \<le> clock w' \<and> clock w' \<le> clock w + 15 * second \<and> length (sent w') \<le> length (sent w) + 3"
      using bound w' by auto
  next
    case (sent p)
    from send_frame(1-3) [OF sent(2)] bound
    show "\<exists>access p idem. only_requests (token_request c) (sync_request c access p idem) w w' \<and>
        clock w \<le> clock w' \<and> clock w' \<le> clock w + 15 * second \<and> length (sent w') \<le> length (sent w) + 3"
      by blast
  qed
qed

text \<open>
  A client that the constructor returned never reaches the code after the retry loop without an
  error to report, so \<open>last.Error ()\<close> never dereferences nil, whatever token it holds.
\<close>

lemma no_nil_dereference:
  assumes "NewPermissionManifestClient cfg = Inr c"
  shows "fst (command rt cx m key (c\<lparr>token := t\<rparr>, w)) \<noteq> Inl NilDereference"
proof -
  have "0 \<le> maxRetries c"
    using assms by (auto simp: NewPermissionManifestClient_def Let_def split: if_splits)
  then have r: "0 \<le> maxRetries (c\<lparr>token := t\<rparr>)" by simp
  obtain res obs c' w' where run: "command rt cx m key (c\<lparr>token := t\<rparr>, w) = (res, obs, c', w')"
    by (metis prod_cases4)
  show ?thesis
    unfolding run fst_conv
  proof (cases rule: command_cases [OF run, case_names local sent])
    case (sent p)
    from send_frame(4) [OF sent(2) r] show "res \<noteq> Inl NilDereference" .
  qed simp
qed

theorem no_nil_dereference_witness:
  "\<exists>c. NewPermissionManifestClient \<lparr>mc_IssuerEndpoint = ''i'', mc_PortalAPIEndpoint = ''p'', mc_ClientID = ''c'',
       mc_ClientSecret = ''s'', mc_Timeout = 0, mc_TokenSkew = 0, mc_MaxRetries = 0, mc_MaxRetryDelay = 0,
       mc_HTTPClient = None, mc_Observer = False\<rparr> = Inr c \<and>
     (\<forall>rt cx m key w. fst (command rt cx m key (c, w)) \<noteq> Inl NilDereference)"
proof -
  let ?cfg = "\<lparr>mc_IssuerEndpoint = ''i'', mc_PortalAPIEndpoint = ''p'', mc_ClientID = ''c'',
       mc_ClientSecret = ''s'', mc_Timeout = 0, mc_TokenSkew = 0, mc_MaxRetries = 0, mc_MaxRetryDelay = 0,
       mc_HTTPClient = None, mc_Observer = False\<rparr>"
  obtain c where c: "NewPermissionManifestClient ?cfg = Inr c"
    by (simp add: NewPermissionManifestClient_def trim_space_def trim_right_def byte_def is_space_def Let_def)
  from no_nil_dereference [OF c, of _ _ _ _ "token c"] c show ?thesis by auto
qed

text \<open>
  C20. A result that a command returns answers the manifest that was given: it has the mode of the
  command, is applied exactly for an upsert, and its fingerprint is the hash of the canonical form of
  the given declarations.
\<close>

theorem command_result:
  "case fst (command rt cx m key s) of
     Inl e \<Rightarrow> True
   | Inr r \<Rightarrow> (\<exists>ds. m_Permissions m = Some ds \<and> s_Fingerprint r = sha256Hex (canonicalManifest (sort_key Key ds)) \<and>
       s_ManifestID r = m_ManifestID m \<and> s_Revision r = m_Revision m \<and>
       s_Mode r = (case key of None \<Rightarrow> PermissionManifestValidate | Some _ \<Rightarrow> PermissionManifestUpsert) \<and>
       s_Applied r = (key \<noteq> None))"
proof -
  obtain c w where s: "s = (c, w)" by fastforce
  obtain res obs c' w' where run: "command rt cx m key s = (res, obs, c', w')" by (metis prod_cases4)
  have "\<exists>ds. m_Permissions m = Some ds \<and> s_Fingerprint r = sha256Hex (canonicalManifest (sort_key Key ds)) \<and>
       s_ManifestID r = m_ManifestID m \<and> s_Revision r = m_Revision m \<and>
       s_Mode r = (case key of None \<Rightarrow> PermissionManifestValidate | Some _ \<Rightarrow> PermissionManifestUpsert) \<and>
       s_Applied r = (key \<noteq> None)" if r: "res = Inr r" for r
  proof (cases rule: command_cases [OF run, case_names local sent])
    case (local e)
    with r show ?thesis by simp
  next
    case (sent p)
    from Prepare_InrD [OF sent(1)] obtain ds where ds: "m_Permissions m = Some ds"
      by blast
    note p = Prepare_given(5) [OF sent(1) ds]
    have "validateManifestResult r p = Inr ()"
      using send_frame(6) [OF sent(2) [unfolded s] r] .
    then have "s_Mode r = p_Mode p" "s_ManifestID r = p_ManifestID p" "s_Revision r = p_Revision p"
      "s_Fingerprint r = p_Fingerprint p" "s_Applied r = (p_Mode p = PermissionManifestUpsert)"
      by (simp_all add: validateManifestResult_def split: if_splits)
    with ds show ?thesis
      by (intro exI [of _ ds]) (simp add: p split: option.splits)
  qed
  then show ?thesis
    unfolding run fst_conv by (cases res) simp_all
qed

text \<open>
  C21. Startup.  No error comes out of a continued startup, and an error is continued only in
  development mode under the policy that asks for it, with exactly one event; a disabled startup does
  nothing; and as long as no attempt is reported, nothing was sent and no token changed.
\<close>

theorem startup_outcomes:
  "case RunPermissionManifestStartup rt cx has_client m opts s of (r, err, evs, s') \<Rightarrow>
     (sr_Continued r \<longleftrightarrow> length evs = 1) \<and> (\<not> sr_Continued r \<longleftrightarrow> evs = []) \<and>
     (sr_Continued r \<longrightarrow> err = None \<and> sr_Result r = None \<and>
        so_Mode opts = DevelopmentStartup \<and> so_FailurePolicy opts = Continue \<and> so_OnContinueError opts) \<and>
     (\<not> sr_NetworkAttempted r \<longrightarrow> s' = s) \<and>
     (so_Mode opts = Disabled \<longrightarrow> r = no_startup \<and> err = None \<and> s' = s) \<and>
     (err = None \<longleftrightarrow> so_Mode opts = Disabled \<or> sr_Continued r \<or> sr_Result r \<noteq> None)"
  by (cases "so_Mode opts"; cases "so_FailurePolicy opts"; cases has_client; cases "so_OnContinueError opts")
    (auto simp: RunPermissionManifestStartup_def no_startup_def Let_def split: prod.split sum.split)

theorem startup_outcomes_witness:
  "\<exists>r evs. RunPermissionManifestStartup \<lparr>rt_net = (\<lambda>h r. (1, Inl CtxDone)), rt_url_ok = (\<lambda>u. True), rt_text = (\<lambda>f. []), rt_nfc = (\<lambda>s. True)\<rparr>
     \<lparr>done_at = None, tie = False\<rparr> True \<lparr>m_ManifestID = [], m_Revision = [], m_Permissions = None\<rparr>
     \<lparr>so_Mode = DevelopmentStartup, so_FailurePolicy = Continue, so_IdempotencyKey = ''short'', so_OnContinueError = True\<rparr>
     (undefined, \<lparr>sent = [], clock = 0\<rparr>) = (r, None, evs, undefined, \<lparr>sent = [], clock = 0\<rparr>)
     \<and> sr_Continued r \<and> sr_NetworkAttempted r \<and> length evs = 1"
proof -
  let ?rt = "\<lparr>rt_net = (\<lambda>h r. (1, Inl CtxDone)), rt_url_ok = (\<lambda>u. True), rt_text = (\<lambda>f. []), rt_nfc = (\<lambda>s. True)\<rparr>"
  let ?opts = "\<lparr>so_Mode = DevelopmentStartup, so_FailurePolicy = Continue, so_IdempotencyKey = ''short'', so_OnContinueError = True\<rparr>"
  let ?m = "\<lparr>m_ManifestID = [], m_Revision = [], m_Permissions = None\<rparr> :: PermissionManifest"
  let ?s = "(undefined :: ManifestClient, \<lparr>sent = [], clock = 0\<rparr> :: world)"
  obtain r err evs s' where run: "RunPermissionManifestStartup ?rt \<lparr>done_at = None, tie = False\<rparr> True ?m ?opts ?s
      = (r, err, evs, s')"
    by (metis prod_cases4)
  then have r: "sr_Continued r" "sr_NetworkAttempted r" "s' = ?s"
    by (auto simp: RunPermissionManifestStartup_def UpsertPermissionManifest_def requireManifestIdempotencyKey_def
        idempotencyPattern_def repeated_def)
  with startup_outcomes [where rt = ?rt and cx = "\<lparr>done_at = None, tie = False\<rparr>" and has_client = True and m = ?m
      and opts = ?opts and s = ?s] run show ?thesis
    by auto
qed


definition sample_token_text :: string where
  "sample_token_text = ''{'' @ [CHR 0x22] @ ''access_token'' @ [CHR 0x22] @ '':'' @ [CHR 0x22] @ ''a'' @ [CHR 0x22] @ '','' @ [CHR 0x22] @ ''token_type'' @ [CHR 0x22] @ '':'' @ [CHR 0x22] @ ''Bearer'' @ [CHR 0x22] @ '','' @ [CHR 0x22] @ ''expires_in'' @ [CHR 0x22] @ '':60,'' @ [CHR 0x22] @ ''scope'' @ [CHR 0x22] @ '':'' @ [CHR 0x22] @ ''permissions:sync'' @ [CHR 0x22] @ ''}''"

lemma sample_token_decodes:
  "decodeStrictJSON dec_token_payload \<lparr>tk_access = [], tk_type = [], tk_expires = 0, tk_scope = []\<rparr> sample_token_text
   = Inr \<lparr>tk_access = ''a'', tk_type = ''Bearer'', tk_expires = 60, tk_scope = ''permissions:sync''\<rparr>"
proof (rule decodeStrictJSON_eval)
  show "rejectDuplicateJSONMembers sample_token_text = Inr (JObj [(''access_token'', JStr ''a''),
      (''token_type'', JStr ''Bearer''), (''expires_in'', JNum ''60''), (''scope'', JStr ''permissions:sync'')])"
    by (simp add: rejectDuplicateJSONMembers_def sample_token_text_def json_eval)
qed (simp add: dec_token_payload_def decode_eval int64_def has_prefix_def digit_byte byte_def)

definition sample_client :: ManifestClient where
  "sample_client = \<lparr>issuerEndpoint = ''i'', portalAPIEndpoint = ''p'', mc_clientID = ''c'', mc_clientSecret = ''s'',
     tokenSkew = 30 * second, maxRetries = 0, maxRetryDelay = second, http_timeout = None, observed_by = False,
     token = None\<rparr>"

definition sample_runtime :: "response \<Rightarrow> runtime" where
  "sample_runtime resp = \<lparr>rt_net = (\<lambda>h r. (1, Inr resp)), rt_url_ok = (\<lambda>u. True), rt_text = (\<lambda>f. []), rt_nfc = (\<lambda>s. True)\<rparr>"


text \<open>
  A manifest without declarations is accepted and has the fingerprint of the empty array, but it
  is sent with \<open>null\<close> in the place of the array.
\<close>

lemma empty_manifest_sent_as_null:
  "case PreparePermissionManifest nfc \<lparr>m_ManifestID = i, m_Revision = v, m_Permissions = Some []\<rparr> mode of
     Inl e \<Rightarrow> e \<in> {BadMode, BadManifestID, BadRevision}
   | Inr p \<Rightarrow> p_Fingerprint p = sha256Hex ([CHR 0x7B, CHR 0x22] @ ''permissions'' @ [CHR 0x22] @ '':[]'' @ [CHR 0x7D]) \<and>
       prepared_json p = JObj [(''mode'', JStr mode), (''manifestId'', JStr i), (''revision'', JStr v),
         (''fingerprint'', JStr (p_Fingerprint p)), (''permissions'', JNull)]"
  by (simp add: PreparePermissionManifest_def prepared_json_def canonicalManifest_def)

text \<open>
  The seconds of a rejected \<open>Retry-After\<close> are reported all the same: the value 99999 is not
  accepted, being longer than a day, and \<open>-5\<close> is not either, yet both appear in the error.
\<close>

definition sample_error :: "string \<Rightarrow> response" where
  "sample_error retry_after = \<lparr>status = 429, resp_headers = [(''Retry-After'', retry_after)],
     body = ''{'' @ [CHR 0x22] @ ''status'' @ [CHR 0x22] @ '':429,'' @ [CHR 0x22] @ ''error'' @ [CHR 0x22] @ '':'' @ [CHR 0x22] @ ''E'' @ [CHR 0x22] @ '','' @ [CHR 0x22] @ ''message'' @ [CHR 0x22] @ '':'' @ [CHR 0x22] @ ''m'' @ [CHR 0x22] @ '','' @ [CHR 0x22] @ ''timestamp'' @ [CHR 0x22] @ '':'' @ [CHR 0x22] @ ''t'' @ [CHR 0x22] @ '','' @ [CHR 0x22] @ ''correlationId'' @ [CHR 0x22] @ '':'' @ [CHR 0x22] @ ''c'' @ [CHR 0x22] @ ''}'', read_error = False\<rparr>"

lemma rejected_retry_after_reported:
  "\<not> snd (parseManifestRetryAfter ''99999'') \<and> \<not> snd (parseManifestRetryAfter ''-5'') \<and>
   e_RetryAfterSeconds (parsePermissionManifestError (sample_error ''99999'')) = 99999 \<and>
   e_RetryAfterSeconds (parsePermissionManifestError (sample_error ''-5'')) = -5"
proof -
  have dec: "decodeStrictJSON dec_error_payload
       \<lparr>ep_status = 0, ep_error = [], ep_message = [], ep_timestamp = [], ep_correlation = []\<rparr> (body (sample_error h))
     = Inr \<lparr>ep_status = 429, ep_error = ''E'', ep_message = ''m'', ep_timestamp = ''t'', ep_correlation = ''c''\<rparr>" for h
  proof (rule decodeStrictJSON_eval)
    show "rejectDuplicateJSONMembers (body (sample_error h)) = Inr (JObj [(''status'', JNum ''429''),
        (''error'', JStr ''E''), (''message'', JStr ''m''), (''timestamp'', JStr ''t''), (''correlationId'', JStr ''c'')])"
      by (simp add: rejectDuplicateJSONMembers_def sample_error_def json_eval)
  qed (simp add: dec_error_payload_def decode_eval int64_def has_prefix_def digit_byte byte_def)
  have "parseManifestRetryAfter ''99999'' = (99999, False)" "parseManifestRetryAfter ''-5'' = (-5, False)"
    by (simp_all add: parseManifestRetryAfter_def atoi_def has_prefix_def digit_byte byte_def digits_val_def digit_val_def Let_def)
  with dec show ?thesis
    by (simp add: parsePermissionManifestError_def Let_def) (simp add: sample_error_def header_get_def)
qed

end
