(* ===== verification/Portal.thy ===== *)
theory Portal
  imports Complex_Main Go_Http Go_Encode
begin

text \<open>
  \<open>PortalOpenAPIClient\<close> (portal_open_api_client.go): scopes, the machine token of each scope and its
  cache, the guards on paths, methods and headers, and the JSON request that every management client
  goes through.

  A JSON number of \<open>expires_in\<close> is a float64 in the code and the exact rational here.
\<close>

section \<open>Scopes\<close>

definition PortalOpenAPIReadScope :: string where "PortalOpenAPIReadScope = ''portal:openapi:read''"
definition PortalOpenAPIWriteScope :: string where "PortalOpenAPIWriteScope = ''portal:openapi:write''"
definition RegistrationGrantsReadScope :: string where "RegistrationGrantsReadScope = ''registration_grants:read''"
definition RegistrationGrantsWriteScope :: string where "RegistrationGrantsWriteScope = ''registration_grants:write''"
definition RegistrationGrantsRedemptionsReadScope :: string where "RegistrationGrantsRedemptionsReadScope = ''registration_grants:redemptions:read''"
definition OrganizationsReadScope :: string where "OrganizationsReadScope = ''organizations:read''"
definition OrganizationsWriteScope :: string where "OrganizationsWriteScope = ''organizations:write''"
definition OrganizationInvitationsReadScope :: string where "OrganizationInvitationsReadScope = ''organization_invitations:read''"
definition OrganizationInvitationsWriteScope :: string where "OrganizationInvitationsWriteScope = ''organization_invitations:write''"
definition OrganizationMembersReadScope :: string where "OrganizationMembersReadScope = ''organization_members:read''"
definition OrganizationMembersWriteScope :: string where "OrganizationMembersWriteScope = ''organization_members:write''"
definition RolesReadScope :: string where "RolesReadScope = ''roles:read''"
definition RolesWriteScope :: string where "RolesWriteScope = ''roles:write''"
definition PermissionsReadScope :: string where "PermissionsReadScope = ''permissions:read''"
definition PermissionsWriteScope :: string where "PermissionsWriteScope = ''permissions:write''"
definition RolePermissionsReadScope :: string where "RolePermissionsReadScope = ''role_permissions:read''"
definition RolePermissionsWriteScope :: string where "RolePermissionsWriteScope = ''role_permissions:write''"
definition UserRolesReadScope :: string where "UserRolesReadScope = ''user_roles:read''"
definition UserRolesWriteScope :: string where "UserRolesWriteScope = ''user_roles:write''"

lemmas scope_defs = PortalOpenAPIReadScope_def PortalOpenAPIWriteScope_def RolesReadScope_def
  RolesWriteScope_def PermissionsReadScope_def PermissionsWriteScope_def RolePermissionsReadScope_def
  RolePermissionsWriteScope_def UserRolesReadScope_def UserRolesWriteScope_def
  RegistrationGrantsReadScope_def RegistrationGrantsWriteScope_def RegistrationGrantsRedemptionsReadScope_def
  OrganizationsReadScope_def OrganizationsWriteScope_def OrganizationInvitationsReadScope_def
  OrganizationInvitationsWriteScope_def OrganizationMembersReadScope_def OrganizationMembersWriteScope_def

definition portal_scopes :: "string list" where
  "portal_scopes = [PortalOpenAPIReadScope, PortalOpenAPIWriteScope, RegistrationGrantsReadScope,
     RegistrationGrantsWriteScope, RegistrationGrantsRedemptionsReadScope, OrganizationsReadScope,
     OrganizationsWriteScope, OrganizationInvitationsReadScope, OrganizationInvitationsWriteScope,
     OrganizationMembersReadScope, OrganizationMembersWriteScope, RolesReadScope, RolesWriteScope,
     PermissionsReadScope, PermissionsWriteScope, RolePermissionsReadScope, RolePermissionsWriteScope,
     UserRolesReadScope, UserRolesWriteScope]"

section \<open>The client\<close>

record PortalOpenAPIMachineToken =
  pt_AccessToken :: string
  pt_Scope :: string
  pt_ExpiresAt :: int

record PortalOpenAPIClientConfig =
  pc_Issuer :: string
  pc_PortalEndpoint :: string
  pc_ClientID :: string
  pc_ClientSecret :: string
  pc_Timeout :: int
  pc_TokenSkew :: int
  pc_HTTPClient :: "int option option"

record PortalClient =
  po_issuer :: string
  po_endpoint :: string
  po_clientID :: string
  po_clientSecret :: string
  po_tokenSkew :: int
  po_timeout :: "int option"
  tokenCache :: "string \<rightharpoonup> PortalOpenAPIMachineToken"

datatype portal_error =
    ConfigError string
  | TokenError (te_status: int) (te_code: string) (te_body: string)
  | RequestError (re_status: int) (re_code: string) (re_body: string) (re_retry: string)
  | NetError net_error
  | BadURL
  | ReadError
  | DecodeError json_error
  | WrappedRequestError string

definition NewPortalOpenAPIClient :: "PortalOpenAPIClientConfig \<Rightarrow> portal_error + PortalClient" where
  "NewPortalOpenAPIClient cfg =
     (let issuer = trim_right (CHR ''/'') (trim_space (pc_Issuer cfg));
          endpoint = trim_right (CHR ''/'') (trim_space (pc_PortalEndpoint cfg));
          cid = trim_space (pc_ClientID cfg);
          sec = trim_space (pc_ClientSecret cfg) in
      if issuer = [] then Inl (ConfigError ''Issuer is required'')
      else if endpoint = [] then Inl (ConfigError ''PortalEndpoint is required'')
      else if cid = [] \<or> sec = [] then Inl (ConfigError ''ClientID and ClientSecret are required for M2M confidential client'')
      else if pc_TokenSkew cfg < 0 then Inl (ConfigError ''TokenSkew must be non-negative'')
      else
       (let timeout = (if pc_Timeout cfg \<le> 0 then 5 * second else pc_Timeout cfg) in
        Inr \<lparr>po_issuer = issuer, po_endpoint = endpoint, po_clientID = cid, po_clientSecret = sec,
             po_tokenSkew = (if pc_TokenSkew cfg = 0 then 30 * second else pc_TokenSkew cfg),
             po_timeout = (case pc_HTTPClient cfg of None \<Rightarrow> Some timeout | Some t \<Rightarrow> t),
             tokenCache = Map.empty\<rparr>))"

definition validatePortalOpenAPIScope :: "string \<Rightarrow> portal_error + unit" where
  "validatePortalOpenAPIScope s =
     (if s \<in> set portal_scopes then Inr ()
      else if s = [] then Inl (TokenError 0 ''invalid_scope'' ''Portal Open API token requests require an explicit scope'')
      else Inl (TokenError 0 ''invalid_scope'' s))"

section \<open>Reading the token response\<close>

text \<open>Decoding into \<open>map[string]any\<close>: exact names, the last member of a name, nothing on an error.\<close>

definition any_map :: "string \<Rightarrow> (string \<rightharpoonup> json)" where
  "any_map raw = (case parse_json raw of Some (JObj ms) \<Rightarrow> map_of (rev ms) | _ \<Rightarrow> Map.empty)"

fun firstString :: "(string \<rightharpoonup> json) \<Rightarrow> string list \<Rightarrow> string" where
  "firstString m [] = []"
| "firstString m (k # ks) = (case m k of
     Some (JStr v) \<Rightarrow> (if v \<noteq> [] then v else firstString m ks)
   | _ \<Rightarrow> firstString m ks)"

text \<open>The value of a JSON number literal; beyond the range of float64 decoding fails.\<close>

definition rat_of_literal :: "string \<Rightarrow> rat" where
  "rat_of_literal lit =
     (let neg = has_prefix ''-'' lit; s0 = trim_prefix ''-'' lit;
          ws = takeWhile digit s0; s1 = dropWhile digit s0;
          (fs, s2) = (if has_prefix ''.'' s1 then (takeWhile digit (tl s1), dropWhile digit (tl s1)) else ([], s1));
          (eneg, es) = (case s2 of [] \<Rightarrow> (False, [])
             | e # r \<Rightarrow> (has_prefix ''-'' r, if has_prefix ''-'' r \<or> has_prefix ''+'' r then tl r else r));
          mant = of_int (digits_val (ws @ fs)) / 10 ^ length fs;
          ex = nat (digits_val es);
          v = (if eneg then mant / 10 ^ ex else mant * 10 ^ ex)
      in if neg then - v else v)"

definition float_limit :: rat where "float_limit = 2 ^ 1024"

definition numberFromJSON :: "json option \<Rightarrow> rat option" where
  "numberFromJSON v = (case v of
     Some (JNum lit) \<Rightarrow> (let q = rat_of_literal lit in if \<bar>q\<bar> < float_limit then Some q else None)
   | _ \<Rightarrow> None)"

text \<open>
  \<open>time.Duration (math.Max (expiresIn - skew, 0) * 1e9)\<close>; a value outside int64 becomes the smallest
  integer, as on amd64.
\<close>

definition portal_ttl :: "rat \<Rightarrow> int \<Rightarrow> int" where
  "portal_ttl expires_in skew =
     (let d = \<lfloor>max (expires_in - of_int skew / of_int second) 0 * of_int second\<rfloor>
      in if d < 2 ^ 63 then d else - (2 ^ 63))"

definition portal_token_request :: "PortalClient \<Rightarrow> string \<Rightarrow> request" where
  "portal_token_request c scope = \<lparr>meth = ''POST'', url = po_issuer c @ ''/oauth2/token'',
     headers = header_set ''Authorization'' (''Basic '' @ base64 (po_clientID c @ '':'' @ po_clientSecret c))
       (header_set ''Content-Type'' ''application/x-www-form-urlencoded''
       (header_set ''Accept'' ''application/json'' [])),
     payload = Encode [(''grant_type'', ''client_credentials''), (''scope'', scope)]\<rparr>"

definition requestMachineToken ::
  "runtime \<Rightarrow> ctx \<Rightarrow> string \<Rightarrow> PortalClient \<Rightarrow> world \<Rightarrow> (portal_error + PortalOpenAPIMachineToken) \<times> world" where
  "requestMachineToken rt cx scope c w =
     (let req = portal_token_request c scope in
      if \<not> rt_url_ok rt (url req) then (Inl BadURL, w)
      else (case exchange (rt_net rt) (client_ctx (po_timeout c) w cx) req w of
        (Inl e, w1) \<Rightarrow> (Inl (NetError e), w1)
      | (Inr resp, w1) \<Rightarrow>
         (if read_error resp then (Inl ReadError, w1)
          else
           (let m = any_map (body resp); fail = (\<lambda>code. (Inl (TokenError (status resp) code (body resp)), w1)) in
            if status resp \<ge> 400
            then (let code = firstString m [''error'', ''code'', ''errorCode''] in
                  fail (if code = [] then ''token_request_failed'' else code))
            else
             (let access = trim_space (firstString m [''access_token'']) in
              if access = [] then fail ''missing_bearer_token''
              else if \<not> equal_fold (firstString m [''token_type'']) ''bearer'' then fail ''missing_bearer_token''
              else (case numberFromJSON (m ''expires_in'') of
                None \<Rightarrow> fail ''invalid_token_response''
              | Some n \<Rightarrow>
                 (if n \<le> 0 then fail ''invalid_token_response''
                  else
                   (let rs = firstString m [''scope'']; rscope = (if rs = [] then scope else rs) in
                    if scope \<notin> set (Go_Prelude.fields rscope) then fail ''invalid_scope''
                    else (Inr \<lparr>pt_AccessToken = access, pt_Scope = scope,
                               pt_ExpiresAt = clock w1 + portal_ttl n (po_tokenSkew c)\<rparr>, w1)))))))))"

definition GetMachineToken ::
  "runtime \<Rightarrow> ctx \<Rightarrow> string \<Rightarrow> PortalClient \<times> world \<Rightarrow> (portal_error + PortalOpenAPIMachineToken) \<times> PortalClient \<times> world" where
  "GetMachineToken rt cx scope s = (let (c, w) = s in
     (case validatePortalOpenAPIScope scope of
        Inl e \<Rightarrow> (Inl e, c, w)
      | Inr _ \<Rightarrow>
         (if (case tokenCache c scope of None \<Rightarrow> False | Some t \<Rightarrow> pt_ExpiresAt t > clock w)
          then (Inr (the (tokenCache c scope)), c, w)
          else (case requestMachineToken rt cx scope c w of
             (Inl e, w1) \<Rightarrow> (Inl e, c, w1)
           | (Inr t, w1) \<Rightarrow> (Inr t, c\<lparr>tokenCache := (tokenCache c)(scope \<mapsto> t)\<rparr>, w1)))))"

definition ClearTokenCache :: "string list \<Rightarrow> PortalClient \<Rightarrow> PortalClient" where
  "ClearTokenCache scopes c =
     (if length scopes = 0 then c\<lparr>tokenCache := Map.empty\<rparr>
      else c\<lparr>tokenCache := foldl (\<lambda>m s. m(s := None)) (tokenCache c) scopes\<rparr>)"

section \<open>Guards\<close>

definition portalURL :: "PortalClient \<Rightarrow> string \<Rightarrow> portal_error + string" where
  "portalURL c path = (if \<not> has_prefix ''/open/v1/'' path then Inl (RequestError 0 ''invalid_portal_path'' path [])
     else Inr (po_endpoint c @ path))"

definition go_upper :: "string \<Rightarrow> string" where
  "go_upper s = concat (map (encode_rune \<circ> to_upper_rune) (runes s))"

definition go_lower :: "string \<Rightarrow> string" where
  "go_lower s = concat (map (encode_rune \<circ> to_lower_rune) (runes s))"

definition normalizePortalOpenAPIMethod :: "string \<Rightarrow> portal_error + string" where
  "normalizePortalOpenAPIMethod m =
     (let n = go_upper (trim_space m) in
      if n \<in> set [''GET'', ''POST'', ''PUT'', ''PATCH'', ''DELETE''] then Inr n
      else Inl (RequestError 0 ''invalid_portal_method'' m []))"

definition portalOpenAPIScopeForMethod :: "string \<Rightarrow> string" where
  "portalOpenAPIScopeForMethod m = (if m = ''GET'' then PortalOpenAPIReadScope else PortalOpenAPIWriteScope)"

definition reserved_headers :: "string list" where
  "reserved_headers = [''authorization'', ''x-iam-client-id'', ''x-application-id'', ''x-app-key'']"

fun validatePortalOpenAPIHeaders :: "header \<Rightarrow> portal_error + unit" where
  "validatePortalOpenAPIHeaders [] = Inr ()"
| "validatePortalOpenAPIHeaders ((k, v) # hs) =
     (if go_lower k \<in> set reserved_headers then Inl (RequestError 0 ''invalid_portal_header'' k [])
      else validatePortalOpenAPIHeaders hs)"

definition portalOpenAPIErrorFromResponse :: "response \<Rightarrow> portal_error" where
  "portalOpenAPIErrorFromResponse resp =
     (let code = firstString (any_map (body resp)) [''code'', ''error'', ''errorCode''] in
      RequestError (status resp) (if code = [] then ''HTTP_'' @ itoa (status resp) else code) (body resp)
        (header_get ''Retry-After'' (resp_headers resp)))"

section \<open>Requests\<close>

text \<open>\<open>Header.Add\<close> appends; the extra headers are made with \<open>Header.Set\<close>, so they are canonical.\<close>

definition resource_request :: "string \<Rightarrow> string \<Rightarrow> string \<Rightarrow> json option \<Rightarrow> header \<Rightarrow> request" where
  "resource_request m u access bdy extra = \<lparr>meth = m, url = u,
     headers = (let h = header_set ''Authorization'' (''Bearer '' @ access) (header_set ''Accept'' ''application/json'' [])
                in (case bdy of None \<Rightarrow> h | Some _ \<Rightarrow> header_set ''Content-Type'' ''application/json'' h) @ extra),
     payload = (case bdy of None \<Rightarrow> [] | Some v \<Rightarrow> marshal v)\<rparr>"

text \<open>
  The result is the value decoded into \<open>out\<close> (with decoder \<open>d\<close> from \<open>zero\<close>; \<open>None\<close> stands for no
  target) and the response headers.
\<close>

definition requestJSONWithScopeAndHeaders ::
  "runtime \<Rightarrow> ctx \<Rightarrow> string \<Rightarrow> string \<Rightarrow> string \<Rightarrow> json option \<Rightarrow> (json \<Rightarrow> 'a \<Rightarrow> 'a option) option \<Rightarrow> 'a \<Rightarrow> header \<Rightarrow>
   PortalClient \<times> world \<Rightarrow> (portal_error + 'a \<times> header) \<times> PortalClient \<times> world" where
  "requestJSONWithScopeAndHeaders rt cx m path scope bdy out zero extra s =
     (case bind_ok (normalizePortalOpenAPIMethod m) (\<lambda>nm.
           bind_ok (portalURL (fst s) path) (\<lambda>u.
           bind_ok (validatePortalOpenAPIScope scope) (\<lambda>_.
           bind_ok (validatePortalOpenAPIHeaders extra) (\<lambda>_. Inr (nm, u))))) of
        Inl e \<Rightarrow> (Inl e, s)
      | Inr (nm, u) \<Rightarrow>
         (case GetMachineToken rt cx scope s of
            (Inl e, c1, w1) \<Rightarrow> (Inl e, c1, w1)
          | (Inr t, c1, w1) \<Rightarrow>
             (if \<not> rt_url_ok rt u then (Inl BadURL, c1, w1)
              else (case exchange (rt_net rt) (client_ctx (po_timeout c1) w1 cx)
                           (resource_request nm u (pt_AccessToken t) bdy extra) w1 of
                 (Inl e, w2) \<Rightarrow> (Inl (NetError e), c1, w2)
               | (Inr resp, w2) \<Rightarrow>
                   (if status resp \<ge> 400 then (Inl (portalOpenAPIErrorFromResponse resp), c1, w2)
                    else (case out of
                       None \<Rightarrow> (Inr (zero, resp_headers resp), c1, w2)
                     | Some d \<Rightarrow>
                        (if status resp = 204 then (Inr (zero, resp_headers resp), c1, w2)
                         else (case decodeFirstJSON d zero (body resp) of
                            Inl e \<Rightarrow> (Inl (DecodeError e), c1, w2)
                          | Inr x \<Rightarrow> (Inr (x, resp_headers resp), c1, w2)))))))))"

definition requestJSONWithScope ::
  "runtime \<Rightarrow> ctx \<Rightarrow> string \<Rightarrow> string \<Rightarrow> string \<Rightarrow> json option \<Rightarrow> (json \<Rightarrow> 'a \<Rightarrow> 'a option) option \<Rightarrow> 'a \<Rightarrow>
   PortalClient \<times> world \<Rightarrow> (portal_error + 'a) \<times> PortalClient \<times> world" where
  "requestJSONWithScope rt cx m path scope bdy out zero s =
     (case requestJSONWithScopeAndHeaders rt cx m path scope bdy out zero [] s of
        (Inl e, s1) \<Rightarrow> (Inl e, s1) | (Inr (x, h), s1) \<Rightarrow> (Inr x, s1))"

definition RequestJSON ::
  "runtime \<Rightarrow> ctx \<Rightarrow> string \<Rightarrow> string \<Rightarrow> json option \<Rightarrow> (json \<Rightarrow> 'a \<Rightarrow> 'a option) option \<Rightarrow> 'a \<Rightarrow>
   PortalClient \<times> world \<Rightarrow> (portal_error + 'a) \<times> PortalClient \<times> world" where
  "RequestJSON rt cx m path bdy out zero s =
     (case normalizePortalOpenAPIMethod m of
        Inl e \<Rightarrow> (Inl e, s)
      | Inr nm \<Rightarrow> requestJSONWithScope rt cx nm path (portalOpenAPIScopeForMethod nm) bdy out zero s)"

section \<open>Facts about the token\<close>

lemma valid_scope: "validatePortalOpenAPIScope sc = Inr u \<longleftrightarrow> sc \<in> set portal_scopes"
  by (simp add: validatePortalOpenAPIScope_def)

lemma invalid_scope: "sc \<notin> set portal_scopes \<Longrightarrow> \<exists>e. validatePortalOpenAPIScope sc = Inl e"
  by (simp add: validatePortalOpenAPIScope_def)

lemma requestMachineToken_world:
  assumes "requestMachineToken rt cx scope c w = (res, w')"
  shows "clock w \<le> clock w'" "sent w' = sent w \<or> sent w' = sent w @ [portal_token_request c scope]"
proof -
  let ?req = "portal_token_request c scope"
  let ?ex = "exchange (rt_net rt) (client_ctx (po_timeout c) w cx) ?req w"
  have "w' = w \<or> w' = snd ?ex"
    using assms
    by (auto simp: requestMachineToken_def Let_def split: if_splits prod.splits sum.splits option.splits)
  then show "clock w \<le> clock w'" "sent w' = sent w \<or> sent w' = sent w @ [?req]"
    using exchange_clock_mono by auto
qed

lemma requestMachineToken_Inr:
  assumes "requestMachineToken rt cx scope c w = (Inr t, w')"
  obtains resp n where "pt_Scope t = scope" "pt_AccessToken t \<noteq> []"
    "numberFromJSON (any_map (body resp) ''expires_in'') = Some n" "0 < n" "status (resp :: response) < 400"
    "pt_ExpiresAt t = clock w' + portal_ttl n (po_tokenSkew c)"
    "sent w' = sent w @ [portal_token_request c scope]"
proof -
  let ?req = "portal_token_request c scope"
  obtain r w1 where ex: "exchange (rt_net rt) (client_ctx (po_timeout c) w cx) ?req w = (r, w1)" by fastforce
  have snt: "sent w1 = sent w @ [?req]"
    using exchange_sent [of "rt_net rt" "client_ctx (po_timeout c) w cx" ?req w] ex by simp
  from assms ex show thesis
    using that snt
    by (auto simp: requestMachineToken_def Let_def not_le split: if_splits prod.splits sum.splits option.splits)
qed

text \<open>The exits of \<open>GetMachineToken\<close>.\<close>

lemma GetMachineToken_cases:
  assumes "GetMachineToken rt cx scope (c, w) = (res, c', w')"
  obtains
    (scope) e where "scope \<notin> set portal_scopes" "res = Inl e" "c' = c" "w' = w"
  | (cached) t where "scope \<in> set portal_scopes" "tokenCache c scope = Some t" "clock w < pt_ExpiresAt t"
      "res = Inr t" "c' = c" "w' = w"
  | (failed) e where "scope \<in> set portal_scopes" "requestMachineToken rt cx scope c w = (Inl e, w')" "res = Inl e" "c' = c"
  | (granted) t where "scope \<in> set portal_scopes" "requestMachineToken rt cx scope c w = (Inr t, w')" "res = Inr t"
      "c' = c\<lparr>tokenCache := (tokenCache c)(scope \<mapsto> t)\<rparr>"
proof (cases "scope \<in> set portal_scopes")
  case False
  then obtain e where "validatePortalOpenAPIScope scope = Inl e"
    using invalid_scope by blast
  with assms False that(1) [of e] show ?thesis by (simp add: GetMachineToken_def)
next
  case ok: True
  then have v: "validatePortalOpenAPIScope scope = Inr ()" by (simp add: valid_scope)
  show ?thesis
  proof (cases "case tokenCache c scope of None \<Rightarrow> False | Some t \<Rightarrow> pt_ExpiresAt t > clock w")
    case True
    then obtain t where t: "tokenCache c scope = Some t" "clock w < pt_ExpiresAt t"
      by (auto split: option.splits)
    with assms v have "res = Inr t" "c' = c" "w' = w" by (simp_all add: GetMachineToken_def)
    with ok t that(2) show ?thesis by blast
  next
    case False
    obtain r w1 where rq: "requestMachineToken rt cx scope c w = (r, w1)" by fastforce
    show ?thesis
    proof (cases r)
      case (Inl e)
      with assms v False rq have "res = Inl e" "c' = c" "w' = w1" by (simp_all add: GetMachineToken_def)
      with ok rq Inl that(3) show ?thesis by blast
    next
      case (Inr t)
      with assms v False rq have "res = Inr t" "c' = c\<lparr>tokenCache := (tokenCache c)(scope \<mapsto> t)\<rparr>" "w' = w1"
        by (simp_all add: GetMachineToken_def)
      with ok rq Inr that(4) show ?thesis by blast
    qed
  qed
qed

text \<open>The token kept for a scope; each scope is a token source of its own.\<close>

definition kept_for :: "string \<Rightarrow> PortalClient \<times> world \<Rightarrow> PortalOpenAPIMachineToken option" where
  "kept_for scope s = (if scope \<in> set portal_scopes then tokenCache (fst s) scope else None)"

interpretation portal_token: token_source "GetMachineToken rt cx scope" "kept_for scope" pt_ExpiresAt "\<lambda>s. clock (snd s)"
  for rt :: runtime and cx :: ctx and scope :: string
proof
  fix s s' :: "PortalClient \<times> world" and t :: PortalOpenAPIMachineToken and e :: portal_error
  obtain c w where s: "s = (c, w)" by fastforce
  have ok: "scope \<in> set portal_scopes \<Longrightarrow> validatePortalOpenAPIScope scope = Inr ()"
    by (simp add: valid_scope)
  show "kept_for scope s = Some t \<Longrightarrow> clock (snd s) < pt_ExpiresAt t \<Longrightarrow> GetMachineToken rt cx scope s = (Inr t, s)"
    by (cases "scope \<in> set portal_scopes") (simp_all add: s kept_for_def GetMachineToken_def ok)
  obtain c' w' where s': "s' = (c', w')" by fastforce
  show "GetMachineToken rt cx scope s = (Inr t, s') \<Longrightarrow> kept_for scope s' = Some t"
    unfolding s s' by (erule GetMachineToken_cases) (auto simp: kept_for_def)
  show "GetMachineToken rt cx scope s = (Inl e, s') \<Longrightarrow> kept_for scope s' = kept_for scope s"
    unfolding s s' by (erule GetMachineToken_cases) (auto simp: kept_for_def)
qed

text \<open>The cache keeps every token under its own scope.\<close>

definition cache_sound :: "PortalClient \<Rightarrow> bool" where
  "cache_sound c \<longleftrightarrow> (\<forall>sc t. tokenCache c sc = Some t \<longrightarrow> pt_Scope t = sc)"

lemma cache_sound_get:
  assumes "GetMachineToken rt cx scope (c, w) = (res, c', w')" and "cache_sound c"
  shows "cache_sound c'" and "res = Inr t \<Longrightarrow> pt_Scope t = scope"
proof -
  have "cache_sound c' \<and> (res = Inr t \<longrightarrow> pt_Scope t = scope)"
  proof (cases rule: GetMachineToken_cases [OF assms(1), case_names scope cached failed granted])
    case (granted t')
    then show ?thesis
      using assms(2) requestMachineToken_Inr [OF granted(2)] by (auto simp: cache_sound_def)
  qed (use assms(2) in \<open>auto simp: cache_sound_def\<close>)
  then show "cache_sound c'" and "res = Inr t \<Longrightarrow> pt_Scope t = scope" by blast+
qed

lemma foldl_forget: "foldl (\<lambda>m s. m(s := None)) m scopes k = (if k \<in> set scopes then None else m k)"
  by (induction scopes arbitrary: m) auto

lemma cache_sound_clear: "cache_sound c \<Longrightarrow> cache_sound (ClearTokenCache scopes c)"
  by (auto simp: cache_sound_def ClearTokenCache_def foldl_forget split: if_splits)

lemma cache_sound_new: "NewPortalOpenAPIClient cfg = Inr c \<Longrightarrow> cache_sound c"
  by (auto simp: NewPortalOpenAPIClient_def cache_sound_def Let_def split: if_splits)

lemma GetMachineToken_world:
  assumes "GetMachineToken rt cx scope (c, w) = (res, c', w')"
  shows "clock w \<le> clock w'" "sent w' = sent w \<or> sent w' = sent w @ [portal_token_request c scope]"
    "c'\<lparr>tokenCache := m\<rparr> = c\<lparr>tokenCache := m\<rparr>"
proof -
  have "clock w \<le> clock w' \<and> (sent w' = sent w \<or> sent w' = sent w @ [portal_token_request c scope]) \<and>
    c'\<lparr>tokenCache := m\<rparr> = c\<lparr>tokenCache := m\<rparr>"
  proof (cases rule: GetMachineToken_cases [OF assms, case_names scope cached failed granted])
    case (failed e)
    with requestMachineToken_world [OF failed(2)] show ?thesis by auto
  next
    case (granted t)
    with requestMachineToken_world [OF granted(2)] show ?thesis by auto
  qed auto
  then show "clock w \<le> clock w'" "sent w' = sent w \<or> sent w' = sent w @ [portal_token_request c scope]"
    "c'\<lparr>tokenCache := m\<rparr> = c\<lparr>tokenCache := m\<rparr>" by blast+
qed

section \<open>Facts about requests\<close>

lemma portalURL_Inr: "portalURL c path = Inr u \<longleftrightarrow> has_prefix ''/open/v1/'' path \<and> u = po_endpoint c @ path"
  by (auto simp: portalURL_def)

lemma headers_Inr:
  "validatePortalOpenAPIHeaders hs = Inr () \<longleftrightarrow> (\<forall>(k, v) \<in> set hs. go_lower k \<notin> set reserved_headers)"
proof (induction hs)
  case (Cons p hs)
  obtain k v where "p = (k, v)" by fastforce
  with Cons.IH show ?case by (cases "go_lower k \<in> set reserved_headers") simp_all
qed simp

lemma ordinary_headers:
  "go_lower ''Accept'' \<notin> set reserved_headers" "go_lower ''Content-Type'' \<notin> set reserved_headers"
  by (simp_all add: go_lower_def runes_def byte_def to_lower_rune_def encode_rune_def reserved_headers_def)

text \<open>The resource request carries the machine token and no other credential.\<close>

definition bearer_only :: "string \<Rightarrow> header \<Rightarrow> bool" where
  "bearer_only access hs \<longleftrightarrow> (''Authorization'', ''Bearer '' @ access) \<in> set hs \<and>
     (\<forall>(k, v) \<in> set hs. go_lower k \<in> set reserved_headers \<longrightarrow> k = ''Authorization'' \<and> v = ''Bearer '' @ access)"

lemma resource_request_bearer:
  assumes "validatePortalOpenAPIHeaders extra = Inr ()"
  shows "bearer_only access (headers (resource_request m u access bdy extra))"
  using assms ordinary_headers
  by (cases bdy) (auto simp: bearer_only_def resource_request_def headers_Inr header_set_def Let_def)

text \<open>What a resource request adds to the traffic.\<close>

definition portal_traffic :: "PortalClient \<Rightarrow> string \<Rightarrow> string \<Rightarrow> request list \<Rightarrow> bool" where
  "portal_traffic c path scope rs \<longleftrightarrow>
     (\<exists>ts res. rs = ts @ res \<and> (ts = [] \<or> ts = [portal_token_request c scope]) \<and>
        (res = [] \<or> (\<exists>r access. res = [r] \<and> url r = po_endpoint c @ path \<and> has_prefix ''/open/v1/'' path \<and>
           bearer_only access (headers r))))"

lemma portal_token_request_cache: "portal_token_request (c\<lparr>tokenCache := m\<rparr>) scope = portal_token_request c scope"
  by (simp add: portal_token_request_def)

text \<open>The traffic of a request in full: a token request at most, then the request itself at most.\<close>

lemma request_sent:
  assumes "requestJSONWithScopeAndHeaders rt cx m path scope bdy out zero extra (c, w) = (res, c', w')"
  shows "\<exists>ts rs. sent w' = sent w @ ts @ rs \<and> (ts = [] \<or> ts = [portal_token_request c scope]) \<and>
    (rs = [] \<or> (\<exists>nm access. rs = [resource_request nm (po_endpoint c @ path) access bdy extra]))"
proof -
  let ?guard = "bind_ok (normalizePortalOpenAPIMethod m) (\<lambda>nm. bind_ok (portalURL c path) (\<lambda>u.
           bind_ok (validatePortalOpenAPIScope scope) (\<lambda>_. bind_ok (validatePortalOpenAPIHeaders extra) (\<lambda>_. Inr (nm, u)))))"
  show ?thesis
  proof (cases ?guard)
    case (Inl e)
    with assms show ?thesis by (simp add: requestJSONWithScopeAndHeaders_def)
  next
    case (Inr q)
    obtain nm u where q: "q = (nm, u)" by fastforce
    with Inr have u: "u = po_endpoint c @ path" by (auto elim!: bind_ok_InrE simp: portalURL_Inr)
    obtain r c1 w1 where g: "GetMachineToken rt cx scope (c, w) = (r, c1, w1)" by (metis prod_cases3)
    obtain ts where ts: "sent w1 = sent w @ ts" "ts = [] \<or> ts = [portal_token_request c scope]"
      using GetMachineToken_world(2) [OF g] by auto
    show ?thesis
    proof (cases "\<exists>t. r = Inr t \<and> rt_url_ok rt u")
      case False
      with assms Inr q g have "w' = w1"
        by (auto simp: requestJSONWithScopeAndHeaders_def split: sum.splits)
      with ts show ?thesis by auto
    next
      case True
      then obtain t where t: "r = Inr t" "rt_url_ok rt u" by blast
      let ?r = "resource_request nm u (pt_AccessToken t) bdy extra"
      have "w' = snd (exchange (rt_net rt) (client_ctx (po_timeout c1) w1 cx) ?r w1)"
        using assms Inr q g t
        by (auto simp: requestJSONWithScopeAndHeaders_def split: prod.splits sum.splits if_splits option.splits)
      then have "sent w' = sent w @ ts @ [?r]" using ts(1) by simp
      with ts(2) u show ?thesis by blast
    qed
  qed
qed

lemma request_traffic:
  assumes "requestJSONWithScopeAndHeaders rt cx m path scope bdy out zero extra (c, w) = (res, c', w')"
  shows "\<exists>rs. sent w' = sent w @ rs \<and> portal_traffic c path scope rs"
    "(scope \<notin> set portal_scopes \<or> \<not> has_prefix ''/open/v1/'' path \<or>
      validatePortalOpenAPIHeaders extra \<noteq> Inr ()) \<Longrightarrow> c' = c \<and> w' = w"
    "\<exists>m. c' = c\<lparr>tokenCache := m\<rparr>"
proof -
  let ?ok = "scope \<in> set portal_scopes \<and> has_prefix ''/open/v1/'' path \<and> validatePortalOpenAPIHeaders extra = Inr ()"
  have self: "\<exists>m. c = c\<lparr>tokenCache := m\<rparr>" by (rule exI [of _ "tokenCache c"]) simp
  have none: "portal_traffic c path scope []" by (simp add: portal_traffic_def)
  let ?guard = "bind_ok (normalizePortalOpenAPIMethod m) (\<lambda>nm. bind_ok (portalURL c path) (\<lambda>u.
           bind_ok (validatePortalOpenAPIScope scope) (\<lambda>_. bind_ok (validatePortalOpenAPIHeaders extra) (\<lambda>_. Inr (nm, u)))))"
  have "(\<exists>rs. sent w' = sent w @ rs \<and> portal_traffic c path scope rs) \<and> (\<not> ?ok \<longrightarrow> c' = c \<and> w' = w) \<and>
    (\<exists>m. c' = c\<lparr>tokenCache := m\<rparr>)"
  proof (cases ?guard)
    case (Inl e)
    with assms have "c' = c" "w' = w" by (simp_all add: requestJSONWithScopeAndHeaders_def)
    with none self show ?thesis by auto
  next
    case (Inr q)
    obtain nm u where q: "q = (nm, u)" by fastforce
    with Inr have ok: ?ok and u: "u = po_endpoint c @ path"
      by (auto elim!: bind_ok_InrE simp: valid_scope portalURL_Inr)
    obtain r c1 w1 where g: "GetMachineToken rt cx scope (c, w) = (r, c1, w1)" by (metis prod_cases3)
    obtain ts where ts: "sent w1 = sent w @ ts" "ts = [] \<or> ts = [portal_token_request c scope]"
      using GetMachineToken_world(2) [OF g] by auto
    have c1: "\<exists>m. c1 = c\<lparr>tokenCache := m\<rparr>"
      using GetMachineToken_world(3) [OF g, of "tokenCache c1"] by (intro exI [of _ "tokenCache c1"]) simp
    have stop: "portal_traffic c path scope ts"
      using ts(2) by (auto simp: portal_traffic_def)
    show ?thesis
    proof (cases r)
      case (Inl e)
      with assms Inr q g have "c' = c1" "w' = w1" by (simp_all add: requestJSONWithScopeAndHeaders_def)
      with ts(1) stop c1 ok show ?thesis by auto
    next
      case tok: (Inr t)
      show ?thesis
      proof (cases "rt_url_ok rt u")
        case False
        with assms Inr q g tok have "c' = c1" "w' = w1" by (simp_all add: requestJSONWithScopeAndHeaders_def)
        with ts(1) stop c1 ok show ?thesis by auto
      next
        case True
        let ?r = "resource_request nm u (pt_AccessToken t) bdy extra"
        let ?ex = "exchange (rt_net rt) (client_ctx (po_timeout c1) w1 cx) ?r w1"
        have "c' = c1 \<and> w' = snd ?ex"
          using assms Inr q g tok True
          by (auto simp: requestJSONWithScopeAndHeaders_def split: prod.splits sum.splits if_splits option.splits)
        moreover have "portal_traffic c path scope (ts @ [?r])"
          unfolding portal_traffic_def using ts(2) ok u resource_request_bearer [of extra "pt_AccessToken t" nm u bdy]
          by (intro exI [of _ ts] exI [of _ "[?r]"]) (auto simp: resource_request_def)
        ultimately show ?thesis
          using ts(1) c1 ok by auto
      qed
    qed
  qed
  then show "\<exists>rs. sent w' = sent w @ rs \<and> portal_traffic c path scope rs"
    "(scope \<notin> set portal_scopes \<or> \<not> has_prefix ''/open/v1/'' path \<or>
      validatePortalOpenAPIHeaders extra \<noteq> Inr ()) \<Longrightarrow> c' = c \<and> w' = w"
    "\<exists>m. c' = c\<lparr>tokenCache := m\<rparr>"
    by blast+
qed

section \<open>Properties\<close>


definition sample_portal :: PortalClient where
  "sample_portal = \<lparr>po_issuer = ''i'', po_endpoint = ''p'', po_clientID = ''c'', po_clientSecret = ''s'',
     po_tokenSkew = 30 * second, po_timeout = None, tokenCache = Map.empty\<rparr>"


text \<open>
  C23. Each scope's token is asked for once: while the token that was given lives, any number of
  further calls for that scope give the same token and change neither the cache nor the traffic, and
  in a cache that was sound it is a token of exactly that scope.
\<close>

theorem portal_token_reuse:
  assumes "GetMachineToken rt cx scope (c, w) = (Inr t, c', w')" and "clock w' < pt_ExpiresAt t" and "cache_sound c"
  shows "GetMachineToken rt cx scope (c', w') = (Inr t, c', w') \<and>
    ((\<lambda>u. snd (GetMachineToken rt cx scope u)) ^^ n) (c', w') = (c', w') \<and>
    pt_Scope t = scope \<and> cache_sound c'"
  using portal_token.acquire_again [OF assms(1)] portal_token.acquire_stable [OF assms(1), of n]
    cache_sound_get [OF assms(1,3)] assms(2) by simp

theorem portal_token_reuse_witness:
  "\<exists>t. ((\<lambda>u. snd (GetMachineToken \<lparr>rt_net = (\<lambda>h r. (1, Inl CtxDone)), rt_url_ok = (\<lambda>u. True), rt_text = (\<lambda>f. []), rt_nfc = (\<lambda>s. True)\<rparr>
        \<lparr>done_at = None, tie = False\<rparr> RolesReadScope u)) ^^ 5)
     (sample_portal\<lparr>tokenCache := [RolesReadScope \<mapsto> t]\<rparr>, \<lparr>sent = [], clock = 0\<rparr>)
   = (sample_portal\<lparr>tokenCache := [RolesReadScope \<mapsto> t]\<rparr>, \<lparr>sent = [], clock = 0\<rparr>)"
proof -
  let ?rt = "\<lparr>rt_net = (\<lambda>h r. (1, Inl CtxDone)), rt_url_ok = (\<lambda>u. True), rt_text = (\<lambda>f. []), rt_nfc = (\<lambda>s. True)\<rparr>"
  let ?t = "\<lparr>pt_AccessToken = ''a'', pt_Scope = RolesReadScope, pt_ExpiresAt = 10\<rparr>"
  let ?c = "sample_portal\<lparr>tokenCache := [RolesReadScope \<mapsto> ?t]\<rparr>"
  have "validatePortalOpenAPIScope RolesReadScope = Inr ()"
    by (simp add: valid_scope portal_scopes_def)
  then have run: "GetMachineToken ?rt \<lparr>done_at = None, tie = False\<rparr> RolesReadScope (?c, \<lparr>sent = [], clock = 0\<rparr>)
      = (Inr ?t, ?c, \<lparr>sent = [], clock = 0\<rparr>)"
    by (simp add: GetMachineToken_def)
  have "cache_sound ?c" by (simp add: cache_sound_def)
  with portal_token_reuse [OF run, of 5] show ?thesis by auto
qed

end
