(* ===== verification/Go_Time.thy ===== *)
theory Go_Time
  imports Go_Prelude
begin

text \<open>
  \<open>time.Parse (time.RFC3339Nano, v)\<close> as far as acceptance goes, for values that end in \<open>Z\<close>: two
  digits everywhere except the hour, which may have one, a fraction of any length after a point or
  a comma, and a day that exists.
\<close>

definition take_digits :: "nat \<Rightarrow> string \<Rightarrow> (int \<times> string) option" where
  "take_digits k s = (if k \<le> length s \<and> list_all digit (take k s)
     then Some (digits_val (take k s), drop k s) else None)"

definition take_hour :: "string \<Rightarrow> (int \<times> string) option" where
  "take_hour s = (case take_digits 2 s of Some r \<Rightarrow> Some r | None \<Rightarrow> take_digits 1 s)"

definition take_char :: "char \<Rightarrow> string \<Rightarrow> string option" where
  "take_char c s = (case s of [] \<Rightarrow> None | d # r \<Rightarrow> if d = c then Some r else None)"

definition skip_fraction :: "string \<Rightarrow> string" where
  "skip_fraction s = (case s of
     c # d # r \<Rightarrow> if (c = CHR ''.'' \<or> c = CHR '','') \<and> digit d then dropWhile digit (d # r) else s
   | _ \<Rightarrow> s)"

definition leap_year :: "int \<Rightarrow> bool" where
  "leap_year y = (y mod 4 = 0 \<and> (y mod 100 \<noteq> 0 \<or> y mod 400 = 0))"

definition days_in :: "int \<Rightarrow> int \<Rightarrow> int" where
  "days_in m y = (if m = 2 then (if leap_year y then 29 else 28) else if m \<in> {4, 6, 9, 11} then 30 else 31)"

definition parse_utc :: "string \<Rightarrow> bool" where
  "parse_utc s = (case
     Option.bind (take_digits 4 s) (\<lambda>(y, s). Option.bind (take_char (CHR ''-'') s) (\<lambda>s.
     Option.bind (take_digits 2 s) (\<lambda>(mo, s). Option.bind (take_char (CHR ''-'') s) (\<lambda>s.
     Option.bind (take_digits 2 s) (\<lambda>(d, s). Option.bind (take_char (CHR ''T'') s) (\<lambda>s.
     Option.bind (take_hour s) (\<lambda>(h, s). Option.bind (take_char (CHR '':'') s) (\<lambda>s.
     Option.bind (take_digits 2 s) (\<lambda>(mi, s). Option.bind (take_char (CHR '':'') s) (\<lambda>s.
     Option.bind (take_digits 2 s) (\<lambda>(sec, s). Some (y, mo, d, h, mi, sec, skip_fraction s))))))))))))
   of None \<Rightarrow> False
    | Some (y, mo, d, h, mi, sec, rest) \<Rightarrow>
       rest = ''Z'' \<and> 1 \<le> mo \<and> mo \<le> 12 \<and> 1 \<le> d \<and> d \<le> days_in mo y \<and> h < 24 \<and> mi < 60 \<and> sec < 60)"

lemma parse_utc_examples:
  "parse_utc ''2024-02-29T10:00:00Z''" "parse_utc ''2024-02-29T1:00:00.125Z''"
  "\<not> parse_utc ''2023-02-29T10:00:00Z''" "\<not> parse_utc ''2024-02-29 10:00:00Z''"
  by (simp_all add: parse_utc_def take_digits_def take_hour_def take_char_def skip_fraction_def days_in_def
      leap_year_def digits_val_def digit_val_def digit_def less_eq_char_def byte_def)

text \<open>
  \<open>time.Time.UnmarshalJSON\<close>: the value is parsed with the layout RFC 3339, where the zone is \<open>Z\<close> or
  a signed offset of hours (up to 24) and minutes (up to 60), and the checks that would be stricter
  are switched off.
\<close>

definition zone_ok :: "string \<Rightarrow> bool" where
  "zone_ok z = (z = ''Z'' \<or> (case z of
     [sg, h1, h2, c, m1, m2] \<Rightarrow> (sg = CHR ''+'' \<or> sg = CHR ''-'') \<and> c = CHR '':'' \<and>
       list_all digit [h1, h2, m1, m2] \<and> digits_val [h1, h2] \<le> 24 \<and> digits_val [m1, m2] \<le> 60
   | _ \<Rightarrow> False))"

definition parse_rfc3339 :: "string \<Rightarrow> bool" where
  "parse_rfc3339 s = (case
     Option.bind (take_digits 4 s) (\<lambda>(y, s). Option.bind (take_char (CHR ''-'') s) (\<lambda>s.
     Option.bind (take_digits 2 s) (\<lambda>(mo, s). Option.bind (take_char (CHR ''-'') s) (\<lambda>s.
     Option.bind (take_digits 2 s) (\<lambda>(d, s). Option.bind (take_char (CHR ''T'') s) (\<lambda>s.
     Option.bind (take_hour s) (\<lambda>(h, s). Option.bind (take_char (CHR '':'') s) (\<lambda>s.
     Option.bind (take_digits 2 s) (\<lambda>(mi, s). Option.bind (take_char (CHR '':'') s) (\<lambda>s.
     Option.bind (take_digits 2 s) (\<lambda>(sec, s). Some (y, mo, d, h, mi, sec, skip_fraction s))))))))))))
   of None \<Rightarrow> False
    | Some (y, mo, d, h, mi, sec, rest) \<Rightarrow>
       zone_ok rest \<and> 1 \<le> mo \<and> mo \<le> 12 \<and> 1 \<le> d \<and> d \<le> days_in mo y \<and> h < 24 \<and> mi < 60 \<and> sec < 60)"

lemma parse_rfc3339_examples:
  "parse_rfc3339 ''2026-10-20T01:02:03Z''" "parse_rfc3339 ''2026-10-20T01:02:03.5+02:00''"
  "\<not> parse_rfc3339 ''2026-10-20T01:02:03''" "\<not> parse_rfc3339 ''2026-10-20T01:02:03+25:00''"
  by (simp_all add: parse_rfc3339_def zone_ok_def take_digits_def take_hour_def take_char_def skip_fraction_def days_in_def
      leap_year_def digits_val_def digit_val_def digit_def less_eq_char_def byte_def)

lemma parse_utc_rfc3339: "parse_utc s \<Longrightarrow> parse_rfc3339 s"
  by (auto simp: parse_utc_def parse_rfc3339_def zone_ok_def split: option.splits prod.splits)

end
