(* ===== verification/Authz_Mgmt.thy ===== *)
theory Authz_Mgmt
  imports Portal Go_Time Authz
begin

text \<open>
  The authorization management operations of \<open>PortalOpenAPIClient\<close>
  (authorization_management_client.go): roles, permissions, role permissions and user roles, with the
  checks on what is sent and on what comes back.  Where the code returns a value beside an error, the
  result here is the error.
\<close>

section \<open>Data\<close>

record AuthorizationPageOptions =
  ao_Page :: "int option"
  ao_Size :: "int option"

record AuthorizationPageMetadata =
  pg_Size :: int
  pg_Number :: int
  pg_TotalElements :: int
  pg_TotalPages :: int

record Role =
  ro_ID :: string
  ro_Key :: string
  ro_Name :: string
  ro_Description :: "string option"
  ro_System :: bool
  ro_Version :: int
  ro_CreatedAt :: string
  ro_UpdatedAt :: string
  ro_ETag :: string

record Permission =
  pe_ID :: string
  pe_Resource :: string
  pe_Action :: string
  pe_Key :: string
  pe_Name :: string
  pe_Description :: "string option"
  pe_Source :: string
  pe_Version :: int
  pe_CreatedAt :: string
  pe_UpdatedAt :: string
  pe_ETag :: string

record RolePermissionBinding =
  rb_RoleID :: string
  rb_PermissionID :: string
  rb_CreatedAt :: string

record RolePermissionSet =
  rs_RoleID :: string
  rs_PermissionIDs :: "string list option"
  rs_Version :: int
  rs_ETag :: string

record UserRoleCondition =
  uc_Expression :: "string option"
  uc_Description :: "string option"

record UserRoleAssignment =
  ua_ID :: string
  ua_UserID :: string
  ua_RoleID :: string
  ua_OrganizationID :: "string option"
  ua_ConditionExpression :: "string option"
  ua_ConditionDescription :: "string option"
  ua_Version :: int
  ua_CreatedAt :: string
  ua_UpdatedAt :: string
  ua_ETag :: string

definition invalidAuthorizationResponse :: portal_error where
  "invalidAuthorizationResponse = RequestError 0 ''invalid_authorization_response'' [] []"

section \<open>Checks on arguments\<close>

definition permissionGrantSegment :: "string \<Rightarrow> bool" where
  "permissionGrantSegment s = (s = ''*'' \<or> repeated segment_char 1 128 s)"

definition strongETagPattern :: "string \<Rightarrow> bool" where
  "strongETagPattern s = (3 \<le> length s \<and> hd s = CHR 0x22 \<and> last s = CHR 0x22 \<and> list_all digit (butlast (tl s)))"

text \<open>The UUID patterns: groups of hexadecimal digits, with a version and a variant digit.\<close>

definition uuid_groups :: "(char \<Rightarrow> bool) \<Rightarrow> string \<Rightarrow> string \<Rightarrow> string \<Rightarrow> bool" where
  "uuid_groups hex versions variants s = (case split_on (CHR ''-'') s of
     [a, b, c, d, e] \<Rightarrow> repeated hex 8 8 a \<and> repeated hex 4 4 b \<and>
        (case c of v # r \<Rightarrow> v \<in> set versions \<and> repeated hex 3 3 r | [] \<Rightarrow> False) \<and>
        (case d of v # r \<Rightarrow> v \<in> set variants \<and> repeated hex 3 3 r | [] \<Rightarrow> False) \<and> repeated hex 12 12 e
   | _ \<Rightarrow> False)"

definition organizationManagementUUID :: "string \<Rightarrow> bool" where
  "organizationManagementUUID = uuid_groups any_hex ''12345678'' ''89abAB''"

definition canonicalAuthorizationUUID :: "string \<Rightarrow> bool" where
  "canonicalAuthorizationUUID = uuid_groups lower_hex ''12345678'' ''89ab''"

definition validatePermissionGrant :: "string \<Rightarrow> string \<Rightarrow> portal_error + unit" where
  "validatePermissionGrant resource action =
     (if \<not> permissionGrantSegment resource \<or> \<not> permissionGrantSegment action \<or> (resource = ''*'' \<and> action \<noteq> ''*'')
      then Inl (RequestError 0 ''invalid_permission_key'' [] []) else Inr ())"

definition page_of :: "AuthorizationPageOptions \<Rightarrow> int" where
  "page_of opts = (case ao_Page opts of None \<Rightarrow> 0 | Some p \<Rightarrow> p)"

definition size_of :: "AuthorizationPageOptions \<Rightarrow> int" where
  "size_of opts = (case ao_Size opts of None \<Rightarrow> 20 | Some s \<Rightarrow> s)"

definition authorizationPageQuery :: "AuthorizationPageOptions \<Rightarrow> string" where
  "authorizationPageQuery opts = ''?'' @ Encode [(''page'', itoa (page_of opts)), (''size'', itoa (size_of opts))]"

definition validateAuthorizationPageOptions :: "AuthorizationPageOptions \<Rightarrow> portal_error + unit" where
  "validateAuthorizationPageOptions opts =
     (if page_of opts < 0 \<or> size_of opts < 1 \<or> size_of opts > 100 then Inl invalidAuthorizationResponse else Inr ())"

definition authorizationID :: "string \<Rightarrow> string \<Rightarrow> portal_error + string" where
  "authorizationID i resource = (if \<not> organizationManagementUUID i
     then Inl (RequestError 0 (''invalid_'' @ resource @ ''_id'') [] []) else Inr (PathEscape i))"

definition authorizationPath :: "string \<Rightarrow> string \<Rightarrow> string \<Rightarrow> portal_error + string" where
  "authorizationPath collection resource i =
     bind_ok (authorizationID i resource) (\<lambda>seg. Inr (''/open/v1/'' @ collection @ ''/'' @ seg))"

definition userRolePath :: "string \<Rightarrow> portal_error + string" where
  "userRolePath i = bind_ok (authorizationID i ''user'') (\<lambda>seg. Inr (''/open/v1/users/'' @ seg @ ''/roles''))"

definition authorizationIdempotencyHeader :: "string option \<Rightarrow> header" where
  "authorizationIdempotencyHeader opts = (case opts of None \<Rightarrow> []
     | Some k \<Rightarrow> if k = [] then [] else header_set ''Idempotency-Key'' k [])"

definition authorizationIfMatchHeader :: "string \<Rightarrow> header" where
  "authorizationIfMatchHeader etag = header_set ''If-Match'' etag []"

definition validateIfMatch :: "string \<Rightarrow> portal_error + unit" where
  "validateIfMatch v = (if \<not> strongETagPattern v then Inl invalidAuthorizationResponse else Inr ())"

section \<open>Checks on responses\<close>

definition strongETag :: "header \<Rightarrow> portal_error + string" where
  "strongETag h = (let etag = header_get ''Etag'' h in
     if \<not> strongETagPattern etag then Inl invalidAuthorizationResponse else Inr etag)"

definition validAuthorizationTimestamp :: "string \<Rightarrow> bool" where
  "validAuthorizationTimestamp v = (if \<not> has_suffix ''Z'' v then False else parse_utc v)"

definition validateAuthorizationPage :: "int \<Rightarrow> AuthorizationPageMetadata \<Rightarrow> portal_error + unit" where
  "validateAuthorizationPage items p =
     (if pg_Size p < 1 \<or> pg_Size p > 100 then Inl invalidAuthorizationResponse
      else
       (let q = go_div (pg_TotalElements p) (pg_Size p);
            expectedPages = (if go_rem (pg_TotalElements p) (pg_Size p) \<noteq> 0 then int64 (q + 1) else q);
            expectedContent = (if pg_TotalElements p > 0
              then min (pg_Size p) (int64 (pg_TotalElements p - int64 (pg_Number p * pg_Size p))) else 0) in
        if pg_Number p < 0 \<or> pg_TotalElements p < 0 \<or> pg_TotalPages p \<noteq> expectedPages \<or>
           items > pg_Size p \<or> items > pg_TotalElements p \<or>
           (pg_TotalElements p = 0 \<and> pg_Number p \<noteq> 0) \<or>
           (pg_TotalElements p > 0 \<and> pg_Number p \<ge> pg_TotalPages p) \<or> items \<noteq> expectedContent
        then Inl invalidAuthorizationResponse else Inr ()))"

definition validateRoleItem :: "Role \<Rightarrow> portal_error + unit" where
  "validateRoleItem v =
     (if \<not> canonicalAuthorizationUUID (ro_ID v) \<or> blank (ro_Key v) \<or> blank (ro_Name v) \<or>
         \<not> validAuthorizationTimestamp (ro_CreatedAt v) \<or> \<not> validAuthorizationTimestamp (ro_UpdatedAt v)
      then Inl invalidAuthorizationResponse else Inr ())"

definition validatePermissionItem :: "Permission \<Rightarrow> portal_error + unit" where
  "validatePermissionItem v =
     (if \<not> canonicalAuthorizationUUID (pe_ID v) \<or> \<not> is_ok (validatePermissionGrant (pe_Resource v) (pe_Action v)) \<or>
         pe_Key v \<noteq> pe_Resource v @ '':'' @ pe_Action v \<or> blank (pe_Name v) \<or>
         (pe_Source v \<noteq> ''CODE'' \<and> pe_Source v \<noteq> ''MANUAL'') \<or>
         \<not> validAuthorizationTimestamp (pe_CreatedAt v) \<or> \<not> validAuthorizationTimestamp (pe_UpdatedAt v)
      then Inl invalidAuthorizationResponse else Inr ())"

definition validateRolePermissionBindingItem :: "RolePermissionBinding \<Rightarrow> portal_error + unit" where
  "validateRolePermissionBindingItem v =
     (if \<not> canonicalAuthorizationUUID (rb_RoleID v) \<or> \<not> canonicalAuthorizationUUID (rb_PermissionID v) \<or>
         \<not> validAuthorizationTimestamp (rb_CreatedAt v)
      then Inl invalidAuthorizationResponse else Inr ())"

definition validateRolePermissionBindingForRole :: "string \<Rightarrow> RolePermissionBinding \<Rightarrow> portal_error + unit" where
  "validateRolePermissionBindingForRole roleID v =
     (if \<not> is_ok (validateRolePermissionBindingItem v) \<or> rb_RoleID v \<noteq> roleID
      then Inl invalidAuthorizationResponse else Inr ())"

definition validateRolePermissionSetItem :: "RolePermissionSet \<Rightarrow> portal_error + unit" where
  "validateRolePermissionSetItem v = (case rs_PermissionIDs v of
     None \<Rightarrow> Inl invalidAuthorizationResponse
   | Some ids \<Rightarrow> if \<not> canonicalAuthorizationUUID (rs_RoleID v) \<or> \<not> list_all canonicalAuthorizationUUID ids
       then Inl invalidAuthorizationResponse else Inr ())"

definition validateRolePermissionSetForRole :: "string \<Rightarrow> RolePermissionSet \<Rightarrow> portal_error + unit" where
  "validateRolePermissionSetForRole roleID v =
     (if \<not> is_ok (validateRolePermissionSetItem v) \<or> rs_RoleID v \<noteq> roleID
      then Inl invalidAuthorizationResponse else Inr ())"

definition validateUserRoleAssignmentItem :: "UserRoleAssignment \<Rightarrow> portal_error + unit" where
  "validateUserRoleAssignmentItem v =
     (if \<not> canonicalAuthorizationUUID (ua_ID v) \<or> \<not> canonicalAuthorizationUUID (ua_UserID v) \<or>
         \<not> canonicalAuthorizationUUID (ua_RoleID v) \<or>
         (case ua_OrganizationID v of None \<Rightarrow> False | Some i \<Rightarrow> \<not> canonicalAuthorizationUUID i) \<or>
         \<not> validAuthorizationTimestamp (ua_CreatedAt v) \<or> \<not> validAuthorizationTimestamp (ua_UpdatedAt v)
      then Inl invalidAuthorizationResponse else Inr ())"

definition validateUserRoleAssignmentForUser :: "string \<Rightarrow> UserRoleAssignment \<Rightarrow> portal_error + unit" where
  "validateUserRoleAssignmentForUser userID v =
     (if \<not> is_ok (validateUserRoleAssignmentItem v) \<or> ua_UserID v \<noteq> userID
      then Inl invalidAuthorizationResponse else Inr ())"

text \<open>The loops over the items of a page stop at the first error.\<close>

fun check_all :: "('a \<Rightarrow> portal_error + unit) \<Rightarrow> 'a list \<Rightarrow> portal_error + unit" where
  "check_all f [] = Inr ()"
| "check_all f (x # xs) = bind_ok (f x) (\<lambda>_. check_all f xs)"

section \<open>Wire formats\<close>

text \<open>
  The wire structs have pointers where a missing member must show; \<open>value\<close> refuses those that do.
\<close>

record page_wire =
  pw_size :: "int option"
  pw_number :: "int option"
  pw_totalElements :: "int option"
  pw_totalPages :: "int option"

definition dec_page_wire :: "json \<Rightarrow> page_wire \<Rightarrow> page_wire option" where
  "dec_page_wire = dec_struct False [''size'', ''number'', ''totalElements'', ''totalPages'']
     (\<lambda>ms old. Option.bind (dec_field (dec_ptr dec_int 0) (pw_size old) ''size'' ms) (\<lambda>x1.
       Option.bind (dec_field (dec_ptr dec_int 0) (pw_number old) ''number'' ms) (\<lambda>x2.
       Option.bind (dec_field (dec_ptr dec_int 0) (pw_totalElements old) ''totalElements'' ms) (\<lambda>x3.
       Option.bind (dec_field (dec_ptr dec_int 0) (pw_totalPages old) ''totalPages'' ms) (\<lambda>x4.
       Some \<lparr>pw_size = x1, pw_number = x2, pw_totalElements = x3, pw_totalPages = x4\<rparr>)))))"

definition zero_page :: page_wire where
  "zero_page = \<lparr>pw_size = None, pw_number = None, pw_totalElements = None, pw_totalPages = None\<rparr>"

definition need_int :: "'a option \<Rightarrow> portal_error + 'a" where
  "need_int x = (case x of None \<Rightarrow> Inl invalidAuthorizationResponse | Some v \<Rightarrow> Inr v)"

definition page_value :: "page_wire option \<Rightarrow> portal_error + AuthorizationPageMetadata" where
  "page_value w = bind_ok (need_int w) (\<lambda>v. bind_ok (need_int (pw_size v)) (\<lambda>s. bind_ok (need_int (pw_number v)) (\<lambda>n.
     bind_ok (need_int (pw_totalElements v)) (\<lambda>t. bind_ok (need_int (pw_totalPages v)) (\<lambda>p.
     Inr \<lparr>pg_Size = s, pg_Number = n, pg_TotalElements = t, pg_TotalPages = p\<rparr>)))))"

record role_wire =
  rw_id :: string
  rw_key :: string
  rw_name :: string
  rw_description :: "string option"
  rw_system :: "bool option"
  rw_version :: "int option"
  rw_createdAt :: string
  rw_updatedAt :: string

definition dec_role_wire :: "json \<Rightarrow> role_wire \<Rightarrow> role_wire option" where
  "dec_role_wire = dec_struct False [''id'', ''key'', ''name'', ''description'', ''system'', ''version'', ''createdAt'', ''updatedAt'']
     (\<lambda>ms old. Option.bind (dec_field dec_string (rw_id old) ''id'' ms) (\<lambda>x1.
       Option.bind (dec_field dec_string (rw_key old) ''key'' ms) (\<lambda>x2.
       Option.bind (dec_field dec_string (rw_name old) ''name'' ms) (\<lambda>x3.
       Option.bind (dec_field (dec_ptr dec_string []) (rw_description old) ''description'' ms) (\<lambda>x4.
       Option.bind (dec_field (dec_ptr dec_bool False) (rw_system old) ''system'' ms) (\<lambda>x5.
       Option.bind (dec_field (dec_ptr dec_int 0) (rw_version old) ''version'' ms) (\<lambda>x6.
       Option.bind (dec_field dec_string (rw_createdAt old) ''createdAt'' ms) (\<lambda>x7.
       Option.bind (dec_field dec_string (rw_updatedAt old) ''updatedAt'' ms) (\<lambda>x8.
       Some \<lparr>rw_id = x1, rw_key = x2, rw_name = x3, rw_description = x4, rw_system = x5, rw_version = x6, rw_createdAt = x7, rw_updatedAt = x8\<rparr>)))))))))"

definition zero_role :: role_wire where
  "zero_role = \<lparr>rw_id = [], rw_key = [], rw_name = [], rw_description = None, rw_system = None, rw_version = None,
     rw_createdAt = [], rw_updatedAt = []\<rparr>"

definition role_value :: "role_wire \<Rightarrow> portal_error + Role" where
  "role_value v = bind_ok (need_int (rw_system v)) (\<lambda>sys. bind_ok (need_int (rw_version v)) (\<lambda>ver.
     Inr \<lparr>ro_ID = rw_id v, ro_Key = rw_key v, ro_Name = rw_name v, ro_Description = rw_description v, ro_System = sys,
          ro_Version = ver, ro_CreatedAt = rw_createdAt v, ro_UpdatedAt = rw_updatedAt v, ro_ETag = []\<rparr>))"

record permission_wire =
  pp_id :: string
  pp_resource :: string
  pp_action :: string
  pp_key :: string
  pp_name :: string
  pp_description :: "string option"
  pp_source :: string
  pp_version :: "int option"
  pp_createdAt :: string
  pp_updatedAt :: string

definition dec_permission_wire :: "json \<Rightarrow> permission_wire \<Rightarrow> permission_wire option" where
  "dec_permission_wire = dec_struct False [''id'', ''resource'', ''action'', ''key'', ''name'', ''description'', ''source'', ''version'', ''createdAt'', ''updatedAt'']
     (\<lambda>ms old. Option.bind (dec_field dec_string (pp_id old) ''id'' ms) (\<lambda>x1.
       Option.bind (dec_field dec_string (pp_resource old) ''resource'' ms) (\<lambda>x2.
       Option.bind (dec_field dec_string (pp_action old) ''action'' ms) (\<lambda>x3.
       Option.bind (dec_field dec_string (pp_key old) ''key'' ms) (\<lambda>x4.
       Option.bind (dec_field dec_string (pp_name old) ''name'' ms) (\<lambda>x5.
       Option.bind (dec_field (dec_ptr dec_string []) (pp_description old) ''description'' ms) (\<lambda>x6.
       Option.bind (dec_field dec_string (pp_source old) ''source'' ms) (\<lambda>x7.
       Option.bind (dec_field (dec_ptr dec_int 0) (pp_version old) ''version'' ms) (\<lambda>x8.
       Option.bind (dec_field dec_string (pp_createdAt old) ''createdAt'' ms) (\<lambda>x9.
       Option.bind (dec_field dec_string (pp_updatedAt old) ''updatedAt'' ms) (\<lambda>x10.
       Some \<lparr>pp_id = x1, pp_resource = x2, pp_action = x3, pp_key = x4, pp_name = x5, pp_description = x6, pp_source = x7, pp_version = x8, pp_createdAt = x9, pp_updatedAt = x10\<rparr>)))))))))))"

definition zero_permission :: permission_wire where
  "zero_permission = \<lparr>pp_id = [], pp_resource = [], pp_action = [], pp_key = [], pp_name = [], pp_description = None,
     pp_source = [], pp_version = None, pp_createdAt = [], pp_updatedAt = []\<rparr>"

definition permission_value :: "permission_wire \<Rightarrow> portal_error + Permission" where
  "permission_value v = bind_ok (need_int (pp_version v)) (\<lambda>ver.
     Inr \<lparr>pe_ID = pp_id v, pe_Resource = pp_resource v, pe_Action = pp_action v, pe_Key = pp_key v, pe_Name = pp_name v,
          pe_Description = pp_description v, pe_Source = pp_source v, pe_Version = ver, pe_CreatedAt = pp_createdAt v,
          pe_UpdatedAt = pp_updatedAt v, pe_ETag = []\<rparr>)"

definition dec_binding :: "json \<Rightarrow> RolePermissionBinding \<Rightarrow> RolePermissionBinding option" where
  "dec_binding = dec_struct False [''roleId'', ''permissionId'', ''createdAt'']
     (\<lambda>ms old. Option.bind (dec_field dec_string (rb_RoleID old) ''roleId'' ms) (\<lambda>x1.
       Option.bind (dec_field dec_string (rb_PermissionID old) ''permissionId'' ms) (\<lambda>x2.
       Option.bind (dec_field dec_string (rb_CreatedAt old) ''createdAt'' ms) (\<lambda>x3.
       Some \<lparr>rb_RoleID = x1, rb_PermissionID = x2, rb_CreatedAt = x3\<rparr>))))"

definition zero_binding :: RolePermissionBinding where
  "zero_binding = \<lparr>rb_RoleID = [], rb_PermissionID = [], rb_CreatedAt = []\<rparr>"

record set_wire =
  sw_roleId :: string
  sw_permissionIds :: "string list option"
  sw_version :: "int option"

definition dec_set_wire :: "json \<Rightarrow> set_wire \<Rightarrow> set_wire option" where
  "dec_set_wire = dec_struct False [''roleId'', ''permissionIds'', ''version'']
     (\<lambda>ms old. Option.bind (dec_field dec_string (sw_roleId old) ''roleId'' ms) (\<lambda>x1.
       Option.bind (dec_field (dec_slice dec_string []) (sw_permissionIds old) ''permissionIds'' ms) (\<lambda>x2.
       Option.bind (dec_field (dec_ptr dec_int 0) (sw_version old) ''version'' ms) (\<lambda>x3.
       Some \<lparr>sw_roleId = x1, sw_permissionIds = x2, sw_version = x3\<rparr>))))"

definition zero_set :: set_wire where
  "zero_set = \<lparr>sw_roleId = [], sw_permissionIds = None, sw_version = None\<rparr>"

definition set_value :: "set_wire \<Rightarrow> portal_error + RolePermissionSet" where
  "set_value v = bind_ok (need_int (sw_version v)) (\<lambda>ver.
     Inr \<lparr>rs_RoleID = sw_roleId v, rs_PermissionIDs = sw_permissionIds v, rs_Version = ver, rs_ETag = []\<rparr>)"

record assignment_wire =
  aw_id :: string
  aw_userId :: string
  aw_roleId :: string
  aw_organizationId :: "string option"
  aw_conditionExpression :: "string option"
  aw_conditionDescription :: "string option"
  aw_version :: "int option"
  aw_createdAt :: string
  aw_updatedAt :: string

definition dec_assignment_wire :: "json \<Rightarrow> assignment_wire \<Rightarrow> assignment_wire option" where
  "dec_assignment_wire = dec_struct False [''id'', ''userId'', ''roleId'', ''organizationId'', ''conditionExpression'', ''conditionDescription'', ''version'', ''createdAt'', ''updatedAt'']
     (\<lambda>ms old. Option.bind (dec_field dec_string (aw_id old) ''id'' ms) (\<lambda>x1.
       Option.bind (dec_field dec_string (aw_userId old) ''userId'' ms) (\<lambda>x2.
       Option.bind (dec_field dec_string (aw_roleId old) ''roleId'' ms) (\<lambda>x3.
       Option.bind (dec_field (dec_ptr dec_string []) (aw_organizationId old) ''organizationId'' ms) (\<lambda>x4.
       Option.bind (dec_field (dec_ptr dec_string []) (aw_conditionExpression old) ''conditionExpression'' ms) (\<lambda>x5.
       Option.bind (dec_field (dec_ptr dec_string []) (aw_conditionDescription old) ''conditionDescription'' ms) (\<lambda>x6.
       Option.bind (dec_field (dec_ptr dec_int 0) (aw_version old) ''version'' ms) (\<lambda>x7.
       Option.bind (dec_field dec_string (aw_createdAt old) ''createdAt'' ms) (\<lambda>x8.
       Option.bind (dec_field dec_string (aw_updatedAt old) ''updatedAt'' ms) (\<lambda>x9.
       Some \<lparr>aw_id = x1, aw_userId = x2, aw_roleId = x3, aw_organizationId = x4, aw_conditionExpression = x5, aw_conditionDescription = x6, aw_version = x7, aw_createdAt = x8, aw_updatedAt = x9\<rparr>))))))))))"

definition zero_assignment :: assignment_wire where
  "zero_assignment = \<lparr>aw_id = [], aw_userId = [], aw_roleId = [], aw_organizationId = None, aw_conditionExpression = None,
     aw_conditionDescription = None, aw_version = None, aw_createdAt = [], aw_updatedAt = []\<rparr>"

definition assignment_value :: "assignment_wire \<Rightarrow> portal_error + UserRoleAssignment" where
  "assignment_value v = bind_ok (need_int (aw_version v)) (\<lambda>ver.
     Inr \<lparr>ua_ID = aw_id v, ua_UserID = aw_userId v, ua_RoleID = aw_roleId v, ua_OrganizationID = aw_organizationId v,
          ua_ConditionExpression = aw_conditionExpression v, ua_ConditionDescription = aw_conditionDescription v,
          ua_Version = ver, ua_CreatedAt = aw_createdAt v, ua_UpdatedAt = aw_updatedAt v, ua_ETag = []\<rparr>)"

text \<open>A page on the wire: the content is a pointer to a slice, so null and a missing member show alike.\<close>

definition dec_page ::
  "(json \<Rightarrow> 'w \<Rightarrow> 'w option) \<Rightarrow> 'w \<Rightarrow> json \<Rightarrow> 'w list option option \<times> page_wire option \<Rightarrow>
   ('w list option option \<times> page_wire option) option" where
  "dec_page d zero = dec_struct False [''content'', ''page'']
     (\<lambda>ms old. Option.bind (dec_field (dec_ptr (dec_slice d zero) None) (fst old) ''content'' ms) (\<lambda>c.
       Option.bind (dec_field (dec_ptr dec_page_wire zero_page) (snd old) ''page'' ms) (\<lambda>p. Some (c, p))))"

fun map_ok :: "('a \<Rightarrow> 'e + 'b) \<Rightarrow> 'a list \<Rightarrow> 'e + 'b list" where
  "map_ok f [] = Inr []"
| "map_ok f (x # xs) = bind_ok (f x) (\<lambda>y. bind_ok (map_ok f xs) (\<lambda>ys. Inr (y # ys)))"

text \<open>What every list operation does with a decoded page: metadata, items, then the checks.\<close>

definition page_result ::
  "('w \<Rightarrow> portal_error + 'i) \<Rightarrow> ('i \<Rightarrow> portal_error + unit) \<Rightarrow>
   'w list option option \<times> page_wire option \<Rightarrow> portal_error + 'i list \<times> AuthorizationPageMetadata" where
  "page_result val chk raw = (case fst raw of
     None \<Rightarrow> Inl invalidAuthorizationResponse
   | Some ws \<Rightarrow> bind_ok (page_value (snd raw)) (\<lambda>p. bind_ok (map_ok val (case ws of None \<Rightarrow> [] | Some l \<Rightarrow> l)) (\<lambda>items.
       bind_ok (validateAuthorizationPage (int (length items)) p) (\<lambda>_.
       bind_ok (check_all chk items) (\<lambda>_. Inr (items, p))))))"

section \<open>Results with an entity tag\<close>

definition roleWithETag :: "header \<Rightarrow> Role \<Rightarrow> portal_error + Role" where
  "roleWithETag h v = bind_ok (strongETag h) (\<lambda>e. let r = v\<lparr>ro_ETag := e\<rparr> in bind_ok (validateRoleItem r) (\<lambda>_. Inr r))"

definition roleWithETagForID :: "string \<Rightarrow> header \<Rightarrow> Role \<Rightarrow> portal_error + Role" where
  "roleWithETagForID i h v = bind_ok (roleWithETag h v) (\<lambda>r.
     if ro_ID r \<noteq> i then Inl invalidAuthorizationResponse else Inr r)"

definition permissionWithETag :: "header \<Rightarrow> Permission \<Rightarrow> portal_error + Permission" where
  "permissionWithETag h v = bind_ok (strongETag h) (\<lambda>e.
     let r = v\<lparr>pe_ETag := e\<rparr> in bind_ok (validatePermissionItem r) (\<lambda>_. Inr r))"

definition permissionWithETagForID :: "string \<Rightarrow> header \<Rightarrow> Permission \<Rightarrow> portal_error + Permission" where
  "permissionWithETagForID i h v = bind_ok (permissionWithETag h v) (\<lambda>r.
     if pe_ID r \<noteq> i then Inl invalidAuthorizationResponse else Inr r)"

definition assignmentWithETag :: "header \<Rightarrow> UserRoleAssignment \<Rightarrow> portal_error + UserRoleAssignment" where
  "assignmentWithETag h v = bind_ok (strongETag h) (\<lambda>e.
     let r = v\<lparr>ua_ETag := e\<rparr> in bind_ok (validateUserRoleAssignmentItem r) (\<lambda>_. Inr r))"

definition assignmentWithETagForCreate ::
  "string \<Rightarrow> string \<Rightarrow> header \<Rightarrow> UserRoleAssignment \<Rightarrow> portal_error + UserRoleAssignment" where
  "assignmentWithETagForCreate user role h v = bind_ok (assignmentWithETag h v) (\<lambda>r.
     if ua_UserID r \<noteq> user \<or> ua_RoleID r \<noteq> role then Inl invalidAuthorizationResponse else Inr r)"

definition assignmentWithETagForUpdate ::
  "string \<Rightarrow> string \<Rightarrow> header \<Rightarrow> UserRoleAssignment \<Rightarrow> portal_error + UserRoleAssignment" where
  "assignmentWithETagForUpdate user assignment h v = bind_ok (assignmentWithETag h v) (\<lambda>r.
     if ua_UserID r \<noteq> user \<or> ua_ID r \<noteq> assignment then Inl invalidAuthorizationResponse else Inr r)"

section \<open>Operations\<close>

text \<open>
  \<open>call\<close> is a request followed by the reading of its result \<open>k\<close>; \<open>guarded\<close> is an argument check
  before it.  An operation that has no result target passes none.
\<close>

type_synonym 'a op = "PortalClient \<times> world \<Rightarrow> (portal_error + 'a) \<times> PortalClient \<times> world"

definition call ::
  "runtime \<Rightarrow> ctx \<Rightarrow> string \<Rightarrow> string \<Rightarrow> string \<Rightarrow> json option \<Rightarrow> (json \<Rightarrow> 'w \<Rightarrow> 'w option) option \<Rightarrow> 'w \<Rightarrow> header \<Rightarrow>
   ('w \<Rightarrow> header \<Rightarrow> portal_error + 'a) \<Rightarrow> 'a op" where
  "call rt cx m scope path bdy d zero extra k s =
     (case requestJSONWithScopeAndHeaders rt cx m path scope bdy d zero extra s of
        (Inl e, s1) \<Rightarrow> (Inl e, s1) | (Inr (x, h), s1) \<Rightarrow> (k x h, s1))"

definition guarded :: "portal_error + 'b \<Rightarrow> ('b \<Rightarrow> 'a op) \<Rightarrow> 'a op" where
  "guarded g f s = (case g of Inl e \<Rightarrow> (Inl e, s) | Inr x \<Rightarrow> f x s)"

text \<open>Request bodies: an omitted member is one whose pointer is nil.\<close>

definition opt_member :: "string \<Rightarrow> string option \<Rightarrow> members" where
  "opt_member name v = (case v of None \<Rightarrow> [] | Some t \<Rightarrow> [(name, JStr t)])"

record CreateRoleRequest =
  crr_Key :: string
  crr_Name :: string
  crr_Description :: "string option"

record UpdateRoleRequest =
  urr_Key :: "string option"
  urr_Name :: "string option"
  urr_Description :: "string option"

record CreatePermissionRequest =
  cpr_Resource :: string
  cpr_Action :: string
  cpr_Name :: string
  cpr_Description :: "string option"

record UpdatePermissionRequest =
  upr_Name :: "string option"
  upr_Description :: "string option"

record CreateUserRoleRequest =
  cur_RoleID :: string
  cur_Condition :: "UserRoleCondition option"

definition create_role_json :: "CreateRoleRequest \<Rightarrow> json" where
  "create_role_json r = JObj ([(''key'', JStr (crr_Key r)), (''name'', JStr (crr_Name r))] @
     opt_member ''description'' (crr_Description r))"

definition update_role_json :: "UpdateRoleRequest \<Rightarrow> json" where
  "update_role_json r = JObj (opt_member ''key'' (urr_Key r) @ opt_member ''name'' (urr_Name r) @
     opt_member ''description'' (urr_Description r))"

definition create_permission_json :: "CreatePermissionRequest \<Rightarrow> json" where
  "create_permission_json r = JObj ([(''resource'', JStr (cpr_Resource r)), (''action'', JStr (cpr_Action r)),
     (''name'', JStr (cpr_Name r))] @ opt_member ''description'' (cpr_Description r))"

definition update_permission_json :: "UpdatePermissionRequest \<Rightarrow> json" where
  "update_permission_json r = JObj (opt_member ''name'' (upr_Name r) @ opt_member ''description'' (upr_Description r))"

definition null_or :: "string option \<Rightarrow> json" where
  "null_or v = (case v of None \<Rightarrow> JNull | Some t \<Rightarrow> JStr t)"

definition condition_json :: "UserRoleCondition \<Rightarrow> json" where
  "condition_json c = JObj [(''expression'', null_or (uc_Expression c)), (''description'', null_or (uc_Description c))]"

definition create_user_role_json :: "CreateUserRoleRequest \<Rightarrow> json" where
  "create_user_role_json r = JObj ((''roleId'', JStr (cur_RoleID r)) #
     (case cur_Condition r of None \<Rightarrow> [] | Some c \<Rightarrow> [(''condition'', condition_json c)]))"

definition update_user_role_json :: "UserRoleCondition option \<Rightarrow> json" where
  "update_user_role_json c = JObj [(''condition'', case c of None \<Rightarrow> JNull | Some v \<Rightarrow> condition_json v)]"

definition ListRoles :: "runtime \<Rightarrow> ctx \<Rightarrow> AuthorizationPageOptions \<Rightarrow> (Role list \<times> AuthorizationPageMetadata) op" where
  "ListRoles rt cx opts = guarded (validateAuthorizationPageOptions opts) (\<lambda>_.
     call rt cx ''GET'' RolesReadScope (''/open/v1/roles'' @ authorizationPageQuery opts) None
       (Some (dec_page dec_role_wire zero_role)) (None, None) []
       (\<lambda>raw h. page_result role_value validateRoleItem raw))"

definition GetRole :: "runtime \<Rightarrow> ctx \<Rightarrow> string \<Rightarrow> Role op" where
  "GetRole rt cx i = guarded (authorizationPath ''roles'' ''role'' i) (\<lambda>path.
     call rt cx ''GET'' RolesReadScope path None (Some dec_role_wire) zero_role []
       (\<lambda>raw h. bind_ok (role_value raw) (roleWithETagForID i h)))"

definition CreateRole :: "runtime \<Rightarrow> ctx \<Rightarrow> CreateRoleRequest \<Rightarrow> string option \<Rightarrow> Role op" where
  "CreateRole rt cx req opts = call rt cx ''POST'' RolesWriteScope ''/open/v1/roles'' (Some (create_role_json req))
     (Some dec_role_wire) zero_role (authorizationIdempotencyHeader opts)
     (\<lambda>raw h. bind_ok (role_value raw) (roleWithETag h))"

definition UpdateRole :: "runtime \<Rightarrow> ctx \<Rightarrow> string \<Rightarrow> UpdateRoleRequest \<Rightarrow> string \<Rightarrow> Role op" where
  "UpdateRole rt cx i req ifMatch = guarded (validateIfMatch ifMatch) (\<lambda>_.
     guarded (authorizationPath ''roles'' ''role'' i) (\<lambda>path.
     call rt cx ''PATCH'' RolesWriteScope path (Some (update_role_json req)) (Some dec_role_wire) zero_role
       (authorizationIfMatchHeader ifMatch) (\<lambda>raw h. bind_ok (role_value raw) (roleWithETagForID i h))))"

definition DeleteRole :: "runtime \<Rightarrow> ctx \<Rightarrow> string \<Rightarrow> string \<Rightarrow> unit op" where
  "DeleteRole rt cx i ifMatch = guarded (validateIfMatch ifMatch) (\<lambda>_.
     guarded (authorizationPath ''roles'' ''role'' i) (\<lambda>path.
     call rt cx ''DELETE'' RolesWriteScope path None None () (authorizationIfMatchHeader ifMatch) (\<lambda>_ h. Inr ())))"

definition ListPermissions :: "runtime \<Rightarrow> ctx \<Rightarrow> AuthorizationPageOptions \<Rightarrow> (Permission list \<times> AuthorizationPageMetadata) op" where
  "ListPermissions rt cx opts = guarded (validateAuthorizationPageOptions opts) (\<lambda>_.
     call rt cx ''GET'' PermissionsReadScope (''/open/v1/permissions'' @ authorizationPageQuery opts) None
       (Some (dec_page dec_permission_wire zero_permission)) (None, None) []
       (\<lambda>raw h. page_result permission_value validatePermissionItem raw))"

definition GetPermission :: "runtime \<Rightarrow> ctx \<Rightarrow> string \<Rightarrow> Permission op" where
  "GetPermission rt cx i = guarded (authorizationPath ''permissions'' ''permission'' i) (\<lambda>path.
     call rt cx ''GET'' PermissionsReadScope path None (Some dec_permission_wire) zero_permission []
       (\<lambda>raw h. bind_ok (permission_value raw) (permissionWithETagForID i h)))"

definition CreatePermission :: "runtime \<Rightarrow> ctx \<Rightarrow> CreatePermissionRequest \<Rightarrow> string option \<Rightarrow> Permission op" where
  "CreatePermission rt cx req opts = guarded (validatePermissionGrant (cpr_Resource req) (cpr_Action req)) (\<lambda>_.
     call rt cx ''POST'' PermissionsWriteScope ''/open/v1/permissions'' (Some (create_permission_json req))
       (Some dec_permission_wire) zero_permission (authorizationIdempotencyHeader opts)
       (\<lambda>raw h. bind_ok (permission_value raw) (permissionWithETag h)))"

definition UpdatePermission :: "runtime \<Rightarrow> ctx \<Rightarrow> string \<Rightarrow> UpdatePermissionRequest \<Rightarrow> string \<Rightarrow> Permission op" where
  "UpdatePermission rt cx i req ifMatch = guarded (validateIfMatch ifMatch) (\<lambda>_.
     guarded (authorizationPath ''permissions'' ''permission'' i) (\<lambda>path.
     call rt cx ''PATCH'' PermissionsWriteScope path (Some (update_permission_json req)) (Some dec_permission_wire)
       zero_permission (authorizationIfMatchHeader ifMatch)
       (\<lambda>raw h. bind_ok (permission_value raw) (permissionWithETagForID i h))))"

definition DeletePermission :: "runtime \<Rightarrow> ctx \<Rightarrow> string \<Rightarrow> string \<Rightarrow> unit op" where
  "DeletePermission rt cx i ifMatch = guarded (validateIfMatch ifMatch) (\<lambda>_.
     guarded (authorizationPath ''permissions'' ''permission'' i) (\<lambda>path.
     call rt cx ''DELETE'' PermissionsWriteScope path None None () (authorizationIfMatchHeader ifMatch) (\<lambda>_ h. Inr ())))"

definition ListRolePermissions ::
  "runtime \<Rightarrow> ctx \<Rightarrow> string \<Rightarrow> AuthorizationPageOptions \<Rightarrow>
   (RolePermissionBinding list \<times> AuthorizationPageMetadata \<times> string) op" where
  "ListRolePermissions rt cx roleID opts = guarded (validateAuthorizationPageOptions opts) (\<lambda>_.
     guarded (authorizationPath ''roles'' ''role'' roleID) (\<lambda>path.
     call rt cx ''GET'' RolePermissionsReadScope (path @ ''/permissions'' @ authorizationPageQuery opts) None
       (Some (dec_page dec_binding zero_binding)) (None, None) []
       (\<lambda>raw h. bind_ok (page_result Inr (validateRolePermissionBindingForRole roleID) raw) (\<lambda>(items, p).
          bind_ok (strongETag h) (\<lambda>e. Inr (items, p, e))))))"

definition ReplaceRolePermissions ::
  "runtime \<Rightarrow> ctx \<Rightarrow> string \<Rightarrow> string list option \<Rightarrow> string \<Rightarrow> RolePermissionSet op" where
  "ReplaceRolePermissions rt cx roleID ids ifMatch = guarded (validateIfMatch ifMatch) (\<lambda>_.
     guarded (authorizationPath ''roles'' ''role'' roleID) (\<lambda>path.
     guarded (check_all (\<lambda>i. bind_ok (authorizationID i ''permission'') (\<lambda>_. Inr ()))
         (case ids of None \<Rightarrow> [] | Some l \<Rightarrow> l)) (\<lambda>_.
     call rt cx ''PUT'' RolePermissionsWriteScope (path @ ''/permissions'')
       (Some (JObj [(''permissionIds'', case ids of None \<Rightarrow> JNull | Some l \<Rightarrow> JArr (map JStr l))]))
       (Some dec_set_wire) zero_set (authorizationIfMatchHeader ifMatch)
       (\<lambda>raw h. bind_ok (set_value raw) (\<lambda>v. bind_ok (strongETag h) (\<lambda>e. let r = v\<lparr>rs_ETag := e\<rparr> in
          bind_ok (validateRolePermissionSetForRole roleID r) (\<lambda>_. Inr r)))))))"

definition ListUserRoles ::
  "runtime \<Rightarrow> ctx \<Rightarrow> string \<Rightarrow> AuthorizationPageOptions \<Rightarrow> (UserRoleAssignment list \<times> AuthorizationPageMetadata) op" where
  "ListUserRoles rt cx userID opts = guarded (validateAuthorizationPageOptions opts) (\<lambda>_.
     guarded (userRolePath userID) (\<lambda>path.
     call rt cx ''GET'' UserRolesReadScope (path @ authorizationPageQuery opts) None
       (Some (dec_page dec_assignment_wire zero_assignment)) (None, None) []
       (\<lambda>raw h. page_result assignment_value (validateUserRoleAssignmentForUser userID) raw)))"

definition CreateUserRole ::
  "runtime \<Rightarrow> ctx \<Rightarrow> string \<Rightarrow> CreateUserRoleRequest \<Rightarrow> string option \<Rightarrow> UserRoleAssignment op" where
  "CreateUserRole rt cx userID req opts = guarded (userRolePath userID) (\<lambda>path.
     guarded (authorizationID (cur_RoleID req) ''role'') (\<lambda>_.
     call rt cx ''POST'' UserRolesWriteScope path (Some (create_user_role_json req)) (Some dec_assignment_wire)
       zero_assignment (authorizationIdempotencyHeader opts)
       (\<lambda>raw h. bind_ok (assignment_value raw) (assignmentWithETagForCreate userID (cur_RoleID req) h))))"

definition UpdateUserRole ::
  "runtime \<Rightarrow> ctx \<Rightarrow> string \<Rightarrow> string \<Rightarrow> UserRoleCondition option \<Rightarrow> string \<Rightarrow> UserRoleAssignment op" where
  "UpdateUserRole rt cx userID assignmentID cond ifMatch = guarded (validateIfMatch ifMatch) (\<lambda>_.
     guarded (userRolePath userID) (\<lambda>path. guarded (authorizationID assignmentID ''assignment'') (\<lambda>seg.
     call rt cx ''PATCH'' UserRolesWriteScope (path @ ''/'' @ seg) (Some (update_user_role_json cond))
       (Some dec_assignment_wire) zero_assignment (authorizationIfMatchHeader ifMatch)
       (\<lambda>raw h. bind_ok (assignment_value raw) (assignmentWithETagForUpdate userID assignmentID h)))))"

definition DeleteUserRole :: "runtime \<Rightarrow> ctx \<Rightarrow> string \<Rightarrow> string \<Rightarrow> string \<Rightarrow> unit op" where
  "DeleteUserRole rt cx userID assignmentID ifMatch = guarded (validateIfMatch ifMatch) (\<lambda>_.
     guarded (userRolePath userID) (\<lambda>path. guarded (authorizationID assignmentID ''assignment'') (\<lambda>seg.
     call rt cx ''DELETE'' UserRolesWriteScope (path @ ''/'' @ seg) None None ()
       (authorizationIfMatchHeader ifMatch) (\<lambda>_ h. Inr ()))))"

section \<open>Facts\<close>

lemma guarded_Inr:
  "guarded g f s = (Inr x, s') \<longleftrightarrow> (\<exists>y. g = Inr y \<and> f y s = (Inr x, s'))"
  by (auto simp: guarded_def split: sum.splits)

lemma call_Inr:
  "call rt cx m scope path bdy d zero extra k s = (Inr x, s') \<Longrightarrow>
   \<exists>raw h. requestJSONWithScopeAndHeaders rt cx m path scope bdy d zero extra s = (Inr (raw, h), s') \<and> k raw h = Inr x"
  by (auto simp: call_def split: prod.splits sum.splits)

lemma is_ok_iff: "is_ok r \<longleftrightarrow> (\<exists>x. r = Inr x)"
  by (cases r) auto

lemma page_valid_iff:
  assumes "0 \<le> items" and "pg_TotalElements p < 2 ^ 63" and "- (2 ^ 63) \<le> pg_TotalElements p"
  shows "validateAuthorizationPage items p = Inr () \<longleftrightarrow>
     1 \<le> pg_Size p \<and> pg_Size p \<le> 100 \<and> 0 \<le> pg_Number p \<and> 0 \<le> pg_TotalElements p \<and>
     pg_TotalPages p = (pg_TotalElements p + pg_Size p - 1) div pg_Size p \<and>
     (if pg_TotalElements p = 0 then pg_Number p = 0 \<and> items = 0
      else pg_Number p < pg_TotalPages p \<and> items = min (pg_Size p) (pg_TotalElements p - pg_Number p * pg_Size p))"
proof (cases "1 \<le> pg_Size p \<and> pg_Size p \<le> 100 \<and> 0 \<le> pg_Number p \<and> 0 \<le> pg_TotalElements p")
  case False
  then show ?thesis by (auto simp: validateAuthorizationPage_def Let_def)
next
  case True
  define S T N where "S = pg_Size p" and "T = pg_TotalElements p" and "N = pg_Number p"
  note STN = True [folded S_def T_def N_def]
  define E where "E = (T + S - 1) div S"
  have T: "T < 2 ^ 63" using assms(2) by (simp add: T_def)
  have q: "go_div T S = T div S" "go_rem T S = T mod S"
    using STN by (simp_all add: go_div_nonneg go_rem_nonneg)
  have ceil: "(if T mod S \<noteq> 0 then T div S + 1 else T div S) = E"
  proof -
    have "T = S * (T div S) + T mod S" "0 \<le> T mod S" "T mod S < S" using STN by simp_all
    then have "T + S - 1 = S * (T div S) + (T mod S + S - 1)" by linarith
    then have "E = T div S + (T mod S + S - 1) div S"
      unfolding E_def using STN by (metis div_mult_self4 add.commute not_one_le_zero mult.commute)
    moreover have "(T mod S + S - 1) div S = (if T mod S \<noteq> 0 then 1 else 0)"
    proof (cases "T mod S = 0")
      case True
      then show ?thesis using STN by (simp add: div_pos_pos_trivial)
    next
      case False
      with \<open>0 \<le> T mod S\<close> have "0 < T mod S" by simp
      then have "(T mod S - 1 + S) div S = (T mod S - 1) div S + 1" using STN by simp
      moreover have "(T mod S - 1) div S = 0" using \<open>0 < T mod S\<close> \<open>T mod S < S\<close> by (simp add: div_pos_pos_trivial)
      ultimately show ?thesis using False by (simp add: algebra_simps)
    qed
    ultimately show ?thesis by simp
  qed
  have le: "T div S \<le> T" using STN by (metis div_by_1 zdiv_mono2 zero_less_one)
  have E64: "(if go_rem T S \<noteq> 0 then int64 (go_div T S + 1) else go_div T S) = E"
  proof (cases "T mod S = 0")
    case True
    with ceil show ?thesis by (simp add: q)
  next
    case False
    have "S \<noteq> 1" using False by auto
    have "T div S \<noteq> T \<or> T = 0" using STN \<open>S \<noteq> 1\<close> by (metis div_by_1 int_div_less_self le_less linorder_not_less)
    with False le T STN have "T div S + 1 \<le> T \<and> 0 \<le> T div S"
      by (auto simp: pos_imp_zdiv_nonneg_iff)
    then have "int64 (T div S + 1) = T div S + 1" using T by (intro int64_id) linarith+
    with False ceil show ?thesis by (simp add: q)
  qed
  have mul: "N < E \<Longrightarrow> int64 (T - int64 (N * S)) = T - N * S \<and> 0 \<le> T - N * S"
  proof -
    assume "N < E"
    then have "N * S \<le> (E - 1) * S" using STN by (intro mult_right_mono) simp_all
    also have "(E - 1) * S \<le> T - 1 + 0"
    proof -
      have "E * S = T + S - 1 - (T + S - 1) mod S" unfolding E_def by (rule minus_mod_eq_div_mult [symmetric])
      moreover have "0 \<le> (T + S - 1) mod S" using STN by simp
      ultimately have "E * S \<le> T + S - 1" by linarith
      then show ?thesis by (simp add: algebra_simps)
    qed
    finally have nm: "N * S \<le> T" by simp
    have nn: "0 \<le> N * S" using STN by simp
    have "int64 (N * S) = N * S" using nm nn T by (intro int64_id) linarith+
    moreover have "int64 (T - N * S) = T - N * S" using nm nn T by (intro int64_id) linarith+
    ultimately show ?thesis using nm by simp
  qed
  have NS: "0 \<le> N * S" using STN by simp
  have E0: "T = 0 \<Longrightarrow> E = 0" using STN by (simp add: E_def div_pos_pos_trivial)
  show ?thesis
    unfolding validateAuthorizationPage_def Let_def S_def [symmetric] T_def [symmetric] N_def [symmetric] E64
    using STN mul assms(1) E0 by (auto simp: E_def [symmetric]) (use NS in linarith)+
qed

lemma grant_segment: "permissionGrantSegment s \<longleftrightarrow> s = ''*'' \<or> concretePermissionSegment s"
  by (simp add: permissionGrantSegment_def concretePermissionSegment_def)

lemma valid_grant_iff: "validatePermissionGrant r a = Inr () \<longleftrightarrow> (\<exists>t. Matches t (r @ '':'' @ a))"
proof
  assume h: "validatePermissionGrant r a = Inr ()"
  then have g: "permissionGrantSegment r" "permissionGrantSegment a" "r = ''*'' \<longrightarrow> a = ''*''"
    by (auto simp: validatePermissionGrant_def split: if_splits)
  have x: "concretePermissionSegment ''x''" by code_simp
  consider "r = ''*''" "a = ''*''" | "concretePermissionSegment r" "a = ''*''"
    | "concretePermissionSegment r" "concretePermissionSegment a"
    using g by (auto simp: grant_segment)
  then show "\<exists>t. Matches t (r @ '':'' @ a)"
  proof cases
    case 1
    with x show ?thesis by (intro exI [of _ "PKey ''x'' ''x''"]) (simp add: Matches_cases IsConcrete_def)
  next
    case 2
    with x show ?thesis by (intro exI [of _ "PKey r ''x''"]) (simp add: Matches_cases IsConcrete_def)
  next
    case 3
    then show ?thesis by (intro exI [of _ "PKey r a"]) (simp add: Matches_cases IsConcrete_def Authority_def)
  qed
next
  assume "\<exists>t. Matches t (r @ '':'' @ a)"
  then obtain t where t: "IsConcrete t"
    and m: "r @ '':'' @ a \<in> {''*:*'', pk_resource t @ '':*'', Authority t}"
    unfolding Matches_cases by blast
  have seg: "concretePermissionSegment (pk_resource t)" "concretePermissionSegment (pk_action t)"
    using t by (simp_all add: IsConcrete_def)
  from m consider "r = ''*'' \<and> a = ''*''" | "r = pk_resource t \<and> a = ''*''" | "r = pk_resource t \<and> a = pk_action t"
    using key_unique [of r a "''*''" "''*''"] key_unique [of r a "pk_resource t" "''*''"]
      key_unique [of r a "pk_resource t" "pk_action t"] segment_no_colon seg
    by (auto simp: Authority_def)
  then show "validatePermissionGrant r a = Inr ()"
    using seg segment_not_star by cases (auto simp: validatePermissionGrant_def grant_segment)
qed

lemma bind_unit_Inr: "bind_ok (f :: 'e + unit) (\<lambda>_. Inr x) = Inr y \<longleftrightarrow> f = Inr () \<and> x = y"
  by (cases f) auto

lemma etag_results:
  "roleWithETag h v = Inr r \<Longrightarrow> validateRoleItem r = Inr () \<and> strongETagPattern (ro_ETag r) \<and> ro_ID r = ro_ID v"
  "permissionWithETag h q = Inr p \<Longrightarrow> validatePermissionItem p = Inr () \<and> strongETagPattern (pe_ETag p) \<and> pe_ID p = pe_ID q"
  by (auto simp: roleWithETag_def permissionWithETag_def strongETag_def Let_def bind_unit_Inr split: if_splits
      elim!: bind_ok_InrE)

lemma role_for_id:
  assumes "bind_ok (role_value raw) (roleWithETagForID i h) = Inr r"
  shows "validateRoleItem r = Inr () \<and> strongETagPattern (ro_ETag r) \<and> ro_ID r = i \<and> canonicalAuthorizationUUID i"
proof -
  from assms obtain v where "roleWithETagForID i h v = Inr r" by (elim bind_ok_InrE)
  then have "roleWithETag h v = Inr r" "ro_ID r = i"
    by (auto simp: roleWithETagForID_def elim!: bind_ok_InrE split: if_splits)
  with etag_results(1) [OF this(1)] show ?thesis
    by (auto simp: validateRoleItem_def split: if_splits)
qed

lemma permission_for_id:
  assumes "bind_ok (permission_value raw) (permissionWithETagForID i h) = Inr p"
  shows "validatePermissionItem p = Inr () \<and> strongETagPattern (pe_ETag p) \<and> pe_ID p = i \<and> canonicalAuthorizationUUID i"
proof -
  from assms obtain v where "permissionWithETagForID i h v = Inr p" by (elim bind_ok_InrE)
  then have "permissionWithETag h v = Inr p" "pe_ID p = i"
    by (auto simp: permissionWithETagForID_def elim!: bind_ok_InrE split: if_splits)
  with etag_results(2) [OF this(1)] show ?thesis
    by (auto simp: validatePermissionItem_def split: if_splits)
qed

lemma role_ops_Inr:
  "GetRole rt cx i s = (Inr r, s') \<Longrightarrow> \<exists>raw h. bind_ok (role_value raw) (roleWithETagForID i h) = Inr r"
  "UpdateRole rt cx i q m s = (Inr r, s') \<Longrightarrow> \<exists>raw h. bind_ok (role_value raw) (roleWithETagForID i h) = Inr r"
  by (auto simp: GetRole_def UpdateRole_def guarded_Inr dest!: call_Inr)

lemma permission_ops_Inr:
  "GetPermission rt cx i s = (Inr p, s') \<Longrightarrow> \<exists>raw h. bind_ok (permission_value raw) (permissionWithETagForID i h) = Inr p"
  "UpdatePermission rt cx i u m s = (Inr p, s') \<Longrightarrow> \<exists>raw h. bind_ok (permission_value raw) (permissionWithETagForID i h) = Inr p"
  by (auto simp: GetPermission_def UpdatePermission_def guarded_Inr dest!: call_Inr)

text \<open>An operation that asks for nothing but one scope, under \<open>/open/v1/\<close>.\<close>

definition uses_scope :: "string \<Rightarrow> 'a op \<Rightarrow> bool" where
  "uses_scope scope f \<longleftrightarrow> (\<forall>c w res c' w'. f (c, w) = (res, c', w') \<longrightarrow>
     (\<exists>path rs. sent w' = sent w @ rs \<and> portal_traffic c path scope rs))"

lemma uses_scope_call: "uses_scope scope (call rt cx m scope path bdy d zero extra k)"
  unfolding uses_scope_def
proof (intro allI impI)
  fix c w res c' w'
  assume h: "call rt cx m scope path bdy d zero extra k (c, w) = (res, c', w')"
  obtain r c1 w1 where rq: "requestJSONWithScopeAndHeaders rt cx m path scope bdy d zero extra (c, w) = (r, c1, w1)"
    by (metis prod_cases3)
  have "w' = w1" using h rq by (auto simp: call_def split: sum.splits prod.splits)
  with request_traffic(1) [OF rq] show "\<exists>path rs. sent w' = sent w @ rs \<and> portal_traffic c path scope rs"
    by blast
qed

lemma uses_scope_guarded: "(\<And>x. uses_scope scope (f x)) \<Longrightarrow> uses_scope scope (guarded g f)"
proof (cases g)
  case (Inl e)
  have "portal_traffic c [] scope []" for c by (simp add: portal_traffic_def)
  with Inl show ?thesis by (fastforce simp: uses_scope_def guarded_def)
next
  case (Inr x)
  assume "\<And>x. uses_scope scope (f x)"
  moreover have "guarded g f = f x" by (rule ext) (simp add: guarded_def Inr)
  ultimately show ?thesis by simp
qed

lemmas scope_rules = uses_scope_guarded uses_scope_call

section \<open>Properties\<close>

text \<open>
  A page is accepted exactly when it is the right page: with \<open>T\<close> elements in all and pages of
  \<open>S\<close> (1 to 100), there are \<open>T / S\<close> pages rounded up, and page \<open>N\<close> holds \<open>min S (T - N * S)\<close> items.
  The products and differences are taken in 64 bits, and none of them can overflow unnoticed.
\<close>

lemma validateAuthorizationPage_iff:
  assumes "0 \<le> items" and "pg_TotalElements p < 2 ^ 63" and "- (2 ^ 63) \<le> pg_TotalElements p"
  shows "validateAuthorizationPage items p = Inr () \<longleftrightarrow>
     1 \<le> pg_Size p \<and> pg_Size p \<le> 100 \<and> 0 \<le> pg_Number p \<and> 0 \<le> pg_TotalElements p \<and>
     pg_TotalPages p = (pg_TotalElements p + pg_Size p - 1) div pg_Size p \<and>
     (if pg_TotalElements p = 0 then pg_Number p = 0 \<and> items = 0
      else pg_Number p < pg_TotalPages p \<and> items = min (pg_Size p) (pg_TotalElements p - pg_Number p * pg_Size p))"
  using assms by (rule page_valid_iff)

lemma validateAuthorizationPage_iff_witness:
  "validateAuthorizationPage 5 \<lparr>pg_Size = 20, pg_Number = 2, pg_TotalElements = 45, pg_TotalPages = 3\<rparr> = Inr ()"
  using validateAuthorizationPage_iff [of 5 "\<lparr>pg_Size = 20, pg_Number = 2, pg_TotalElements = 45, pg_TotalPages = 3\<rparr>"]
  by simp

text \<open>
  The grammar of grants that the management client accepts is the one the matching rules
  understand: a resource and an action pass the check exactly when some target is satisfied by the
  grant they form, so no permission can be created or returned that would never match.
\<close>

lemma grant_grammar_agrees:
  "validatePermissionGrant resource action = Inr () \<longleftrightarrow> (\<exists>target. Matches target (resource @ '':'' @ action))"
  by (rule valid_grant_iff)

text \<open>
  Least privilege: each operation asks for a token of exactly its own scope and sends at most
  one request with it, under \<open>/open/v1/\<close>.
\<close>

lemma management_scopes:
  "uses_scope RolesReadScope (ListRoles rt cx opts) \<and> uses_scope RolesReadScope (GetRole rt cx i) \<and>
   uses_scope RolesWriteScope (CreateRole rt cx cr key) \<and> uses_scope RolesWriteScope (UpdateRole rt cx i ur tag) \<and>
   uses_scope RolesWriteScope (DeleteRole rt cx i tag) \<and>
   uses_scope PermissionsReadScope (ListPermissions rt cx opts) \<and> uses_scope PermissionsReadScope (GetPermission rt cx i) \<and>
   uses_scope PermissionsWriteScope (CreatePermission rt cx cp key) \<and>
   uses_scope PermissionsWriteScope (UpdatePermission rt cx i up tag) \<and>
   uses_scope PermissionsWriteScope (DeletePermission rt cx i tag) \<and>
   uses_scope RolePermissionsReadScope (ListRolePermissions rt cx i opts) \<and>
   uses_scope RolePermissionsWriteScope (ReplaceRolePermissions rt cx i ids tag) \<and>
   uses_scope UserRolesReadScope (ListUserRoles rt cx i opts) \<and>
   uses_scope UserRolesWriteScope (CreateUserRole rt cx i cu key) \<and>
   uses_scope UserRolesWriteScope (UpdateUserRole rt cx i a cond tag) \<and>
   uses_scope UserRolesWriteScope (DeleteUserRole rt cx i a tag)"
  unfolding ListRoles_def GetRole_def CreateRole_def UpdateRole_def DeleteRole_def ListPermissions_def
    GetPermission_def CreatePermission_def UpdatePermission_def DeletePermission_def ListRolePermissions_def
    ReplaceRolePermissions_def ListUserRoles_def CreateUserRole_def UpdateUserRole_def DeleteUserRole_def
  by (intro conjI scope_rules)

text \<open>
  An identifier with upper-case hexadecimal digits is accepted as an argument and sent, but no
  answer to it is ever accepted: the response must carry a lower-case identifier that equals the
  argument.
\<close>

lemma noncanonical_id_never_found:
  assumes "organizationManagementUUID i" and "\<not> canonicalAuthorizationUUID i"
  shows "authorizationPath ''roles'' ''role'' i = Inr (''/open/v1/roles/'' @ PathEscape i) \<and>
    fst (GetRole rt cx i s) \<noteq> Inr r \<and> fst (UpdateRole rt cx i ur tag s) \<noteq> Inr r \<and>
    fst (GetPermission rt cx i s) \<noteq> Inr p \<and> fst (UpdatePermission rt cx i up tag s) \<noteq> Inr p"
proof (intro conjI notI)
  show "authorizationPath ''roles'' ''role'' i = Inr (''/open/v1/roles/'' @ PathEscape i)"
    using assms(1) by (simp add: authorizationPath_def authorizationID_def)
  show False if "fst (GetRole rt cx i s) = Inr r"
    using that assms(2) role_ops_Inr(1) [of rt cx i s r "snd (GetRole rt cx i s)"] role_for_id
    by (metis prod.collapse)
  show False if "fst (UpdateRole rt cx i ur tag s) = Inr r"
    using that assms(2) role_ops_Inr(2) [of rt cx i ur tag s r "snd (UpdateRole rt cx i ur tag s)"] role_for_id
    by (metis prod.collapse)
  show False if "fst (GetPermission rt cx i s) = Inr p"
    using that assms(2) permission_ops_Inr(1) [of rt cx i s p "snd (GetPermission rt cx i s)"] permission_for_id
    by (metis prod.collapse)
  show False if "fst (UpdatePermission rt cx i up tag s) = Inr p"
    using that assms(2) permission_ops_Inr(2) [of rt cx i up tag s p "snd (UpdatePermission rt cx i up tag s)"] permission_for_id
    by (metis prod.collapse)
qed

lemma noncanonical_id_never_found_witness:
  "\<forall>rt cx s r. fst (GetRole rt cx ''0000000A-0000-1000-8000-000000000000'' s) \<noteq> Inr r"
proof -
  let ?i = "''0000000A-0000-1000-8000-000000000000''"
  have "split_on (CHR ''-'') ?i = [''0000000A'', ''0000'', ''1000'', ''8000'', ''000000000000'']"
    by simp
  then have "organizationManagementUUID ?i" "\<not> canonicalAuthorizationUUID ?i"
    by (simp_all add: organizationManagementUUID_def canonicalAuthorizationUUID_def uuid_groups_def repeated_def
        any_hex_def lower_hex_def less_eq_char_def)
  then show ?thesis
    using noncanonical_id_never_found [of ?i] by blast
qed

end
