(* ===== verification/Organization.thy ===== *)
theory Organization
  imports Authz_Mgmt Go_Fill
begin

text \<open>
  The Organization operations of \<open>PortalOpenAPIClient\<close> (organization_management_client.go):
  Organizations, invitations and members, with the paths and queries they ask for.  The answers are
  decoded and not checked further; where the code returns a value beside an error, the result here is
  the error.
\<close>

section \<open>Data\<close>

record Organization =
  og_ID :: string
  og_Name :: string
  og_Slug :: string
  og_Version :: int
  og_CreatedAt :: string
  og_UpdatedAt :: string
  og_ETag :: string

definition fill_Organization :: "Organization filler" where
  "fill_Organization = fill_struct [
     (''id'', field og_ID og_ID_update fill_string),
     (''name'', field og_Name og_Name_update fill_string),
     (''slug'', field og_Slug og_Slug_update fill_string),
     (''version'', field og_Version og_Version_update fill_int),
     (''createdAt'', field og_CreatedAt og_CreatedAt_update fill_string),
     (''updatedAt'', field og_UpdatedAt og_UpdatedAt_update fill_string)]"

definition zero_Organization :: Organization where
  "zero_Organization = \<lparr>og_ID = [], og_Name = [], og_Slug = [], og_Version = 0, og_CreatedAt = [], og_UpdatedAt = [],
     og_ETag = []\<rparr>"

record OrganizationPageMetadata =
  om_Size :: int
  om_Number :: int
  om_TotalElements :: int
  om_TotalPages :: int

definition fill_OrganizationPageMetadata :: "OrganizationPageMetadata filler" where
  "fill_OrganizationPageMetadata = fill_struct [
     (''size'', field om_Size om_Size_update fill_int),
     (''number'', field om_Number om_Number_update fill_int),
     (''totalElements'', field om_TotalElements om_TotalElements_update fill_int),
     (''totalPages'', field om_TotalPages om_TotalPages_update fill_int)]"

definition zero_OrganizationPageMetadata :: OrganizationPageMetadata where
  "zero_OrganizationPageMetadata = \<lparr>om_Size = 0, om_Number = 0, om_TotalElements = 0, om_TotalPages = 0\<rparr>"

record OrganizationPage =
  op_Content :: "Organization list option"
  op_Page :: OrganizationPageMetadata

definition fill_OrganizationPage :: "OrganizationPage filler" where
  "fill_OrganizationPage = fill_struct [
     (''content'', field op_Content op_Content_update (fill_slice fill_Organization zero_Organization)),
     (''page'', field op_Page op_Page_update fill_OrganizationPageMetadata)]"

definition zero_OrganizationPage :: OrganizationPage where
  "zero_OrganizationPage = \<lparr>op_Content = None, op_Page = zero_OrganizationPageMetadata\<rparr>"

record OrganizationInvitation =
  oi_ID :: string
  oi_Email :: string
  oi_Role :: string
  oi_Status :: string
  oi_DeliveryStatus :: string
  oi_ExpiresAt :: string
  oi_CreatedAt :: string
  oi_UpdatedAt :: string

definition fill_OrganizationInvitation :: "OrganizationInvitation filler" where
  "fill_OrganizationInvitation = fill_struct [
     (''id'', field oi_ID oi_ID_update fill_string),
     (''email'', field oi_Email oi_Email_update fill_string),
     (''role'', field oi_Role oi_Role_update fill_string),
     (''status'', field oi_Status oi_Status_update fill_string),
     (''deliveryStatus'', field oi_DeliveryStatus oi_DeliveryStatus_update fill_string),
     (''expiresAt'', field oi_ExpiresAt oi_ExpiresAt_update fill_string),
     (''createdAt'', field oi_CreatedAt oi_CreatedAt_update fill_string),
     (''updatedAt'', field oi_UpdatedAt oi_UpdatedAt_update fill_string)]"

definition zero_OrganizationInvitation :: OrganizationInvitation where
  "zero_OrganizationInvitation = \<lparr>oi_ID = [], oi_Email = [], oi_Role = [], oi_Status = [], oi_DeliveryStatus = [],
     oi_ExpiresAt = [], oi_CreatedAt = [], oi_UpdatedAt = []\<rparr>"

record OrganizationInvitationPage =
  oip_Content :: "OrganizationInvitation list option"
  oip_Page :: OrganizationPageMetadata

definition fill_OrganizationInvitationPage :: "OrganizationInvitationPage filler" where
  "fill_OrganizationInvitationPage = fill_struct [
     (''content'', field oip_Content oip_Content_update (fill_slice fill_OrganizationInvitation zero_OrganizationInvitation)),
     (''page'', field oip_Page oip_Page_update fill_OrganizationPageMetadata)]"

definition zero_OrganizationInvitationPage :: OrganizationInvitationPage where
  "zero_OrganizationInvitationPage = \<lparr>oip_Content = None, oip_Page = zero_OrganizationPageMetadata\<rparr>"

record OrganizationMember =
  ome_MembershipID :: string
  ome_UserID :: string
  ome_Email :: string
  ome_DisplayName :: string
  ome_Role :: string
  ome_JoinedAt :: string
  ome_UpdatedAt :: string
  ome_Version :: int

definition fill_OrganizationMember :: "OrganizationMember filler" where
  "fill_OrganizationMember = fill_struct [
     (''membershipId'', field ome_MembershipID ome_MembershipID_update fill_string),
     (''userId'', field ome_UserID ome_UserID_update fill_string),
     (''email'', field ome_Email ome_Email_update fill_string),
     (''displayName'', field ome_DisplayName ome_DisplayName_update fill_string),
     (''role'', field ome_Role ome_Role_update fill_string),
     (''joinedAt'', field ome_JoinedAt ome_JoinedAt_update fill_string),
     (''updatedAt'', field ome_UpdatedAt ome_UpdatedAt_update fill_string),
     (''version'', field ome_Version ome_Version_update fill_int)]"

definition zero_OrganizationMember :: OrganizationMember where
  "zero_OrganizationMember = \<lparr>ome_MembershipID = [], ome_UserID = [], ome_Email = [], ome_DisplayName = [], ome_Role = [],
     ome_JoinedAt = [], ome_UpdatedAt = [], ome_Version = 0\<rparr>"

record OrganizationMemberPage =
  omp_Content :: "OrganizationMember list option"
  omp_Page :: OrganizationPageMetadata

definition fill_OrganizationMemberPage :: "OrganizationMemberPage filler" where
  "fill_OrganizationMemberPage = fill_struct [
     (''content'', field omp_Content omp_Content_update (fill_slice fill_OrganizationMember zero_OrganizationMember)),
     (''page'', field omp_Page omp_Page_update fill_OrganizationPageMetadata)]"

definition zero_OrganizationMemberPage :: OrganizationMemberPage where
  "zero_OrganizationMemberPage = \<lparr>omp_Content = None, omp_Page = zero_OrganizationPageMetadata\<rparr>"


text \<open>A filler as a decoder that fails on an error.\<close>

definition dec_of :: "'a filler \<Rightarrow> json \<Rightarrow> 'a \<Rightarrow> 'a option" where
  "dec_of f v old = (let (x, ok) = f v old in if ok then Some x else None)"

record OrganizationListOptions =
  lo_Search :: "string option"
  lo_Page :: "int option"
  lo_Size :: "int option"
  lo_Sort :: "string list"
  lo_Direction :: "string list"

record OrganizationInvitationListOptions =
  li_Status :: "string option"
  li_Page :: "int option"
  li_Size :: "int option"

record OrganizationMemberListOptions =
  lm_Search :: "string option"
  lm_Page :: "int option"
  lm_Size :: "int option"

record CreateOrganizationRequest =
  cor_Name :: string
  cor_Slug :: string

record UpdateOrganizationRequest =
  uor_Name :: "string option"
  uor_Slug :: "string option"

record CreateOrganizationInvitationRequest =
  coi_Email :: string
  coi_Role :: "string option"
  coi_SendEmail :: "bool option"

definition create_organization_json :: "CreateOrganizationRequest \<Rightarrow> json" where
  "create_organization_json r = JObj [(''name'', JStr (cor_Name r)), (''slug'', JStr (cor_Slug r))]"

definition update_organization_json :: "UpdateOrganizationRequest \<Rightarrow> json" where
  "update_organization_json r = JObj (opt_member ''name'' (uor_Name r) @ opt_member ''slug'' (uor_Slug r))"

definition create_invitation_json :: "CreateOrganizationInvitationRequest \<Rightarrow> json" where
  "create_invitation_json r = JObj ([(''email'', JStr (coi_Email r))] @ opt_member ''role'' (coi_Role r) @
     (case coi_SendEmail r of None \<Rightarrow> [] | Some b \<Rightarrow> [(''sendEmail'', JBool b)]))"

section \<open>Paths and queries\<close>

definition organizationManagementIDSegment :: "string \<Rightarrow> string \<Rightarrow> portal_error + string" where
  "organizationManagementIDSegment value resource = (if \<not> organizationManagementUUID value
     then Inl (RequestError 0 (''invalid_'' @ resource @ ''_id'') [] []) else Inr (PathEscape value))"

definition organizationPath :: "string \<Rightarrow> portal_error + string" where
  "organizationPath organizationID = bind_ok (organizationManagementIDSegment organizationID ''organization'')
     (\<lambda>segment. Inr (''/open/v1/organizations/'' @ segment))"

definition organizationInvitationPath :: "string \<Rightarrow> string \<Rightarrow> portal_error + string" where
  "organizationInvitationPath organizationID invitationID = bind_ok (organizationPath organizationID) (\<lambda>path.
     bind_ok (organizationManagementIDSegment invitationID ''invitation'') (\<lambda>segment.
     Inr (path @ ''/invitations/'' @ segment)))"

definition organizationMemberPath :: "string \<Rightarrow> string \<Rightarrow> portal_error + string" where
  "organizationMemberPath organizationID membershipID = bind_ok (organizationPath organizationID) (\<lambda>path.
     bind_ok (organizationManagementIDSegment membershipID ''membership'') (\<lambda>segment.
     Inr (path @ ''/members/'' @ segment)))"

text \<open>\<open>url.Values\<close> as the list of what was set and added.\<close>

definition opt_param :: "string \<Rightarrow> string option \<Rightarrow> (string \<times> string) list" where
  "opt_param name v = (case v of None \<Rightarrow> [] | Some t \<Rightarrow> [(name, t)])"

definition opt_number :: "string \<Rightarrow> int option \<Rightarrow> (string \<times> string) list" where
  "opt_number name v = opt_param name (map_option itoa v)"

definition queryString :: "(string \<times> string) list \<Rightarrow> string" where
  "queryString values = (let encoded = Encode values in if encoded \<noteq> [] then ''?'' @ encoded else [])"

definition organizationQuery :: "OrganizationListOptions \<Rightarrow> string" where
  "organizationQuery options = queryString (opt_param ''search'' (lo_Search options) @ opt_number ''page'' (lo_Page options) @
     opt_number ''size'' (lo_Size options) @ map (Pair ''sort'') (lo_Sort options) @
     map (Pair ''direction'') (lo_Direction options))"

definition organizationInvitationQuery :: "OrganizationInvitationListOptions \<Rightarrow> string" where
  "organizationInvitationQuery options = queryString (opt_param ''status'' (li_Status options) @
     opt_number ''page'' (li_Page options) @ opt_number ''size'' (li_Size options))"

definition organizationMemberQuery :: "OrganizationMemberListOptions \<Rightarrow> string" where
  "organizationMemberQuery options = queryString (opt_param ''search'' (lm_Search options) @
     opt_number ''page'' (lm_Page options) @ opt_number ''size'' (lm_Size options))"

definition idempotencyHeader :: "string option \<Rightarrow> header" where
  "idempotencyHeader options = (case options of None \<Rightarrow> []
     | Some k \<Rightarrow> if k = [] then [] else header_set ''Idempotency-Key'' k [])"

definition ifMatchHeader :: "string option \<Rightarrow> header" where
  "ifMatchHeader options = (case options of None \<Rightarrow> []
     | Some t \<Rightarrow> if t = [] then [] else header_set ''If-Match'' t [])"

section \<open>Operations\<close>

text \<open>The answer with the entity tag of its headers, and the answer alone.\<close>

definition with_etag :: "Organization \<Rightarrow> header \<Rightarrow> portal_error + Organization" where
  "with_etag x h = Inr (x\<lparr>og_ETag := header_get ''Etag'' h\<rparr>)"

definition as_is :: "'a \<Rightarrow> header \<Rightarrow> portal_error + 'a" where
  "as_is x h = Inr x"

definition ListOrganizations :: "runtime \<Rightarrow> ctx \<Rightarrow> OrganizationListOptions \<Rightarrow> OrganizationPage op" where
  "ListOrganizations rt cx options =
     call rt cx ''GET'' OrganizationsReadScope (''/open/v1/organizations'' @ organizationQuery options) None
       (Some (dec_of fill_OrganizationPage)) zero_OrganizationPage [] as_is"

definition CreateOrganization :: "runtime \<Rightarrow> ctx \<Rightarrow> CreateOrganizationRequest \<Rightarrow> string option \<Rightarrow> Organization op" where
  "CreateOrganization rt cx request options =
     call rt cx ''POST'' OrganizationsWriteScope ''/open/v1/organizations'' (Some (create_organization_json request))
       (Some (dec_of fill_Organization)) zero_Organization (idempotencyHeader options) with_etag"

definition GetOrganization :: "runtime \<Rightarrow> ctx \<Rightarrow> string \<Rightarrow> Organization op" where
  "GetOrganization rt cx organizationID = guarded (organizationPath organizationID) (\<lambda>path.
     call rt cx ''GET'' OrganizationsReadScope path None (Some (dec_of fill_Organization)) zero_Organization [] with_etag)"

definition UpdateOrganization :: "runtime \<Rightarrow> ctx \<Rightarrow> string \<Rightarrow> UpdateOrganizationRequest \<Rightarrow> string option \<Rightarrow> Organization op" where
  "UpdateOrganization rt cx organizationID request options = guarded (organizationPath organizationID) (\<lambda>path.
     call rt cx ''PATCH'' OrganizationsWriteScope path (Some (update_organization_json request))
       (Some (dec_of fill_Organization)) zero_Organization (ifMatchHeader options) with_etag)"

definition DeleteOrganization :: "runtime \<Rightarrow> ctx \<Rightarrow> string \<Rightarrow> string option \<Rightarrow> unit op" where
  "DeleteOrganization rt cx organizationID options = guarded (organizationPath organizationID) (\<lambda>path.
     call rt cx ''DELETE'' OrganizationsWriteScope path None None () (ifMatchHeader options) as_is)"

definition ListOrganizationInvitations :: "runtime \<Rightarrow> ctx \<Rightarrow> string \<Rightarrow> OrganizationInvitationListOptions \<Rightarrow> OrganizationInvitationPage op" where
  "ListOrganizationInvitations rt cx organizationID options = guarded (organizationPath organizationID) (\<lambda>path.
     call rt cx ''GET'' OrganizationInvitationsReadScope (path @ ''/invitations'' @ organizationInvitationQuery options) None
       (Some (dec_of fill_OrganizationInvitationPage)) zero_OrganizationInvitationPage [] as_is)"

definition CreateOrganizationInvitation :: "runtime \<Rightarrow> ctx \<Rightarrow> string \<Rightarrow> CreateOrganizationInvitationRequest \<Rightarrow> string option \<Rightarrow> OrganizationInvitation op" where
  "CreateOrganizationInvitation rt cx organizationID request options = guarded (organizationPath organizationID) (\<lambda>path.
     call rt cx ''POST'' OrganizationInvitationsWriteScope (path @ ''/invitations'') (Some (create_invitation_json request))
       (Some (dec_of fill_OrganizationInvitation)) zero_OrganizationInvitation (idempotencyHeader options) as_is)"

definition GetOrganizationInvitation :: "runtime \<Rightarrow> ctx \<Rightarrow> string \<Rightarrow> string \<Rightarrow> OrganizationInvitation op" where
  "GetOrganizationInvitation rt cx organizationID invitationID = guarded (organizationInvitationPath organizationID invitationID) (\<lambda>path.
     call rt cx ''GET'' OrganizationInvitationsReadScope path None (Some (dec_of fill_OrganizationInvitation)) zero_OrganizationInvitation [] as_is)"

definition ResendOrganizationInvitation :: "runtime \<Rightarrow> ctx \<Rightarrow> string \<Rightarrow> string \<Rightarrow> OrganizationInvitation op" where
  "ResendOrganizationInvitation rt cx organizationID invitationID = guarded (organizationInvitationPath organizationID invitationID) (\<lambda>path.
     call rt cx ''POST'' OrganizationInvitationsWriteScope (path @ ''/resend'') None
       (Some (dec_of fill_OrganizationInvitation)) zero_OrganizationInvitation [] as_is)"

definition CancelOrganizationInvitation :: "runtime \<Rightarrow> ctx \<Rightarrow> string \<Rightarrow> string \<Rightarrow> unit op" where
  "CancelOrganizationInvitation rt cx organizationID invitationID = guarded (organizationInvitationPath organizationID invitationID) (\<lambda>path.
     call rt cx ''DELETE'' OrganizationInvitationsWriteScope path None None () [] as_is)"

definition ListOrganizationMembers :: "runtime \<Rightarrow> ctx \<Rightarrow> string \<Rightarrow> OrganizationMemberListOptions \<Rightarrow> OrganizationMemberPage op" where
  "ListOrganizationMembers rt cx organizationID options = guarded (organizationPath organizationID) (\<lambda>path.
     call rt cx ''GET'' OrganizationMembersReadScope (path @ ''/members'' @ organizationMemberQuery options) None
       (Some (dec_of fill_OrganizationMemberPage)) zero_OrganizationMemberPage [] as_is)"

definition GetOrganizationMember :: "runtime \<Rightarrow> ctx \<Rightarrow> string \<Rightarrow> string \<Rightarrow> OrganizationMember op" where
  "GetOrganizationMember rt cx organizationID membershipID = guarded (organizationMemberPath organizationID membershipID) (\<lambda>path.
     call rt cx ''GET'' OrganizationMembersReadScope path None (Some (dec_of fill_OrganizationMember)) zero_OrganizationMember [] as_is)"

definition UpdateOrganizationMemberRole :: "runtime \<Rightarrow> ctx \<Rightarrow> string \<Rightarrow> string \<Rightarrow> string \<Rightarrow> string option \<Rightarrow> OrganizationMember op" where
  "UpdateOrganizationMemberRole rt cx organizationID membershipID role options = guarded (organizationMemberPath organizationID membershipID) (\<lambda>path.
     call rt cx ''PATCH'' OrganizationMembersWriteScope path (Some (JObj [(''role'', JStr role)]))
       (Some (dec_of fill_OrganizationMember)) zero_OrganizationMember (ifMatchHeader options) as_is)"

definition RemoveOrganizationMember :: "runtime \<Rightarrow> ctx \<Rightarrow> string \<Rightarrow> string \<Rightarrow> unit op" where
  "RemoveOrganizationMember rt cx organizationID membershipID = guarded (organizationMemberPath organizationID membershipID) (\<lambda>path.
     call rt cx ''DELETE'' OrganizationMembersWriteScope path None None () [] as_is)"

section \<open>Facts\<close>

lemma any_hex_unreserved: "any_hex c \<Longrightarrow> unreserved c"
  by (auto simp: any_hex_def lower_hex_def unreserved_def alnum_def lower_alnum_def digit_def less_eq_char_def)

lemma PathEscape_id: "list_all unreserved s \<Longrightarrow> PathEscape s = s"
  by (induction s) (simp_all add: PathEscape_def)

lemma split_on_unreserved:
  "list_all (list_all unreserved) (split_on (CHR ''-'') s) \<Longrightarrow> list_all unreserved s"
proof (induction s)
  case (Cons c cs)
  then show ?case
    by (cases "c = CHR ''-''") (auto simp: unreserved_def split: list.splits)
qed simp

text \<open>A valid identifier goes into the path as it is.\<close>

lemma uuid_groups_unreserved:
  assumes "uuid_groups any_hex versions variants s" and "list_all unreserved versions" and "list_all unreserved variants"
  shows "list_all unreserved s"
proof -
  obtain a b c d e where s: "split_on (CHR ''-'') s = [a, b, c, d, e]"
    using assms(1) by (auto simp: uuid_groups_def split: list.splits)
  have hex: "list_all any_hex g \<Longrightarrow> list_all unreserved g" for g
    by (auto simp: list_all_iff any_hex_unreserved)
  have "list_all unreserved a \<and> list_all unreserved b \<and> list_all unreserved e"
    using assms(1) hex by (simp add: uuid_groups_def s repeated_def)
  moreover have "list_all unreserved c"
    using assms(1,2) hex by (cases c) (auto simp: uuid_groups_def s repeated_def list_all_iff)
  moreover have "list_all unreserved d"
    using assms(1,3) hex by (cases d) (auto simp: uuid_groups_def s repeated_def list_all_iff)
  ultimately show ?thesis
    using split_on_unreserved [of s] by (simp add: s)
qed

lemma organization_uuid_unreserved: "organizationManagementUUID s \<Longrightarrow> list_all unreserved s"
  unfolding organizationManagementUUID_def
  by (erule uuid_groups_unreserved) (simp_all add: unreserved_def alnum_def lower_alnum_def digit_def less_eq_char_def)

lemma segment_Inr:
  "organizationManagementIDSegment v r = Inr x \<longleftrightarrow> organizationManagementUUID v \<and> x = v"
  by (auto simp: organizationManagementIDSegment_def PathEscape_id organization_uuid_unreserved)

lemma organization_paths:
  "organizationPath i = Inr p \<longleftrightarrow> organizationManagementUUID i \<and> p = ''/open/v1/organizations/'' @ i"
  "organizationInvitationPath i v = Inr p \<longleftrightarrow> organizationManagementUUID i \<and> organizationManagementUUID v \<and>
     p = ''/open/v1/organizations/'' @ i @ ''/invitations/'' @ v"
  "organizationMemberPath i m = Inr p \<longleftrightarrow> organizationManagementUUID i \<and> organizationManagementUUID m \<and>
     p = ''/open/v1/organizations/'' @ i @ ''/members/'' @ m"
  by (auto simp: organizationPath_def organizationInvitationPath_def organizationMemberPath_def segment_Inr bind_ok_Inr_iff)

text \<open>Each operation asks for a token of its own scope only.\<close>

lemma organization_scopes:
  "uses_scope OrganizationsReadScope (ListOrganizations rt cx lo)"
  "uses_scope OrganizationsWriteScope (CreateOrganization rt cx co key)"
  "uses_scope OrganizationsReadScope (GetOrganization rt cx i)"
  "uses_scope OrganizationsWriteScope (UpdateOrganization rt cx i uo tag)"
  "uses_scope OrganizationsWriteScope (DeleteOrganization rt cx i tag)"
  "uses_scope OrganizationInvitationsReadScope (ListOrganizationInvitations rt cx i li)"
  "uses_scope OrganizationInvitationsWriteScope (CreateOrganizationInvitation rt cx i ci key)"
  "uses_scope OrganizationInvitationsReadScope (GetOrganizationInvitation rt cx i v)"
  "uses_scope OrganizationInvitationsWriteScope (ResendOrganizationInvitation rt cx i v)"
  "uses_scope OrganizationInvitationsWriteScope (CancelOrganizationInvitation rt cx i v)"
  "uses_scope OrganizationMembersReadScope (ListOrganizationMembers rt cx i lm)"
  "uses_scope OrganizationMembersReadScope (GetOrganizationMember rt cx i m)"
  "uses_scope OrganizationMembersWriteScope (UpdateOrganizationMemberRole rt cx i m role tag)"
  "uses_scope OrganizationMembersWriteScope (RemoveOrganizationMember rt cx i m)"
  unfolding ListOrganizations_def CreateOrganization_def GetOrganization_def UpdateOrganization_def
    DeleteOrganization_def ListOrganizationInvitations_def CreateOrganizationInvitation_def
    GetOrganizationInvitation_def ResendOrganizationInvitation_def CancelOrganizationInvitation_def
    ListOrganizationMembers_def GetOrganizationMember_def UpdateOrganizationMemberRole_def RemoveOrganizationMember_def
  by (rule scope_rules | assumption)+

section \<open>Queries are read back\<close>

text \<open>What a server reads out of a query: the pairs between the ampersands, unescaped.\<close>

definition hex_digit :: "char \<Rightarrow> nat" where
  "hex_digit c = (case hex_val c of None \<Rightarrow> 0 | Some n \<Rightarrow> n)"

fun unescape :: "string \<Rightarrow> string" where
  "unescape [] = []"
| "unescape (c # s) = (if c = CHR ''%'' then (case s of a # b # r \<Rightarrow> char_of (16 * hex_digit a + hex_digit b) # unescape r | _ \<Rightarrow> [])
     else (if c = CHR ''+'' then CHR '' '' else c) # unescape s)"

definition parse_query :: "string \<Rightarrow> (string \<times> string) list" where
  "parse_query q = (if q = [] then [] else
     map (\<lambda>p. (unescape (takeWhile (\<lambda>c. c \<noteq> CHR ''='') p), unescape (tl (dropWhile (\<lambda>c. c \<noteq> CHR ''='') p)))) (split_on (CHR ''&'') q))"

lemma hex_digit_upper: "n < 16 \<Longrightarrow> hex_digit (hex_upper n) = n"
proof -
  have "\<forall>n < 16. hex_digit (hex_upper n) = n" by code_simp
  then show "n < 16 \<Longrightarrow> hex_digit (hex_upper n) = n" by blast
qed

lemma unescape_percent: "unescape (percent c @ s) = c # unescape s"
proof -
  have "16 * (byte c div 16) + byte c mod 16 = byte c" by simp
  moreover have "byte c div 16 < 16" using byte_less [of c] by simp
  ultimately show ?thesis by (simp add: percent_def hex_digit_upper byte_def)
qed

lemma unescape_QueryEscape: "unescape (QueryEscape s) = s"
proof (induction s)
  case (Cons c s)
  have step: "QueryEscape (c # s) = (if c = CHR '' '' then ''+'' else if unreserved c then [c] else percent c) @ QueryEscape s" for c s
    by (simp add: QueryEscape_def)
  have "\<not> unreserved (CHR ''%'')" "\<not> unreserved (CHR ''+'')" by code_simp+
  with Cons show ?case
    by (cases "c = CHR '' ''"; cases "unreserved c") (auto simp: step unescape_percent)
qed (simp add: QueryEscape_def)

lemma QueryEscape_no_equals: "c \<in> set (QueryEscape s) \<Longrightarrow> c \<noteq> CHR ''='' \<and> c \<noteq> CHR ''&''"
proof -
  assume h: "c \<in> set (QueryEscape s)"
  have "\<not> unreserved (CHR ''='')" by code_simp
  moreover have "c \<noteq> CHR ''=''" if "c \<in> set (percent d)" for d
    using percent_chars [OF that] by (auto simp: byte_def)
  ultimately show ?thesis using h QueryEscape_chars [OF h] by (auto simp: QueryEscape_def split: if_splits)
qed

lemma split_on_join:
  "ps \<noteq> [] \<Longrightarrow> (\<And>p. p \<in> set ps \<Longrightarrow> sep \<notin> set p) \<Longrightarrow> split_on sep (join [sep] ps) = ps"
  by (induction "[sep]" ps rule: join.induct) (simp_all add: split_on_no_sep split_on_one)

lemma Encode_read: "parse_query (Encode vs) = sort_key fst vs"
proof (cases "vs = []")
  case False
  let ?item = "\<lambda>(k, v). QueryEscape k @ ''='' @ QueryEscape v"
  obtain p ps where sorted: "sort_key fst vs = p # ps" using False by (metis length_0_conv length_sort neq_Nil_conv)
  have ne: "Encode vs \<noteq> []"
  proof -
    from sorted show ?thesis by (cases ps; cases p) (simp_all add: Encode_def)
  qed
  have items: "split_on (CHR ''&'') (Encode vs) = map ?item (sort_key fst vs)"
    unfolding Encode_def
  proof (rule split_on_join)
    show "map ?item (sort_key fst vs) \<noteq> []" by (simp add: sorted)
    fix p assume "p \<in> set (map ?item (sort_key fst vs))"
    then show "CHR ''&'' \<notin> set p" by (auto dest: QueryEscape_no_equals)
  qed
  have take: "takeWhile (\<lambda>c. c \<noteq> CHR ''='') (QueryEscape k @ CHR ''='' # r) = QueryEscape k"
    and drop: "dropWhile (\<lambda>c. c \<noteq> CHR ''='') (QueryEscape k @ CHR ''='' # r) = CHR ''='' # r" for k r
    by (auto simp: takeWhile_append dropWhile_append dest: QueryEscape_no_equals)
  show ?thesis
    using ne by (auto simp: parse_query_def items take drop unescape_QueryEscape intro!: map_idI)
qed (simp add: Encode_def parse_query_def)

lemma queryString_read: "parse_query (tl (queryString vs)) = sort_key fst vs"
  using Encode_read [of vs] by (simp add: queryString_def Let_def parse_query_def split: if_splits)

section \<open>Properties\<close>

text \<open>
  What is listed is what was asked for: from the query of a list request the server reads back
  exactly the options that were set, the sort keys and directions in the order they were given, and
  no search text can add, hide or change a parameter.
\<close>

lemma organizationQuery_read:
  "parse_query (tl (organizationQuery options)) =
     map (Pair ''direction'') (lo_Direction options) @ opt_number ''page'' (lo_Page options) @
     opt_param ''search'' (lo_Search options) @ opt_number ''size'' (lo_Size options) @ map (Pair ''sort'') (lo_Sort options)"
  (is "_ = ?sorted")
  unfolding organizationQuery_def queryString_read
proof (rule properties_for_sort_key)
  let ?given = "opt_param ''search'' (lo_Search options) @ opt_number ''page'' (lo_Page options) @
     opt_number ''size'' (lo_Size options) @ map (Pair ''sort'') (lo_Sort options) @ map (Pair ''direction'') (lo_Direction options)"
  show "mset ?sorted = mset ?given" by simp
  have keys: "fst p = k" if "p \<in> set (opt_param k v)" for p k v using that by (auto simp: opt_param_def split: option.splits)
  have only: "filter (\<lambda>x. k = fst x) (opt_param n v) = (if k = n then opt_param n v else [])"
    "filter (\<lambda>x. k = fst x) (map (Pair n) xs) = (if k = n then map (Pair n) xs else [])" for k n v and xs :: "string list"
    by (auto simp: opt_param_def filter_map o_def split: option.splits)
  show "filter (\<lambda>x. fst p = fst x) ?sorted = filter (\<lambda>x. fst p = fst x) ?given" for p
    by (simp add: opt_number_def only)
  have "sorted (map fst (opt_param k v))" for k v by (simp add: opt_param_def split: option.split)
  then show "sorted (map fst ?sorted)"
    by (auto simp: sorted_append opt_number_def o_def sorted_replicate map_replicate_const dest!: keys)
qed

end
