(* ===== verification/Go_Url.thy ===== *)
theory Go_Url
  imports Go_Json
begin

text \<open>
  \<open>url.Parse\<close> of net/url (Go 1.23) as far as the sources read its result: whether the string parses,
  the scheme, the host name, whether there is user information, and whether there is a fragment.
\<close>

record url_view =
  uv_scheme :: string
  uv_hostname :: string
  uv_user :: bool
  uv_fragment :: bool

text \<open>\<open>strings.Cut (s, c)\<close>, and the part of a string after the last \<open>c\<close>.\<close>

definition cut :: "char \<Rightarrow> string \<Rightarrow> string \<times> string" where
  "cut c s = (takeWhile (\<lambda>d. d \<noteq> c) s, tl (dropWhile (\<lambda>d. d \<noteq> c) s))"

definition before_last :: "char \<Rightarrow> string \<Rightarrow> string" where
  "before_last c s = rev (tl (dropWhile (\<lambda>d. d \<noteq> c) (rev s)))"

definition after_last :: "char \<Rightarrow> string \<Rightarrow> string" where
  "after_last c s = rev (takeWhile (\<lambda>d. d \<noteq> c) (rev s))"

definition letter :: "char \<Rightarrow> bool" where
  "letter c = (alnum c \<and> \<not> digit c)"

text \<open>\<open>getScheme\<close>: \<open>None\<close> is the error of a leading colon.\<close>

definition getScheme :: "string \<Rightarrow> (string \<times> string) option" where
  "getScheme s =
     (let sch = takeWhile (\<lambda>c. alnum c \<or> c \<in> set ''+-.'') s; rest = drop (length sch) s in
      if s \<noteq> [] \<and> hd s = CHR '':'' then None
      else if sch = [] \<or> \<not> letter (hd sch) \<or> rest = [] \<or> hd rest \<noteq> CHR '':'' then Some ([], s)
      else Some (sch, tl rest))"

text \<open>Escapes: a percent sign needs two hexadecimal digits behind it.\<close>

fun escapes_ok :: "string \<Rightarrow> bool" where
  "escapes_ok [] = True"
| "escapes_ok (c # s) = (if c = CHR ''%''
     then (case s of a # b # r \<Rightarrow> any_hex a \<and> any_hex b | _ \<Rightarrow> False) \<and> escapes_ok s
     else escapes_ok s)"

definition host_char :: "char \<Rightarrow> bool" where
  "host_char c = (byte c \<ge> 128 \<or> alnum c \<or> c \<in> set ''-_.~!$&()*+,;=:[]<>'' \<or> c = CHR 0x22 \<or> c = CHR 0x27)"

text \<open>
  \<open>unescape (s, encodeHost)\<close>: an escape of an ASCII byte is only allowed as \<open>%25\<close>, and in a zone
  (\<open>encodeZone\<close>) an escaped byte must be one that a host may have, or a space or a percent sign.
\<close>

fun unescape_host :: "bool \<Rightarrow> string \<Rightarrow> string option" where
  "unescape_host zone [] = Some []"
| "unescape_host zone (c # s) = (if c = CHR ''%''
     then (case s of a # b # r \<Rightarrow>
        (case (hex_val a, hex_val b) of
           (Some x, Some y) \<Rightarrow>
             (let d = char_of (16 * x + y) in
              if (\<not> zone \<and> x < 8 \<and> \<not> (a = CHR ''2'' \<and> b = CHR ''5'')) \<or>
                 (zone \<and> \<not> (a = CHR ''2'' \<and> b = CHR ''5'') \<and> d \<noteq> CHR '' '' \<and> (\<not> host_char d \<or> byte d \<ge> 128)) then None
              else map_option (Cons d) (unescape_host zone r))
         | _ \<Rightarrow> None)
      | _ \<Rightarrow> None)
     else if \<not> host_char c then None else map_option (Cons c) (unescape_host zone s))"

text \<open>\<open>validOptionalPort\<close>: nothing, or a colon and digits.\<close>

definition validOptionalPort :: "string \<Rightarrow> bool" where
  "validOptionalPort p = (p = [] \<or> hd p = CHR '':'' \<and> list_all digit (tl p))"

fun find_zone :: "string \<Rightarrow> nat option" where
  "find_zone [] = None"
| "find_zone (c # s) = (if has_prefix ''%25'' (c # s) then Some 0 else map_option Suc (find_zone s))"

definition parseHost :: "string \<Rightarrow> string option" where
  "parseHost host =
     (if has_prefix ''['' host then
        (if CHR '']'' \<notin> set host then None
         else if \<not> validOptionalPort (after_last (CHR '']'') host) then None
         else (let inner = before_last (CHR '']'') host in (case find_zone inner of
            Some z \<Rightarrow> Option.bind (unescape_host False (take z host)) (\<lambda>h1.
              Option.bind (unescape_host True (drop z inner)) (\<lambda>h2.
              map_option (\<lambda>h3. h1 @ h2 @ h3) (unescape_host False (drop (length inner) host))))
          | None \<Rightarrow> unescape_host False host)))
      else if CHR '':'' \<in> set host \<and> \<not> validOptionalPort (CHR '':'' # after_last (CHR '':'') host) then None
      else unescape_host False host)"

definition validUserinfo :: "string \<Rightarrow> bool" where
  "validUserinfo = list_all (\<lambda>c. alnum c \<or> c \<in> set ''-._:~!$&()*+,;=%@'' \<or> c = CHR 0x27)"

text \<open>The authority: the host and whether there is user information, whose escapes must be right.\<close>

definition parseAuthority :: "string \<Rightarrow> (string \<times> bool) option" where
  "parseAuthority a =
     (if CHR ''@'' \<notin> set a then map_option (\<lambda>h. (h, False)) (parseHost a)
      else Option.bind (parseHost (after_last (CHR ''@'') a)) (\<lambda>h.
        let u = before_last (CHR ''@'') a in
        if validUserinfo u \<and> escapes_ok u then Some (h, True) else None))"

text \<open>\<open>URL.Hostname\<close>: the host without its port and without brackets.\<close>

definition Hostname :: "string \<Rightarrow> string" where
  "Hostname host =
     (let h = (if CHR '':'' \<in> set host \<and> validOptionalPort (CHR '':'' # after_last (CHR '':'') host)
               then before_last (CHR '':'') host else host)
      in if has_prefix ''['' h \<and> has_suffix '']'' h then butlast (tl h) else h)"

definition url_parse :: "string \<Rightarrow> url_view option" where
  "url_parse raw =
     (let (u, frag) = cut (CHR ''#'') raw in
      if list_ex (\<lambda>c. byte c < 32 \<or> byte c = 127) u then None
      else if \<not> escapes_ok frag then None
      else if u = ''*'' then Some \<lparr>uv_scheme = [], uv_hostname = [], uv_user = False, uv_fragment = (frag \<noteq> [])\<rparr>
      else (case getScheme u of
        None \<Rightarrow> None
      | Some (sch, rest0) \<Rightarrow>
         (let scheme = map (\<lambda>c. if CHR ''A'' \<le> c \<and> c \<le> CHR ''Z'' then char_of (byte c + 32) else c) sch;
              rest = fst (cut (CHR ''?'') rest0);
              view = (\<lambda>host user. Some \<lparr>uv_scheme = scheme, uv_hostname = Hostname host, uv_user = user, uv_fragment = (frag \<noteq> [])\<rparr>) in
          if \<not> has_prefix ''/'' rest \<and> scheme \<noteq> [] then view [] False
          else if \<not> has_prefix ''/'' rest \<and> CHR '':'' \<in> set (fst (cut (CHR ''/'') rest)) then None
          else if has_prefix ''//'' rest \<and> (scheme \<noteq> [] \<or> \<not> has_prefix ''///'' rest) then
            (let authority = fst (cut (CHR ''/'') (drop 2 rest)) in
             (case parseAuthority authority of
                None \<Rightarrow> None
              | Some (host, user) \<Rightarrow>
                  if escapes_ok (drop (length authority + 2) rest) then view host user else None))
          else if escapes_ok rest then view [] False else None)))"

lemma url_parse_examples:
  "url_parse ''https://a.b:8080/x?y=1'' = Some \<lparr>uv_scheme = ''https'', uv_hostname = ''a.b'', uv_user = False, uv_fragment = False\<rparr>"
  "url_parse ''https://u@a/x#f'' = Some \<lparr>uv_scheme = ''https'', uv_hostname = ''a'', uv_user = True, uv_fragment = True\<rparr>"
  "url_parse ''https://a:b/x'' = None"
  "url_parse ''mailto:x@y'' = Some \<lparr>uv_scheme = ''mailto'', uv_hostname = [], uv_user = False, uv_fragment = False\<rparr>"
  "url_parse ''https://%41/x'' = None"
  by code_simp+

end
