(* ===== verification/Registration_Grant.thy ===== *)
theory Registration_Grant
  imports Organization Go_Url
begin

text \<open>
  The registration grants of \<open>PortalOpenAPIClient\<close> (registration_grant_client.go and
  registration_grant_delivery_client.go): grants, their one-time proofs, rotation, redemptions and
  deliveries.  Three of the types have an \<open>UnmarshalJSON\<close> of their own, which encoding/json runs also
  on \<open>null\<close>; an error of theirs ends the decoding.  Where the code returns a value beside an error, the
  result here is the error, and an error of a decoder is \<open>BadField\<close>, whichever it was.
\<close>

section \<open>Data\<close>

definition invalidRegistrationGrantResponse :: portal_error where
  "invalidRegistrationGrantResponse = WrappedRequestError ''invalid_registration_grant_response''"

record RegistrationGrant =
  gt_ID :: string
  gt_Version :: int
  gt_Type :: string
  gt_Status :: string
  gt_DisplayName :: "string option"
  gt_AllowedEmail :: "string option"
  gt_AllowedDomain :: "string option"
  gt_ExpiresAt :: "string option"
  gt_MaxUses :: "int option"
  gt_UsedCount :: int
  gt_SourceType :: string
  gt_CreatedAt :: string
  gt_UpdatedAt :: string
  gt_RevokedAt :: "string option"
  gt_RevokeReason :: "string option"

definition zero_RegistrationGrant :: RegistrationGrant where
  "zero_RegistrationGrant = \<lparr>gt_ID = [], gt_Version = 0, gt_Type = [], gt_Status = [], gt_DisplayName = None,
     gt_AllowedEmail = None, gt_AllowedDomain = None, gt_ExpiresAt = None, gt_MaxUses = None, gt_UsedCount = 0,
     gt_SourceType = [], gt_CreatedAt = [], gt_UpdatedAt = [], gt_RevokedAt = None, gt_RevokeReason = None\<rparr>"

record CreatedRegistrationGrant =
  cg_Grant :: RegistrationGrant
  cg_RegistrationGrantToken :: "string option"
  cg_RegistrationAccessCode :: "string option"
  cg_RegistrationInvitationURL :: "string option"
  cg_SecretAlreadyIssued :: bool

definition zero_CreatedRegistrationGrant :: CreatedRegistrationGrant where
  "zero_CreatedRegistrationGrant = \<lparr>cg_Grant = zero_RegistrationGrant, cg_RegistrationGrantToken = None,
     cg_RegistrationAccessCode = None, cg_RegistrationInvitationURL = None, cg_SecretAlreadyIssued = False\<rparr>"

record RegistrationGrantDelivery =
  gd_ID :: string
  gd_GrantID :: string
  gd_Recipient :: string
  gd_Variant :: string
  gd_Status :: string
  gd_FailureCode :: "string option"
  gd_AttemptCount :: int
  gd_MaxAttempts :: "int option"
  gd_NextAttemptAt :: "string option"
  gd_Retryable :: bool
  gd_ExpiresAt :: string
  gd_CreatedAt :: string

definition zero_RegistrationGrantDelivery :: RegistrationGrantDelivery where
  "zero_RegistrationGrantDelivery = \<lparr>gd_ID = [], gd_GrantID = [], gd_Recipient = [], gd_Variant = [], gd_Status = [],
     gd_FailureCode = None, gd_AttemptCount = 0, gd_MaxAttempts = None, gd_NextAttemptAt = None, gd_Retryable = False,
     gd_ExpiresAt = [], gd_CreatedAt = []\<rparr>"

record RegistrationGrantPageMetadata =
  gm_Size :: int
  gm_Number :: int
  gm_TotalElements :: int
  gm_TotalPages :: int

definition fill_RegistrationGrantPageMetadata :: "RegistrationGrantPageMetadata filler" where
  "fill_RegistrationGrantPageMetadata = fill_struct [
     (''size'', field gm_Size gm_Size_update fill_int),
     (''number'', field gm_Number gm_Number_update fill_int),
     (''totalElements'', field gm_TotalElements gm_TotalElements_update fill_int),
     (''totalPages'', field gm_TotalPages gm_TotalPages_update fill_int)]"

definition zero_RegistrationGrantPageMetadata :: RegistrationGrantPageMetadata where
  "zero_RegistrationGrantPageMetadata = \<lparr>gm_Size = 0, gm_Number = 0, gm_TotalElements = 0, gm_TotalPages = 0\<rparr>"

record RegistrationGrantRedemption =
  gr_ID :: string
  gr_Result :: string
  gr_Email :: "string option"
  gr_AuthMethod :: "string option"
  gr_IDPID :: "string option"
  gr_ClientID :: "string option"
  gr_RedeemedAt :: string
  gr_FailureReason :: "string option"

definition fill_RegistrationGrantRedemption :: "RegistrationGrantRedemption filler" where
  "fill_RegistrationGrantRedemption = fill_struct [
     (''id'', field gr_ID gr_ID_update fill_string),
     (''result'', field gr_Result gr_Result_update fill_string),
     (''email'', field gr_Email gr_Email_update (fill_ptr fill_string [])),
     (''authMethod'', field gr_AuthMethod gr_AuthMethod_update (fill_ptr fill_string [])),
     (''idpId'', field gr_IDPID gr_IDPID_update (fill_ptr fill_string [])),
     (''clientId'', field gr_ClientID gr_ClientID_update (fill_ptr fill_string [])),
     (''redeemedAt'', field gr_RedeemedAt gr_RedeemedAt_update fill_string),
     (''failureReason'', field gr_FailureReason gr_FailureReason_update (fill_ptr fill_string []))]"

definition zero_RegistrationGrantRedemption :: RegistrationGrantRedemption where
  "zero_RegistrationGrantRedemption = \<lparr>gr_ID = [], gr_Result = [], gr_Email = None, gr_AuthMethod = None, gr_IDPID = None,
     gr_ClientID = None, gr_RedeemedAt = [], gr_FailureReason = None\<rparr>"

record RegistrationGrantRedemptionPage =
  grp_Content :: "RegistrationGrantRedemption list option"
  grp_Page :: RegistrationGrantPageMetadata

definition fill_RegistrationGrantRedemptionPage :: "RegistrationGrantRedemptionPage filler" where
  "fill_RegistrationGrantRedemptionPage = fill_struct [
     (''content'', field grp_Content grp_Content_update (fill_slice fill_RegistrationGrantRedemption zero_RegistrationGrantRedemption)),
     (''page'', field grp_Page grp_Page_update fill_RegistrationGrantPageMetadata)]"

definition zero_RegistrationGrantRedemptionPage :: RegistrationGrantRedemptionPage where
  "zero_RegistrationGrantRedemptionPage = \<lparr>grp_Content = None, grp_Page = zero_RegistrationGrantPageMetadata\<rparr>"


section \<open>Checks\<close>

definition RegistrationGrantEmailLink :: string where "RegistrationGrantEmailLink = ''EMAIL_LINK''"
definition RegistrationGrantAccessCode :: string where "RegistrationGrantAccessCode = ''ACCESS_CODE''"

definition registrationGrantUUID :: "string \<Rightarrow> bool" where
  "registrationGrantUUID = uuid_groups any_hex ''157'' ''89abAB''"

definition non_empty :: "string option \<Rightarrow> bool" where
  "non_empty v = (case v of None \<Rightarrow> False | Some s \<Rightarrow> s \<noteq> [])"

definition validate_invitation_url :: "string \<Rightarrow> bool" where
  "validate_invitation_url raw = (case url_parse raw of
     None \<Rightarrow> False
   | Some u \<Rightarrow> \<not> ((uv_scheme u \<noteq> ''https'' \<and> uv_scheme u \<noteq> ''http'') \<or> uv_hostname u = [] \<or> uv_user u \<or> uv_fragment u))"

definition validate_created :: "CreatedRegistrationGrant \<Rightarrow> portal_error + unit" where
  "validate_created r =
     (let hasToken = non_empty (cg_RegistrationGrantToken r); hasCode = non_empty (cg_RegistrationAccessCode r);
          hasURL = non_empty (cg_RegistrationInvitationURL r); t = gt_Type (cg_Grant r);
          bad = Inl invalidRegistrationGrantResponse in
      if t \<noteq> RegistrationGrantEmailLink \<and> t \<noteq> RegistrationGrantAccessCode then bad
      else if cg_SecretAlreadyIssued r then
        (if cg_RegistrationGrantToken r \<noteq> None \<or> cg_RegistrationAccessCode r \<noteq> None \<or> cg_RegistrationInvitationURL r \<noteq> None
         then bad else Inr ())
      else if (t = RegistrationGrantEmailLink \<and> (\<not> hasToken \<or> \<not> hasURL \<or> cg_RegistrationAccessCode r \<noteq> None)) \<or>
              (t = RegistrationGrantAccessCode \<and> (\<not> hasCode \<or> cg_RegistrationGrantToken r \<noteq> None \<or> cg_RegistrationInvitationURL r \<noteq> None))
      then bad
      else if hasURL \<and> \<not> validate_invitation_url (the (cg_RegistrationInvitationURL r)) then bad else Inr ())"

definition validStatus :: "RegistrationGrantDelivery \<Rightarrow> bool" where
  "validStatus d = (gd_Status d \<in> set [''QUEUED'', ''SENDING'', ''DELIVERED'', ''FAILED'', ''UNKNOWN''])"

definition known_variant :: "string \<Rightarrow> bool" where
  "known_variant v = (v = ''LINK'' \<or> v = ''CODE'')"

definition registrationCommandHeaders :: "string \<Rightarrow> portal_error + header" where
  "registrationCommandHeaders key = (if blank key \<or> length (runes key) > 200 \<or> list_ex is_control (runes key)
     then Inl (RequestError 0 ''invalid_idempotency_key'' [] []) else Inr [(''Idempotency-Key'', key)])"

definition registrationGrantPath :: "string \<Rightarrow> portal_error + string" where
  "registrationGrantPath grantID = (if \<not> registrationGrantUUID grantID
     then Inl (RequestError 0 ''invalid_registration_grant_id'' [] [])
     else Inr (''/open/v1/registration-grants/'' @ PathEscape grantID))"

section \<open>Decoding\<close>

text \<open>
  The anonymous struct of each \<open>UnmarshalJSON\<close> embeds a pointer to the variable, whose fields it
  promotes, beside fields of its own that hide those of the same name: a pair.
\<close>

definition inner :: "('r \<Rightarrow> 'x) \<Rightarrow> (('x \<Rightarrow> 'x) \<Rightarrow> 'r \<Rightarrow> 'r) \<Rightarrow> 'x filler \<Rightarrow> ('r \<times> 'o) filler" where
  "inner get upd f = field (get \<circ> fst) (\<lambda>u. apfst (upd u)) f"

definition outer :: "('o \<Rightarrow> 'x) \<Rightarrow> (('x \<Rightarrow> 'x) \<Rightarrow> 'o \<Rightarrow> 'o) \<Rightarrow> 'x filler \<Rightarrow> ('r \<times> 'o) filler" where
  "outer get upd f = field (get \<circ> snd) (\<lambda>u. apsnd (upd u)) f"

definition fill_RegistrationGrant :: "RegistrationGrant filler" where
  "fill_RegistrationGrant v grant =
     (let ((g, version), ok) = fill_struct [
        (''id'', inner gt_ID gt_ID_update fill_string),
        (''version'', outer id id (fill_ptr fill_int 0)),
        (''type'', inner gt_Type gt_Type_update fill_string),
        (''status'', inner gt_Status gt_Status_update fill_string),
        (''displayName'', inner gt_DisplayName gt_DisplayName_update (fill_ptr fill_string [])),
        (''allowedEmail'', inner gt_AllowedEmail gt_AllowedEmail_update (fill_ptr fill_string [])),
        (''allowedDomain'', inner gt_AllowedDomain gt_AllowedDomain_update (fill_ptr fill_string [])),
        (''expiresAt'', inner gt_ExpiresAt gt_ExpiresAt_update (fill_ptr fill_string [])),
        (''maxUses'', inner gt_MaxUses gt_MaxUses_update (fill_ptr fill_int 0)),
        (''usedCount'', inner gt_UsedCount gt_UsedCount_update fill_int),
        (''sourceType'', inner gt_SourceType gt_SourceType_update fill_string),
        (''createdAt'', inner gt_CreatedAt gt_CreatedAt_update fill_string),
        (''updatedAt'', inner gt_UpdatedAt gt_UpdatedAt_update fill_string),
        (''revokedAt'', inner gt_RevokedAt gt_RevokedAt_update (fill_ptr fill_string [])),
        (''revokeReason'', inner gt_RevokeReason gt_RevokeReason_update (fill_ptr fill_string []))] v (grant, None)
      in (case version of
            None \<Rightarrow> (g, False)
          | Some n \<Rightarrow> if \<not> ok \<or> n < 0 then (g, False) else (g\<lparr>gt_Version := n\<rparr>, True)))"

definition fill_CreatedRegistrationGrant :: "CreatedRegistrationGrant filler" where
  "fill_CreatedRegistrationGrant v created =
     (let ((c, issued), ok) = fill_struct [
        (''grant'', inner cg_Grant cg_Grant_update fill_RegistrationGrant),
        (''registrationGrantToken'', inner cg_RegistrationGrantToken cg_RegistrationGrantToken_update (fill_ptr fill_string [])),
        (''registrationAccessCode'', inner cg_RegistrationAccessCode cg_RegistrationAccessCode_update (fill_ptr fill_string [])),
        (''registrationInvitationUrl'', inner cg_RegistrationInvitationURL cg_RegistrationInvitationURL_update (fill_ptr fill_string [])),
        (''secretAlreadyIssued'', outer id id (fill_ptr fill_bool False))] v (created, None)
      in (case issued of
            None \<Rightarrow> (c, False)
          | Some b \<Rightarrow> if \<not> ok then (c, False)
              else (let c1 = c\<lparr>cg_SecretAlreadyIssued := b\<rparr> in (c1, is_ok (validate_created c1)))))"

definition fill_RegistrationGrantDelivery :: "RegistrationGrantDelivery filler" where
  "fill_RegistrationGrantDelivery v delivery =
     (let ((d, attemptCount, retryable), ok) = fill_struct [
        (''id'', inner gd_ID gd_ID_update fill_string),
        (''grantId'', inner gd_GrantID gd_GrantID_update fill_string),
        (''recipient'', inner gd_Recipient gd_Recipient_update fill_string),
        (''variant'', inner gd_Variant gd_Variant_update fill_string),
        (''status'', inner gd_Status gd_Status_update fill_string),
        (''failureCode'', inner gd_FailureCode gd_FailureCode_update (fill_ptr fill_string [])),
        (''attemptCount'', outer fst apfst (fill_ptr fill_int 0)),
        (''maxAttempts'', inner gd_MaxAttempts gd_MaxAttempts_update (fill_ptr fill_int 0)),
        (''nextAttemptAt'', inner gd_NextAttemptAt gd_NextAttemptAt_update (fill_ptr fill_string [])),
        (''retryable'', outer snd apsnd (fill_ptr fill_bool False)),
        (''expiresAt'', inner gd_ExpiresAt gd_ExpiresAt_update fill_string),
        (''createdAt'', inner gd_CreatedAt gd_CreatedAt_update fill_string)] v (delivery, None, None)
      in if \<not> ok then (d, False)
         else (case (attemptCount, retryable) of
            (Some n, Some b) \<Rightarrow>
              (if n < 0 \<or> blank (gd_ID d) \<or> blank (gd_GrantID d) \<or> blank (gd_Recipient d) \<or> blank (gd_ExpiresAt d) \<or>
                  blank (gd_CreatedAt d) \<or> (case gd_MaxAttempts d of None \<Rightarrow> False | Some m \<Rightarrow> m < 1) \<or>
                  \<not> known_variant (gd_Variant d) \<or> \<not> validStatus d
               then (d, False) else (d\<lparr>gd_AttemptCount := n, gd_Retryable := b\<rparr>, True))
          | _ \<Rightarrow> (d, False)))"

record RegistrationGrantPage =
  gp_Content :: "RegistrationGrant list option"
  gp_Page :: RegistrationGrantPageMetadata

definition fill_RegistrationGrantPage :: "RegistrationGrantPage filler" where
  "fill_RegistrationGrantPage = fill_struct [
     (''content'', field gp_Content gp_Content_update (fill_slice fill_RegistrationGrant zero_RegistrationGrant)),
     (''page'', field gp_Page gp_Page_update fill_RegistrationGrantPageMetadata)]"

definition zero_RegistrationGrantPage :: RegistrationGrantPage where
  "zero_RegistrationGrantPage = \<lparr>gp_Content = None, gp_Page = zero_RegistrationGrantPageMetadata\<rparr>"

section \<open>Requests\<close>

record RegistrationGrantListOptions =
  rl_Type :: "string option"
  rl_Status :: "string option"
  rl_Search :: "string option"
  rl_Page :: "int option"
  rl_Size :: "int option"

record CreateRegistrationGrantRequest =
  crg_Type :: string
  crg_DisplayName :: "string option"
  crg_AllowedEmail :: "string option"
  crg_AllowedDomain :: "string option"
  crg_ExpiresAt :: "string option"
  crg_MaxUses :: "int option"

record RegistrationGrantDeliveryRequest =
  dr_Recipient :: string
  dr_Locale :: string
  dr_Variant :: string

definition registrationGrantQuery :: "RegistrationGrantListOptions \<Rightarrow> string" where
  "registrationGrantQuery options = (let encoded = Encode (opt_param ''type'' (rl_Type options) @
     opt_param ''status'' (rl_Status options) @ opt_param ''search'' (rl_Search options) @
     opt_number ''page'' (rl_Page options) @ opt_number ''size'' (rl_Size options))
     in if encoded \<noteq> [] then ''?'' @ encoded else [])"

definition create_grant_json :: "CreateRegistrationGrantRequest \<Rightarrow> json" where
  "create_grant_json r = JObj ([(''type'', JStr (crg_Type r))] @ opt_member ''displayName'' (crg_DisplayName r) @
     opt_member ''allowedEmail'' (crg_AllowedEmail r) @ opt_member ''allowedDomain'' (crg_AllowedDomain r) @
     opt_member ''expiresAt'' (crg_ExpiresAt r) @
     (case crg_MaxUses r of None \<Rightarrow> [] | Some n \<Rightarrow> [(''maxUses'', JNum (itoa n))]))"

definition delivery_json :: "RegistrationGrantDeliveryRequest \<Rightarrow> json" where
  "delivery_json r = JObj ([(''recipient'', JStr (dr_Recipient r))] @
     (if dr_Locale r = [] then [] else [(''locale'', JStr (dr_Locale r))]) @ [(''variant'', JStr (dr_Variant r))])"

section \<open>Operations\<close>

definition ListRegistrationGrants :: "runtime \<Rightarrow> ctx \<Rightarrow> RegistrationGrantListOptions \<Rightarrow> RegistrationGrantPage op" where
  "ListRegistrationGrants rt cx options =
     call rt cx ''GET'' RegistrationGrantsReadScope (''/open/v1/registration-grants'' @ registrationGrantQuery options) None
       (Some (dec_of fill_RegistrationGrantPage)) zero_RegistrationGrantPage [] as_is"

definition CreateRegistrationGrant ::
  "runtime \<Rightarrow> ctx \<Rightarrow> CreateRegistrationGrantRequest \<Rightarrow> string \<Rightarrow> CreatedRegistrationGrant op" where
  "CreateRegistrationGrant rt cx request idempotencyKey =
     guarded (if crg_Type request \<noteq> RegistrationGrantEmailLink \<and> crg_Type request \<noteq> RegistrationGrantAccessCode
              then Inl invalidRegistrationGrantResponse else registrationCommandHeaders idempotencyKey) (\<lambda>headers.
     call rt cx ''POST'' RegistrationGrantsWriteScope ''/open/v1/registration-grants'' (Some (create_grant_json request))
       (Some (dec_of fill_CreatedRegistrationGrant)) zero_CreatedRegistrationGrant headers
       (\<lambda>response h. bind_ok (validate_created response) (\<lambda>_. Inr response)))"

definition registrationGrantLifecycle ::
  "runtime \<Rightarrow> ctx \<Rightarrow> string \<Rightarrow> string \<Rightarrow> string \<Rightarrow> string \<Rightarrow> json option \<Rightarrow> RegistrationGrant op" where
  "registrationGrantLifecycle rt cx method grantID suffix scope bdy = guarded (registrationGrantPath grantID) (\<lambda>path.
     call rt cx method scope (path @ suffix) bdy (Some (dec_of fill_RegistrationGrant)) zero_RegistrationGrant [] as_is)"

definition GetRegistrationGrant :: "runtime \<Rightarrow> ctx \<Rightarrow> string \<Rightarrow> RegistrationGrant op" where
  "GetRegistrationGrant rt cx grantID = registrationGrantLifecycle rt cx ''GET'' grantID [] RegistrationGrantsReadScope None"

definition PauseRegistrationGrant :: "runtime \<Rightarrow> ctx \<Rightarrow> string \<Rightarrow> RegistrationGrant op" where
  "PauseRegistrationGrant rt cx grantID =
     registrationGrantLifecycle rt cx ''POST'' grantID ''/pause'' RegistrationGrantsWriteScope None"

definition ResumeRegistrationGrant :: "runtime \<Rightarrow> ctx \<Rightarrow> string \<Rightarrow> RegistrationGrant op" where
  "ResumeRegistrationGrant rt cx grantID =
     registrationGrantLifecycle rt cx ''POST'' grantID ''/resume'' RegistrationGrantsWriteScope None"

definition RevokeRegistrationGrant :: "runtime \<Rightarrow> ctx \<Rightarrow> string \<Rightarrow> string option \<Rightarrow> RegistrationGrant op" where
  "RevokeRegistrationGrant rt cx grantID reason =
     registrationGrantLifecycle rt cx ''POST'' grantID ''/revoke'' RegistrationGrantsWriteScope
       (map_option (\<lambda>r. JObj [(''reason'', JStr r)]) reason)"

definition ListRegistrationGrantRedemptions ::
  "runtime \<Rightarrow> ctx \<Rightarrow> string \<Rightarrow> int option \<Rightarrow> int option \<Rightarrow> RegistrationGrantRedemptionPage op" where
  "ListRegistrationGrantRedemptions rt cx grantID pg sz = guarded (registrationGrantPath grantID) (\<lambda>path.
     let encoded = Encode (opt_number ''page'' pg @ opt_number ''size'' sz) in
     call rt cx ''GET'' RegistrationGrantsRedemptionsReadScope
       (if encoded \<noteq> [] then path @ ''/redemptions?'' @ encoded else path @ ''/redemptions'') None
       (Some (dec_of fill_RegistrationGrantRedemptionPage)) zero_RegistrationGrantRedemptionPage [] as_is)"

definition RotateRegistrationGrant :: "runtime \<Rightarrow> ctx \<Rightarrow> string \<Rightarrow> int \<Rightarrow> string \<Rightarrow> CreatedRegistrationGrant op" where
  "RotateRegistrationGrant rt cx grantID expectedVersion idempotencyKey = guarded (registrationGrantPath grantID) (\<lambda>path.
     guarded (if expectedVersion < 0 then Inl invalidRegistrationGrantResponse
              else registrationCommandHeaders idempotencyKey) (\<lambda>headers.
     call rt cx ''POST'' RegistrationGrantsWriteScope (path @ ''/rotate'')
       (Some (JObj [(''expectedVersion'', JNum (itoa expectedVersion))]))
       (Some (dec_of fill_CreatedRegistrationGrant)) zero_CreatedRegistrationGrant headers
       (\<lambda>response h. if gt_ID (cg_Grant response) \<noteq> grantID then Inl invalidRegistrationGrantResponse else Inr response)))"

definition DeliverRegistrationGrant ::
  "runtime \<Rightarrow> ctx \<Rightarrow> string \<Rightarrow> RegistrationGrantDeliveryRequest \<Rightarrow> string \<Rightarrow> RegistrationGrantDelivery op" where
  "DeliverRegistrationGrant rt cx grantID request idempotencyKey = guarded (registrationGrantPath grantID) (\<lambda>path.
     guarded (if blank (dr_Recipient request) \<or> \<not> known_variant (dr_Variant request)
              then Inl invalidRegistrationGrantResponse else registrationCommandHeaders idempotencyKey) (\<lambda>headers.
     call rt cx ''POST'' RegistrationGrantsWriteScope (path @ ''/deliveries'') (Some (delivery_json request))
       (Some (dec_of fill_RegistrationGrantDelivery)) zero_RegistrationGrantDelivery headers
       (\<lambda>response h. if gd_GrantID response \<noteq> grantID \<or> gd_Variant response \<noteq> dr_Variant request \<or> \<not> validStatus response
          then Inl invalidRegistrationGrantResponse else Inr response)))"

definition GetRegistrationGrantDelivery :: "runtime \<Rightarrow> ctx \<Rightarrow> string \<Rightarrow> string \<Rightarrow> RegistrationGrantDelivery op" where
  "GetRegistrationGrantDelivery rt cx grantID deliveryID = guarded (registrationGrantPath grantID) (\<lambda>path.
     guarded (registrationGrantPath deliveryID) (\<lambda>_.
     call rt cx ''GET'' RegistrationGrantsReadScope (path @ ''/deliveries/'' @ deliveryID) None
       (Some (dec_of fill_RegistrationGrantDelivery)) zero_RegistrationGrantDelivery []
       (\<lambda>response h. if gd_GrantID response \<noteq> grantID \<or> gd_ID response \<noteq> deliveryID \<or>
            \<not> known_variant (gd_Variant response) \<or> \<not> validStatus response
          then Inl invalidRegistrationGrantResponse else Inr response)))"

section \<open>Facts\<close>

lemma grant_scopes:
  "uses_scope RegistrationGrantsReadScope (ListRegistrationGrants rt cx lo)"
  "uses_scope RegistrationGrantsWriteScope (CreateRegistrationGrant rt cx cr key)"
  "uses_scope RegistrationGrantsReadScope (GetRegistrationGrant rt cx i)"
  "uses_scope RegistrationGrantsWriteScope (PauseRegistrationGrant rt cx i)"
  "uses_scope RegistrationGrantsWriteScope (ResumeRegistrationGrant rt cx i)"
  "uses_scope RegistrationGrantsWriteScope (RevokeRegistrationGrant rt cx i reason)"
  "uses_scope RegistrationGrantsRedemptionsReadScope (ListRegistrationGrantRedemptions rt cx i pg sz)"
  "uses_scope RegistrationGrantsWriteScope (RotateRegistrationGrant rt cx i n key)"
  "uses_scope RegistrationGrantsWriteScope (DeliverRegistrationGrant rt cx i dr key)"
  "uses_scope RegistrationGrantsReadScope (GetRegistrationGrantDelivery rt cx i d)"
  unfolding ListRegistrationGrants_def CreateRegistrationGrant_def GetRegistrationGrant_def PauseRegistrationGrant_def
    ResumeRegistrationGrant_def RevokeRegistrationGrant_def registrationGrantLifecycle_def
    ListRegistrationGrantRedemptions_def RotateRegistrationGrant_def DeliverRegistrationGrant_def
    GetRegistrationGrantDelivery_def Let_def
  by (rule scope_rules)+

text \<open>The one-time proof that goes with the type of a grant, and nothing else.\<close>

definition proof_matches :: "CreatedRegistrationGrant \<Rightarrow> bool" where
  "proof_matches r \<longleftrightarrow>
     (if cg_SecretAlreadyIssued r
      then gt_Type (cg_Grant r) \<in> {''EMAIL_LINK'', ''ACCESS_CODE''} \<and>
        (cg_RegistrationGrantToken r, cg_RegistrationAccessCode r, cg_RegistrationInvitationURL r) = (None, None, None)
      else (\<exists>token link. gt_Type (cg_Grant r) = ''EMAIL_LINK'' \<and> token \<noteq> [] \<and> validate_invitation_url link \<and>
             (cg_RegistrationGrantToken r, cg_RegistrationAccessCode r, cg_RegistrationInvitationURL r) = (Some token, None, Some link)) \<or>
           (\<exists>code. gt_Type (cg_Grant r) = ''ACCESS_CODE'' \<and> code \<noteq> [] \<and>
             (cg_RegistrationGrantToken r, cg_RegistrationAccessCode r, cg_RegistrationInvitationURL r) = (None, Some code, None)))"

lemma empty_link_invalid: "\<not> validate_invitation_url []"
  by code_simp

lemma validate_created_iff: "validate_created r = Inr () \<longleftrightarrow> proof_matches r"
  using empty_link_invalid
  by (auto simp: validate_created_def proof_matches_def Let_def non_empty_def RegistrationGrantEmailLink_def
      RegistrationGrantAccessCode_def split: option.splits if_splits)

text \<open>What a decoded grant, created grant and delivery satisfy.\<close>

lemma fill_grant_ok: "fill_RegistrationGrant v g = (g', True) \<Longrightarrow> 0 \<le> gt_Version g'"
  by (auto simp: fill_RegistrationGrant_def Let_def split: prod.splits option.splits if_splits)

lemma dec_of_Some: "dec_of f v old = Some x \<longleftrightarrow> f v old = (x, True)"
  by (auto simp: dec_of_def split: prod.splits)

definition proper_delivery :: "RegistrationGrantDelivery \<Rightarrow> bool" where
  "proper_delivery d \<longleftrightarrow> \<not> blank (gd_ID d) \<and> \<not> blank (gd_GrantID d) \<and> \<not> blank (gd_Recipient d) \<and>
     gd_Variant d \<in> {''LINK'', ''CODE''} \<and> gd_Status d \<in> {''QUEUED'', ''SENDING'', ''DELIVERED'', ''FAILED'', ''UNKNOWN''} \<and>
     0 \<le> gd_AttemptCount d \<and> (\<forall>m. gd_MaxAttempts d = Some m \<longrightarrow> 1 \<le> m)"

lemma fill_delivery_ok: "fill_RegistrationGrantDelivery v d = (d', True) \<Longrightarrow> proper_delivery d'"
  by (auto simp: fill_RegistrationGrantDelivery_def Let_def proper_delivery_def known_variant_def validStatus_def
      split: prod.splits option.splits if_splits)

text \<open>A successful call gave its zero value (204) or a decoded one.\<close>

lemma request_result:
  assumes "requestJSONWithScopeAndHeaders rt cx m path scope bdy (Some d) zero extra s = (Inr (x, h), s')"
  shows "x = zero \<or> (\<exists>v. d v zero = Some x)"
  using assms
  by (auto simp: requestJSONWithScopeAndHeaders_def decodeFirstJSON_def
      split: prod.splits sum.splits if_splits option.splits)

lemma call_result:
  assumes "call rt cx m scope path bdy (Some d) zero extra k s = (Inr y, s')"
  shows "\<exists>x h. k x h = Inr y \<and> (x = zero \<or> (\<exists>v. d v zero = Some x))"
proof -
  obtain x h where rq: "requestJSONWithScopeAndHeaders rt cx m path scope bdy (Some d) zero extra s = (Inr (x, h), s')"
    and k: "k x h = Inr y" using call_Inr [OF assms] by blast
  from request_result [OF rq] k show ?thesis by blast
qed

lemma zero_not_validated: "validate_created zero_CreatedRegistrationGrant \<noteq> Inr ()"
  by (simp add: validate_created_def zero_CreatedRegistrationGrant_def zero_RegistrationGrant_def
      RegistrationGrantEmailLink_def RegistrationGrantAccessCode_def)

lemma fill_created_ok:
  assumes "fill_CreatedRegistrationGrant v zero_CreatedRegistrationGrant = (r, True)"
  shows "proof_matches r \<and> 0 \<le> gt_Version (cg_Grant r)"
proof -
  let ?table = "[
        (''grant'', inner cg_Grant cg_Grant_update fill_RegistrationGrant),
        (''registrationGrantToken'', inner cg_RegistrationGrantToken cg_RegistrationGrantToken_update (fill_ptr fill_string [])),
        (''registrationAccessCode'', inner cg_RegistrationAccessCode cg_RegistrationAccessCode_update (fill_ptr fill_string [])),
        (''registrationInvitationUrl'', inner cg_RegistrationInvitationURL cg_RegistrationInvitationURL_update (fill_ptr fill_string [])),
        (''secretAlreadyIssued'', outer id id (fill_ptr fill_bool False))]"
  obtain c issued ok where f: "fill_struct ?table v (zero_CreatedRegistrationGrant, None) = ((c, issued), ok)"
    by (metis surj_pair)
  with assms obtain b where ok and r: "r = c\<lparr>cg_SecretAlreadyIssued := b\<rparr>" "is_ok (validate_created r)"
    by (auto simp: fill_CreatedRegistrationGrant_def Let_def split: option.splits if_splits)
  have "0 \<le> gt_Version (cg_Grant (fst (c, issued)))"
  proof (rule fill_struct_keeps [where P = "\<lambda>p. 0 \<le> gt_Version (cg_Grant (fst p))"])
    show "fill_struct ?table v (zero_CreatedRegistrationGrant, None) = ((c, issued), True)" using f \<open>ok\<close> by simp
    show "0 \<le> gt_Version (cg_Grant (fst (zero_CreatedRegistrationGrant, None :: bool option)))"
      by (simp add: zero_CreatedRegistrationGrant_def zero_RegistrationGrant_def)
    fix n f w and p p' :: "CreatedRegistrationGrant \<times> bool option"
    assume "(n, f) \<in> set ?table" "0 \<le> gt_Version (cg_Grant (fst p))" "f w p = (p', True)"
    then show "0 \<le> gt_Version (cg_Grant (fst p'))"
      using fill_grant_ok [of w "cg_Grant (fst p)" "cg_Grant (fst p')"]
      by (auto simp: inner_def outer_def field_def Let_def split: prod.splits)
  qed
  with r show ?thesis by (auto simp: is_ok_iff validate_created_iff)
qed

text \<open>A command is sent once at most, with its idempotency key.\<close>

definition sent_once :: "string \<Rightarrow> string \<Rightarrow> 'a op \<Rightarrow> bool" where
  "sent_once path key f \<longleftrightarrow> (\<forall>c w res c' w'. f (c, w) = (res, c', w') \<longrightarrow>
     (\<exists>ts rs. sent w' = sent w @ ts @ rs \<and> (ts = [] \<or> ts = [portal_token_request c RegistrationGrantsWriteScope]) \<and>
        (rs = [] \<or> (\<exists>r. rs = [r] \<and> url r = po_endpoint c @ path \<and> (''Idempotency-Key'', key) \<in> set (headers r)))))"

lemma sent_once_call:
  "sent_once path key (call rt cx m RegistrationGrantsWriteScope path bdy d zero [(''Idempotency-Key'', key)] k)"
  unfolding sent_once_def
proof (intro allI impI)
  fix c w res c' w'
  assume h: "call rt cx m RegistrationGrantsWriteScope path bdy d zero [(''Idempotency-Key'', key)] k (c, w) = (res, c', w')"
  obtain r c1 w1 where rq: "requestJSONWithScopeAndHeaders rt cx m path RegistrationGrantsWriteScope bdy d zero
      [(''Idempotency-Key'', key)] (c, w) = (r, c1, w1)" by (metis prod_cases3)
  have "w' = w1" using h rq by (auto simp: call_def split: sum.splits prod.splits)
  moreover have "\<exists>q. resource_request nm u access bdy [(''Idempotency-Key'', key)] = q \<and> url q = u \<and>
      (''Idempotency-Key'', key) \<in> set (headers q)" for nm u access
    by (simp add: resource_request_def Let_def)
  ultimately show "\<exists>ts rs. sent w' = sent w @ ts @ rs \<and> (ts = [] \<or> ts = [portal_token_request c RegistrationGrantsWriteScope]) \<and>
        (rs = [] \<or> (\<exists>r. rs = [r] \<and> url r = po_endpoint c @ path \<and> (''Idempotency-Key'', key) \<in> set (headers r)))"
    using request_sent [OF rq] by metis
qed

lemma sent_once_guarded: "(\<And>x. g = Inr x \<Longrightarrow> sent_once path key (f x)) \<Longrightarrow> sent_once path key (guarded g f)"
proof (cases g)
  case (Inl e)
  then show ?thesis by (fastforce simp: sent_once_def guarded_def)
next
  case (Inr x)
  assume "\<And>x. g = Inr x \<Longrightarrow> sent_once path key (f x)"
  with Inr have "sent_once path key (f x)" by simp
  moreover have "guarded g f = f x" by (rule ext) (simp add: guarded_def Inr)
  ultimately show ?thesis by simp
qed

lemma grant_uuid_unreserved: "registrationGrantUUID s \<Longrightarrow> list_all unreserved s"
  unfolding registrationGrantUUID_def
  by (erule uuid_groups_unreserved) (simp_all add: unreserved_def alnum_def lower_alnum_def digit_def less_eq_char_def)

lemma grant_path: "registrationGrantPath i = Inr p \<longleftrightarrow> registrationGrantUUID i \<and> p = ''/open/v1/registration-grants/'' @ i"
  by (auto simp: registrationGrantPath_def PathEscape_id grant_uuid_unreserved)

lemma command_headers: "registrationCommandHeaders key = Inr h \<Longrightarrow> h = [(''Idempotency-Key'', key)]"
  by (auto simp: registrationCommandHeaders_def split: if_splits)

section \<open>Properties\<close>

text \<open>
  C35. The secret of a grant is what its type says.  Whatever the server answers, a grant that create or
  rotate returns has a version that is not negative and exactly the proof of its type: a link grant its
  token and an http or https link with a host, no user information and no fragment; a code grant its
  code; and none at all when the secret was issued before.  Rotate returns the grant it was asked for.
\<close>

theorem created_grant_sound:
  "(CreateRegistrationGrant rt cx request key s = (Inr r, s') \<longrightarrow> proof_matches r \<and> 0 \<le> gt_Version (cg_Grant r)) \<and>
   (RotateRegistrationGrant rt cx i n key s = (Inr r, s') \<longrightarrow>
      proof_matches r \<and> 0 \<le> gt_Version (cg_Grant r) \<and> gt_ID (cg_Grant r) = i)"
proof (intro conjI impI)
  assume "CreateRegistrationGrant rt cx request key s = (Inr r, s')"
  then obtain h where "call rt cx ''POST'' RegistrationGrantsWriteScope ''/open/v1/registration-grants'' (Some (create_grant_json request))
       (Some (dec_of fill_CreatedRegistrationGrant)) zero_CreatedRegistrationGrant h
       (\<lambda>response h. bind_ok (validate_created response) (\<lambda>_. Inr response)) s = (Inr r, s')"
    unfolding CreateRegistrationGrant_def guarded_Inr by blast
  from call_result [OF this] obtain x where "bind_ok (validate_created x) (\<lambda>_. Inr x) = Inr r"
    "x = zero_CreatedRegistrationGrant \<or> (\<exists>v. fill_CreatedRegistrationGrant v zero_CreatedRegistrationGrant = (x, True))"
    by (auto simp: dec_of_Some)
  then have "\<exists>v. fill_CreatedRegistrationGrant v zero_CreatedRegistrationGrant = (r, True)"
    using zero_not_validated by (auto elim!: bind_ok_InrE)
  then show "proof_matches r" "0 \<le> gt_Version (cg_Grant r)" using fill_created_ok by blast+
next
  assume "RotateRegistrationGrant rt cx i n key s = (Inr r, s')"
  then have id: "gt_ID (cg_Grant r) = i" "registrationGrantUUID i"
    and "r = zero_CreatedRegistrationGrant \<or> (\<exists>v. fill_CreatedRegistrationGrant v zero_CreatedRegistrationGrant = (r, True))"
    by (auto simp: RotateRegistrationGrant_def guarded_Inr dec_of_Some grant_path split: if_splits dest!: call_result)
  moreover have "\<not> registrationGrantUUID []" by code_simp
  ultimately have "\<exists>v. fill_CreatedRegistrationGrant v zero_CreatedRegistrationGrant = (r, True)"
    by (auto simp: zero_CreatedRegistrationGrant_def zero_RegistrationGrant_def)
  then show "proof_matches r" "0 \<le> gt_Version (cg_Grant r)" using fill_created_ok by blast+
  show "gt_ID (cg_Grant r) = i" by (rule id)
qed

text \<open>A server that answers every request with an access code grant.\<close>

definition code_grant :: json where
  "code_grant = JObj [(''grant'', JObj [(''version'', JNum ''1''), (''type'', JStr ''ACCESS_CODE'')]),
     (''registrationAccessCode'', JStr ''k''), (''secretAlreadyIssued'', JBool False)]"

definition code_grant_text :: string where
  "code_grant_text = [CHR 0x7B] @ quoted ''grant'' @ '':'' @ [CHR 0x7B] @ quoted ''version'' @ '':1,'' @ quoted ''type'' @ '':'' @
     quoted ''ACCESS_CODE'' @ [CHR 0x7D] @ '','' @ quoted ''registrationAccessCode'' @ '':'' @ quoted ''k'' @ '','' @
     quoted ''secretAlreadyIssued'' @ '':false'' @ [CHR 0x7D]"

definition code_server :: runtime where
  "code_server = \<lparr>rt_net = (\<lambda>h r. (1, Inr \<lparr>status = 201, resp_headers = [], body = code_grant_text, read_error = False\<rparr>)),
     rt_url_ok = (\<lambda>u. True), rt_text = (\<lambda>f. []), rt_nfc = (\<lambda>s. True)\<rparr>"

definition with_grants_token :: PortalClient where
  "with_grants_token = sample_portal\<lparr>tokenCache := [RegistrationGrantsWriteScope \<mapsto>
     \<lparr>pt_AccessToken = ''a'', pt_Scope = RegistrationGrantsWriteScope, pt_ExpiresAt = 10\<rparr>]\<rparr>"

definition code_request :: CreateRegistrationGrantRequest where
  "code_request = \<lparr>crg_Type = ''ACCESS_CODE'', crg_DisplayName = None, crg_AllowedEmail = None, crg_AllowedDomain = None,
     crg_ExpiresAt = None, crg_MaxUses = None\<rparr>"

lemma code_grant_read: "decode_first code_grant_text = Some (code_grant, [])"
  by (simp add: code_grant_text_def quoted_def code_grant_def json_eval)

lemma code_grant_filled:
  "dec_of fill_CreatedRegistrationGrant code_grant zero_CreatedRegistrationGrant = Some (zero_CreatedRegistrationGrant\<lparr>
     cg_Grant := zero_RegistrationGrant\<lparr>gt_Version := 1, gt_Type := ''ACCESS_CODE''\<rparr>, cg_RegistrationAccessCode := Some ''k''\<rparr>)"
proof -
  have grant: "fill_RegistrationGrant (JObj [(''version'', JNum ''1''), (''type'', JStr ''ACCESS_CODE'')]) zero_RegistrationGrant =
      (zero_RegistrationGrant\<lparr>gt_Version := 1, gt_Type := ''ACCESS_CODE''\<rparr>, True)"
    by (simp add: fill_RegistrationGrant_def inner_def outer_def fill_eval num_int_def trim_prefix_def has_prefix_def
        digits_val_def digit_val_def digit_byte int64_def zero_RegistrationGrant_def)
  show ?thesis
    by (simp add: dec_of_def fill_CreatedRegistrationGrant_def code_grant_def inner_def outer_def fill_eval
        zero_CreatedRegistrationGrant_def grant validate_created_def RegistrationGrantEmailLink_def
        RegistrationGrantAccessCode_def non_empty_def Let_def)
qed

theorem created_grant_sound_witness:
  "\<exists>r s'. CreateRegistrationGrant code_server \<lparr>done_at = None, tie = False\<rparr> code_request ''key'' (with_grants_token, \<lparr>sent = [], clock = 0\<rparr>)
     = (Inr r, s') \<and> proof_matches r"
proof -
  let ?s = "(with_grants_token, \<lparr>sent = [], clock = 0\<rparr>)" and ?cx = "\<lparr>done_at = None, tie = False\<rparr>"
  have key: "registrationCommandHeaders ''key'' = Inr [(''Idempotency-Key'', ''key'')]"
    by (simp add: registrationCommandHeaders_def blank_def trim_space_def runes_def byte_def is_space_def is_control_def)
  have extra: "validatePortalOpenAPIHeaders [(''Idempotency-Key'', ''key'')] = Inr ()"
    by (simp add: go_lower_def runes_def byte_def to_lower_rune_def encode_rune_def reserved_headers_def)
  have tok: "GetMachineToken code_server ?cx RegistrationGrantsWriteScope ?s = (Inr (the (tokenCache with_grants_token RegistrationGrantsWriteScope)), ?s)"
    by (simp add: GetMachineToken_def valid_scope portal_scopes_def with_grants_token_def validatePortalOpenAPIScope_def)
  have meth: "normalizePortalOpenAPIMethod ''POST'' = Inr ''POST''"
    by (simp add: normalizePortalOpenAPIMethod_def go_upper_def trim_space_def runes_def byte_def is_space_def to_upper_rune_def
        encode_rune_def Let_def) code_simp
  have url: "portalURL with_grants_token ''/open/v1/registration-grants'' = Inr (''p/open/v1/registration-grants'')"
    by (simp add: portalURL_def has_prefix_def with_grants_token_def sample_portal_def)
  have scope: "validatePortalOpenAPIScope RegistrationGrantsWriteScope = Inr ()" by (simp add: valid_scope portal_scopes_def)
  have answer: "exchange (rt_net code_server) (client_ctx t w ?cx) q w = (Inr \<lparr>status = 201, resp_headers = [],
      body = code_grant_text, read_error = False\<rparr>, \<lparr>sent = sent w @ [q], clock = clock w + 1\<rparr>)" if "t = None" for t q w
    using that by (simp add: exchange_def code_server_def client_ctx_def)
  have more: "rt_url_ok code_server u" "po_timeout with_grants_token = None" for u
    by (simp_all add: code_server_def with_grants_token_def sample_portal_def)
  have kind: "\<not> (crg_Type code_request \<noteq> RegistrationGrantEmailLink \<and> crg_Type code_request \<noteq> RegistrationGrantAccessCode)"
    by (simp add: code_request_def RegistrationGrantAccessCode_def)
  have valid: "validate_created (zero_CreatedRegistrationGrant\<lparr>cg_Grant := zero_RegistrationGrant\<lparr>gt_Version := 1, gt_Type := ''ACCESS_CODE''\<rparr>,
      cg_RegistrationAccessCode := Some ''k''\<rparr>) = Inr ()"
    by (simp add: validate_created_iff proof_matches_def zero_CreatedRegistrationGrant_def)
  have "\<exists>r s'. CreateRegistrationGrant code_server ?cx code_request ''key'' ?s = (Inr r, s')"
    by (simp add: CreateRegistrationGrant_def guarded_def kind key call_def requestJSONWithScopeAndHeaders_def meth url scope
        extra tok more answer decodeFirstJSON_def code_grant_read code_grant_filled valid
        del: validatePortalOpenAPIHeaders.simps)
  then show ?thesis using created_grant_sound by blast
qed

text \<open>
  A command of a grant is sent once.  Create, rotate and deliver send their request at most once,
  whatever comes back, with the idempotency key they were given and to their own path, besides at
  most one token request; and with a key that is blank, longer than 200 runes or contains a control
  character they send nothing.
\<close>

lemma grant_commands_once:
  "sent_once ''/open/v1/registration-grants'' key (CreateRegistrationGrant rt cx request key) \<and>
   sent_once (''/open/v1/registration-grants/'' @ i @ ''/rotate'') key (RotateRegistrationGrant rt cx i n key) \<and>
   sent_once (''/open/v1/registration-grants/'' @ i @ ''/deliveries'') key (DeliverRegistrationGrant rt cx i message key) \<and>
   (is_ok (registrationCommandHeaders key) \<or> snd (CreateRegistrationGrant rt cx request key s) = s \<and>
      snd (RotateRegistrationGrant rt cx i n key s) = s \<and> snd (DeliverRegistrationGrant rt cx i message key s) = s)"
proof (intro conjI)
  show "sent_once ''/open/v1/registration-grants'' key (CreateRegistrationGrant rt cx request key)"
    unfolding CreateRegistrationGrant_def
    by (rule sent_once_guarded) (auto split: if_splits dest!: command_headers intro: sent_once_call)
  show "sent_once (''/open/v1/registration-grants/'' @ i @ ''/rotate'') key (RotateRegistrationGrant rt cx i n key)"
    unfolding RotateRegistrationGrant_def
  proof (rule sent_once_guarded, rule sent_once_guarded)
    fix path h
    assume "registrationGrantPath i = Inr path" and "(if n < 0 then Inl invalidRegistrationGrantResponse else registrationCommandHeaders key) = Inr h"
    then have "path @ ''/rotate'' = ''/open/v1/registration-grants/'' @ i @ ''/rotate''" "h = [(''Idempotency-Key'', key)]"
      by (auto simp: grant_path split: if_splits dest: command_headers)
    then show "sent_once (''/open/v1/registration-grants/'' @ i @ ''/rotate'') key (call rt cx ''POST'' RegistrationGrantsWriteScope (path @ ''/rotate'')
       (Some (JObj [(''expectedVersion'', JNum (itoa n))]))
       (Some (dec_of fill_CreatedRegistrationGrant)) zero_CreatedRegistrationGrant h
       (\<lambda>response h. if gt_ID (cg_Grant response) \<noteq> i then Inl invalidRegistrationGrantResponse else Inr response))" by (simp only: sent_once_call)
  qed
  show "sent_once (''/open/v1/registration-grants/'' @ i @ ''/deliveries'') key (DeliverRegistrationGrant rt cx i message key)"
    unfolding DeliverRegistrationGrant_def
  proof (rule sent_once_guarded, rule sent_once_guarded)
    fix path h
    assume "registrationGrantPath i = Inr path" and "(if blank (dr_Recipient message) \<or> \<not> known_variant (dr_Variant message) then Inl invalidRegistrationGrantResponse else registrationCommandHeaders key) = Inr h"
    then have "path @ ''/deliveries'' = ''/open/v1/registration-grants/'' @ i @ ''/deliveries''" "h = [(''Idempotency-Key'', key)]"
      by (auto simp: grant_path split: if_splits dest: command_headers)
    then show "sent_once (''/open/v1/registration-grants/'' @ i @ ''/deliveries'') key (call rt cx ''POST'' RegistrationGrantsWriteScope (path @ ''/deliveries'') (Some (delivery_json message))
       (Some (dec_of fill_RegistrationGrantDelivery)) zero_RegistrationGrantDelivery h
       (\<lambda>response h. if gd_GrantID response \<noteq> i \<or> gd_Variant response \<noteq> dr_Variant message \<or> \<not> validStatus response
          then Inl invalidRegistrationGrantResponse else Inr response))" by (simp only: sent_once_call)
  qed
  show "is_ok (registrationCommandHeaders key) \<or> snd (CreateRegistrationGrant rt cx request key s) = s \<and>
      snd (RotateRegistrationGrant rt cx i n key s) = s \<and> snd (DeliverRegistrationGrant rt cx i message key s) = s"
    by (auto simp: CreateRegistrationGrant_def RotateRegistrationGrant_def DeliverRegistrationGrant_def guarded_def
        split: sum.split)
qed

end
