(* ===== verification/Current_User.thy ===== *)
theory Current_User
  imports Transport Go_Time
begin

text \<open>
  The authenticated view of the current user (current_user.go): its parsing and the request for it.

  A \<open>time.Time\<close> is kept as its text; it is read from the raw bytes of the JSON string, so text with
  escapes, which the code refuses and the model reads, is outside the model.
\<close>

section \<open>Data\<close>

text \<open>A \<open>map[string]json.RawMessage\<close>: members are put into the map that is there; \<open>null\<close> empties it.\<close>

fun fill_map :: "members option filler" where
  "fill_map (JObj ms) old = (Some (rev ms @ (case old of None \<Rightarrow> [] | Some m \<Rightarrow> m)), True)"
| "fill_map JNull old = (None, True)"
| "fill_map v old = (old, False)"

fun fill_time :: "string filler" where
  "fill_time (JStr s) old = (if parse_rfc3339 s then (s, True) else (old, False))"
| "fill_time JNull old = (old, True)"
| "fill_time v old = (old, False)"

record ImpersonationContext =
  im_ActorID :: string
  im_ImpersonationID :: string

definition fill_ImpersonationContext :: "ImpersonationContext filler" where
  "fill_ImpersonationContext = fill_struct [
     (''actorId'', field im_ActorID im_ActorID_update fill_string),
     (''impersonationId'', field im_ImpersonationID im_ImpersonationID_update fill_string)]"

definition zero_ImpersonationContext :: ImpersonationContext where
  "zero_ImpersonationContext = \<lparr>im_ActorID = [], im_ImpersonationID = []\<rparr>"

record AuthenticationContext =
  ac_SubjectType :: string
  ac_ApplicationID :: string
  ac_ClientID :: string
  ac_SessionID :: string
  ac_WorkspaceID :: "string option"
  ac_WorkspaceSelectionRequired :: bool
  ac_OrganizationID :: "string option"
  ac_OrganizationSlug :: "string option"
  ac_OrganizationRole :: "string option"
  ac_AuthTime :: "string option"
  ac_AuthenticationMethods :: "string list option"
  ac_AssuranceLevel :: "string option"
  ac_Impersonation :: "ImpersonationContext option"

definition fill_AuthenticationContext :: "AuthenticationContext filler" where
  "fill_AuthenticationContext = fill_struct [
     (''subjectType'', field ac_SubjectType ac_SubjectType_update fill_string),
     (''applicationId'', field ac_ApplicationID ac_ApplicationID_update fill_string),
     (''clientId'', field ac_ClientID ac_ClientID_update fill_string),
     (''sessionId'', field ac_SessionID ac_SessionID_update fill_string),
     (''workspaceId'', field ac_WorkspaceID ac_WorkspaceID_update (fill_ptr fill_string [])),
     (''workspaceSelectionRequired'', field ac_WorkspaceSelectionRequired ac_WorkspaceSelectionRequired_update fill_bool),
     (''organizationId'', field ac_OrganizationID ac_OrganizationID_update (fill_ptr fill_string [])),
     (''organizationSlug'', field ac_OrganizationSlug ac_OrganizationSlug_update (fill_ptr fill_string [])),
     (''organizationRole'', field ac_OrganizationRole ac_OrganizationRole_update (fill_ptr fill_string [])),
     (''authTime'', field ac_AuthTime ac_AuthTime_update (fill_ptr fill_time [])),
     (''authenticationMethods'', field ac_AuthenticationMethods ac_AuthenticationMethods_update (fill_slice fill_string [])),
     (''assuranceLevel'', field ac_AssuranceLevel ac_AssuranceLevel_update (fill_ptr fill_string [])),
     (''impersonation'', field ac_Impersonation ac_Impersonation_update (fill_ptr fill_ImpersonationContext zero_ImpersonationContext))]"

definition zero_AuthenticationContext :: AuthenticationContext where
  "zero_AuthenticationContext = \<lparr>ac_SubjectType = [], ac_ApplicationID = [], ac_ClientID = [], ac_SessionID = [],
     ac_WorkspaceID = None, ac_WorkspaceSelectionRequired = False, ac_OrganizationID = None,
     ac_OrganizationSlug = None, ac_OrganizationRole = None, ac_AuthTime = None,
     ac_AuthenticationMethods = None, ac_AssuranceLevel = None, ac_Impersonation = None\<rparr>"

record CurrentUser =
  cu_ID :: string
  cu_Email :: "string option"
  cu_Username :: "string option"
  cu_Status :: string
  cu_EmailVerified :: bool
  cu_AuthenticationContext :: AuthenticationContext
  cu_Metadata :: "members option"

definition fill_CurrentUser :: "CurrentUser filler" where
  "fill_CurrentUser = fill_struct [
     (''id'', field cu_ID cu_ID_update fill_string),
     (''email'', field cu_Email cu_Email_update (fill_ptr fill_string [])),
     (''username'', field cu_Username cu_Username_update (fill_ptr fill_string [])),
     (''status'', field cu_Status cu_Status_update fill_string),
     (''emailVerified'', field cu_EmailVerified cu_EmailVerified_update fill_bool),
     (''authenticationContext'', field cu_AuthenticationContext cu_AuthenticationContext_update fill_AuthenticationContext),
     (''metadata'', field cu_Metadata cu_Metadata_update fill_map)]"

definition zero_CurrentUser :: CurrentUser where
  "zero_CurrentUser = \<lparr>cu_ID = [], cu_Email = None, cu_Username = None, cu_Status = [], cu_EmailVerified = False,
     cu_AuthenticationContext = zero_AuthenticationContext, cu_Metadata = None\<rparr>"

section \<open>Parsing\<close>

datatype current_user_error =
    TokenRequired
  | RequestInvalid
  | ContextError
  | TransportFailed
  | CurrentUserStatus int
  | InvalidUserResponse
  | InvalidUserView

definition raw_member :: "string \<Rightarrow> members \<Rightarrow> json option" where
  "raw_member k ms = map_of (rev ms) k"

definition required :: "members \<Rightarrow> string list \<Rightarrow> bool" where
  "required ms ks = list_all (\<lambda>k. raw_member k ms \<noteq> None) ks"

definition blank_opt :: "string option \<Rightarrow> bool" where
  "blank_opt v = (case v of None \<Rightarrow> False | Some s \<Rightarrow> blank s)"

definition root_members :: "string list" where
  "root_members = [''id'', ''email'', ''username'', ''status'', ''emailVerified'', ''authenticationContext'', ''metadata'']"

definition context_members :: "string list" where
  "context_members = [''subjectType'', ''applicationId'', ''clientId'', ''sessionId'', ''workspaceId'',
     ''workspaceSelectionRequired'', ''organizationId'', ''organizationSlug'', ''organizationRole'', ''authTime'',
     ''authenticationMethods'', ''assuranceLevel'', ''impersonation'']"

text \<open>\<open>json.Unmarshal\<close> into a \<open>map[string]json.RawMessage\<close> variable: \<open>null\<close> leaves it nil.\<close>

fun as_members :: "json \<Rightarrow> members option" where
  "as_members (JObj ms) = Some ms"
| "as_members JNull = Some []"
| "as_members v = None"

definition bad_context :: "CurrentUser \<Rightarrow> bool" where
  "bad_context out = (let c = cu_AuthenticationContext out in
     ac_SubjectType c \<noteq> ''USER'' \<or> blank (cu_ID out) \<or> blank (cu_Status out) \<or> blank (ac_ApplicationID c) \<or>
     blank (ac_ClientID c) \<or> blank (ac_SessionID c) \<or>
     (case ac_AuthenticationMethods c of None \<Rightarrow> True | Some ms \<Rightarrow> list_ex blank ms) \<or>
     list_ex blank_opt [cu_Email out, cu_Username out, ac_WorkspaceID c, ac_OrganizationID c, ac_OrganizationSlug c,
       ac_OrganizationRole c, ac_AssuranceLevel c] \<or>
     (ac_WorkspaceSelectionRequired c \<and> ac_WorkspaceID c \<noteq> None) \<or>
     (ac_OrganizationID c = None \<and> (ac_OrganizationSlug c \<noteq> None \<or> ac_OrganizationRole c \<noteq> None)) \<or>
     (case ac_Impersonation c of None \<Rightarrow> False | Some i \<Rightarrow> blank (im_ActorID i) \<or> blank (im_ImpersonationID i)))"

definition ParseCurrentUser :: "string \<Rightarrow> current_user_error + CurrentUser" where
  "ParseCurrentUser data = (case parse_json data of
     None \<Rightarrow> Inl InvalidUserView
   | Some v \<Rightarrow> (case (as_members v, fill_CurrentUser v zero_CurrentUser) of
       (Some root, (out, True)) \<Rightarrow>
         (if \<not> required root root_members \<or> raw_member ''emailVerified'' root = Some JNull \<or> cu_Metadata out = None
          then Inl InvalidUserView
          else (case as_members (the (raw_member ''authenticationContext'' root)) of
             None \<Rightarrow> Inl InvalidUserView
           | Some raw \<Rightarrow>
               (if \<not> required raw context_members \<or> raw_member ''workspaceSelectionRequired'' raw = Some JNull
                then Inl InvalidUserView
                else if bad_context out then Inl InvalidUserView else Inr out)))
     | _ \<Rightarrow> Inl InvalidUserView))"

section \<open>The request\<close>

definition max_view :: nat where "max_view = 1048576"

definition current_user_request :: "Client \<Rightarrow> string \<Rightarrow> request" where
  "current_user_request c token = \<lparr>meth = ''GET'', url = ClientEndpoint c @ ''/api/v1/auth/me'',
     headers = header_set ''Accept'' ''application/json'' (header_set ''Authorization'' (''Bearer '' @ token) []), payload = []\<rparr>"

definition GetCurrentUser ::
  "runtime \<Rightarrow> ctx \<Rightarrow> Client \<Rightarrow> string \<Rightarrow> world \<Rightarrow> (current_user_error + CurrentUser) \<times> world" where
  "GetCurrentUser rt cx c accessToken w = (let token = normalizeBearer accessToken; req = current_user_request c token in
     if token = [] then (Inl TokenRequired, w)
     else if \<not> rt_url_ok rt (url req) then (Inl RequestInvalid, w)
     else (case exchange (rt_net rt) (client_ctx (cl_timeout c) w cx) req w of
       (Inl e, w1) \<Rightarrow> (Inl (if expired cx (clock w1) then ContextError else TransportFailed), w1)
     | (Inr resp, w1) \<Rightarrow>
        (if status resp < 200 \<or> status resp \<ge> 300 then (Inl (CurrentUserStatus (status resp)), w1)
         else if read_error resp \<or> length (body resp) > max_view then (Inl InvalidUserResponse, w1)
         else (ParseCurrentUser (body resp), w1))))"

section \<open>Well-formed views\<close>

text \<open>What the rest of a program may rely on.\<close>

definition named :: "string option \<Rightarrow> bool" where
  "named v \<longleftrightarrow> (\<forall>s. v = Some s \<longrightarrow> \<not> blank s)"

definition well_formed :: "CurrentUser \<Rightarrow> bool" where
  "well_formed u \<longleftrightarrow> (let c = cu_AuthenticationContext u in
     ac_SubjectType c = ''USER'' \<and>
     (\<forall>s \<in> {cu_ID u, cu_Status u, ac_ApplicationID c, ac_ClientID c, ac_SessionID c}. \<not> blank s) \<and>
     (\<exists>ms. ac_AuthenticationMethods c = Some ms \<and> (\<forall>m \<in> set ms. \<not> blank m)) \<and>
     (\<forall>v \<in> {cu_Email u, cu_Username u, ac_WorkspaceID c, ac_OrganizationID c, ac_OrganizationSlug c, ac_OrganizationRole c,
        ac_AssuranceLevel c}. named v) \<and>
     (ac_WorkspaceSelectionRequired c \<longrightarrow> ac_WorkspaceID c = None) \<and>
     (ac_OrganizationID c = None \<longrightarrow> ac_OrganizationSlug c = None \<and> ac_OrganizationRole c = None) \<and>
     (\<forall>i. ac_Impersonation c = Some i \<longrightarrow> \<not> blank (im_ActorID i) \<and> \<not> blank (im_ImpersonationID i)) \<and>
     (\<exists>m. cu_Metadata u = Some m))"

lemma bad_context_iff: "\<not> bad_context u \<and> cu_Metadata u \<noteq> None \<longleftrightarrow> well_formed u"
  by (auto simp: bad_context_def well_formed_def named_def blank_opt_def Let_def list_ex_iff split: option.splits)

lemma ParseCurrentUser_Inr:
  assumes "ParseCurrentUser data = Inr u"
  obtains ms where "parse_json data = Some (JObj ms)" "fill_CurrentUser (JObj ms) zero_CurrentUser = (u, True)"
    "required ms root_members" "well_formed u"
proof -
  obtain v where v: "parse_json data = Some v" using assms by (auto simp: ParseCurrentUser_def split: option.splits)
  obtain ms where ms: "as_members v = Some ms" using assms v by (auto simp: ParseCurrentUser_def split: option.splits)
  obtain out ok where f: "fill_CurrentUser v zero_CurrentUser = (out, ok)" by fastforce
  have h: "ok" "required ms root_members" "out = u" "\<not> bad_context u \<and> cu_Metadata u \<noteq> None"
    using assms v ms f by (cases ok; auto simp: ParseCurrentUser_def split: option.splits if_splits)+
  have "v = JObj ms"
    using ms h(2) by (cases v) (auto simp: required_def root_members_def raw_member_def)
  moreover have "well_formed u" using h(4) bad_context_iff by blast
  ultimately show thesis using that [of ms] v f h(1-3) by simp
qed

text \<open>The one request, with the token as its only credential.\<close>

lemma GetCurrentUser_sent:
  "sent (snd (GetCurrentUser rt cx c tok w)) =
     sent w @ (if normalizeBearer tok = [] \<or> \<not> rt_url_ok rt (ClientEndpoint c @ ''/api/v1/auth/me'') then []
               else [current_user_request c (normalizeBearer tok)])"
proof -
  let ?q = "current_user_request c (normalizeBearer tok)"
  have u: "url ?q = ClientEndpoint c @ ''/api/v1/auth/me''" by (simp add: current_user_request_def)
  show ?thesis
  proof (cases "normalizeBearer tok = [] \<or> \<not> rt_url_ok rt (url ?q)")
    case True
    then show ?thesis by (auto simp: GetCurrentUser_def u Let_def)
  next
    case False
    then have "snd (GetCurrentUser rt cx c tok w) = snd (exchange (rt_net rt) (client_ctx (cl_timeout c) w cx) ?q w)"
      by (auto simp: GetCurrentUser_def Let_def split: prod.splits sum.splits)
    with False show ?thesis by (auto simp: u)
  qed
qed

section \<open>Properties\<close>

text \<open>
  C36. A view of the current user is well formed: its subject is a user with an id, a status, an application, a
  client and a session, none of them blank; the methods of authentication are present; what is optional
  is absent or not blank; a workspace and the need to choose one, and details of an Organization
  without its id, never come together; an impersonation names who and which.  It comes from one
  request, whose only credential is the normalised token.
\<close>

theorem current_user_well_formed:
  assumes "GetCurrentUser rt cx c tok w = (Inr u, w')"
  shows "well_formed u \<and> sent w' = sent w @ [current_user_request c (normalizeBearer tok)] \<and>
    headers (current_user_request c (normalizeBearer tok)) =
      [(''Authorization'', ''Bearer '' @ normalizeBearer tok), (''Accept'', ''application/json'')]"
proof -
  obtain data where "ParseCurrentUser data = Inr u"
    and some: "\<not> (normalizeBearer tok = [] \<or> \<not> rt_url_ok rt (ClientEndpoint c @ ''/api/v1/auth/me''))"
    using assms by (auto simp: GetCurrentUser_def current_user_request_def Let_def split: if_splits prod.splits sum.splits)
  then have "well_formed u" by (auto elim: ParseCurrentUser_Inr)
  moreover have "sent w' = sent w @ [current_user_request c (normalizeBearer tok)]"
    using GetCurrentUser_sent [of rt cx c tok w] assms some by simp
  ultimately show ?thesis by (simp add: current_user_request_def header_set_def)
qed

text \<open>A view as a server may give it.\<close>

definition view_json :: json where
  "view_json = JObj [(''id'', JStr ''u''), (''email'', JNull), (''username'', JStr ''n''), (''status'', JStr ''A''),
     (''emailVerified'', JBool False), (''authenticationContext'', JObj [(''subjectType'', JStr ''USER''),
       (''applicationId'', JStr ''a''), (''clientId'', JStr ''c''), (''sessionId'', JStr ''s''), (''workspaceId'', JNull),
       (''workspaceSelectionRequired'', JBool True), (''organizationId'', JNull), (''organizationSlug'', JNull),
       (''organizationRole'', JNull), (''authTime'', JNull), (''authenticationMethods'', JArr [JStr ''pwd'']),
       (''assuranceLevel'', JNull), (''impersonation'', JNull)]), (''metadata'', JObj [])]"

definition member :: "string \<Rightarrow> string \<Rightarrow> string" where
  "member k v = quoted k @ '':'' @ v"

definition view_text :: string where
  "view_text = [CHR 0x7B] @ join '','' [member ''id'' (quoted ''u''), member ''email'' ''null'', member ''username'' (quoted ''n''),
     member ''status'' (quoted ''A''), member ''emailVerified'' ''false'',
     member ''authenticationContext'' ([CHR 0x7B] @ join '','' [member ''subjectType'' (quoted ''USER''),
       member ''applicationId'' (quoted ''a''), member ''clientId'' (quoted ''c''), member ''sessionId'' (quoted ''s''),
       member ''workspaceId'' ''null'', member ''workspaceSelectionRequired'' ''true'', member ''organizationId'' ''null'',
       member ''organizationSlug'' ''null'', member ''organizationRole'' ''null'', member ''authTime'' ''null'',
       member ''authenticationMethods'' (''['' @ quoted ''pwd'' @ '']''), member ''assuranceLevel'' ''null'',
       member ''impersonation'' ''null''] @ [CHR 0x7D]),
     member ''metadata'' [CHR 0x7B, CHR 0x7D]] @ [CHR 0x7D]"

lemma view_text_read: "parse_json view_text = Some view_json"
  by (simp add: parse_json_def view_text_def member_def quoted_def view_json_def json_eval)

definition view :: CurrentUser where
  "view = zero_CurrentUser\<lparr>cu_ID := ''u'', cu_Username := Some ''n'', cu_Status := ''A'',
     cu_AuthenticationContext := zero_AuthenticationContext\<lparr>ac_SubjectType := ''USER'', ac_ApplicationID := ''a'',
       ac_ClientID := ''c'', ac_SessionID := ''s'', ac_WorkspaceSelectionRequired := True, ac_AuthenticationMethods := Some [''pwd'']\<rparr>,
     cu_Metadata := Some []\<rparr>"

lemma view_filled: "fill_CurrentUser view_json zero_CurrentUser = (view, True)"
  by (simp add: fill_CurrentUser_def fill_AuthenticationContext_def view_json_def view_def zero_CurrentUser_def
      zero_AuthenticationContext_def fill_eval)

lemma view_accepted: "ParseCurrentUser view_text = Inr view"
proof -
  have "\<not> bad_context view"
    by (simp add: bad_context_def view_def zero_CurrentUser_def zero_AuthenticationContext_def blank_def blank_opt_def
        trim_space_def byte_def is_space_def)
  moreover have "cu_Metadata view = Some []" by (simp add: view_def)
  ultimately show ?thesis
    by (simp add: ParseCurrentUser_def view_text_read view_filled)
      (simp add: view_json_def required_def root_members_def context_members_def raw_member_def)
qed

theorem current_user_well_formed_witness:
  "\<exists>w'. GetCurrentUser (always (\<lparr>status = 200, resp_headers = [], body = view_text, read_error = False\<rparr>)) background
      sample_client ''t'' start = (Inr view, w') \<and> well_formed view"
proof -
  have tok: "normalizeBearer ''t'' = ''t''"
    by (simp add: normalizeBearer_def trim_space_def runes_def byte_def is_space_def)
  have short: "length view_text \<le> max_view"
    by (simp add: view_text_def member_def quoted_def max_view_def)
  have "\<exists>w'. GetCurrentUser (always (\<lparr>status = 200, resp_headers = [], body = view_text, read_error = False\<rparr>)) background
      sample_client ''t'' start = (Inr view, w')"
    using short by (simp add: GetCurrentUser_def tok always_def exchange_def client_ctx_def with_timeout_def sample_client_def
        Let_def view_accepted)
  then show ?thesis using current_user_well_formed by blast
qed

end
