(* ===== verification/Go_Reflect.thy ===== *)
theory Go_Reflect
  imports Go_Json "HOL-Library.AList"
begin

text \<open>
  What the package reflect shows of a Go type and of a value, as far as the sources ask.  A type is a
  tree: kinds with the name of a string type (the enumerations of the SDK are named string types) and,
  for a struct, its fields with their JSON name and whether they have the tag \<open>wire:"optional"\<close>.  A value
  is a tree of the same shape.  encoding/json is driven by the same trees, so decoding is one function.
\<close>

datatype go_type =
    TString string
  | TBool
  | TInt64
  | TPtr go_type
  | TSlice go_type
  | TMap go_type go_type
  | TStruct string "(string \<times> bool \<times> go_type) list"

datatype go_value =
    VString string
  | VBool bool
  | VInt int
  | VPtr "go_value option"
  | VSlice "go_value list option"
  | VMap "(string \<times> go_value) list option"
  | VStruct "(string \<times> go_value) list"

text \<open>The zero value of a type.  A field of a struct is known by its JSON name.\<close>

fun zero_of :: "go_type \<Rightarrow> go_value" and zero_fields :: "(string \<times> bool \<times> go_type) list \<Rightarrow> (string \<times> go_value) list" where
  "zero_of (TString n) = VString []"
| "zero_of TBool = VBool False"
| "zero_of TInt64 = VInt 0"
| "zero_of (TPtr t) = VPtr None"
| "zero_of (TSlice t) = VSlice None"
| "zero_of (TMap k t) = VMap None"
| "zero_of (TStruct n fs) = VStruct (zero_fields fs)"
| "zero_fields [] = []"
| "zero_fields ((k, opt, t) # fs) = (k, zero_of t) # zero_fields fs"

section \<open>Types of values\<close>

fun has_type :: "go_type \<Rightarrow> go_value \<Rightarrow> bool"
  and have_type :: "go_type \<Rightarrow> go_value list \<Rightarrow> bool"
  and entries_type :: "go_type \<Rightarrow> (string \<times> go_value) list \<Rightarrow> bool"
  and fields_type :: "(string \<times> bool \<times> go_type) list \<Rightarrow> (string \<times> go_value) list \<Rightarrow> bool" where
  "has_type (TString n) v = (case v of VString s \<Rightarrow> True | _ \<Rightarrow> False)"
| "has_type TBool v = (case v of VBool b \<Rightarrow> True | _ \<Rightarrow> False)"
| "has_type TInt64 v = (case v of VInt i \<Rightarrow> int64 i = i | _ \<Rightarrow> False)"
| "has_type (TPtr t) v = (case v of VPtr None \<Rightarrow> True | VPtr (Some x) \<Rightarrow> has_type t x | _ \<Rightarrow> False)"
| "has_type (TSlice t) v = (case v of VSlice None \<Rightarrow> True | VSlice (Some xs) \<Rightarrow> have_type t xs | _ \<Rightarrow> False)"
| "has_type (TMap k t) v = (case v of VMap None \<Rightarrow> True | VMap (Some es) \<Rightarrow> entries_type t es | _ \<Rightarrow> False)"
| "has_type (TStruct n fs) v = (case v of VStruct vs \<Rightarrow> fields_type fs vs | _ \<Rightarrow> False)"
| "have_type t [] = True"
| "have_type t (x # xs) = (has_type t x \<and> have_type t xs)"
| "entries_type t [] = True"
| "entries_type t ((k, x) # es) = (has_type t x \<and> entries_type t es)"
| "fields_type [] vs = (vs = [])"
| "fields_type ((k, opt, t) # fs) vs = (case vs of (k', x) # vs' \<Rightarrow> k' = k \<and> has_type t x \<and> fields_type fs vs' | [] \<Rightarrow> False)"

section \<open>Decoding\<close>

text \<open>A member goes to the first field whose name it equals up to case.\<close>

definition find_field :: "string \<Rightarrow> (string \<times> bool \<times> go_type) list \<Rightarrow> (string \<times> go_type) option" where
  "find_field k fs = map_option (\<lambda>(n, opt, t). (n, t)) (find (\<lambda>(n, opt, t). equal_fold k n) fs)"

fun set_field :: "string \<Rightarrow> go_value \<Rightarrow> (string \<times> go_value) list \<Rightarrow> (string \<times> go_value) list" where
  "set_field k x [] = []"
| "set_field k x ((k', y) # vs) = (if k' = k then (k, x) # vs else (k', y) # set_field k x vs)"

definition get_field :: "string \<Rightarrow> (string \<times> go_value) list \<Rightarrow> go_value" where
  "get_field k vs = (case map_of vs k of Some x \<Rightarrow> x | None \<Rightarrow> VPtr None)"

text \<open>The tail of the elements that are there, where there are any.\<close>

function decode :: "go_type \<Rightarrow> json \<Rightarrow> go_value \<Rightarrow> go_value option"
  and decode_items :: "go_type \<Rightarrow> json list \<Rightarrow> go_value list \<Rightarrow> go_value list option"
  and decode_entries :: "go_type \<Rightarrow> (string \<times> json) list \<Rightarrow> (string \<times> go_value) list \<Rightarrow> (string \<times> go_value) list option"
  and decode_members :: "(string \<times> bool \<times> go_type) list \<Rightarrow> (string \<times> json) list \<Rightarrow> (string \<times> go_value) list \<Rightarrow>
    (string \<times> go_value) list option" where
  "decode (TString n) v old = (case v of JStr s \<Rightarrow> Some (VString s) | JNull \<Rightarrow> Some old | _ \<Rightarrow> None)"
| "decode TBool v old = (case v of JBool b \<Rightarrow> Some (VBool b) | JNull \<Rightarrow> Some old | _ \<Rightarrow> None)"
| "decode TInt64 v old = (case v of JNum lit \<Rightarrow> map_option VInt (num_int lit) | JNull \<Rightarrow> Some old | _ \<Rightarrow> None)"
| "decode (TPtr t) v old = (if v = JNull then Some (VPtr None)
     else map_option (VPtr \<circ> Some) (decode t v (case old of VPtr (Some x) \<Rightarrow> x | _ \<Rightarrow> zero_of t)))"
| "decode (TSlice t) v old = (case v of
     JArr vs \<Rightarrow> map_option (VSlice \<circ> Some) (decode_items t vs (case old of VSlice (Some xs) \<Rightarrow> xs | _ \<Rightarrow> []))
   | JNull \<Rightarrow> Some (VSlice None) | _ \<Rightarrow> None)"
| "decode (TMap k t) v old = (case v of
     JObj ms \<Rightarrow> map_option (VMap \<circ> Some) (decode_entries t ms (case old of VMap (Some es) \<Rightarrow> es | _ \<Rightarrow> []))
   | JNull \<Rightarrow> Some (VMap None) | _ \<Rightarrow> None)"
| "decode (TStruct n fs) v old = (case v of
     JObj ms \<Rightarrow> map_option VStruct (decode_members fs ms (case old of VStruct vs \<Rightarrow> vs | _ \<Rightarrow> zero_fields fs))
   | JNull \<Rightarrow> Some old | _ \<Rightarrow> None)"
| "decode_items t [] old = Some []"
| "decode_items t (v # vs) old = (case decode t v (case old of [] \<Rightarrow> zero_of t | x # _ \<Rightarrow> x) of
     None \<Rightarrow> None | Some x \<Rightarrow> map_option (Cons x) (decode_items t vs (tl old)))"
| "decode_entries t [] old = Some old"
| "decode_entries t ((k, v) # ms) old = (case decode t v (zero_of t) of
     None \<Rightarrow> None | Some x \<Rightarrow> decode_entries t ms (AList.update k x old))"
| "decode_members fs [] vs = Some vs"
| "decode_members fs ((k, v) # ms) vs = (case find_field k fs of
     None \<Rightarrow> decode_members fs ms vs
   | Some (n, t) \<Rightarrow> (case decode t v (get_field n vs) of
       None \<Rightarrow> None | Some x \<Rightarrow> decode_members fs ms (set_field n x vs)))"
  by pat_completeness auto
termination
  by (relation "measures [
      \<lambda>x. (case x of Inl (Inl (t, v, old)) \<Rightarrow> size v | Inl (Inr (t, vs, old)) \<Rightarrow> size_list size vs
        | Inr (Inl (t, ms, old)) \<Rightarrow> size_list (size_prod (\<lambda>_. 0) size) ms | Inr (Inr (fs, ms, vs)) \<Rightarrow> size_list (size_prod (\<lambda>_. 0) size) ms),
      \<lambda>x. (case x of Inl (Inl (t, v, old)) \<Rightarrow> size t | _ \<Rightarrow> 0)]") auto

section \<open>Decoding keeps the type\<close>

text \<open>The zero value of a type has it, and so has what a field of a struct holds.\<close>

lemma zero_has_type: "has_type t (zero_of t)" and zero_fields_type: "fields_type fs (zero_fields fs)"
  by (induction t and fs rule: zero_of_zero_fields.induct) (auto simp: int64_def)

lemma num_int_int64: "num_int lit = Some n \<Longrightarrow> int64 n = n"
  by (auto simp: num_int_def Let_def split: if_splits)

lemma find_field_simps [simp]:
  "find_field k [] = None"
  "find_field k ((m, opt, u) # fs) = (if equal_fold k m then Some (m, u) else find_field k fs)"
  by (simp_all add: find_field_def)

lemma find_field_fold: "find_field k fs = Some (n, t) \<Longrightarrow> equal_fold k n"
  by (induction fs) (auto split: if_splits)

lemma field_has_type:
  "fields_type fs vs \<Longrightarrow> find_field k fs = Some (n, t) \<Longrightarrow> has_type t (get_field n vs)"
proof (induction fs arbitrary: vs)
  case (Cons f fs)
  obtain m opt u where f: "f = (m, opt, u)" by (metis prod_cases3)
  with Cons find_field_fold [of k fs n t] show ?case
    by (auto simp: get_field_def split: list.splits if_splits)
qed simp

lemma set_field_type:
  "fields_type fs vs \<Longrightarrow> find_field k fs = Some (n, t) \<Longrightarrow> has_type t x \<Longrightarrow> fields_type fs (set_field n x vs)"
proof (induction fs arbitrary: vs)
  case (Cons f fs)
  obtain m opt u where f: "f = (m, opt, u)" by (metis prod_cases3)
  with Cons find_field_fold [of k fs n t] show ?case
    by (auto split: list.splits if_splits)
qed simp

lemma have_type_all: "have_type t xs \<longleftrightarrow> list_all (has_type t) xs"
  by (induction xs) auto

lemma entries_type_all: "entries_type t es \<longleftrightarrow> list_all (\<lambda>(k, x). has_type t x) es"
  by (induction es) auto

lemma entries_type_update: "entries_type t es \<Longrightarrow> has_type t x \<Longrightarrow> entries_type t (AList.update k x es)"
  by (induction es) auto

text \<open>The document and the old content of the variable may be anything: what is decoded has the type.\<close>

lemma decode_type:
  "decode t v old = Some x \<Longrightarrow> has_type t old \<Longrightarrow> has_type t x"
  "decode_items t vs olds = Some xs \<Longrightarrow> have_type t olds \<Longrightarrow> have_type t xs"
  "decode_entries t ms es = Some es' \<Longrightarrow> entries_type t es \<Longrightarrow> entries_type t es'"
  "decode_members fs ms ws = Some ws' \<Longrightarrow> fields_type fs ws \<Longrightarrow> fields_type fs ws'"
proof (induction t v old and t vs olds and t ms es and fs ms ws arbitrary: x and xs and es' and ws'
    rule: decode_decode_items_decode_entries_decode_members.induct)
  case (4 t v old)
  then show ?case by (auto simp: zero_has_type split: if_splits go_value.splits option.splits)
next
  case (7 n fs v old)
  then show ?case by (auto split: json.splits go_value.splits)
qed (auto simp: num_int_int64 zero_has_type entries_type_update field_has_type set_field_type
    split: json.splits go_value.splits option.splits list.splits)

end
