(* ===== verification/Security_Types.thy ===== *)
theory Security_Types
  imports Go_Reflect Authz_Mgmt
begin

text \<open>
  The data of account security (account_security_types.go and account_security_enums.go).  The types of
  the answers are descriptors, as the validation and encoding/json see them through reflection.  The
  types of the requests are records, each with what reflection shows of a value and with its JSON; the
  two interfaces are datatypes, and any other implementation of them (a pointer to one of the structs,
  or a struct of another package that embeds one) is \<open>OtherPayload\<close> or \<open>OtherReauthentication\<close>.
\<close>

section \<open>Enumerations\<close>

definition securityEnums :: "(string \<times> string) list" where
  "securityEnums = [
     (''IdentifierAction'', ''VERIFY SET_PRIMARY REMOVE REPLACE TRANSFER''),
     (''IdentifierDenial'', ''ACCOUNT_INACTIVE MANAGED_IDENTIFIER METHOD_UNAVAILABLE REAUTH_METHOD_UNAVAILABLE '' @
       ''TARGET_PROOF_UNAVAILABLE IDENTIFIER_ALREADY_EXISTS NOT_APPLICABLE ALREADY_VERIFIED '' @
       ''ALREADY_PRIMARY IDENTIFIER_UNVERIFIED IDENTIFIER_RANGE_REJECTED LAST_LOGIN_METHOD '' @
       ''PRIMARY_REPLACEMENT_UNAVAILABLE''),
     (''IdentifierRequirement'', ''CURRENT_ACCOUNT_PROOF NEW_IDENTIFIER TARGET_EMAIL_OTP TARGET_PHONE_OTP REPLACEMENT_PRIMARY '' @
       ''REMOVE_OLD COUNTERPART_CONFIRMATION REMAINING_LOGIN_PATH''),
     (''MFAOperationType'', ''TOTP_ENROLL TOTP_DISABLE RECOVERY_CODES_GENERATE''),
     (''MFAOperationState'', ''AWAITING_REAUTH READY AWAITING_CONFIRMATION COMMITTED CANCELLED EXPIRED''),
     (''ProofRequirement'', ''SESSION REAUTHENTICATION STEP_UP''),
     (''ProofMethod'', ''PASSWORD EMAIL_OTP PROVIDER STEP_UP_PROOF''),
     (''SessionImpact'', ''UNCHANGED CURRENT_SESSION_RETAINED REAUTHENTICATE''),
     (''SensitiveDelivery'', ''AVAILABLE ALREADY_DELIVERED NOT_APPLICABLE''),
     (''IdentityOperationType'', ''ADD VERIFY SET_PRIMARY REMOVE REPLACE LINK UNLINK TRANSFER ACCOUNT_DELETE''),
     (''IdentityOperationState'', ''AWAITING_REAUTH AWAITING_PROOF READY COMMITTED CANCELLED EXPIRED REJECTED''),
     (''IdentifierKind'', ''USERNAME EMAIL PHONE''),
     (''TargetProofMethod'', ''EMAIL_OTP PHONE_OTP''),
     (''AuthorizationPurpose'', ''CURRENT_ACCOUNT TARGET_OWNERSHIP TRANSFER_COUNTERPART''),
     (''TransferDecision'', ''ACCEPT REJECT'')]"

definition securityEnum :: "string \<Rightarrow> string \<Rightarrow> bool" where
  "securityEnum value name = (case map_of securityEnums name of
     None \<Rightarrow> False | Some allowed \<Rightarrow> value \<in> set (Go_Prelude.fields allowed))"

definition is_enum :: "string \<Rightarrow> bool" where
  "is_enum name = (map_of securityEnums name \<noteq> None)"

text \<open>The constants that the package declares for each of them.\<close>

definition MFAOperationType_constants :: "string list" where
  "MFAOperationType_constants = [''TOTP_ENROLL'', ''TOTP_DISABLE'', ''RECOVERY_CODES_GENERATE'']"

definition MFAOperationState_constants :: "string list" where
  "MFAOperationState_constants = [''AWAITING_REAUTH'', ''READY'', ''AWAITING_CONFIRMATION'', ''COMMITTED'', ''CANCELLED'', ''EXPIRED'']"

definition ProofRequirement_constants :: "string list" where
  "ProofRequirement_constants = [''SESSION'', ''REAUTHENTICATION'', ''STEP_UP'']"

definition ProofMethod_constants :: "string list" where
  "ProofMethod_constants = [''PASSWORD'', ''EMAIL_OTP'', ''PROVIDER'', ''STEP_UP_PROOF'']"

definition SessionImpact_constants :: "string list" where
  "SessionImpact_constants = [''UNCHANGED'', ''CURRENT_SESSION_RETAINED'', ''REAUTHENTICATE'']"

definition SensitiveDelivery_constants :: "string list" where
  "SensitiveDelivery_constants = [''AVAILABLE'', ''ALREADY_DELIVERED'', ''NOT_APPLICABLE'']"

definition IdentityOperationType_constants :: "string list" where
  "IdentityOperationType_constants = [''ADD'', ''VERIFY'', ''SET_PRIMARY'', ''REMOVE'', ''REPLACE'', ''LINK'', ''UNLINK'', ''TRANSFER'',
     ''ACCOUNT_DELETE'']"

definition IdentityOperationState_constants :: "string list" where
  "IdentityOperationState_constants = [''AWAITING_REAUTH'', ''AWAITING_PROOF'', ''READY'', ''COMMITTED'', ''CANCELLED'', ''EXPIRED'', ''REJECTED'']"

definition IdentifierKind_constants :: "string list" where
  "IdentifierKind_constants = [''USERNAME'', ''EMAIL'', ''PHONE'']"

definition TargetProofMethod_constants :: "string list" where
  "TargetProofMethod_constants = [''EMAIL_OTP'', ''PHONE_OTP'']"

definition AuthorizationPurpose_constants :: "string list" where
  "AuthorizationPurpose_constants = [''CURRENT_ACCOUNT'', ''TARGET_OWNERSHIP'', ''TRANSFER_COUNTERPART'']"

definition TransferDecision_constants :: "string list" where
  "TransferDecision_constants = [''ACCEPT'', ''REJECT'']"

definition IdentifierAction_constants :: "string list" where
  "IdentifierAction_constants = [''VERIFY'', ''SET_PRIMARY'', ''REMOVE'', ''REPLACE'', ''TRANSFER'']"

definition IdentifierDenial_constants :: "string list" where
  "IdentifierDenial_constants = [''ACCOUNT_INACTIVE'', ''MANAGED_IDENTIFIER'', ''METHOD_UNAVAILABLE'', ''REAUTH_METHOD_UNAVAILABLE'',
     ''TARGET_PROOF_UNAVAILABLE'', ''IDENTIFIER_ALREADY_EXISTS'', ''NOT_APPLICABLE'', ''ALREADY_VERIFIED'',
     ''ALREADY_PRIMARY'', ''IDENTIFIER_UNVERIFIED'', ''IDENTIFIER_RANGE_REJECTED'', ''LAST_LOGIN_METHOD'',
     ''PRIMARY_REPLACEMENT_UNAVAILABLE'']"

definition IdentifierRequirement_constants :: "string list" where
  "IdentifierRequirement_constants = [''CURRENT_ACCOUNT_PROOF'', ''NEW_IDENTIFIER'', ''TARGET_EMAIL_OTP'', ''TARGET_PHONE_OTP'',
     ''REPLACEMENT_PRIMARY'', ''REMOVE_OLD'', ''COUNTERPART_CONFIRMATION'', ''REMAINING_LOGIN_PATH'']"

lemmas constants_defs = MFAOperationType_constants_def MFAOperationState_constants_def ProofRequirement_constants_def
  ProofMethod_constants_def SessionImpact_constants_def SensitiveDelivery_constants_def
  IdentityOperationType_constants_def IdentityOperationState_constants_def IdentifierKind_constants_def
  TargetProofMethod_constants_def AuthorizationPurpose_constants_def TransferDecision_constants_def
  IdentifierAction_constants_def IdentifierDenial_constants_def IdentifierRequirement_constants_def

text \<open>The table lists, for each enumeration, exactly its constants.\<close>

lemma enum_table:
  "map_option (set \<circ> Go_Prelude.fields) (map_of securityEnums ''MFAOperationType'') = Some (set MFAOperationType_constants)"
  "map_option (set \<circ> Go_Prelude.fields) (map_of securityEnums ''MFAOperationState'') = Some (set MFAOperationState_constants)"
  "map_option (set \<circ> Go_Prelude.fields) (map_of securityEnums ''ProofRequirement'') = Some (set ProofRequirement_constants)"
  "map_option (set \<circ> Go_Prelude.fields) (map_of securityEnums ''ProofMethod'') = Some (set ProofMethod_constants)"
  "map_option (set \<circ> Go_Prelude.fields) (map_of securityEnums ''SessionImpact'') = Some (set SessionImpact_constants)"
  "map_option (set \<circ> Go_Prelude.fields) (map_of securityEnums ''SensitiveDelivery'') = Some (set SensitiveDelivery_constants)"
  "map_option (set \<circ> Go_Prelude.fields) (map_of securityEnums ''IdentityOperationType'') = Some (set IdentityOperationType_constants)"
  "map_option (set \<circ> Go_Prelude.fields) (map_of securityEnums ''IdentityOperationState'') = Some (set IdentityOperationState_constants)"
  "map_option (set \<circ> Go_Prelude.fields) (map_of securityEnums ''IdentifierKind'') = Some (set IdentifierKind_constants)"
  "map_option (set \<circ> Go_Prelude.fields) (map_of securityEnums ''TargetProofMethod'') = Some (set TargetProofMethod_constants)"
  "map_option (set \<circ> Go_Prelude.fields) (map_of securityEnums ''AuthorizationPurpose'') = Some (set AuthorizationPurpose_constants)"
  "map_option (set \<circ> Go_Prelude.fields) (map_of securityEnums ''TransferDecision'') = Some (set TransferDecision_constants)"
  "map_option (set \<circ> Go_Prelude.fields) (map_of securityEnums ''IdentifierAction'') = Some (set IdentifierAction_constants)"
  "map_option (set \<circ> Go_Prelude.fields) (map_of securityEnums ''IdentifierDenial'') = Some (set IdentifierDenial_constants)"
  "map_option (set \<circ> Go_Prelude.fields) (map_of securityEnums ''IdentifierRequirement'') = Some (set IdentifierRequirement_constants)"
  by (simp_all add: securityEnums_def constants_defs Go_Prelude.fields_def chunks_ascii byte_def is_space_def del: chunks.simps)

section \<open>Answers\<close>

definition OperationProofOption :: go_type where
  "OperationProofOption = TStruct ''OperationProofOption'' [
     (''method'', False, (TString ''ProofMethod'')),
     (''identifierId'', True, (TPtr (TString ''string''))),
     (''maskedIdentifier'', True, (TPtr (TString ''string''))),
     (''methodId'', True, (TPtr (TString ''string''))),
     (''displayName'', True, (TPtr (TString ''string''))),
     (''availableMethods'', True, (TSlice (TString ''string'')))]"

definition OperationCompletion :: go_type where
  "OperationCompletion = TStruct ''OperationCompletion'' [
     (''completedAt'', False, (TString ''string'')),
     (''finalLoginMethodVersion'', False, TInt64),
     (''sessionImpact'', False, (TString ''SessionImpact''))]"

definition MFAOperationResult :: go_type where
  "MFAOperationResult = TStruct ''MFAOperationResult'' [
     (''completedAt'', False, (TString ''string'')),
     (''finalLoginMethodVersion'', False, TInt64),
     (''sessionImpact'', False, (TString ''SessionImpact'')),
     (''recoveryBatchId'', True, (TPtr (TString ''string''))),
     (''recoveryCount'', True, (TPtr TInt64))]"

definition MFAAction :: go_type where
  "MFAAction = TStruct ''MFAAction'' [
     (''allowed'', False, TBool),
     (''reasonCode'', True, (TPtr (TString ''string''))),
     (''proofRequirement'', False, (TString ''ProofRequirement'')),
     (''proofOptions'', False, (TSlice OperationProofOption))]"

definition MFACapabilities :: go_type where
  "MFACapabilities = TStruct ''MFACapabilities'' [
     (''loginMethodVersion'', False, TInt64),
     (''totpEnroll'', False, MFAAction),
     (''totpDisable'', False, MFAAction),
     (''recoveryCodesGenerate'', False, MFAAction)]"

definition MFAOperation :: go_type where
  "MFAOperation = TStruct ''MFAOperation'' [
     (''id'', False, (TString ''string'')),
     (''type'', False, (TString ''MFAOperationType'')),
     (''state'', False, (TString ''MFAOperationState'')),
     (''createdAt'', False, (TString ''string'')),
     (''expiresAt'', False, (TString ''string'')),
     (''expectedLoginMethodVersion'', False, TInt64),
     (''proofRequirement'', False, (TString ''ProofRequirement'')),
     (''proofOptions'', False, (TSlice OperationProofOption)),
     (''proofSatisfied'', False, TBool),
     (''nextChallengeAt'', True, (TPtr (TString ''string''))),
     (''reasonCode'', True, (TPtr (TString ''string''))),
     (''result'', True, (TPtr MFAOperationResult))]"

definition TOTPMaterial :: go_type where
  "TOTPMaterial = TStruct ''TOTPMaterial'' [
     (''secret'', False, (TString ''string'')),
     (''qrCodeUri'', False, (TString ''string'')),
     (''issuer'', False, (TString ''string''))]"

definition TOTPBeginResult :: go_type where
  "TOTPBeginResult = TStruct ''TOTPBeginResult'' [
     (''operation'', False, MFAOperation),
     (''delivery'', False, (TString ''SensitiveDelivery'')),
     (''material'', True, (TPtr TOTPMaterial))]"

definition RecoveryCodes :: go_type where
  "RecoveryCodes = TStruct ''RecoveryCodes'' [
     (''codes'', False, (TSlice (TString ''string''))),
     (''count'', False, TInt64)]"

definition MFACompletionResult :: go_type where
  "MFACompletionResult = TStruct ''MFACompletionResult'' [
     (''operation'', False, MFAOperation),
     (''delivery'', False, (TString ''SensitiveDelivery'')),
     (''recoveryCodes'', True, (TPtr RecoveryCodes))]"

definition MFAChallengeResult :: go_type where
  "MFAChallengeResult = TStruct ''MFAChallengeResult'' [
     (''operation'', False, MFAOperation),
     (''challengeId'', False, (TString ''string'')),
     (''nextChallengeAt'', False, (TString ''string''))]"

definition IdentityRequiredProof :: go_type where
  "IdentityRequiredProof = TStruct ''IdentityRequiredProof'' [
     (''purpose'', False, (TString ''string'')),
     (''methods'', False, (TSlice (TString ''string''))),
     (''strength'', False, (TString ''string'')),
     (''satisfied'', False, TBool)]"

definition ProviderTarget :: go_type where
  "ProviderTarget = TStruct ''ProviderTarget'' [
     (''providerId'', False, (TString ''string'')),
     (''maskedDisplayName'', False, (TPtr (TString ''string''))),
     (''maskedEmail'', False, (TPtr (TString ''string''))),
     (''reference'', False, (TString ''string''))]"

definition IdentityOperation :: go_type where
  "IdentityOperation = TStruct ''IdentityOperation'' [
     (''id'', False, (TString ''string'')),
     (''type'', False, (TString ''IdentityOperationType'')),
     (''state'', False, (TString ''IdentityOperationState'')),
     (''expiresAt'', False, (TString ''string'')),
     (''requiredProofs'', False, (TSlice IdentityRequiredProof)),
     (''result'', True, (TMap (TString ''string'') (TString ''string''))),
     (''maskedIdentifier'', True, (TPtr (TString ''string''))),
     (''nextChallengeAt'', True, (TPtr (TString ''string''))),
     (''completion'', True, (TPtr OperationCompletion)),
     (''proofOptions'', False, (TSlice OperationProofOption)),
     (''providerTarget'', False, (TPtr ProviderTarget))]"

definition IdentityChallengeResult :: go_type where
  "IdentityChallengeResult = TStruct ''IdentityChallengeResult'' [
     (''operation'', False, IdentityOperation),
     (''challengeId'', False, (TString ''string'')),
     (''nextChallengeAt'', False, (TString ''string''))]"

definition ProviderAuthorization :: go_type where
  "ProviderAuthorization = TStruct ''ProviderAuthorization'' [
     (''authorizationId'', False, (TString ''string'')),
     (''authorizationUrl'', False, (TString ''string'')),
     (''expiresAt'', False, (TString ''string''))]"

definition OperationStepUpChallenge :: go_type where
  "OperationStepUpChallenge = TStruct ''OperationStepUpChallenge'' [
     (''challengeId'', False, (TString ''string'')),
     (''availableMethods'', False, (TSlice (TString ''string'')))]"

definition OperationWebAuthnStart :: go_type where
  "OperationWebAuthnStart = TStruct ''OperationWebAuthnStart'' [
     (''requestId'', False, (TString ''string'')),
     (''publicKey'', False, (TString ''string''))]"

definition IdentifierCapability :: go_type where
  "IdentifierCapability = TStruct ''IdentifierCapability'' [
     (''allowed'', False, TBool),
     (''unavailableReasons'', False, (TSlice (TString ''IdentifierDenial''))),
     (''requirements'', False, (TSlice (TString ''IdentifierRequirement''))),
     (''replacementPrimaryIds'', False, (TSlice (TString ''string'')))]"

definition AccountIdentifier :: go_type where
  "AccountIdentifier = TStruct ''AccountIdentifier'' [
     (''capabilities'', True, (TMap (TString ''IdentifierAction'') IdentifierCapability)),
     (''id'', False, (TString ''string'')),
     (''kind'', False, (TString ''IdentifierKind'')),
     (''displayValue'', False, (TString ''string'')),
     (''status'', False, (TString ''string'')),
     (''verificationState'', False, (TString ''string'')),
     (''verifiedAt'', True, (TPtr (TString ''string''))),
     (''verificationSource'', True, (TPtr (TString ''string''))),
     (''isPrimary'', False, TBool),
     (''managedBy'', True, (TPtr (TString ''string'')))]"

definition IdentifierManagement :: go_type where
  "IdentifierManagement = TStruct ''IdentifierManagement'' [
     (''add'', False, (TMap (TString ''IdentifierKind'') IdentifierCapability)),
     (''proofOptions'', False, (TSlice OperationProofOption))]"

definition AccountIdentifiers :: go_type where
  "AccountIdentifiers = TStruct ''AccountIdentifiers'' [
     (''management'', False, (TPtr IdentifierManagement)),
     (''loginMethodVersion'', False, TInt64),
     (''items'', False, (TSlice AccountIdentifier))]"

definition AccountLoginMethod :: go_type where
  "AccountLoginMethod = TStruct ''AccountLoginMethod'' [
     (''methodId'', False, (TString ''string'')),
     (''kind'', False, (TString ''string'')),
     (''roles'', False, (TSlice (TString ''string''))),
     (''status'', False, (TString ''string'')),
     (''identifierId'', True, (TPtr (TString ''string''))),
     (''credentialId'', True, (TPtr (TString ''string''))),
     (''identityId'', True, (TPtr (TString ''string''))),
     (''providerId'', True, (TPtr (TString ''string''))),
     (''capabilities'', False, (TMap (TString ''string'') TBool)),
     (''unavailableReasons'', False, (TSlice (TString ''string'')))]"

definition AccountLoginMethods :: go_type where
  "AccountLoginMethods = TStruct ''AccountLoginMethods'' [
     (''loginMethodVersion'', False, TInt64),
     (''methods'', False, (TSlice AccountLoginMethod))]"

definition LinkableIdentityProvider :: go_type where
  "LinkableIdentityProvider = TStruct ''LinkableIdentityProvider'' [
     (''id'', False, (TString ''string'')),
     (''providerType'', False, (TString ''string'')),
     (''protocol'', False, (TString ''string'')),
     (''displayName'', False, (TString ''string'')),
     (''enabled'', False, TBool),
     (''linked'', False, TBool),
     (''linkedAt'', True, (TPtr (TString ''string''))),
     (''supportsAccountLinking'', False, TBool),
     (''canLink'', False, TBool),
     (''canReauthenticate'', False, TBool),
     (''unavailableReasons'', False, (TSlice (TString ''string'')))]"

definition RecoveryCodesRemaining :: go_type where
  "RecoveryCodesRemaining = TStruct ''RecoveryCodesRemaining'' [
     (''remaining'', False, TInt64)]"

section \<open>Requests\<close>

text \<open>What reflection shows of a request: string kinds with the name of their type, fields with their
  name and whether they are optional on the wire.\<close>

datatype req_value =
    RStr string string
  | RInt int
  | RBool bool
  | RPtr "req_value option"
  | RSlice "req_value list option"
  | RIface "req_value option"
  | RStruct string "(string \<times> bool \<times> req_value) list"
  | ROther

record MFAOperationCreate =
  mc_Type :: string
  mc_ExpectedLoginMethodVersion :: int

definition reflect_MFAOperationCreate :: "MFAOperationCreate \<Rightarrow> req_value" where
  "reflect_MFAOperationCreate r = RStruct ''MFAOperationCreate'' [
     (''Type'', False, RStr ''MFAOperationType'' (mc_Type r)),
     (''ExpectedLoginMethodVersion'', False, RInt (mc_ExpectedLoginMethodVersion r))]"

definition json_MFAOperationCreate :: "MFAOperationCreate \<Rightarrow> json" where
  "json_MFAOperationCreate r = JObj ([(''type'', JStr (mc_Type r))] @
     [(''expectedLoginMethodVersion'', JNum (itoa (mc_ExpectedLoginMethodVersion r)))])"

record LoginIdentifier =
  lid_Kind :: string
  lid_Value :: string
  lid_Region :: "string option"

definition reflect_LoginIdentifier :: "LoginIdentifier \<Rightarrow> req_value" where
  "reflect_LoginIdentifier r = RStruct ''LoginIdentifier'' [
     (''Kind'', False, RStr ''IdentifierKind'' (lid_Kind r)),
     (''Value'', False, RStr ''string'' (lid_Value r)),
     (''Region'', True, RPtr (map_option (RStr ''string'') (lid_Region r)))]"

definition json_LoginIdentifier :: "LoginIdentifier \<Rightarrow> json" where
  "json_LoginIdentifier r = JObj ([(''kind'', JStr (lid_Kind r))] @
     [(''value'', JStr (lid_Value r))] @
     opt_member ''region'' (lid_Region r))"

record AddIdentity =
  ai_Identifier :: LoginIdentifier

definition reflect_AddIdentity :: "AddIdentity \<Rightarrow> req_value" where
  "reflect_AddIdentity r = RStruct ''AddIdentity'' [
     (''Identifier'', False, reflect_LoginIdentifier (ai_Identifier r))]"

definition json_AddIdentity :: "AddIdentity \<Rightarrow> json" where
  "json_AddIdentity r = JObj ([(''identifier'', json_LoginIdentifier (ai_Identifier r))])"

record VerifyIdentity =
  vi_IdentifierID :: string

definition reflect_VerifyIdentity :: "VerifyIdentity \<Rightarrow> req_value" where
  "reflect_VerifyIdentity r = RStruct ''VerifyIdentity'' [
     (''IdentifierID'', False, RStr ''string'' (vi_IdentifierID r))]"

definition json_VerifyIdentity :: "VerifyIdentity \<Rightarrow> json" where
  "json_VerifyIdentity r = JObj ([(''identifierId'', JStr (vi_IdentifierID r))])"

record SetPrimaryIdentity =
  sp_IdentifierID :: string

definition reflect_SetPrimaryIdentity :: "SetPrimaryIdentity \<Rightarrow> req_value" where
  "reflect_SetPrimaryIdentity r = RStruct ''SetPrimaryIdentity'' [
     (''IdentifierID'', False, RStr ''string'' (sp_IdentifierID r))]"

definition json_SetPrimaryIdentity :: "SetPrimaryIdentity \<Rightarrow> json" where
  "json_SetPrimaryIdentity r = JObj ([(''identifierId'', JStr (sp_IdentifierID r))])"

record RemoveIdentity =
  ri_IdentifierID :: string
  ri_ReplacementPrimaryID :: "string option"

definition reflect_RemoveIdentity :: "RemoveIdentity \<Rightarrow> req_value" where
  "reflect_RemoveIdentity r = RStruct ''RemoveIdentity'' [
     (''IdentifierID'', False, RStr ''string'' (ri_IdentifierID r)),
     (''ReplacementPrimaryID'', True, RPtr (map_option (RStr ''string'') (ri_ReplacementPrimaryID r)))]"

definition json_RemoveIdentity :: "RemoveIdentity \<Rightarrow> json" where
  "json_RemoveIdentity r = JObj ([(''identifierId'', JStr (ri_IdentifierID r))] @
     opt_member ''replacementPrimaryId'' (ri_ReplacementPrimaryID r))"

record ReplaceIdentity =
  rpi_IdentifierID :: string
  rpi_Replacement :: LoginIdentifier
  rpi_RemoveOld :: bool
  rpi_ReplacementPrimaryID :: "string option"

definition reflect_ReplaceIdentity :: "ReplaceIdentity \<Rightarrow> req_value" where
  "reflect_ReplaceIdentity r = RStruct ''ReplaceIdentity'' [
     (''IdentifierID'', False, RStr ''string'' (rpi_IdentifierID r)),
     (''Replacement'', False, reflect_LoginIdentifier (rpi_Replacement r)),
     (''RemoveOld'', False, RBool (rpi_RemoveOld r)),
     (''ReplacementPrimaryID'', True, RPtr (map_option (RStr ''string'') (rpi_ReplacementPrimaryID r)))]"

definition json_ReplaceIdentity :: "ReplaceIdentity \<Rightarrow> json" where
  "json_ReplaceIdentity r = JObj ([(''identifierId'', JStr (rpi_IdentifierID r))] @
     [(''replacement'', json_LoginIdentifier (rpi_Replacement r))] @
     [(''removeOld'', JBool (rpi_RemoveOld r))] @
     opt_member ''replacementPrimaryId'' (rpi_ReplacementPrimaryID r))"

record LinkIdentity =
  lk_ProviderID :: string

definition reflect_LinkIdentity :: "LinkIdentity \<Rightarrow> req_value" where
  "reflect_LinkIdentity r = RStruct ''LinkIdentity'' [
     (''ProviderID'', False, RStr ''string'' (lk_ProviderID r))]"

definition json_LinkIdentity :: "LinkIdentity \<Rightarrow> json" where
  "json_LinkIdentity r = JObj ([(''providerId'', JStr (lk_ProviderID r))])"

record UnlinkIdentity =
  ul_MethodID :: string

definition reflect_UnlinkIdentity :: "UnlinkIdentity \<Rightarrow> req_value" where
  "reflect_UnlinkIdentity r = RStruct ''UnlinkIdentity'' [
     (''MethodID'', False, RStr ''string'' (ul_MethodID r))]"

definition json_UnlinkIdentity :: "UnlinkIdentity \<Rightarrow> json" where
  "json_UnlinkIdentity r = JObj ([(''methodId'', JStr (ul_MethodID r))])"

record TransferIdentity =
  tr_IdentifierID :: string
  tr_TargetUserID :: string
  tr_SourceReplacementPrimaryID :: "string option"

definition reflect_TransferIdentity :: "TransferIdentity \<Rightarrow> req_value" where
  "reflect_TransferIdentity r = RStruct ''TransferIdentity'' [
     (''IdentifierID'', False, RStr ''string'' (tr_IdentifierID r)),
     (''TargetUserID'', False, RStr ''string'' (tr_TargetUserID r)),
     (''SourceReplacementPrimaryID'', True, RPtr (map_option (RStr ''string'') (tr_SourceReplacementPrimaryID r)))]"

definition json_TransferIdentity :: "TransferIdentity \<Rightarrow> json" where
  "json_TransferIdentity r = JObj ([(''identifierId'', JStr (tr_IdentifierID r))] @
     [(''targetUserId'', JStr (tr_TargetUserID r))] @
     opt_member ''sourceReplacementPrimaryId'' (tr_SourceReplacementPrimaryID r))"

datatype IdentityPayload =
    PAddIdentity AddIdentity
  | PVerifyIdentity VerifyIdentity
  | PSetPrimaryIdentity SetPrimaryIdentity
  | PRemoveIdentity RemoveIdentity
  | PReplaceIdentity ReplaceIdentity
  | PLinkIdentity LinkIdentity
  | PUnlinkIdentity UnlinkIdentity
  | PTransferIdentity TransferIdentity
  | OtherPayload

fun reflect_IdentityPayload :: "IdentityPayload \<Rightarrow> req_value" where
  "reflect_IdentityPayload (PAddIdentity r) = reflect_AddIdentity r"
| "reflect_IdentityPayload (PVerifyIdentity r) = reflect_VerifyIdentity r"
| "reflect_IdentityPayload (PSetPrimaryIdentity r) = reflect_SetPrimaryIdentity r"
| "reflect_IdentityPayload (PRemoveIdentity r) = reflect_RemoveIdentity r"
| "reflect_IdentityPayload (PReplaceIdentity r) = reflect_ReplaceIdentity r"
| "reflect_IdentityPayload (PLinkIdentity r) = reflect_LinkIdentity r"
| "reflect_IdentityPayload (PUnlinkIdentity r) = reflect_UnlinkIdentity r"
| "reflect_IdentityPayload (PTransferIdentity r) = reflect_TransferIdentity r"
| "reflect_IdentityPayload OtherPayload = ROther"

fun payload_json :: "IdentityPayload \<Rightarrow> (string \<times> json) option" where
  "payload_json (PAddIdentity r) = Some (''ADD'', json_AddIdentity r)"
| "payload_json (PVerifyIdentity r) = Some (''VERIFY'', json_VerifyIdentity r)"
| "payload_json (PSetPrimaryIdentity r) = Some (''SET_PRIMARY'', json_SetPrimaryIdentity r)"
| "payload_json (PRemoveIdentity r) = Some (''REMOVE'', json_RemoveIdentity r)"
| "payload_json (PReplaceIdentity r) = Some (''REPLACE'', json_ReplaceIdentity r)"
| "payload_json (PLinkIdentity r) = Some (''LINK'', json_LinkIdentity r)"
| "payload_json (PUnlinkIdentity r) = Some (''UNLINK'', json_UnlinkIdentity r)"
| "payload_json (PTransferIdentity r) = Some (''TRANSFER'', json_TransferIdentity r)"
| "payload_json OtherPayload = None"

record IdentityOperationCreate =
  icr_ExpectedLoginMethodVersion :: int
  icr_Payload :: "IdentityPayload option"

definition reflect_IdentityOperationCreate :: "IdentityOperationCreate \<Rightarrow> req_value" where
  "reflect_IdentityOperationCreate r = RStruct ''IdentityOperationCreate'' [
     (''ExpectedLoginMethodVersion'', False, RInt (icr_ExpectedLoginMethodVersion r)),
     (''Payload'', False, RIface (map_option reflect_IdentityPayload (icr_Payload r)))]"

text \<open>\<open>MarshalJSON\<close>: the discriminator comes from the type of the payload; \<open>None\<close> is the error.\<close>

definition json_IdentityOperationCreate :: "IdentityOperationCreate \<Rightarrow> json option" where
  "json_IdentityOperationCreate r = (case icr_Payload r of
     None \<Rightarrow> None
   | Some p \<Rightarrow> map_option (\<lambda>(kind, payload). JObj [(''type'', JStr kind),
       (''expectedLoginMethodVersion'', JNum (itoa (icr_ExpectedLoginMethodVersion r))), (''payload'', payload)]) (payload_json p))"

record PasswordReauthentication =
  pw_Password :: string

definition reflect_PasswordReauthentication :: "PasswordReauthentication \<Rightarrow> req_value" where
  "reflect_PasswordReauthentication r = RStruct ''PasswordReauthentication'' [
     (''Password'', False, RStr ''string'' (pw_Password r))]"

definition json_PasswordReauthentication :: "PasswordReauthentication \<Rightarrow> json" where
  "json_PasswordReauthentication r = JObj ([(''password'', JStr (pw_Password r))] @
     [(''method'', JStr ''PASSWORD'')])"

record EmailOTPReauthentication =
  eo_ChallengeID :: string
  eo_Code :: string

definition reflect_EmailOTPReauthentication :: "EmailOTPReauthentication \<Rightarrow> req_value" where
  "reflect_EmailOTPReauthentication r = RStruct ''EmailOTPReauthentication'' [
     (''ChallengeID'', False, RStr ''string'' (eo_ChallengeID r)),
     (''Code'', False, RStr ''string'' (eo_Code r))]"

definition json_EmailOTPReauthentication :: "EmailOTPReauthentication \<Rightarrow> json" where
  "json_EmailOTPReauthentication r = JObj ([(''challengeId'', JStr (eo_ChallengeID r))] @
     [(''code'', JStr (eo_Code r))] @
     [(''method'', JStr ''EMAIL_OTP'')])"

record OperationStepUpVerify =
  su_ChallengeID :: string
  su_Code :: string

definition reflect_OperationStepUpVerify :: "OperationStepUpVerify \<Rightarrow> req_value" where
  "reflect_OperationStepUpVerify r = RStruct ''OperationStepUpVerify'' [
     (''ChallengeID'', False, RStr ''string'' (su_ChallengeID r)),
     (''Code'', False, RStr ''string'' (su_Code r))]"

definition json_OperationStepUpVerify :: "OperationStepUpVerify \<Rightarrow> json" where
  "json_OperationStepUpVerify r = JObj ([(''challengeId'', JStr (su_ChallengeID r))] @
     [(''code'', JStr (su_Code r))])"

record OperationWebAuthnVerify =
  wv_ChallengeID :: string
  wv_RequestID :: string
  wv_Credential :: string

definition reflect_OperationWebAuthnVerify :: "OperationWebAuthnVerify \<Rightarrow> req_value" where
  "reflect_OperationWebAuthnVerify r = RStruct ''OperationWebAuthnVerify'' [
     (''ChallengeID'', False, RStr ''string'' (wv_ChallengeID r)),
     (''RequestID'', False, RStr ''string'' (wv_RequestID r)),
     (''Credential'', False, RStr ''string'' (wv_Credential r))]"

definition json_OperationWebAuthnVerify :: "OperationWebAuthnVerify \<Rightarrow> json" where
  "json_OperationWebAuthnVerify r = JObj ([(''challengeId'', JStr (wv_ChallengeID r))] @
     [(''requestId'', JStr (wv_RequestID r))] @
     [(''credential'', JStr (wv_Credential r))])"

record ProviderExchange =
  px_AuthorizationID :: string
  px_CodeVerifier :: string

definition reflect_ProviderExchange :: "ProviderExchange \<Rightarrow> req_value" where
  "reflect_ProviderExchange r = RStruct ''ProviderExchange'' [
     (''AuthorizationID'', False, RStr ''string'' (px_AuthorizationID r)),
     (''CodeVerifier'', False, RStr ''string'' (px_CodeVerifier r))]"

definition json_ProviderExchange :: "ProviderExchange \<Rightarrow> json" where
  "json_ProviderExchange r = JObj ([(''authorizationId'', JStr (px_AuthorizationID r))] @
     [(''codeVerifier'', JStr (px_CodeVerifier r))])"

record MFAProviderAuthorize =
  mp_MethodID :: string
  mp_RedirectURI :: string
  mp_CodeChallenge :: string
  mp_CodeChallengeMethod :: string

definition reflect_MFAProviderAuthorize :: "MFAProviderAuthorize \<Rightarrow> req_value" where
  "reflect_MFAProviderAuthorize r = RStruct ''MFAProviderAuthorize'' [
     (''MethodID'', False, RStr ''string'' (mp_MethodID r)),
     (''RedirectURI'', False, RStr ''string'' (mp_RedirectURI r)),
     (''CodeChallenge'', False, RStr ''string'' (mp_CodeChallenge r)),
     (''CodeChallengeMethod'', False, RStr ''string'' (mp_CodeChallengeMethod r))]"

definition json_MFAProviderAuthorize :: "MFAProviderAuthorize \<Rightarrow> json" where
  "json_MFAProviderAuthorize r = JObj ([(''methodId'', JStr (mp_MethodID r))] @
     [(''redirectUri'', JStr (mp_RedirectURI r))] @
     [(''codeChallenge'', JStr (mp_CodeChallenge r))] @
     [(''codeChallengeMethod'', JStr (mp_CodeChallengeMethod r))])"

record IdentityProviderAuthorize =
  ip_Purpose :: string
  ip_RedirectURI :: string
  ip_CodeChallenge :: string
  ip_CodeChallengeMethod :: string
  ip_MethodID :: "string option"

definition reflect_IdentityProviderAuthorize :: "IdentityProviderAuthorize \<Rightarrow> req_value" where
  "reflect_IdentityProviderAuthorize r = RStruct ''IdentityProviderAuthorize'' [
     (''Purpose'', False, RStr ''AuthorizationPurpose'' (ip_Purpose r)),
     (''RedirectURI'', False, RStr ''string'' (ip_RedirectURI r)),
     (''CodeChallenge'', False, RStr ''string'' (ip_CodeChallenge r)),
     (''CodeChallengeMethod'', False, RStr ''string'' (ip_CodeChallengeMethod r)),
     (''MethodID'', True, RPtr (map_option (RStr ''string'') (ip_MethodID r)))]"

definition json_IdentityProviderAuthorize :: "IdentityProviderAuthorize \<Rightarrow> json" where
  "json_IdentityProviderAuthorize r = JObj ([(''purpose'', JStr (ip_Purpose r))] @
     [(''redirectUri'', JStr (ip_RedirectURI r))] @
     [(''codeChallenge'', JStr (ip_CodeChallenge r))] @
     [(''codeChallengeMethod'', JStr (ip_CodeChallengeMethod r))] @
     opt_member ''methodId'' (ip_MethodID r))"

record IdentityTargetProof =
  tp_Method :: string
  tp_Code :: string

definition reflect_IdentityTargetProof :: "IdentityTargetProof \<Rightarrow> req_value" where
  "reflect_IdentityTargetProof r = RStruct ''IdentityTargetProof'' [
     (''Method'', False, RStr ''TargetProofMethod'' (tp_Method r)),
     (''Code'', False, RStr ''string'' (tp_Code r))]"

definition json_IdentityTargetProof :: "IdentityTargetProof \<Rightarrow> json" where
  "json_IdentityTargetProof r = JObj ([(''method'', JStr (tp_Method r))] @
     [(''code'', JStr (tp_Code r))] @
     [(''purpose'', JStr ''TARGET_OWNERSHIP'')])"

record IdentityOperationComplete =
  ic_Proofs :: "IdentityTargetProof list option"

definition reflect_IdentityOperationComplete :: "IdentityOperationComplete \<Rightarrow> req_value" where
  "reflect_IdentityOperationComplete r = RStruct ''IdentityOperationComplete'' [
     (''Proofs'', False, RSlice (map_option (map reflect_IdentityTargetProof) (ic_Proofs r)))]"

definition json_IdentityOperationComplete :: "IdentityOperationComplete \<Rightarrow> json" where
  "json_IdentityOperationComplete r = JObj ([(''proofs'', (case ic_Proofs r of None \<Rightarrow> JNull | Some ps \<Rightarrow> JArr (map json_IdentityTargetProof ps)))])"

datatype Reauthentication =
    RPassword PasswordReauthentication
  | REmailOTP EmailOTPReauthentication
  | OtherReauthentication

fun reflect_Reauthentication :: "Reauthentication \<Rightarrow> req_value" where
  "reflect_Reauthentication (RPassword r) = reflect_PasswordReauthentication r"
| "reflect_Reauthentication (REmailOTP r) = reflect_EmailOTPReauthentication r"
| "reflect_Reauthentication OtherReauthentication = ROther"

fun json_Reauthentication :: "Reauthentication \<Rightarrow> json" where
  "json_Reauthentication (RPassword r) = json_PasswordReauthentication r"
| "json_Reauthentication (REmailOTP r) = json_EmailOTPReauthentication r"
| "json_Reauthentication OtherReauthentication = JNull"

end
