(* ===== verification/Security_Transport.thy ===== *)
theory Security_Transport
  imports Security_Types Transport
begin

text \<open>
  The transport of account security (account_security_transport.go): the checks on tokens, keys and
  requests, the single exchange, which nothing ever repeats, the error bodies, and the two layers of
  checks on an answer, its shape (\<open>validateSecurityJSON\<close>) and its meaning (\<open>securitySemantic\<close>).

  Every failed check of a request gives the same error, and every failed check of an answer too, so
  both are predicates here.
\<close>

datatype security_error =
    SecurityInput
  | SecurityContext
  | SecurityTransport bool
  | SecurityProtocol
  | SecurityAPI int string "int option"

section \<open>Patterns and arguments\<close>

definition securityUUID :: "string \<Rightarrow> bool" where
  "securityUUID s = (case split_on (CHR ''-'') s of
     [a, b, c, d, e] \<Rightarrow> repeated lower_hex 8 8 a \<and> repeated lower_hex 4 4 b \<and> repeated lower_hex 4 4 c \<and>
       repeated lower_hex 4 4 d \<and> repeated lower_hex 12 12 e
   | _ \<Rightarrow> False)"

definition securityProviderReference :: "string \<Rightarrow> bool" where
  "securityProviderReference = repeated lower_hex 64 64"

definition securityCode :: "string \<Rightarrow> bool" where
  "securityCode = repeated digit 6 6"

definition securityPKCE :: "string \<Rightarrow> bool" where
  "securityPKCE = repeated (\<lambda>c. alnum c \<or> c = CHR ''_'' \<or> c = CHR ''-'') 43 43"

definition securityVerifier :: "string \<Rightarrow> bool" where
  "securityVerifier = repeated (\<lambda>c. alnum c \<or> c \<in> set ''._~-'') 43 128"

definition upper_letter :: "char \<Rightarrow> bool" where
  "upper_letter c = (CHR ''A'' \<le> c \<and> c \<le> CHR ''Z'')"

definition securityErrorCode :: "string \<Rightarrow> bool" where
  "securityErrorCode s = (case s of [] \<Rightarrow> False
     | c # r \<Rightarrow> upper_letter c \<and> repeated (\<lambda>d. upper_letter d \<or> digit d \<or> d = CHR ''_'') 0 127 r)"

definition securityRetry :: "string \<Rightarrow> bool" where
  "securityRetry = repeated digit 1 10"

definition securityToken :: "string \<Rightarrow> security_error + string" where
  "securityToken value = (let token = trim_prefix ''Bearer '' value in
     if token = [] then Inl SecurityInput
     else if list_ex (\<lambda>r. r < 33 \<or> r > 126) (runes token) then Inl SecurityInput else Inr token)"

definition securityKey :: "string \<Rightarrow> bool" where
  "securityKey key = (\<not> blank key \<and> length key \<le> 256 \<and> list_all (\<lambda>r. 32 \<le> r \<and> r \<le> 126) (runes key))"

section \<open>Requests\<close>

definition securityRequestTypes :: "string list" where
  "securityRequestTypes = [''MFAOperationCreate'', ''LoginIdentifier'', ''AddIdentity'', ''VerifyIdentity'',
     ''SetPrimaryIdentity'', ''RemoveIdentity'', ''ReplaceIdentity'', ''LinkIdentity'', ''UnlinkIdentity'',
     ''TransferIdentity'', ''PasswordReauthentication'', ''EmailOTPReauthentication'', ''OperationStepUpVerify'',
     ''OperationWebAuthnVerify'', ''ProviderExchange'', ''MFAProviderAuthorize'', ''IdentityProviderAuthorize'',
     ''IdentityTargetProof'', ''IdentityOperationComplete'', ''IdentityOperationCreate'']"

definition identity_payloads :: "string list" where
  "identity_payloads = [''AddIdentity'', ''VerifyIdentity'', ''SetPrimaryIdentity'', ''RemoveIdentity'',
     ''ReplaceIdentity'', ''LinkIdentity'', ''UnlinkIdentity'', ''TransferIdentity'']"

text \<open>The rules for a string in the field \<open>f\<close> of the struct \<open>t\<close>; \<open>ty\<close> is its type.\<close>

definition string_ok :: "string \<Rightarrow> string \<Rightarrow> string \<Rightarrow> string \<Rightarrow> bool" where
  "string_ok t f ty value \<longleftrightarrow> \<not> blank value \<and> (is_enum ty \<longrightarrow> securityEnum value ty) \<and>
     (has_suffix ''ID'' f \<and> f \<noteq> ''MethodID'' \<and> f \<noteq> ''RequestID'' \<and> \<not> (f = ''ChallengeID'' \<and> t \<noteq> ''EmailOTPReauthentication'')
        \<longrightarrow> securityUUID value) \<and>
     (f = ''Code'' \<longrightarrow> securityCode value)"

text \<open>The fields read by the rules of one type: the last switch.\<close>

definition str_field :: "string \<Rightarrow> (string \<times> bool \<times> req_value) list \<Rightarrow> string" where
  "str_field f fs = (case find (\<lambda>(g, v). g = f) fs of Some (g, opt, RStr ty s) \<Rightarrow> s | _ \<Rightarrow> [])"

definition type_rule :: "string \<Rightarrow> (string \<times> bool \<times> req_value) list \<Rightarrow> bool" where
  "type_rule t fs =
     (if t = ''IdentityOperationCreate'' then
        (case find (\<lambda>(g, v). g = ''Payload'') fs of
           Some (g, opt, RIface (Some (RStruct n ps))) \<Rightarrow> n \<in> set identity_payloads | _ \<Rightarrow> False)
      else if t = ''PasswordReauthentication'' then length (str_field ''Password'' fs) \<le> 128
      else if t = ''ProviderExchange'' then securityVerifier (str_field ''CodeVerifier'' fs)
      else if t = ''MFAProviderAuthorize'' \<or> t = ''IdentityProviderAuthorize'' then
        str_field ''CodeChallengeMethod'' fs = ''S256'' \<and> securityPKCE (str_field ''CodeChallenge'' fs)
      else if t = ''IdentityOperationComplete'' then
        (case find (\<lambda>(g, v). g = ''Proofs'') fs of Some (g, opt, RSlice (Some ps)) \<Rightarrow> length ps \<le> 1 | _ \<Rightarrow> True)
      else True)"

fun validateSecurityRequest :: "req_value \<Rightarrow> bool"
  and request_fields :: "string \<Rightarrow> (string \<times> bool \<times> req_value) list \<Rightarrow> bool"
  and request_field :: "string \<Rightarrow> string \<Rightarrow> bool \<Rightarrow> req_value \<Rightarrow> bool"
  and request_item :: "string \<Rightarrow> string \<Rightarrow> req_value \<Rightarrow> bool"
  and request_items :: "req_value list \<Rightarrow> bool" where
  "validateSecurityRequest (RStruct t fs) = (t \<in> set securityRequestTypes \<and> request_fields t fs \<and> type_rule t fs)"
| "validateSecurityRequest (RStr ty s) = False"
| "validateSecurityRequest (RInt n) = False"
| "validateSecurityRequest (RBool b) = False"
| "validateSecurityRequest (RPtr p) = False"
| "validateSecurityRequest (RSlice xs) = False"
| "validateSecurityRequest (RIface x) = False"
| "validateSecurityRequest ROther = False"
| "request_fields t [] = True"
| "request_fields t ((f, opt, v) # fs) = (request_field t f opt v \<and> request_fields t fs)"
| "request_field t f opt (RIface None) = False"
| "request_field t f opt (RIface (Some x)) = validateSecurityRequest x"
| "request_field t f opt (RPtr None) = opt"
| "request_field t f opt (RPtr (Some x)) = request_item t f x"
| "request_field t f opt (RStruct n fs) = request_item t f (RStruct n fs)"
| "request_field t f opt (RStr ty s) = request_item t f (RStr ty s)"
| "request_field t f opt (RInt n) = request_item t f (RInt n)"
| "request_field t f opt (RBool b) = True"
| "request_field t f opt (RSlice None) = False"
| "request_field t f opt (RSlice (Some xs)) = request_items xs"
| "request_field t f opt ROther = False"
| "request_item t f (RStruct n fs) = validateSecurityRequest (RStruct n fs)"
| "request_item t f (RStr ty s) = string_ok t f ty s"
| "request_item t f (RInt n) = (f = ''ExpectedLoginMethodVersion'' \<longrightarrow> 0 \<le> n)"
| "request_item t f v = False"
| "request_items [] = True"
| "request_items (x # xs) = (validateSecurityRequest x \<and> request_items xs)"

section \<open>Answers\<close>

definition present :: "(string \<times> json) list \<Rightarrow> string \<Rightarrow> bool" where
  "present ms k = (case raw_field ms k of None \<Rightarrow> False | Some v \<Rightarrow> v \<noteq> JNull)"

definition text_of :: "(string \<times> json) list \<Rightarrow> string \<Rightarrow> string" where
  "text_of ms k = (case raw_field ms k of Some (JStr s) \<Rightarrow> s | _ \<Rightarrow> [])"

definition bool_of :: "(string \<times> json) list \<Rightarrow> string \<Rightarrow> bool" where
  "bool_of ms k = (case raw_field ms k of Some (JBool b) \<Rightarrow> b | _ \<Rightarrow> False)"

definition int_of :: "(string \<times> json) list \<Rightarrow> string \<Rightarrow> int" where
  "int_of ms k = (case raw_field ms k of Some (JNum lit) \<Rightarrow> (case num_int lit of Some n \<Rightarrow> n | None \<Rightarrow> 0) | _ \<Rightarrow> 0)"

definition items_of :: "(string \<times> json) list \<Rightarrow> string \<Rightarrow> json list" where
  "items_of ms k = (case raw_field ms k of Some (JArr vs) \<Rightarrow> vs | _ \<Rightarrow> [])"

text \<open>A string of an array that has passed the checks of its shape.\<close>

fun str_item :: "json \<Rightarrow> string" where
  "str_item (JStr s) = s"
| "str_item v = []"

definition proof_members :: "string \<Rightarrow> string list" where
  "proof_members m = (if m = ''EMAIL_OTP'' then [''identifierId'', ''maskedIdentifier'']
     else if m = ''PROVIDER'' then [''methodId'', ''displayName'']
     else if m = ''STEP_UP_PROOF'' then [''availableMethods''] else [])"

definition securitySemantic :: "string \<Rightarrow> (string \<times> json) list \<Rightarrow> bool" where
  "securitySemantic name ms =
     (if name = ''RecoveryCodesRemaining'' then
        \<not> (int_of ms ''remaining'' < 0 \<or> present ms ''codes'' \<or> present ms ''recoveryCodes'' \<or> present ms ''material'')
      else if name = ''ProviderTarget'' then
        securityUUID (text_of ms ''providerId'') \<and> securityProviderReference (text_of ms ''reference'')
      else if name = ''IdentityOperation'' then
        \<not> (present ms ''providerTarget'' \<and> (text_of ms ''type'' \<noteq> ''LINK'' \<or>
             text_of ms ''state'' \<in> set [''CANCELLED'', ''EXPIRED'', ''REJECTED'']))
      else if name = ''IdentifierCapability'' then
        bool_of ms ''allowed'' = (items_of ms ''unavailableReasons'' = []) \<and>
        list_all (\<lambda>v. securityUUID (str_item v)) (items_of ms ''replacementPrimaryIds'')
      else if name = ''MFAOperation'' then
        \<not> present ms ''material'' \<and> \<not> present ms ''recoveryCodes'' \<and>
        (text_of ms ''state'' = ''COMMITTED'') = present ms ''result''
      else if name = ''TOTPBeginResult'' then
        (text_of ms ''delivery'' = ''AVAILABLE'') = present ms ''material'' \<and> text_of ms ''delivery'' \<noteq> ''NOT_APPLICABLE''
      else if name = ''MFACompletionResult'' then
        (text_of ms ''delivery'' = ''AVAILABLE'') = present ms ''recoveryCodes''
      else if name = ''RecoveryCodes'' then int_of ms ''count'' = int (length (items_of ms ''codes''))
      else if name = ''MFAAction'' then
        \<not> (bool_of ms ''allowed'' \<and> text_of ms ''proofRequirement'' \<noteq> ''SESSION'' \<and> items_of ms ''proofOptions'' = [])
      else if name = ''OperationProofOption'' then
        list_all (\<lambda>k. (k \<in> set (proof_members (text_of ms ''method''))) = present ms k)
          [''identifierId'', ''maskedIdentifier'', ''methodId'', ''displayName'', ''availableMethods''] \<and>
        (text_of ms ''method'' = ''STEP_UP_PROOF'' \<longrightarrow>
           items_of ms ''availableMethods'' \<noteq> [] \<and>
           list_all (\<lambda>v. str_item v = ''TOTP'' \<or> str_item v = ''WEBAUTHN'') (items_of ms ''availableMethods''))
      else True)"

definition is_pointer :: "go_type \<Rightarrow> bool" where
  "is_pointer t = (case t of TPtr u \<Rightarrow> True | _ \<Rightarrow> False)"

fun validateSecurityJSON :: "go_type \<Rightarrow> json \<Rightarrow> bool"
  and validate_fields :: "(string \<times> bool \<times> go_type) list \<Rightarrow> (string \<times> json) list \<Rightarrow> bool" where
  "validateSecurityJSON (TPtr t) v = (v \<noteq> JNull \<and> validateSecurityJSON t v)"
| "validateSecurityJSON (TSlice t) v = (case v of JArr vs \<Rightarrow> list_all (validateSecurityJSON t) vs | _ \<Rightarrow> False)"
| "validateSecurityJSON (TMap k t) v = (case v of
     JObj ms \<Rightarrow> list_all (\<lambda>key. validateSecurityJSON k (JStr key) \<and> validateSecurityJSON t (the (raw_field ms key))) (map fst ms)
   | _ \<Rightarrow> False)"
| "validateSecurityJSON (TStruct name fs) v = (case v of
     JObj ms \<Rightarrow> validate_fields fs ms \<and> securitySemantic name ms | _ \<Rightarrow> False)"
| "validateSecurityJSON (TString name) v = (case v of
     JStr s \<Rightarrow> is_enum name \<longrightarrow> securityEnum s name | _ \<Rightarrow> False)"
| "validateSecurityJSON TBool v = (case v of JBool b \<Rightarrow> True | _ \<Rightarrow> False)"
| "validateSecurityJSON TInt64 v = (case v of JNum lit \<Rightarrow> num_int lit \<noteq> None | _ \<Rightarrow> False)"
| "validate_fields [] ms = True"
| "validate_fields ((k, opt, t) # fs) ms =
     ((case raw_field ms k of
         None \<Rightarrow> is_pointer t \<or> opt
       | Some v \<Rightarrow> if v = JNull then is_pointer t \<or> opt else validateSecurityJSON t v) \<and> validate_fields fs ms)"

definition decodeSecurityJSON :: "go_type \<Rightarrow> string \<Rightarrow> (json \<times> go_value) option" where
  "decodeSecurityJSON t raw = (case rejectDuplicateJSONMembers raw of
     Inl e \<Rightarrow> None | Inr v \<Rightarrow> map_option (Pair v) (decode t v (zero_of t)))"

text \<open>The error body: the details may be anything.\<close>

definition error_body_type :: go_type where
  "error_body_type = TStruct [] [(''status'', False, TInt64), (''error'', False, TString ''string''),
     (''message'', False, TString ''string''), (''timestamp'', False, TString ''string'')]"

definition error_status :: "(string \<times> go_value) list \<Rightarrow> int" where
  "error_status vs = (case get_field ''status'' vs of VInt n \<Rightarrow> n | _ \<Rightarrow> 0)"

definition error_code :: "(string \<times> go_value) list \<Rightarrow> string" where
  "error_code vs = (case get_field ''error'' vs of VString s \<Rightarrow> s | _ \<Rightarrow> [])"

definition securityAPIError :: "int \<Rightarrow> string \<Rightarrow> string \<Rightarrow> security_error" where
  "securityAPIError st raw retry = (case decodeSecurityJSON error_body_type raw of
     Some (v, VStruct vs) \<Rightarrow>
       (if error_status vs \<noteq> st \<or> \<not> securityErrorCode (error_code vs) then SecurityProtocol
        else SecurityAPI st (error_code vs)
          (if securityRetry retry \<and> digits_val retry \<le> 2147483647 then Some (digits_val retry) else None))
   | _ \<Rightarrow> SecurityProtocol)"

section \<open>The exchange\<close>

definition max_answer :: nat where "max_answer = 1048576"

definition security_request :: "Client \<Rightarrow> string \<Rightarrow> string \<Rightarrow> string \<Rightarrow> string \<Rightarrow> json option \<Rightarrow> request" where
  "security_request c m path token key bdy = \<lparr>meth = m, url = ClientEndpoint c @ path,
     headers = (let h1 = header_set ''Accept'' ''application/json'' (header_set ''Authorization'' (''Bearer '' @ token) []);
                    h2 = (case bdy of None \<Rightarrow> h1 | Some _ \<Rightarrow> header_set ''Content-Type'' ''application/json'' h1)
                in if key \<noteq> [] then header_set ''Idempotency-Key'' key h2 else h2),
     payload = (case bdy of None \<Rightarrow> [] | Some v \<Rightarrow> marshal v)\<rparr>"

text \<open>
  The client follows no redirect here, so an exchange is one request.  A body is read up to one byte
  more than is allowed, so an error of the connection behind that goes unnoticed.
\<close>

definition accountSecurityRequest ::
  "runtime \<Rightarrow> ctx \<Rightarrow> Client \<Rightarrow> string \<Rightarrow> string \<Rightarrow> string \<Rightarrow> string \<Rightarrow> json option \<Rightarrow> go_type \<Rightarrow> world \<Rightarrow>
   (security_error + go_value) \<times> world" where
  "accountSecurityRequest rt cx c m path token key bdy t w =
     (let req = security_request c m path token key bdy in
      if expired cx (clock w) then (Inl SecurityContext, w)
      else if \<not> rt_url_ok rt (url req) then (Inl SecurityInput, w)
      else (case exchange (rt_net rt) (client_ctx (cl_timeout c) w cx) req w of
        (Inl e, w1) \<Rightarrow> (Inl (SecurityTransport (m \<noteq> ''GET'')), w1)
      | (Inr resp, w1) \<Rightarrow>
         (if read_error resp \<and> length (body resp) \<le> max_answer then (Inl (SecurityTransport (m \<noteq> ''GET'')), w1)
          else if length (body resp) > max_answer then (Inl SecurityProtocol, w1)
          else if status resp < 200 \<or> status resp \<ge> 300
          then (Inl (securityAPIError (status resp) (body resp) (header_get ''Retry-After'' (resp_headers resp))), w1)
          else (case decodeSecurityJSON t (body resp) of
            None \<Rightarrow> (Inl SecurityProtocol, w1)
          | Some (v, x) \<Rightarrow> (if validateSecurityJSON t v then Inr x else Inl SecurityProtocol, w1)))))"

section \<open>Traffic\<close>

text \<open>What a call leaves: either it stopped before the network, or it sent one request and that is all.\<close>

lemma security_exchange:
  assumes "accountSecurityRequest rt cx c m path token key bdy t w = (r, w')"
  shows "(w' = w \<and> (r = Inl SecurityContext \<or> r = Inl SecurityInput)) \<or>
    (sent w' = sent w @ [security_request c m path token key bdy] \<and> \<not> expired cx (clock w) \<and>
     r \<noteq> Inl SecurityContext \<and> r \<noteq> Inl SecurityInput \<and>
     (\<forall>unknown. r = Inl (SecurityTransport unknown) \<longrightarrow> unknown = (m \<noteq> ''GET'')))"
proof -
  let ?req = "security_request c m path token key bdy"
  obtain e w1 where ex: "exchange (rt_net rt) (client_ctx (cl_timeout c) w cx) ?req w = (e, w1)" by fastforce
  then have "sent w1 = sent w @ [?req]"
    using exchange_sent [of "rt_net rt" "client_ctx (cl_timeout c) w cx" ?req w] by simp
  moreover have "securityAPIError st b h \<noteq> SecurityContext" "securityAPIError st b h \<noteq> SecurityInput"
    "securityAPIError st b h \<noteq> SecurityTransport u" for st b h u
    by (simp_all add: securityAPIError_def split: option.split prod.split go_value.split)
  ultimately show ?thesis using assms ex
    by (auto simp: accountSecurityRequest_def Let_def split: if_splits sum.splits option.splits prod.splits)
qed

text \<open>An answer has passed both layers of checks.\<close>

lemma security_answer:
  assumes "accountSecurityRequest rt cx c m path token key bdy t w = (Inr x, w')"
  obtains raw v where "parse_json raw = Some v" and "no_dups v" and "decode t v (zero_of t) = Some x"
    and "validateSecurityJSON t v"
  using assms rejectDuplicate_Inr
  by (auto simp: accountSecurityRequest_def decodeSecurityJSON_def Let_def
      split: if_splits sum.splits option.splits prod.splits)

lemma security_answer_type:
  "accountSecurityRequest rt cx c m path token key bdy t w = (Inr x, w') \<Longrightarrow> has_type t x"
  by (erule security_answer) (blast intro: decode_type(1) zero_has_type)

end
