(* ===== verification/Account_Security.thy ===== *)
theory Account_Security
  imports Security_Transport
begin

text \<open>
  The operations of account security (account_security.go): the login identifiers of the current user
  and the operations that change them, and the second factor.  Each operation checks the access token,
  then its arguments, and makes one exchange.
\<close>

type_synonym security_op = "world \<Rightarrow> (security_error + go_value) \<times> world"

text \<open>What every operation does first: the token, then the checks \<open>ok\<close> of its arguments.\<close>

definition secured :: "string \<Rightarrow> bool \<Rightarrow> (string \<Rightarrow> security_op) \<Rightarrow> security_op" where
  "secured accessToken ok f w = (case securityToken accessToken of
     Inl e \<Rightarrow> (Inl e, w) | Inr token \<Rightarrow> if ok then f token w else (Inl SecurityInput, w))"

section \<open>Operations\<close>

text \<open>A request of an interface type is \<open>None\<close> when it is nil.  The keys of a map are sorted in its JSON.\<close>

definition ListAccountIdentifiers :: "runtime \<Rightarrow> ctx \<Rightarrow> Client \<Rightarrow> string \<Rightarrow> security_op" where
  "ListAccountIdentifiers rt cx c accessToken =
     secured accessToken True (\<lambda>token.
       accountSecurityRequest rt cx c ''GET'' ''/api/v1/auth/me/identifiers''
         token [] None AccountIdentifiers)"

definition ListAccountLoginMethods :: "runtime \<Rightarrow> ctx \<Rightarrow> Client \<Rightarrow> string \<Rightarrow> security_op" where
  "ListAccountLoginMethods rt cx c accessToken =
     secured accessToken True (\<lambda>token.
       accountSecurityRequest rt cx c ''GET'' ''/api/v1/auth/me/login-methods''
         token [] None AccountLoginMethods)"

definition ListLinkableIdentityProviders :: "runtime \<Rightarrow> ctx \<Rightarrow> Client \<Rightarrow> string \<Rightarrow> security_op" where
  "ListLinkableIdentityProviders rt cx c accessToken =
     secured accessToken True (\<lambda>token.
       accountSecurityRequest rt cx c ''GET'' ''/api/v1/auth/me/linkable-identity-providers''
         token [] None (TSlice LinkableIdentityProvider))"

definition CreateIdentityOperation :: "runtime \<Rightarrow> ctx \<Rightarrow> Client \<Rightarrow> string \<Rightarrow> IdentityOperationCreate \<Rightarrow> string \<Rightarrow> security_op" where
  "CreateIdentityOperation rt cx c accessToken request idempotencyKey =
     secured accessToken (validateSecurityRequest (reflect_IdentityOperationCreate request) \<and>
        securityKey idempotencyKey)
      (\<lambda>token.
       case json_IdentityOperationCreate request of
        None \<Rightarrow> (\<lambda>w. (Inl (if expired cx (clock w) then SecurityContext else SecurityInput), w))
      | Some bdy \<Rightarrow> accountSecurityRequest rt cx c ''POST'' ''/api/v1/auth/me/identity-operations''
          token idempotencyKey (Some bdy) IdentityOperation)"

definition GetIdentityOperation :: "runtime \<Rightarrow> ctx \<Rightarrow> Client \<Rightarrow> string \<Rightarrow> string \<Rightarrow> security_op" where
  "GetIdentityOperation rt cx c accessToken operationID =
     secured accessToken (securityUUID operationID) (\<lambda>token.
       accountSecurityRequest rt cx c ''GET'' (''/api/v1/auth/me/identity-operations/'' @ operationID)
         token [] None IdentityOperation)"

definition ListIdentityTransfers :: "runtime \<Rightarrow> ctx \<Rightarrow> Client \<Rightarrow> string \<Rightarrow> security_op" where
  "ListIdentityTransfers rt cx c accessToken =
     secured accessToken True (\<lambda>token.
       accountSecurityRequest rt cx c ''GET'' ''/api/v1/auth/me/identity-operations/transfers''
         token [] None (TSlice IdentityOperation))"

definition ReauthenticateIdentityOperation :: "runtime \<Rightarrow> ctx \<Rightarrow> Client \<Rightarrow> string \<Rightarrow> string \<Rightarrow> Reauthentication option \<Rightarrow> security_op" where
  "ReauthenticateIdentityOperation rt cx c accessToken operationID request =
     secured accessToken (securityUUID operationID \<and>
        (case request of None \<Rightarrow> False | Some q \<Rightarrow> validateSecurityRequest (reflect_Reauthentication q)))
      (\<lambda>token.
       accountSecurityRequest rt cx c ''POST'' (''/api/v1/auth/me/identity-operations/'' @ operationID @ ''/reauthenticate'')
         token [] (map_option json_Reauthentication request) IdentityOperation)"

definition ChallengeIdentityOperation :: "runtime \<Rightarrow> ctx \<Rightarrow> Client \<Rightarrow> string \<Rightarrow> string \<Rightarrow> string \<Rightarrow> security_op" where
  "ChallengeIdentityOperation rt cx c accessToken operationID targetProofMethod =
     secured accessToken (securityUUID operationID \<and>
        securityEnum targetProofMethod ''TargetProofMethod'')
      (\<lambda>token.
       accountSecurityRequest rt cx c ''POST'' (''/api/v1/auth/me/identity-operations/'' @ operationID @ ''/challenges'')
         token [] (Some (JObj [(''targetProofMethod'', JStr targetProofMethod)])) IdentityOperation)"

definition ChallengeIdentityCurrentAccount :: "runtime \<Rightarrow> ctx \<Rightarrow> Client \<Rightarrow> string \<Rightarrow> string \<Rightarrow> string \<Rightarrow> security_op" where
  "ChallengeIdentityCurrentAccount rt cx c accessToken operationID identifierID =
     secured accessToken (securityUUID operationID \<and> securityUUID identifierID) (\<lambda>token.
       accountSecurityRequest rt cx c ''POST'' (''/api/v1/auth/me/identity-operations/'' @ operationID @ ''/current-account/challenges'')
         token [] (Some (JObj [(''identifierId'', JStr identifierID)])) IdentityChallengeResult)"

definition CompleteIdentityOperation :: "runtime \<Rightarrow> ctx \<Rightarrow> Client \<Rightarrow> string \<Rightarrow> string \<Rightarrow> IdentityOperationComplete \<Rightarrow> security_op" where
  "CompleteIdentityOperation rt cx c accessToken operationID request =
     secured accessToken (securityUUID operationID \<and>
        validateSecurityRequest (reflect_IdentityOperationComplete request))
      (\<lambda>token.
       accountSecurityRequest rt cx c ''POST'' (''/api/v1/auth/me/identity-operations/'' @ operationID @ ''/complete'')
         token [] (Some (json_IdentityOperationComplete request)) IdentityOperation)"

definition CancelIdentityOperation :: "runtime \<Rightarrow> ctx \<Rightarrow> Client \<Rightarrow> string \<Rightarrow> string \<Rightarrow> security_op" where
  "CancelIdentityOperation rt cx c accessToken operationID =
     secured accessToken (securityUUID operationID) (\<lambda>token.
       accountSecurityRequest rt cx c ''POST'' (''/api/v1/auth/me/identity-operations/'' @ operationID @ ''/cancel'')
         token [] (Some (JObj [])) IdentityOperation)"

definition ConfirmIdentityTransfer :: "runtime \<Rightarrow> ctx \<Rightarrow> Client \<Rightarrow> string \<Rightarrow> string \<Rightarrow> string \<Rightarrow> security_op" where
  "ConfirmIdentityTransfer rt cx c accessToken operationID decision =
     secured accessToken (securityUUID operationID \<and>
        securityEnum decision ''TransferDecision'')
      (\<lambda>token.
       accountSecurityRequest rt cx c ''POST'' (''/api/v1/auth/me/identity-operations/'' @ operationID @ ''/confirm-transfer'')
         token [] (Some (JObj [(''decision'', JStr decision)])) IdentityOperation)"

definition AuthorizeIdentityOperation :: "runtime \<Rightarrow> ctx \<Rightarrow> Client \<Rightarrow> string \<Rightarrow> string \<Rightarrow> IdentityProviderAuthorize \<Rightarrow> security_op" where
  "AuthorizeIdentityOperation rt cx c accessToken operationID request =
     secured accessToken (securityUUID operationID \<and>
        validateSecurityRequest (reflect_IdentityProviderAuthorize request))
      (\<lambda>token.
       accountSecurityRequest rt cx c ''POST'' (''/api/v1/auth/me/identity-operations/'' @ operationID @ ''/authorize'')
         token [] (Some (json_IdentityProviderAuthorize request)) ProviderAuthorization)"

definition CompleteIdentityProviderAuthorization :: "runtime \<Rightarrow> ctx \<Rightarrow> Client \<Rightarrow> string \<Rightarrow> string \<Rightarrow> ProviderExchange \<Rightarrow> security_op" where
  "CompleteIdentityProviderAuthorization rt cx c accessToken operationID request =
     secured accessToken (securityUUID operationID \<and>
        validateSecurityRequest (reflect_ProviderExchange request))
      (\<lambda>token.
       accountSecurityRequest rt cx c ''POST'' (''/api/v1/auth/me/identity-operations/'' @ operationID @ ''/provider-callback'')
         token [] (Some (json_ProviderExchange request)) IdentityOperation)"

definition GetMFACapabilities :: "runtime \<Rightarrow> ctx \<Rightarrow> Client \<Rightarrow> string \<Rightarrow> security_op" where
  "GetMFACapabilities rt cx c accessToken =
     secured accessToken True (\<lambda>token.
       accountSecurityRequest rt cx c ''GET'' ''/api/v1/auth/mfa/capabilities''
         token [] None MFACapabilities)"

definition CreateMFAOperation :: "runtime \<Rightarrow> ctx \<Rightarrow> Client \<Rightarrow> string \<Rightarrow> MFAOperationCreate \<Rightarrow> string \<Rightarrow> security_op" where
  "CreateMFAOperation rt cx c accessToken request idempotencyKey =
     secured accessToken (validateSecurityRequest (reflect_MFAOperationCreate request) \<and>
        securityKey idempotencyKey)
      (\<lambda>token.
       accountSecurityRequest rt cx c ''POST'' ''/api/v1/auth/mfa/operations''
         token idempotencyKey (Some (json_MFAOperationCreate request)) MFAOperation)"

definition GetMFAOperation :: "runtime \<Rightarrow> ctx \<Rightarrow> Client \<Rightarrow> string \<Rightarrow> string \<Rightarrow> security_op" where
  "GetMFAOperation rt cx c accessToken operationID =
     secured accessToken (securityUUID operationID) (\<lambda>token.
       accountSecurityRequest rt cx c ''GET'' (''/api/v1/auth/mfa/operations/'' @ operationID)
         token [] None MFAOperation)"

definition ReauthenticateMFAOperation :: "runtime \<Rightarrow> ctx \<Rightarrow> Client \<Rightarrow> string \<Rightarrow> string \<Rightarrow> Reauthentication option \<Rightarrow> security_op" where
  "ReauthenticateMFAOperation rt cx c accessToken operationID request =
     secured accessToken (securityUUID operationID \<and>
        (case request of None \<Rightarrow> False | Some q \<Rightarrow> validateSecurityRequest (reflect_Reauthentication q)))
      (\<lambda>token.
       accountSecurityRequest rt cx c ''POST'' (''/api/v1/auth/mfa/operations/'' @ operationID @ ''/reauthenticate'')
         token [] (map_option json_Reauthentication request) MFAOperation)"

definition ChallengeMFAOperation :: "runtime \<Rightarrow> ctx \<Rightarrow> Client \<Rightarrow> string \<Rightarrow> string \<Rightarrow> string \<Rightarrow> security_op" where
  "ChallengeMFAOperation rt cx c accessToken operationID identifierID =
     secured accessToken (securityUUID operationID \<and> securityUUID identifierID) (\<lambda>token.
       accountSecurityRequest rt cx c ''POST'' (''/api/v1/auth/mfa/operations/'' @ operationID @ ''/challenges'')
         token [] (Some (JObj [(''identifierId'', JStr identifierID), (''method'', JStr ''EMAIL_OTP'')])) MFAChallengeResult)"

definition AuthorizeMFAOperation :: "runtime \<Rightarrow> ctx \<Rightarrow> Client \<Rightarrow> string \<Rightarrow> string \<Rightarrow> MFAProviderAuthorize \<Rightarrow> security_op" where
  "AuthorizeMFAOperation rt cx c accessToken operationID request =
     secured accessToken (securityUUID operationID \<and>
        validateSecurityRequest (reflect_MFAProviderAuthorize request))
      (\<lambda>token.
       accountSecurityRequest rt cx c ''POST'' (''/api/v1/auth/mfa/operations/'' @ operationID @ ''/authorize'')
         token [] (Some (json_MFAProviderAuthorize request)) ProviderAuthorization)"

definition CompleteMFAProviderAuthorization :: "runtime \<Rightarrow> ctx \<Rightarrow> Client \<Rightarrow> string \<Rightarrow> string \<Rightarrow> ProviderExchange \<Rightarrow> security_op" where
  "CompleteMFAProviderAuthorization rt cx c accessToken operationID request =
     secured accessToken (securityUUID operationID \<and>
        validateSecurityRequest (reflect_ProviderExchange request))
      (\<lambda>token.
       accountSecurityRequest rt cx c ''POST'' (''/api/v1/auth/mfa/operations/'' @ operationID @ ''/provider-callback'')
         token [] (Some (json_ProviderExchange request)) MFAOperation)"

definition BeginTOTPEnrollmentOperation :: "runtime \<Rightarrow> ctx \<Rightarrow> Client \<Rightarrow> string \<Rightarrow> string \<Rightarrow> security_op" where
  "BeginTOTPEnrollmentOperation rt cx c accessToken operationID =
     secured accessToken (securityUUID operationID) (\<lambda>token.
       accountSecurityRequest rt cx c ''POST'' (''/api/v1/auth/mfa/operations/'' @ operationID @ ''/begin'')
         token [] (Some (JObj [])) TOTPBeginResult)"

definition CompleteMFAOperation :: "runtime \<Rightarrow> ctx \<Rightarrow> Client \<Rightarrow> string \<Rightarrow> string \<Rightarrow> string option \<Rightarrow> security_op" where
  "CompleteMFAOperation rt cx c accessToken operationID code =
     secured accessToken (securityUUID operationID \<and>
        (case code of None \<Rightarrow> True | Some s \<Rightarrow> securityCode s))
      (\<lambda>token.
       accountSecurityRequest rt cx c ''POST'' (''/api/v1/auth/mfa/operations/'' @ operationID @ ''/complete'')
         token [] (Some (JObj (opt_member ''code'' code))) MFACompletionResult)"

definition CancelMFAOperation :: "runtime \<Rightarrow> ctx \<Rightarrow> Client \<Rightarrow> string \<Rightarrow> string \<Rightarrow> security_op" where
  "CancelMFAOperation rt cx c accessToken operationID =
     secured accessToken (securityUUID operationID) (\<lambda>token.
       accountSecurityRequest rt cx c ''POST'' (''/api/v1/auth/mfa/operations/'' @ operationID @ ''/cancel'')
         token [] (Some (JObj [])) MFAOperation)"

definition StartIdentityOperationStepUp :: "runtime \<Rightarrow> ctx \<Rightarrow> Client \<Rightarrow> string \<Rightarrow> string \<Rightarrow> security_op" where
  "StartIdentityOperationStepUp rt cx c accessToken operationID =
     secured accessToken (securityUUID operationID) (\<lambda>token.
       accountSecurityRequest rt cx c ''POST'' (''/api/v1/auth/me/identity-operations/'' @ operationID @ ''/step-up/start'')
         token [] (Some (JObj [])) OperationStepUpChallenge)"

definition VerifyIdentityOperationStepUp :: "runtime \<Rightarrow> ctx \<Rightarrow> Client \<Rightarrow> string \<Rightarrow> string \<Rightarrow> OperationStepUpVerify \<Rightarrow> security_op" where
  "VerifyIdentityOperationStepUp rt cx c accessToken operationID request =
     secured accessToken (securityUUID operationID \<and>
        validateSecurityRequest (reflect_OperationStepUpVerify request))
      (\<lambda>token.
       accountSecurityRequest rt cx c ''POST'' (''/api/v1/auth/me/identity-operations/'' @ operationID @ ''/step-up/verify'')
         token [] (Some (json_OperationStepUpVerify request)) IdentityOperation)"

definition StartIdentityOperationWebAuthn :: "runtime \<Rightarrow> ctx \<Rightarrow> Client \<Rightarrow> string \<Rightarrow> string \<Rightarrow> string \<Rightarrow> security_op" where
  "StartIdentityOperationWebAuthn rt cx c accessToken operationID challengeID =
     secured accessToken (securityUUID operationID \<and> challengeID \<noteq> []) (\<lambda>token.
       accountSecurityRequest rt cx c ''POST'' (''/api/v1/auth/me/identity-operations/'' @ operationID @ ''/step-up/webauthn/start'')
         token [] (Some (JObj [(''challengeId'', JStr challengeID)])) OperationWebAuthnStart)"

definition VerifyIdentityOperationWebAuthn :: "runtime \<Rightarrow> ctx \<Rightarrow> Client \<Rightarrow> string \<Rightarrow> string \<Rightarrow> OperationWebAuthnVerify \<Rightarrow> security_op" where
  "VerifyIdentityOperationWebAuthn rt cx c accessToken operationID request =
     secured accessToken (securityUUID operationID \<and>
        validateSecurityRequest (reflect_OperationWebAuthnVerify request))
      (\<lambda>token.
       accountSecurityRequest rt cx c ''POST'' (''/api/v1/auth/me/identity-operations/'' @ operationID @ ''/step-up/webauthn/verify'')
         token [] (Some (json_OperationWebAuthnVerify request)) IdentityOperation)"

definition StartMFAOperationStepUp :: "runtime \<Rightarrow> ctx \<Rightarrow> Client \<Rightarrow> string \<Rightarrow> string \<Rightarrow> security_op" where
  "StartMFAOperationStepUp rt cx c accessToken operationID =
     secured accessToken (securityUUID operationID) (\<lambda>token.
       accountSecurityRequest rt cx c ''POST'' (''/api/v1/auth/mfa/operations/'' @ operationID @ ''/step-up/start'')
         token [] (Some (JObj [])) OperationStepUpChallenge)"

definition VerifyMFAOperationStepUp :: "runtime \<Rightarrow> ctx \<Rightarrow> Client \<Rightarrow> string \<Rightarrow> string \<Rightarrow> OperationStepUpVerify \<Rightarrow> security_op" where
  "VerifyMFAOperationStepUp rt cx c accessToken operationID request =
     secured accessToken (securityUUID operationID \<and>
        validateSecurityRequest (reflect_OperationStepUpVerify request))
      (\<lambda>token.
       accountSecurityRequest rt cx c ''POST'' (''/api/v1/auth/mfa/operations/'' @ operationID @ ''/step-up/verify'')
         token [] (Some (json_OperationStepUpVerify request)) MFAOperation)"

definition StartMFAOperationWebAuthn :: "runtime \<Rightarrow> ctx \<Rightarrow> Client \<Rightarrow> string \<Rightarrow> string \<Rightarrow> string \<Rightarrow> security_op" where
  "StartMFAOperationWebAuthn rt cx c accessToken operationID challengeID =
     secured accessToken (securityUUID operationID \<and> challengeID \<noteq> []) (\<lambda>token.
       accountSecurityRequest rt cx c ''POST'' (''/api/v1/auth/mfa/operations/'' @ operationID @ ''/step-up/webauthn/start'')
         token [] (Some (JObj [(''challengeId'', JStr challengeID)])) OperationWebAuthnStart)"

definition VerifyMFAOperationWebAuthn :: "runtime \<Rightarrow> ctx \<Rightarrow> Client \<Rightarrow> string \<Rightarrow> string \<Rightarrow> OperationWebAuthnVerify \<Rightarrow> security_op" where
  "VerifyMFAOperationWebAuthn rt cx c accessToken operationID request =
     secured accessToken (securityUUID operationID \<and>
        validateSecurityRequest (reflect_OperationWebAuthnVerify request))
      (\<lambda>token.
       accountSecurityRequest rt cx c ''POST'' (''/api/v1/auth/mfa/operations/'' @ operationID @ ''/step-up/webauthn/verify'')
         token [] (Some (json_OperationWebAuthnVerify request)) MFAOperation)"

definition GetRecoveryCodesRemaining :: "runtime \<Rightarrow> ctx \<Rightarrow> Client \<Rightarrow> string \<Rightarrow> security_op" where
  "GetRecoveryCodesRemaining rt cx c accessToken =
     secured accessToken True (\<lambda>token.
       accountSecurityRequest rt cx c ''GET'' ''/api/v1/auth/mfa/recovery-codes/remaining''
         token [] None RecoveryCodesRemaining)"

section \<open>One exchange\<close>

text \<open>
  An operation that sends at most one request, with the token it was given and this key, whatever
  happens.  When it sends nothing, its error says so; when the exchange fails, the error says that the
  outcome is unknown exactly when the request could change something.
\<close>

definition one_shot :: "Client \<Rightarrow> string \<Rightarrow> string \<Rightarrow> string \<Rightarrow> security_op \<Rightarrow> bool" where
  "one_shot c accessToken m key f \<longleftrightarrow> (\<forall>w r w'. f w = (r, w') \<longrightarrow>
     (w' = w \<and> (r = Inl SecurityInput \<or> r = Inl SecurityContext)) \<or>
     (r \<noteq> Inl SecurityInput \<and> r \<noteq> Inl SecurityContext \<and>
      (\<forall>unknown. r = Inl (SecurityTransport unknown) \<longrightarrow> unknown = (m \<noteq> ''GET'')) \<and>
      (\<exists>q token. sent w' = sent w @ [q] \<and> meth q = m \<and> has_prefix (ClientEndpoint c @ ''/api/v1/auth/'') (url q) \<and>
         securityToken accessToken = Inr token \<and> header_get ''Authorization'' (headers q) = ''Bearer '' @ token \<and>
         header_get ''Idempotency-Key'' (headers q) = key)))"

definition answers :: "go_type \<Rightarrow> security_op \<Rightarrow> bool" where
  "answers t f \<longleftrightarrow> (\<forall>w x w'. f w = (Inr x, w') \<longrightarrow> has_type t x)"

lemma security_request_fields:
  "meth (security_request c m path token key bdy) = m"
  "url (security_request c m path token key bdy) = ClientEndpoint c @ path"
  "header_get ''Authorization'' (headers (security_request c m path token key bdy)) = ''Bearer '' @ token"
  "header_get ''Idempotency-Key'' (headers (security_request c m path token key bdy)) = key"
  by (auto simp: security_request_def Let_def header_get_def header_set_def split: option.split)

lemma has_prefix_append: "has_prefix (a @ b) (a @ c) = has_prefix b c"
  by (simp add: has_prefix_def)

lemma one_shot_request:
  assumes "securityToken accessToken = Inr token" and "has_prefix ''/api/v1/auth/'' path"
  shows "one_shot c accessToken m key (accountSecurityRequest rt cx c m path token key bdy t)"
  unfolding one_shot_def
proof (intro allI impI)
  fix w r w'
  assume "accountSecurityRequest rt cx c m path token key bdy t w = (r, w')"
  from security_exchange [OF this] assms
  show "(w' = w \<and> (r = Inl SecurityInput \<or> r = Inl SecurityContext)) \<or>
     (r \<noteq> Inl SecurityInput \<and> r \<noteq> Inl SecurityContext \<and>
      (\<forall>unknown. r = Inl (SecurityTransport unknown) \<longrightarrow> unknown = (m \<noteq> ''GET'')) \<and>
      (\<exists>q token. sent w' = sent w @ [q] \<and> meth q = m \<and> has_prefix (ClientEndpoint c @ ''/api/v1/auth/'') (url q) \<and>
         securityToken accessToken = Inr token \<and> header_get ''Authorization'' (headers q) = ''Bearer '' @ token \<and>
         header_get ''Idempotency-Key'' (headers q) = key))"
    by (auto simp: security_request_fields has_prefix_append)
qed

lemma one_shot_secured:
  assumes "\<And>token. securityToken accessToken = Inr token \<Longrightarrow> one_shot c accessToken m key (f token)"
  shows "one_shot c accessToken m key (secured accessToken ok f)"
proof (cases "securityToken accessToken")
  case (Inl e)
  then have "e = SecurityInput" by (auto simp: securityToken_def Let_def split: if_splits)
  with Inl show ?thesis by (simp add: one_shot_def secured_def)
next
  case (Inr token)
  with assms [OF Inr] show ?thesis by (auto simp: one_shot_def secured_def)
qed

lemma answers_request: "answers t (accountSecurityRequest rt cx c m path token key bdy t)"
  by (auto simp: answers_def dest: security_answer_type)

lemma answers_secured: "(\<And>token. answers t (f token)) \<Longrightarrow> answers t (secured accessToken ok f)"
  by (auto simp: answers_def secured_def split: sum.splits if_splits)

text \<open>A create request that is valid has a document: the failure of its encoding never shows.\<close>

lemma valid_create_encodes:
  "validateSecurityRequest (reflect_IdentityOperationCreate request) \<Longrightarrow>
   json_IdentityOperationCreate request \<noteq> None"
  by (cases "icr_Payload request"; cases "the (icr_Payload request)")
    (simp_all add: reflect_IdentityOperationCreate_def json_IdentityOperationCreate_def)

lemma one_shot_create:
  assumes "\<And>token bdy. securityToken accessToken = Inr token \<Longrightarrow> one_shot c accessToken m key (f token bdy)"
  shows "one_shot c accessToken m key (secured accessToken ok (\<lambda>token. case doc of
     None \<Rightarrow> (\<lambda>w. (Inl (if expired cx (clock w) then SecurityContext else SecurityInput), w)) | Some bdy \<Rightarrow> f token bdy))"
  using assms by (intro one_shot_secured) (auto simp: one_shot_def split: option.split)

lemma answers_create:
  assumes "\<And>token bdy. answers t (f token bdy)"
  shows "answers t (secured accessToken ok (\<lambda>token. case doc of
     None \<Rightarrow> (\<lambda>w. (Inl (if expired cx (clock w) then SecurityContext else SecurityInput), w)) | Some bdy \<Rightarrow> f token bdy))"
  using assms by (intro answers_secured) (auto simp: answers_def split: option.split)

lemmas security_ops = ListAccountIdentifiers_def ListAccountLoginMethods_def ListLinkableIdentityProviders_def
  CreateIdentityOperation_def GetIdentityOperation_def ListIdentityTransfers_def
  ReauthenticateIdentityOperation_def ChallengeIdentityOperation_def
  ChallengeIdentityCurrentAccount_def CompleteIdentityOperation_def CancelIdentityOperation_def
  ConfirmIdentityTransfer_def AuthorizeIdentityOperation_def CompleteIdentityProviderAuthorization_def
  GetMFACapabilities_def CreateMFAOperation_def GetMFAOperation_def ReauthenticateMFAOperation_def
  ChallengeMFAOperation_def AuthorizeMFAOperation_def CompleteMFAProviderAuthorization_def
  BeginTOTPEnrollmentOperation_def CompleteMFAOperation_def CancelMFAOperation_def
  StartIdentityOperationStepUp_def VerifyIdentityOperationStepUp_def
  StartIdentityOperationWebAuthn_def VerifyIdentityOperationWebAuthn_def StartMFAOperationStepUp_def
  VerifyMFAOperationStepUp_def StartMFAOperationWebAuthn_def VerifyMFAOperationWebAuthn_def
  GetRecoveryCodesRemaining_def



end
