(* ===== verification/Security_Sdk.thy ===== *)
theory Security_Sdk
  imports Account_Security Sdk
begin

text \<open>The methods of the SDK for account security (account_security_sdk.go): each hands its arguments to
  the client of the SDK.\<close>

definition sdk_ListAccountIdentifiers :: "runtime \<Rightarrow> ctx \<Rightarrow> SDK \<Rightarrow> string \<Rightarrow> security_op" where
  "sdk_ListAccountIdentifiers rt cx s accessToken = ListAccountIdentifiers rt cx (sdk_client s) accessToken"

definition sdk_ListAccountLoginMethods :: "runtime \<Rightarrow> ctx \<Rightarrow> SDK \<Rightarrow> string \<Rightarrow> security_op" where
  "sdk_ListAccountLoginMethods rt cx s accessToken = ListAccountLoginMethods rt cx (sdk_client s) accessToken"

definition sdk_ListLinkableIdentityProviders :: "runtime \<Rightarrow> ctx \<Rightarrow> SDK \<Rightarrow> string \<Rightarrow> security_op" where
  "sdk_ListLinkableIdentityProviders rt cx s accessToken = ListLinkableIdentityProviders rt cx (sdk_client s) accessToken"

definition sdk_CreateIdentityOperation :: "runtime \<Rightarrow> ctx \<Rightarrow> SDK \<Rightarrow> string \<Rightarrow> IdentityOperationCreate \<Rightarrow> string \<Rightarrow> security_op" where
  "sdk_CreateIdentityOperation rt cx s accessToken request idempotencyKey = CreateIdentityOperation rt cx (sdk_client s) accessToken request idempotencyKey"

definition sdk_GetIdentityOperation :: "runtime \<Rightarrow> ctx \<Rightarrow> SDK \<Rightarrow> string \<Rightarrow> string \<Rightarrow> security_op" where
  "sdk_GetIdentityOperation rt cx s accessToken operationID = GetIdentityOperation rt cx (sdk_client s) accessToken operationID"

definition sdk_ListIdentityTransfers :: "runtime \<Rightarrow> ctx \<Rightarrow> SDK \<Rightarrow> string \<Rightarrow> security_op" where
  "sdk_ListIdentityTransfers rt cx s accessToken = ListIdentityTransfers rt cx (sdk_client s) accessToken"

definition sdk_ReauthenticateIdentityOperation :: "runtime \<Rightarrow> ctx \<Rightarrow> SDK \<Rightarrow> string \<Rightarrow> string \<Rightarrow> Reauthentication option \<Rightarrow> security_op" where
  "sdk_ReauthenticateIdentityOperation rt cx s accessToken operationID request = ReauthenticateIdentityOperation rt cx (sdk_client s) accessToken operationID request"

definition sdk_ChallengeIdentityOperation :: "runtime \<Rightarrow> ctx \<Rightarrow> SDK \<Rightarrow> string \<Rightarrow> string \<Rightarrow> string \<Rightarrow> security_op" where
  "sdk_ChallengeIdentityOperation rt cx s accessToken operationID targetProofMethod = ChallengeIdentityOperation rt cx (sdk_client s) accessToken operationID targetProofMethod"

definition sdk_ChallengeIdentityCurrentAccount :: "runtime \<Rightarrow> ctx \<Rightarrow> SDK \<Rightarrow> string \<Rightarrow> string \<Rightarrow> string \<Rightarrow> security_op" where
  "sdk_ChallengeIdentityCurrentAccount rt cx s accessToken operationID identifierID = ChallengeIdentityCurrentAccount rt cx (sdk_client s) accessToken operationID identifierID"

definition sdk_CompleteIdentityOperation :: "runtime \<Rightarrow> ctx \<Rightarrow> SDK \<Rightarrow> string \<Rightarrow> string \<Rightarrow> IdentityOperationComplete \<Rightarrow> security_op" where
  "sdk_CompleteIdentityOperation rt cx s accessToken operationID request = CompleteIdentityOperation rt cx (sdk_client s) accessToken operationID request"

definition sdk_CancelIdentityOperation :: "runtime \<Rightarrow> ctx \<Rightarrow> SDK \<Rightarrow> string \<Rightarrow> string \<Rightarrow> security_op" where
  "sdk_CancelIdentityOperation rt cx s accessToken operationID = CancelIdentityOperation rt cx (sdk_client s) accessToken operationID"

definition sdk_ConfirmIdentityTransfer :: "runtime \<Rightarrow> ctx \<Rightarrow> SDK \<Rightarrow> string \<Rightarrow> string \<Rightarrow> string \<Rightarrow> security_op" where
  "sdk_ConfirmIdentityTransfer rt cx s accessToken operationID decision = ConfirmIdentityTransfer rt cx (sdk_client s) accessToken operationID decision"

definition sdk_AuthorizeIdentityOperation :: "runtime \<Rightarrow> ctx \<Rightarrow> SDK \<Rightarrow> string \<Rightarrow> string \<Rightarrow> IdentityProviderAuthorize \<Rightarrow> security_op" where
  "sdk_AuthorizeIdentityOperation rt cx s accessToken operationID request = AuthorizeIdentityOperation rt cx (sdk_client s) accessToken operationID request"

definition sdk_CompleteIdentityProviderAuthorization :: "runtime \<Rightarrow> ctx \<Rightarrow> SDK \<Rightarrow> string \<Rightarrow> string \<Rightarrow> ProviderExchange \<Rightarrow> security_op" where
  "sdk_CompleteIdentityProviderAuthorization rt cx s accessToken operationID request = CompleteIdentityProviderAuthorization rt cx (sdk_client s) accessToken operationID request"

definition sdk_GetMFACapabilities :: "runtime \<Rightarrow> ctx \<Rightarrow> SDK \<Rightarrow> string \<Rightarrow> security_op" where
  "sdk_GetMFACapabilities rt cx s accessToken = GetMFACapabilities rt cx (sdk_client s) accessToken"

definition sdk_CreateMFAOperation :: "runtime \<Rightarrow> ctx \<Rightarrow> SDK \<Rightarrow> string \<Rightarrow> MFAOperationCreate \<Rightarrow> string \<Rightarrow> security_op" where
  "sdk_CreateMFAOperation rt cx s accessToken request idempotencyKey = CreateMFAOperation rt cx (sdk_client s) accessToken request idempotencyKey"

definition sdk_GetMFAOperation :: "runtime \<Rightarrow> ctx \<Rightarrow> SDK \<Rightarrow> string \<Rightarrow> string \<Rightarrow> security_op" where
  "sdk_GetMFAOperation rt cx s accessToken operationID = GetMFAOperation rt cx (sdk_client s) accessToken operationID"

definition sdk_ReauthenticateMFAOperation :: "runtime \<Rightarrow> ctx \<Rightarrow> SDK \<Rightarrow> string \<Rightarrow> string \<Rightarrow> Reauthentication option \<Rightarrow> security_op" where
  "sdk_ReauthenticateMFAOperation rt cx s accessToken operationID request = ReauthenticateMFAOperation rt cx (sdk_client s) accessToken operationID request"

definition sdk_ChallengeMFAOperation :: "runtime \<Rightarrow> ctx \<Rightarrow> SDK \<Rightarrow> string \<Rightarrow> string \<Rightarrow> string \<Rightarrow> security_op" where
  "sdk_ChallengeMFAOperation rt cx s accessToken operationID identifierID = ChallengeMFAOperation rt cx (sdk_client s) accessToken operationID identifierID"

definition sdk_AuthorizeMFAOperation :: "runtime \<Rightarrow> ctx \<Rightarrow> SDK \<Rightarrow> string \<Rightarrow> string \<Rightarrow> MFAProviderAuthorize \<Rightarrow> security_op" where
  "sdk_AuthorizeMFAOperation rt cx s accessToken operationID request = AuthorizeMFAOperation rt cx (sdk_client s) accessToken operationID request"

definition sdk_CompleteMFAProviderAuthorization :: "runtime \<Rightarrow> ctx \<Rightarrow> SDK \<Rightarrow> string \<Rightarrow> string \<Rightarrow> ProviderExchange \<Rightarrow> security_op" where
  "sdk_CompleteMFAProviderAuthorization rt cx s accessToken operationID request = CompleteMFAProviderAuthorization rt cx (sdk_client s) accessToken operationID request"

definition sdk_BeginTOTPEnrollmentOperation :: "runtime \<Rightarrow> ctx \<Rightarrow> SDK \<Rightarrow> string \<Rightarrow> string \<Rightarrow> security_op" where
  "sdk_BeginTOTPEnrollmentOperation rt cx s accessToken operationID = BeginTOTPEnrollmentOperation rt cx (sdk_client s) accessToken operationID"

definition sdk_CompleteMFAOperation :: "runtime \<Rightarrow> ctx \<Rightarrow> SDK \<Rightarrow> string \<Rightarrow> string \<Rightarrow> string option \<Rightarrow> security_op" where
  "sdk_CompleteMFAOperation rt cx s accessToken operationID code = CompleteMFAOperation rt cx (sdk_client s) accessToken operationID code"

definition sdk_CancelMFAOperation :: "runtime \<Rightarrow> ctx \<Rightarrow> SDK \<Rightarrow> string \<Rightarrow> string \<Rightarrow> security_op" where
  "sdk_CancelMFAOperation rt cx s accessToken operationID = CancelMFAOperation rt cx (sdk_client s) accessToken operationID"

definition sdk_StartIdentityOperationStepUp :: "runtime \<Rightarrow> ctx \<Rightarrow> SDK \<Rightarrow> string \<Rightarrow> string \<Rightarrow> security_op" where
  "sdk_StartIdentityOperationStepUp rt cx s accessToken operationID = StartIdentityOperationStepUp rt cx (sdk_client s) accessToken operationID"

definition sdk_VerifyIdentityOperationStepUp :: "runtime \<Rightarrow> ctx \<Rightarrow> SDK \<Rightarrow> string \<Rightarrow> string \<Rightarrow> OperationStepUpVerify \<Rightarrow> security_op" where
  "sdk_VerifyIdentityOperationStepUp rt cx s accessToken operationID request = VerifyIdentityOperationStepUp rt cx (sdk_client s) accessToken operationID request"

definition sdk_StartIdentityOperationWebAuthn :: "runtime \<Rightarrow> ctx \<Rightarrow> SDK \<Rightarrow> string \<Rightarrow> string \<Rightarrow> string \<Rightarrow> security_op" where
  "sdk_StartIdentityOperationWebAuthn rt cx s accessToken operationID challengeID = StartIdentityOperationWebAuthn rt cx (sdk_client s) accessToken operationID challengeID"

definition sdk_VerifyIdentityOperationWebAuthn :: "runtime \<Rightarrow> ctx \<Rightarrow> SDK \<Rightarrow> string \<Rightarrow> string \<Rightarrow> OperationWebAuthnVerify \<Rightarrow> security_op" where
  "sdk_VerifyIdentityOperationWebAuthn rt cx s accessToken operationID request = VerifyIdentityOperationWebAuthn rt cx (sdk_client s) accessToken operationID request"

definition sdk_StartMFAOperationStepUp :: "runtime \<Rightarrow> ctx \<Rightarrow> SDK \<Rightarrow> string \<Rightarrow> string \<Rightarrow> security_op" where
  "sdk_StartMFAOperationStepUp rt cx s accessToken operationID = StartMFAOperationStepUp rt cx (sdk_client s) accessToken operationID"

definition sdk_VerifyMFAOperationStepUp :: "runtime \<Rightarrow> ctx \<Rightarrow> SDK \<Rightarrow> string \<Rightarrow> string \<Rightarrow> OperationStepUpVerify \<Rightarrow> security_op" where
  "sdk_VerifyMFAOperationStepUp rt cx s accessToken operationID request = VerifyMFAOperationStepUp rt cx (sdk_client s) accessToken operationID request"

definition sdk_StartMFAOperationWebAuthn :: "runtime \<Rightarrow> ctx \<Rightarrow> SDK \<Rightarrow> string \<Rightarrow> string \<Rightarrow> string \<Rightarrow> security_op" where
  "sdk_StartMFAOperationWebAuthn rt cx s accessToken operationID challengeID = StartMFAOperationWebAuthn rt cx (sdk_client s) accessToken operationID challengeID"

definition sdk_VerifyMFAOperationWebAuthn :: "runtime \<Rightarrow> ctx \<Rightarrow> SDK \<Rightarrow> string \<Rightarrow> string \<Rightarrow> OperationWebAuthnVerify \<Rightarrow> security_op" where
  "sdk_VerifyMFAOperationWebAuthn rt cx s accessToken operationID request = VerifyMFAOperationWebAuthn rt cx (sdk_client s) accessToken operationID request"

definition sdk_GetRecoveryCodesRemaining :: "runtime \<Rightarrow> ctx \<Rightarrow> SDK \<Rightarrow> string \<Rightarrow> security_op" where
  "sdk_GetRecoveryCodesRemaining rt cx s accessToken = GetRecoveryCodesRemaining rt cx (sdk_client s) accessToken"

end
