(* ===== verification/Security_Requests.thy ===== *)
theory Security_Requests
  imports Security_Transport
begin

text \<open>
  The rules that account security has for its requests, one predicate per type, and the proof that the
  walk over the fields by reflection (\<open>validateSecurityRequest\<close>) decides exactly these.
\<close>

section \<open>The rules\<close>

definition filled_text :: "string option \<Rightarrow> bool" where
  "filled_text s = (case s of None \<Rightarrow> True | Some t \<Rightarrow> \<not> blank t)"

definition uuid_if_given :: "string option \<Rightarrow> bool" where
  "uuid_if_given s = (case s of None \<Rightarrow> True | Some t \<Rightarrow> securityUUID t)"

definition proper_MFAOperationCreate :: "MFAOperationCreate \<Rightarrow> bool" where
  "proper_MFAOperationCreate r \<longleftrightarrow> securityEnum (mc_Type r) ''MFAOperationType'' \<and> 0 \<le> mc_ExpectedLoginMethodVersion r"

definition proper_LoginIdentifier :: "LoginIdentifier \<Rightarrow> bool" where
  "proper_LoginIdentifier r \<longleftrightarrow> securityEnum (lid_Kind r) ''IdentifierKind'' \<and> \<not> blank (lid_Value r) \<and> filled_text (lid_Region r)"

fun proper_payload :: "IdentityPayload \<Rightarrow> bool" where
  "proper_payload (PAddIdentity r) = proper_LoginIdentifier (ai_Identifier r)"
| "proper_payload (PVerifyIdentity r) = securityUUID (vi_IdentifierID r)"
| "proper_payload (PSetPrimaryIdentity r) = securityUUID (sp_IdentifierID r)"
| "proper_payload (PRemoveIdentity r) = (securityUUID (ri_IdentifierID r) \<and> uuid_if_given (ri_ReplacementPrimaryID r))"
| "proper_payload (PReplaceIdentity r) = (securityUUID (rpi_IdentifierID r) \<and> proper_LoginIdentifier (rpi_Replacement r) \<and>
     uuid_if_given (rpi_ReplacementPrimaryID r))"
| "proper_payload (PLinkIdentity r) = securityUUID (lk_ProviderID r)"
| "proper_payload (PUnlinkIdentity r) = (\<not> blank (ul_MethodID r))"
| "proper_payload (PTransferIdentity r) = (securityUUID (tr_IdentifierID r) \<and> securityUUID (tr_TargetUserID r) \<and>
     uuid_if_given (tr_SourceReplacementPrimaryID r))"
| "proper_payload OtherPayload = False"

definition proper_IdentityOperationCreate :: "IdentityOperationCreate \<Rightarrow> bool" where
  "proper_IdentityOperationCreate r \<longleftrightarrow> 0 \<le> icr_ExpectedLoginMethodVersion r \<and>
     (case icr_Payload r of None \<Rightarrow> False | Some p \<Rightarrow> proper_payload p)"

fun proper_Reauthentication :: "Reauthentication \<Rightarrow> bool" where
  "proper_Reauthentication (RPassword r) = (\<not> blank (pw_Password r) \<and> length (pw_Password r) \<le> 128)"
| "proper_Reauthentication (REmailOTP r) = (securityUUID (eo_ChallengeID r) \<and> securityCode (eo_Code r))"
| "proper_Reauthentication OtherReauthentication = False"

definition proper_OperationStepUpVerify :: "OperationStepUpVerify \<Rightarrow> bool" where
  "proper_OperationStepUpVerify r \<longleftrightarrow> \<not> blank (su_ChallengeID r) \<and> securityCode (su_Code r)"

definition proper_OperationWebAuthnVerify :: "OperationWebAuthnVerify \<Rightarrow> bool" where
  "proper_OperationWebAuthnVerify r \<longleftrightarrow> \<not> blank (wv_ChallengeID r) \<and> \<not> blank (wv_RequestID r) \<and> \<not> blank (wv_Credential r)"

definition proper_ProviderExchange :: "ProviderExchange \<Rightarrow> bool" where
  "proper_ProviderExchange r \<longleftrightarrow> securityUUID (px_AuthorizationID r) \<and> securityVerifier (px_CodeVerifier r)"

definition proper_MFAProviderAuthorize :: "MFAProviderAuthorize \<Rightarrow> bool" where
  "proper_MFAProviderAuthorize r \<longleftrightarrow> \<not> blank (mp_MethodID r) \<and> \<not> blank (mp_RedirectURI r) \<and>
     mp_CodeChallengeMethod r = ''S256'' \<and> securityPKCE (mp_CodeChallenge r)"

definition proper_IdentityProviderAuthorize :: "IdentityProviderAuthorize \<Rightarrow> bool" where
  "proper_IdentityProviderAuthorize r \<longleftrightarrow> securityEnum (ip_Purpose r) ''AuthorizationPurpose'' \<and> \<not> blank (ip_RedirectURI r) \<and>
     ip_CodeChallengeMethod r = ''S256'' \<and> securityPKCE (ip_CodeChallenge r) \<and> filled_text (ip_MethodID r)"

definition proper_IdentityOperationComplete :: "IdentityOperationComplete \<Rightarrow> bool" where
  "proper_IdentityOperationComplete r \<longleftrightarrow> (case ic_Proofs r of None \<Rightarrow> False
     | Some ps \<Rightarrow> length ps \<le> 1 \<and>
         list_all (\<lambda>p. securityEnum (tp_Method p) ''TargetProofMethod'' \<and> securityCode (tp_Code p)) ps)"

section \<open>Strings that are not blank\<close>

lemma not_blank_first:
  assumes "byte c < 128" and "\<not> is_space (byte c)"
  shows "\<not> blank (c # s)"
proof -
  let ?sp = "\<lambda>(r, bs). is_space r"
  have ch: "chunks (c # s) = (byte c, [c]) # chunks s" using assms(1) by (simp add: decode_tail_def)
  let ?kept = "dropWhile ?sp (rev (chunks s) @ [(byte c, [c])])"
  have "(byte c, [c]) \<in> set (dropWhile ?sp (xs @ [(byte c, [c])]))" for xs
    using assms(2) by (induction xs) auto
  then have "c \<in> set (concat (map snd (rev ?kept)))" by force
  moreover have "trim_space (c # s) = concat (map snd (rev ?kept))"
    using assms(2) by (simp add: trim_space_def ch Let_def del: chunks.simps)
  ultimately show ?thesis unfolding blank_def by (metis empty_iff list.set(1))
qed

lemma lower_hex_visible: "lower_hex c \<Longrightarrow> byte c < 128 \<and> \<not> is_space (byte c)"
  by (auto simp: lower_hex_def less_eq_char_def byte_def is_space_def)

lemma repeated_visible:
  assumes "repeated p (Suc lo) hi s" and "\<And>c. p c \<Longrightarrow> byte c < 128 \<and> \<not> is_space (byte c)"
  shows "\<not> blank s"
  using assms by (cases s) (auto simp: repeated_def not_blank_first)

lemma uuid_not_blank: "securityUUID s \<Longrightarrow> \<not> blank s"
proof -
  assume "securityUUID s"
  then obtain a r where sp: "split_on (CHR ''-'') s = a # r" and a: "repeated lower_hex 8 8 a"
    by (auto simp: securityUUID_def split: list.splits)
  then obtain c a' where c: "a = c # a'" "lower_hex c" by (cases a) (auto simp: repeated_def)
  obtain d s' where s: "s = d # s'" using sp c by (cases s) auto
  then have "d = c" using sp c by (cases "d = CHR ''-''") (auto split: list.splits)
  with s c show ?thesis using not_blank_first lower_hex_visible by blast
qed

lemma code_not_blank: "securityCode s \<Longrightarrow> \<not> blank s"
  unfolding securityCode_def
  by (rule repeated_visible [where lo = 5 and hi = 6 and p = digit])
    (auto simp: digit_def less_eq_char_def byte_def is_space_def)

section \<open>The walk decides the rules\<close>

definition visible :: "char \<Rightarrow> bool" where
  "visible c = (byte c < 128 \<and> \<not> is_space (byte c))"

lemma fields_aux_visible:
  "w \<in> set (fields_aux acc (map (\<lambda>c. (byte c, [c])) s)) \<Longrightarrow> list_all visible acc \<Longrightarrow> ascii s \<Longrightarrow>
   w \<noteq> [] \<and> list_all visible w"
proof (induction s arbitrary: acc)
  case (Cons c s)
  show ?case
  proof (cases "is_space (byte c)")
    case True
    with Cons.prems have "w = acc \<and> acc \<noteq> [] \<or> w \<in> set (fields_aux [] (map (\<lambda>c. (byte c, [c])) s))"
      by (auto split: if_splits)
    with Cons.IH [of "[]"] Cons.prems show ?thesis by auto
  next
    case False
    with Cons.IH [of "acc @ [c]"] Cons.prems show ?thesis by (auto simp: visible_def)
  qed
qed (auto split: if_splits)

lemma enums_one_byte: "list_all (\<lambda>(n, ws). ascii ws) securityEnums"
  by (simp add: securityEnums_def byte_def)

lemma enum_not_blank: "securityEnum s n \<Longrightarrow> \<not> blank s"
proof -
  assume "securityEnum s n"
  then obtain ws where ws: "map_of securityEnums n = Some ws" and s: "s \<in> set (Go_Prelude.fields ws)"
    by (auto simp: securityEnum_def split: option.splits)
  from map_of_SomeD [OF ws] enums_one_byte have "ascii ws" by (auto simp: list_all_iff)
  with s have "s \<noteq> [] \<and> list_all visible s"
    by (auto simp: Go_Prelude.fields_def chunks_ascii dest: fields_aux_visible)
  then show ?thesis using not_blank_first by (cases s) (auto simp: visible_def)
qed

lemma verifier_not_blank: "securityVerifier s \<Longrightarrow> \<not> blank s"
  unfolding securityVerifier_def
  by (rule repeated_visible [where lo = 42 and hi = 128 and p = "\<lambda>c. alnum c \<or> c \<in> set ''._~-''"])
    (auto simp: alnum_def lower_alnum_def digit_def less_eq_char_def byte_def is_space_def)

lemma pkce_not_blank: "securityPKCE s \<Longrightarrow> \<not> blank s"
  unfolding securityPKCE_def
  by (rule repeated_visible [where lo = 42 and hi = 43 and p = "\<lambda>c. alnum c \<or> c = CHR ''_'' \<or> c = CHR ''-''"])
    (auto simp: alnum_def lower_alnum_def digit_def less_eq_char_def byte_def is_space_def)

lemma S256_not_blank: "\<not> blank ''S256''"
  by (rule not_blank_first) (simp_all add: byte_def is_space_def)

lemmas not_blank = uuid_not_blank code_not_blank enum_not_blank verifier_not_blank pkce_not_blank

lemma enums: "\<not> is_enum ''string''" "is_enum ''MFAOperationType''" "is_enum ''IdentifierKind''"
  "is_enum ''AuthorizationPurpose''" "is_enum ''TargetProofMethod''"
  by code_simp+

text \<open>A string by the last letters of the name of its field.\<close>

lemma suffixes:
  "\<not> has_suffix ''ID'' ''Type''" "\<not> has_suffix ''ID'' ''Kind''" "\<not> has_suffix ''ID'' ''Value''" "\<not> has_suffix ''ID'' ''Region''"
  "has_suffix ''ID'' ''IdentifierID''" "has_suffix ''ID'' ''ReplacementPrimaryID''" "has_suffix ''ID'' ''ProviderID''"
  "has_suffix ''ID'' ''TargetUserID''" "has_suffix ''ID'' ''SourceReplacementPrimaryID''" "\<not> has_suffix ''ID'' ''Password''"
  "has_suffix ''ID'' ''ChallengeID''" "\<not> has_suffix ''ID'' ''Code''" "\<not> has_suffix ''ID'' ''Credential''"
  "has_suffix ''ID'' ''AuthorizationID''" "\<not> has_suffix ''ID'' ''CodeVerifier''" "\<not> has_suffix ''ID'' ''RedirectURI''"
  "\<not> has_suffix ''ID'' ''CodeChallenge''" "\<not> has_suffix ''ID'' ''CodeChallengeMethod''" "\<not> has_suffix ''ID'' ''Purpose''"
  "\<not> has_suffix ''ID'' ''Method''"
  by code_simp+

lemmas walk_rules = string_ok_def type_rule_def str_field_def securityRequestTypes_def identity_payloads_def enums suffixes
  S256_not_blank

lemma login_walk:
  "validateSecurityRequest (reflect_LoginIdentifier r) = proper_LoginIdentifier r"
  "request_item t f (reflect_LoginIdentifier r) = proper_LoginIdentifier r"
  "request_field t f opt (reflect_LoginIdentifier r) = proper_LoginIdentifier r"
  by (cases "lid_Region r"; auto simp: reflect_LoginIdentifier_def proper_LoginIdentifier_def filled_text_def walk_rules
      dest: not_blank)+

lemma payload_walk: "validateSecurityRequest (reflect_IdentityPayload p) = proper_payload p"
proof (cases p)
  case (PRemoveIdentity r)
  then show ?thesis by (cases "ri_ReplacementPrimaryID r")
    (auto simp: reflect_RemoveIdentity_def uuid_if_given_def walk_rules dest: not_blank)
next
  case (PReplaceIdentity r)
  then show ?thesis by (cases "rpi_ReplacementPrimaryID r")
    (auto simp: reflect_ReplaceIdentity_def uuid_if_given_def login_walk walk_rules dest: not_blank)
next
  case (PTransferIdentity r)
  then show ?thesis by (cases "tr_SourceReplacementPrimaryID r")
    (auto simp: reflect_TransferIdentity_def uuid_if_given_def walk_rules dest: not_blank)
qed (auto simp: reflect_AddIdentity_def reflect_VerifyIdentity_def reflect_SetPrimaryIdentity_def reflect_LinkIdentity_def
    reflect_UnlinkIdentity_def login_walk walk_rules dest: not_blank)

lemma create_walk:
  "validateSecurityRequest (reflect_IdentityOperationCreate r) = proper_IdentityOperationCreate r"
proof (cases "icr_Payload r")
  case None
  then show ?thesis by (simp add: reflect_IdentityOperationCreate_def proper_IdentityOperationCreate_def)
next
  case (Some p)
  have "\<exists>n fs. reflect_IdentityPayload p = RStruct n fs \<and> n \<in> set identity_payloads" if "proper_payload p"
    using that by (cases p) (auto simp: reflect_AddIdentity_def reflect_VerifyIdentity_def reflect_SetPrimaryIdentity_def
      reflect_LinkIdentity_def reflect_UnlinkIdentity_def reflect_RemoveIdentity_def reflect_ReplaceIdentity_def
      reflect_TransferIdentity_def identity_payloads_def)
  with Some show ?thesis
    by (auto simp: reflect_IdentityOperationCreate_def proper_IdentityOperationCreate_def payload_walk
        type_rule_def securityRequestTypes_def split: req_value.splits)
qed

lemma reauthentication_walk:
  "validateSecurityRequest (reflect_Reauthentication r) = proper_Reauthentication r"
  by (cases r) (auto simp: reflect_PasswordReauthentication_def reflect_EmailOTPReauthentication_def walk_rules dest: not_blank)

lemma proofs_walk:
  "request_items (map reflect_IdentityTargetProof ps) =
     list_all (\<lambda>p. securityEnum (tp_Method p) ''TargetProofMethod'' \<and> securityCode (tp_Code p)) ps"
  by (induction ps) (auto simp: reflect_IdentityTargetProof_def walk_rules dest: not_blank)

lemma complete_walk:
  "validateSecurityRequest (reflect_IdentityOperationComplete r) = proper_IdentityOperationComplete r"
  by (cases "ic_Proofs r")
    (auto simp: reflect_IdentityOperationComplete_def proper_IdentityOperationComplete_def proofs_walk type_rule_def securityRequestTypes_def)

lemma authorize_walk:
  "validateSecurityRequest (reflect_IdentityProviderAuthorize r) = proper_IdentityProviderAuthorize r"
  by (cases "ip_MethodID r") (auto simp: reflect_IdentityProviderAuthorize_def proper_IdentityProviderAuthorize_def
      filled_text_def walk_rules dest: not_blank)

text \<open>
  C34. One walk by reflection validates every request of account security; it accepts exactly the
  requests that the rules of their type accept: identifiers of accounts are UUIDs, codes have six
  digits, PKCE challenges use S256, enumerations have one of their values, versions are not negative,
  and what is required is not blank.
\<close>

theorem request_rules:
  "validateSecurityRequest (reflect_IdentityOperationCreate create) = proper_IdentityOperationCreate create \<and>
   validateSecurityRequest (reflect_MFAOperationCreate mfa) = proper_MFAOperationCreate mfa \<and>
   validateSecurityRequest (reflect_Reauthentication reauth) = proper_Reauthentication reauth \<and>
   validateSecurityRequest (reflect_IdentityOperationComplete proofs) = proper_IdentityOperationComplete proofs \<and>
   validateSecurityRequest (reflect_IdentityProviderAuthorize iauth) = proper_IdentityProviderAuthorize iauth \<and>
   validateSecurityRequest (reflect_MFAProviderAuthorize mauth) = proper_MFAProviderAuthorize mauth \<and>
   validateSecurityRequest (reflect_ProviderExchange ex) = proper_ProviderExchange ex \<and>
   validateSecurityRequest (reflect_OperationStepUpVerify step) = proper_OperationStepUpVerify step \<and>
   validateSecurityRequest (reflect_OperationWebAuthnVerify web) = proper_OperationWebAuthnVerify web"
proof (intro conjI create_walk reauthentication_walk complete_walk authorize_walk)
  show "validateSecurityRequest (reflect_MFAOperationCreate mfa) = proper_MFAOperationCreate mfa"
    by (auto simp: reflect_MFAOperationCreate_def proper_MFAOperationCreate_def walk_rules dest: not_blank)
  show "validateSecurityRequest (reflect_MFAProviderAuthorize mauth) = proper_MFAProviderAuthorize mauth"
    by (auto simp: reflect_MFAProviderAuthorize_def proper_MFAProviderAuthorize_def walk_rules dest: not_blank)
  show "validateSecurityRequest (reflect_ProviderExchange ex) = proper_ProviderExchange ex"
    by (auto simp: reflect_ProviderExchange_def proper_ProviderExchange_def walk_rules dest: not_blank)
  show "validateSecurityRequest (reflect_OperationStepUpVerify step) = proper_OperationStepUpVerify step"
    by (auto simp: reflect_OperationStepUpVerify_def proper_OperationStepUpVerify_def walk_rules dest: not_blank)
  show "validateSecurityRequest (reflect_OperationWebAuthnVerify web) = proper_OperationWebAuthnVerify web"
    by (auto simp: reflect_OperationWebAuthnVerify_def proper_OperationWebAuthnVerify_def walk_rules dest: not_blank)
qed

end
