(* ===== verification/Security_Answers.thy ===== *)
theory Security_Answers
  imports Account_Security
begin

text \<open>
  What the answers of account security promise.  The code checks the document; a caller reads the value
  that encoding/json makes of it.  \<open>known\<close> is the contract on the value: every enumeration has one of its
  values, what is required is there, and the members of a struct agree with each other.  The checks
  give the contract for a document that spells its members as the contract does (\<open>exact\<close>), and only
  for such a document, because encoding/json also takes a member whose name differs in case.
\<close>

section \<open>The contract\<close>

definition vtext :: "(string \<times> go_value) list \<Rightarrow> string \<Rightarrow> string" where
  "vtext vs k = (case get_field k vs of VString s \<Rightarrow> s | _ \<Rightarrow> [])"

definition vbool :: "(string \<times> go_value) list \<Rightarrow> string \<Rightarrow> bool" where
  "vbool vs k = (case get_field k vs of VBool b \<Rightarrow> b | _ \<Rightarrow> False)"

definition vint :: "(string \<times> go_value) list \<Rightarrow> string \<Rightarrow> int" where
  "vint vs k = (case get_field k vs of VInt n \<Rightarrow> n | _ \<Rightarrow> 0)"

definition vitems :: "(string \<times> go_value) list \<Rightarrow> string \<Rightarrow> go_value list" where
  "vitems vs k = (case get_field k vs of VSlice (Some xs) \<Rightarrow> xs | _ \<Rightarrow> [])"

definition vstring :: "go_value \<Rightarrow> string" where
  "vstring x = (case x of VString s \<Rightarrow> s | _ \<Rightarrow> [])"

definition filled :: "(string \<times> go_value) list \<Rightarrow> string \<Rightarrow> bool" where
  "filled vs k = (case get_field k vs of VPtr (Some x) \<Rightarrow> True | VSlice (Some xs) \<Rightarrow> True | _ \<Rightarrow> False)"

definition promise :: "string \<Rightarrow> (string \<times> go_value) list \<Rightarrow> bool" where
  "promise name vs =
     (if name = ''RecoveryCodesRemaining'' then 0 \<le> vint vs ''remaining''
      else if name = ''ProviderTarget'' then
        securityUUID (vtext vs ''providerId'') \<and> securityProviderReference (vtext vs ''reference'')
      else if name = ''IdentityOperation'' then
        filled vs ''providerTarget'' \<longrightarrow> vtext vs ''type'' = ''LINK'' \<and>
          vtext vs ''state'' \<notin> set [''CANCELLED'', ''EXPIRED'', ''REJECTED'']
      else if name = ''IdentifierCapability'' then
        vbool vs ''allowed'' = (vitems vs ''unavailableReasons'' = []) \<and>
        list_all (\<lambda>x. securityUUID (vstring x)) (vitems vs ''replacementPrimaryIds'')
      else if name = ''MFAOperation'' then (vtext vs ''state'' = ''COMMITTED'') = filled vs ''result''
      else if name = ''TOTPBeginResult'' then
        (vtext vs ''delivery'' = ''AVAILABLE'') = filled vs ''material'' \<and> vtext vs ''delivery'' \<noteq> ''NOT_APPLICABLE''
      else if name = ''MFACompletionResult'' then
        (vtext vs ''delivery'' = ''AVAILABLE'') = filled vs ''recoveryCodes''
      else if name = ''RecoveryCodes'' then vint vs ''count'' = int (length (vitems vs ''codes''))
      else if name = ''MFAAction'' then
        vbool vs ''allowed'' \<and> vtext vs ''proofRequirement'' \<noteq> ''SESSION'' \<longrightarrow> vitems vs ''proofOptions'' \<noteq> []
      else if name = ''OperationProofOption'' then
        list_all (\<lambda>k. (k \<in> set (proof_members (vtext vs ''method''))) = filled vs k)
          [''identifierId'', ''maskedIdentifier'', ''methodId'', ''displayName'', ''availableMethods''] \<and>
        (vtext vs ''method'' = ''STEP_UP_PROOF'' \<longrightarrow> vitems vs ''availableMethods'' \<noteq> [] \<and>
           list_all (\<lambda>x. vstring x = ''TOTP'' \<or> vstring x = ''WEBAUTHN'') (vitems vs ''availableMethods''))
      else True)"

fun known :: "go_type \<Rightarrow> go_value \<Rightarrow> bool"
  and known_fields :: "(string \<times> bool \<times> go_type) list \<Rightarrow> (string \<times> go_value) list \<Rightarrow> bool" where
  "known (TString n) x = (case x of VString s \<Rightarrow> is_enum n \<longrightarrow> securityEnum s n | _ \<Rightarrow> False)"
| "known TBool x = (case x of VBool b \<Rightarrow> True | _ \<Rightarrow> False)"
| "known TInt64 x = (case x of VInt n \<Rightarrow> True | _ \<Rightarrow> False)"
| "known (TPtr t) x = (case x of VPtr (Some y) \<Rightarrow> known t y | _ \<Rightarrow> False)"
| "known (TSlice t) x = (case x of VSlice (Some xs) \<Rightarrow> list_all (known t) xs | _ \<Rightarrow> False)"
| "known (TMap k t) x = (case x of
     VMap (Some es) \<Rightarrow> list_all (\<lambda>(key, y). known k (VString key) \<and> known t y) es | _ \<Rightarrow> False)"
| "known (TStruct name fs) x = (case x of VStruct vs \<Rightarrow> known_fields fs vs \<and> promise name vs | _ \<Rightarrow> False)"
| "known_fields [] vs = True"
| "known_fields ((k, opt, t) # fs) vs =
     (((is_pointer t \<or> opt) \<and> get_field k vs = zero_of t \<or> known t (get_field k vs)) \<and> known_fields fs vs)"

text \<open>Every member of a struct is either none of its fields or spelt as the field.\<close>

fun exact :: "go_type \<Rightarrow> json \<Rightarrow> bool"
  and exact_fields :: "(string \<times> bool \<times> go_type) list \<Rightarrow> (string \<times> json) list \<Rightarrow> bool" where
  "exact (TString n) v = True"
| "exact TBool v = True"
| "exact TInt64 v = True"
| "exact (TPtr t) v = exact t v"
| "exact (TSlice t) v = (case v of JArr vs \<Rightarrow> list_all (exact t) vs | _ \<Rightarrow> True)"
| "exact (TMap k t) v = (case v of JObj ms \<Rightarrow> list_all (exact t) (map snd ms) | _ \<Rightarrow> True)"
| "exact (TStruct name fs) v = (case v of
     JObj ms \<Rightarrow> exact_fields fs ms \<and>
       list_all (\<lambda>k. list_all (\<lambda>n. equal_fold k n \<longrightarrow> k = n) (map fst fs)) (map fst ms)
   | _ \<Rightarrow> True)"
| "exact_fields [] ms = True"
| "exact_fields ((k, opt, t) # fs) ms =
     ((case raw_field ms k of None \<Rightarrow> True | Some v \<Rightarrow> exact t v) \<and> exact_fields fs ms)"

section \<open>Descriptors\<close>

text \<open>A struct declares the fields that the rules on its members read, with types that fit.\<close>

definition declared :: "(string \<times> bool \<times> go_type) list \<Rightarrow> string \<Rightarrow> (go_type \<Rightarrow> bool) \<Rightarrow> bool" where
  "declared fs k p = (case map_of fs k of Some (opt, t) \<Rightarrow> p t | None \<Rightarrow> False)"

definition is_text :: "go_type \<Rightarrow> bool" where "is_text t = (case t of TString n \<Rightarrow> True | _ \<Rightarrow> False)"
definition is_slice :: "go_type \<Rightarrow> bool" where "is_slice t = (case t of TSlice u \<Rightarrow> True | _ \<Rightarrow> False)"
definition is_texts :: "go_type \<Rightarrow> bool" where "is_texts t = (case t of TSlice (TString n) \<Rightarrow> True | _ \<Rightarrow> False)"
definition is_flag :: "go_type \<Rightarrow> bool" where "is_flag t = (t = TBool)"
definition is_number :: "go_type \<Rightarrow> bool" where "is_number t = (t = TInt64)"

definition rules_fit :: "string \<Rightarrow> (string \<times> bool \<times> go_type) list \<Rightarrow> bool" where
  "rules_fit name fs =
     (if name = ''RecoveryCodesRemaining'' then declared fs ''remaining'' is_number
      else if name = ''ProviderTarget'' then declared fs ''providerId'' is_text \<and> declared fs ''reference'' is_text
      else if name = ''IdentityOperation'' then
        declared fs ''providerTarget'' is_pointer \<and> declared fs ''type'' is_text \<and> declared fs ''state'' is_text
      else if name = ''IdentifierCapability'' then declared fs ''allowed'' is_flag \<and>
        declared fs ''unavailableReasons'' is_slice \<and> declared fs ''replacementPrimaryIds'' is_texts
      else if name = ''MFAOperation'' then declared fs ''state'' is_text \<and> declared fs ''result'' is_pointer
      else if name = ''TOTPBeginResult'' then declared fs ''delivery'' is_text \<and> declared fs ''material'' is_pointer
      else if name = ''MFACompletionResult'' then
        declared fs ''delivery'' is_text \<and> declared fs ''recoveryCodes'' is_pointer
      else if name = ''RecoveryCodes'' then declared fs ''count'' is_number \<and> declared fs ''codes'' is_slice
      else if name = ''MFAAction'' then declared fs ''allowed'' is_flag \<and> declared fs ''proofRequirement'' is_text \<and>
        declared fs ''proofOptions'' is_slice
      else if name = ''OperationProofOption'' then declared fs ''method'' is_text \<and>
        list_all (\<lambda>k. declared fs k is_pointer) [''identifierId'', ''maskedIdentifier'', ''methodId'', ''displayName''] \<and>
        declared fs ''availableMethods'' is_texts
      else True)"

fun fit :: "go_type \<Rightarrow> bool" and fit_fields :: "(string \<times> bool \<times> go_type) list \<Rightarrow> bool" where
  "fit (TString n) = True"
| "fit TBool = True"
| "fit TInt64 = True"
| "fit (TPtr t) = fit t"
| "fit (TSlice t) = fit t"
| "fit (TMap k t) = (is_text k \<and> fit t)"
| "fit (TStruct name fs) = (distinct (map fst fs) \<and> rules_fit name fs \<and> fit_fields fs)"
| "fit_fields [] = True"
| "fit_fields ((k, opt, t) # fs) = (fit t \<and> fit_fields fs)"

lemma small_fit:
  "fit OperationProofOption" "fit OperationCompletion" "fit MFAOperationResult" "fit TOTPMaterial" "fit RecoveryCodes"
  "fit IdentityRequiredProof" "fit ProviderTarget" "fit ProviderAuthorization" "fit OperationStepUpChallenge"
  "fit OperationWebAuthnStart" "fit IdentifierCapability" "fit AccountLoginMethod" "fit LinkableIdentityProvider"
  "fit RecoveryCodesRemaining"
  by code_simp+

lemma operations_fit: "fit MFAAction" "fit MFACapabilities" "fit MFAOperation" "fit TOTPBeginResult"
  "fit MFACompletionResult" "fit MFAChallengeResult" "fit IdentityOperation" "fit IdentityChallengeResult"
  by code_simp+

lemma accounts_fit: "fit AccountIdentifier" "fit IdentifierManagement" "fit AccountIdentifiers" "fit AccountLoginMethods"
  by code_simp+

lemmas answers_fit = small_fit operations_fit accounts_fit

section \<open>From the document to the value\<close>

lemma get_set_field: "map_of vs n \<noteq> None \<Longrightarrow> get_field k (set_field n x vs) = (if k = n then x else get_field k vs)"
  by (induction vs) (auto simp: get_field_def split: if_splits)

lemma dom_set_field: "map_of (set_field n x vs) k = None \<longleftrightarrow> map_of vs k = None"
  by (induction vs) (auto split: if_splits)

lemma find_field_exact:
  assumes "list_all (\<lambda>n. equal_fold k n \<longrightarrow> k = n) (map fst fs)" and "distinct (map fst fs)"
  shows "find_field k fs = map_option (\<lambda>(opt, t). (k, t)) (map_of fs k)"
  using assms by (induction fs) (auto simp: equal_fold_def)

lemma members_decoded:
  assumes "decode_members fs ms vs = Some vs'" and "distinct (map fst ms)" and "distinct (map fst fs)"
    and "list_all (\<lambda>k. list_all (\<lambda>n. equal_fold k n \<longrightarrow> k = n) (map fst fs)) (map fst ms)"
    and "\<And>k. map_of fs k \<noteq> None \<Longrightarrow> map_of vs k \<noteq> None" and "map_of fs k = Some (opt, t)"
  shows "case map_of ms k of None \<Rightarrow> get_field k vs' = get_field k vs
    | Some v \<Rightarrow> decode t v (get_field k vs) = Some (get_field k vs')"
  using assms
proof (induction ms arbitrary: vs)
  case (Cons m ms)
  obtain n v where m: "m = (n, v)" by fastforce
  have ff: "find_field n fs = map_option (\<lambda>(opt, t). (n, t)) (map_of fs n)"
    using Cons.prems(3,4) m by (intro find_field_exact) auto
  show ?case
  proof (cases "map_of fs n")
    case None
    with Cons.prems m ff show ?thesis using Cons.IH [of vs] by auto
  next
    case (Some f)
    obtain o' u where f: "f = (o', u)" by fastforce
    with Some ff Cons.prems(1) m obtain x where x: "decode u v (get_field n vs) = Some x"
      and rest: "decode_members fs ms (set_field n x vs) = Some vs'" by (auto split: option.splits)
    have dom: "map_of vs n \<noteq> None" using Cons.prems(5) Some by simp
    from Cons.IH [OF rest] Cons.prems m dom
    have ih: "case map_of ms k of None \<Rightarrow> get_field k vs' = get_field k (set_field n x vs)
      | Some v \<Rightarrow> decode t v (get_field k (set_field n x vs)) = Some (get_field k vs')"
      by (simp add: dom_set_field)
    show ?thesis
    proof (cases "k = n")
      case True
      with Cons.prems(2) m have "map_of ms k = None" by (auto simp: map_of_eq_None_iff)
      with ih True m x Some f Cons.prems(6) dom show ?thesis by (simp add: get_set_field)
    next
      case False
      with ih m dom show ?thesis by (auto simp: get_set_field split: option.splits)
    qed
  qed
qed simp

lemma decode_null: "decode t JNull (zero_of t) = Some (zero_of t)"
  by (cases t) auto

lemma get_zero_field: "map_of fs k = Some (opt, t) \<Longrightarrow> get_field k (zero_fields fs) = zero_of t"
  by (induction fs) (auto simp: get_field_def split: if_splits)

lemma dom_zero_fields: "map_of (zero_fields fs) k = None \<longleftrightarrow> map_of fs k = None"
  by (induction fs) auto

text \<open>The struct \<open>vs\<close> holds, field by field, what the document \<open>ms\<close> says.\<close>

definition holds_document :: "(string \<times> bool \<times> go_type) list \<Rightarrow> (string \<times> json) list \<Rightarrow> (string \<times> go_value) list \<Rightarrow> bool" where
  "holds_document fs ms vs \<longleftrightarrow> (\<forall>(k, opt, t) \<in> set fs. case raw_field ms k of
     None \<Rightarrow> get_field k vs = zero_of t | Some v \<Rightarrow> decode t v (zero_of t) = Some (get_field k vs))"

lemma struct_decoded:
  assumes "decode_members fs ms (zero_fields fs) = Some vs" and "distinct (map fst ms)" and "distinct (map fst fs)"
    and "list_all (\<lambda>k. list_all (\<lambda>n. equal_fold k n \<longrightarrow> k = n) (map fst fs)) (map fst ms)"
  shows "holds_document fs ms vs"
  unfolding holds_document_def
proof (intro ballI, clarify)
  fix k opt t assume "(k, opt, t) \<in> set fs"
  then have f: "map_of fs k = Some (opt, t)" using assms(3) by simp
  have raw: "raw_field ms k = map_of ms k" using assms(2) by (rule raw_field_map_of)
  have "case map_of ms k of None \<Rightarrow> get_field k vs = get_field k (zero_fields fs)
    | Some v \<Rightarrow> decode t v (get_field k (zero_fields fs)) = Some (get_field k vs)"
    by (rule members_decoded [OF assms _ f]) (simp add: dom_zero_fields)
  then show "case raw_field ms k of None \<Rightarrow> get_field k vs = zero_of t | Some v \<Rightarrow> decode t v (zero_of t) = Some (get_field k vs)"
    unfolding raw get_zero_field [OF f] .
qed

section \<open>Rules on the members\<close>

text \<open>What the rules read in the document is what they read in the value.\<close>

lemma declaredE:
  assumes "declared fs k p"
  obtains opt t where "(k, opt, t) \<in> set fs" and "p t"
  using assms by (auto simp: declared_def split: option.splits dest: map_of_SomeD)

lemma held:
  assumes "holds_document fs ms vs" and "(k, opt, t) \<in> set fs"
  obtains "raw_field ms k = None" and "get_field k vs = zero_of t"
  | v y where "raw_field ms k = Some v" and "decode t v (zero_of t) = Some y" and "get_field k vs = y"
  using assms unfolding holds_document_def by (cases "raw_field ms k") fastforce+

lemma decode_items_length: "decode_items t vs olds = Some xs \<Longrightarrow> length xs = length vs"
  by (induction vs arbitrary: olds xs) (auto split: option.splits)

lemma decode_texts: "decode_items (TString n) vs [] = Some xs \<Longrightarrow> map vstring xs = map str_item vs"
  by (induction vs arbitrary: xs) (auto simp: vstring_def split: option.splits json.splits)

lemma held_text:
  assumes "holds_document fs ms vs" and "declared fs k is_text"
  shows "text_of ms k = vtext vs k"
proof -
  obtain opt n where f: "(k, opt, TString n) \<in> set fs"
    using assms(2) by (auto elim: declaredE simp: is_text_def split: go_type.splits)
  show "text_of ms k = vtext vs k"
    by (cases "get_field k vs"; rule held [OF assms(1) f]) (auto simp: text_of_def vtext_def
        split: option.splits json.splits if_splits)
qed

lemma held_flag:
  assumes "holds_document fs ms vs" and "declared fs k is_flag"
  shows "bool_of ms k = vbool vs k"
proof -
  obtain opt where f: "(k, opt, TBool) \<in> set fs"
    using assms(2) by (auto elim: declaredE simp: is_flag_def split: go_type.splits)
  show "bool_of ms k = vbool vs k"
    by (cases "get_field k vs"; rule held [OF assms(1) f]) (auto simp: bool_of_def vbool_def
        split: option.splits json.splits if_splits)
qed

lemma held_number:
  assumes "holds_document fs ms vs" and "declared fs k is_number"
  shows "int_of ms k = vint vs k"
proof -
  obtain opt where f: "(k, opt, TInt64) \<in> set fs"
    using assms(2) by (auto elim: declaredE simp: is_number_def split: go_type.splits)
  show "int_of ms k = vint vs k"
    by (cases "get_field k vs"; rule held [OF assms(1) f]) (auto simp: int_of_def vint_def
        split: option.splits json.splits if_splits)
qed

lemma held_length:
  assumes "holds_document fs ms vs" and "declared fs k is_slice"
  shows "length (items_of ms k) = length (vitems vs k)"
proof -
  obtain opt u where f: "(k, opt, TSlice u) \<in> set fs"
    using assms(2) by (auto elim: declaredE simp: is_slice_def split: go_type.splits)
  show "length (items_of ms k) = length (vitems vs k)"
    by (cases "get_field k vs"; rule held [OF assms(1) f]) (auto simp: items_of_def vitems_def decode_items_length
        split: option.splits json.splits if_splits)
qed

lemma held_slice:
  assumes "holds_document fs ms vs" and "declared fs k is_slice"
  shows "present ms k = filled vs k"
proof -
  obtain opt u where f: "(k, opt, TSlice u) \<in> set fs"
    using assms(2) by (auto elim: declaredE simp: is_slice_def split: go_type.splits)
  show "present ms k = filled vs k"
    by (cases "get_field k vs"; rule held [OF assms(1) f]) (auto simp: present_def filled_def
        split: option.splits json.splits if_splits)
qed

lemma held_texts:
  assumes "holds_document fs ms vs" and "declared fs k is_texts"
  shows "map str_item (items_of ms k) = map vstring (vitems vs k)"
proof -
  obtain opt n where f: "(k, opt, TSlice (TString n)) \<in> set fs"
    using assms(2) by (auto elim: declaredE simp: is_texts_def split: go_type.splits)
  show "map str_item (items_of ms k) = map vstring (vitems vs k)"
    by (cases "get_field k vs"; rule held [OF assms(1) f]) (auto simp: items_of_def vitems_def decode_texts
        split: option.splits json.splits if_splits)
qed

lemma held_pointer:
  assumes "holds_document fs ms vs" and "declared fs k is_pointer"
  shows "present ms k = filled vs k"
proof -
  obtain opt u where f: "(k, opt, TPtr u) \<in> set fs"
    using assms(2) by (auto elim: declaredE simp: is_pointer_def split: go_type.splits)
  show "present ms k = filled vs k"
    by (cases "get_field k vs"; rule held [OF assms(1) f]) (auto simp: present_def filled_def
        split: option.splits json.splits if_splits)
qed

lemma texts_slice: "declared fs k is_texts \<Longrightarrow> declared fs k is_slice"
  by (auto simp: declared_def is_texts_def is_slice_def split: option.splits go_type.splits)

lemma held_empty:
  assumes "holds_document fs ms vs" and "declared fs k is_slice"
  shows "(items_of ms k = []) = (vitems vs k = [])"
  using held_length [OF assms] by (metis length_0_conv)

lemma held_all:
  assumes "holds_document fs ms vs" and "declared fs k is_texts"
  shows "list_all (\<lambda>v. p (str_item v)) (items_of ms k) = list_all (\<lambda>x. p (vstring x)) (vitems vs k)"
proof -
  have "list_all p (map str_item (items_of ms k)) = list_all p (map vstring (vitems vs k))"
    using held_texts [OF assms] by simp
  then show ?thesis by (simp add: list.pred_map comp_def)
qed

lemmas held_rules = held_text held_flag held_number held_length held_slice held_pointer held_empty held_all

lemma promise_kept:
  assumes "holds_document fs ms vs" and "rules_fit name fs" and "securitySemantic name ms"
  shows "promise name vs"
  using assms(2,3) unfolding promise_def securitySemantic_def rules_fit_def
  by (simp add: held_rules [OF assms(1)] texts_slice held_all [OF assms(1), where p = "\<lambda>s. s = ''TOTP'' \<or> s = ''WEBAUTHN''"]
      split del: if_split split: if_split_asm) blast+

section \<open>The contract is kept\<close>

lemma entries_decoded:
  "decode_entries t ms es = Some es' \<Longrightarrow> distinct (map fst es @ map fst ms) \<Longrightarrow>
   \<exists>xs. es' = es @ xs \<and> list_all2 (\<lambda>(k, v) (k', x). k' = k \<and> decode t v (zero_of t) = Some x) ms xs"
proof (induction ms arbitrary: es)
  case (Cons m ms)
  obtain k v where m: "m = (k, v)" by fastforce
  with Cons.prems obtain x where x: "decode t v (zero_of t) = Some x"
    and rest: "decode_entries t ms (AList.update k x es) = Some es'" by (auto split: option.splits)
  have "k \<notin> fst ` set es" using Cons.prems(2) m by auto
  then have u: "AList.update k x es = es @ [(k, x)]" by (induction es) auto
  from Cons.IH [OF rest] Cons.prems(2) m
  obtain xs where "es' = (es @ [(k, x)]) @ xs"
    and "list_all2 (\<lambda>(k, v) (k', x). k' = k \<and> decode t v (zero_of t) = Some x) ms xs" by (auto simp: u)
  then show ?case using m x by auto
qed simp

lemma items_decoded:
  "decode_items t vs [] = Some xs \<Longrightarrow> list_all2 (\<lambda>v x. decode t v (zero_of t) = Some x) vs xs"
  by (induction vs arbitrary: xs) (auto split: option.splits)

lemma items_known:
  assumes "decode_items t vs [] = Some xs"
    and "\<And>v x. v \<in> set vs \<Longrightarrow> decode t v (zero_of t) = Some x \<Longrightarrow> known t x"
  shows "list_all (known t) xs"
  using items_decoded [OF assms(1)] assms(2) by (induction rule: list_all2_induct) auto

lemma entries_known:
  assumes "decode_entries t ms [] = Some es" and "distinct (map fst ms)"
    and "\<And>k v x. (k, v) \<in> set ms \<Longrightarrow> decode t v (zero_of t) = Some x \<Longrightarrow> p k x"
  shows "list_all (\<lambda>(k, x). p k x) es"
proof -
  have "list_all2 (\<lambda>(k, v) (k', x). k' = k \<and> decode t v (zero_of t) = Some x) ms es"
    using entries_decoded [OF assms(1)] assms(2) by auto
  then show ?thesis using assms(3) by (induction rule: list_all2_induct) auto
qed

text \<open>The fields of a struct, once its own members are in place.\<close>

lemma validated_known:
  "validateSecurityJSON t v \<Longrightarrow> fit t \<Longrightarrow> no_dups v \<Longrightarrow> exact t v \<Longrightarrow> decode t v (zero_of t) = Some x \<Longrightarrow> known t x"
  "validate_fields fs ms \<Longrightarrow> fit_fields fs \<Longrightarrow> (\<And>k v. raw_field ms k = Some v \<Longrightarrow> no_dups v) \<Longrightarrow>
   exact_fields fs ms \<Longrightarrow> holds_document fs ms vs \<Longrightarrow> known_fields fs vs"
proof (induction t v and fs ms arbitrary: x and vs rule: validateSecurityJSON_validate_fields.induct)
  case (1 t v)
  then show ?case by (auto split: if_splits)
next
  case (2 t v)
  then obtain vs xs where v: "v = JArr vs" and xs: "decode_items t vs [] = Some xs" "x = VSlice (Some xs)"
    by (auto split: json.splits)
  from xs(1) have "list_all (known t) xs"
    by (rule items_known) (use 2 v in \<open>auto simp: list_all_iff\<close>)
  with xs show ?case by simp
next
  case (3 k t v)
  then obtain ms es where v: "v = JObj ms" and es: "decode_entries t ms [] = Some es" "x = VMap (Some es)"
    by (auto split: json.splits)
  have d: "distinct (map fst ms)" using 3 v by simp
  have "list_all (\<lambda>(key, y). known k (VString key) \<and> known t y) es"
  proof (rule entries_known [OF es(1) d])
    fix key w y assume m: "(key, w) \<in> set ms" and y: "decode t w (zero_of t) = Some y"
    have "raw_field ms key = Some w" using m d by (simp add: raw_field_map_of)
    with m v 3 have val: "validateSecurityJSON k (JStr key)" "validateSecurityJSON t w" by (auto simp: list_all_iff)
    obtain n where k: "k = TString n" using 3 by (auto simp: is_text_def split: go_type.splits)
    have "exact t w" "no_dups w" "fit t" using 3 v m by (auto simp: list_all_iff)
    with 3(2) [OF v, of key y] val \<open>raw_field ms key = Some w\<close> m y have "known t y" by force
    with val(1) k show "known k (VString key) \<and> known t y" by simp
  qed
  with es show ?case by simp
next
  case (4 name fs v)
  then obtain ms vs where v: "v = JObj ms" and vs: "decode_members fs ms (zero_fields fs) = Some vs" "x = VStruct vs"
    by (auto split: json.splits)
  have d: "distinct (map fst ms)" using 4 v by simp
  have h: "holds_document fs ms vs"
    by (rule struct_decoded [OF vs(1) d]) (use 4 v in auto)
  have "no_dups w" if "raw_field ms key = Some w" for key w
    using 4 v that d by (auto simp: raw_field_map_of dest: map_of_SomeD)
  with 4 v vs h show ?case by (auto intro: promise_kept)
next
  case (9 k opt t fs ms)
  have h: "holds_document fs ms vs" using 9 by (simp add: holds_document_def)
  have "(is_pointer t \<or> opt) \<and> get_field k vs = zero_of t \<or> known t (get_field k vs)"
    by (rule held [of "(k, opt, t) # fs" ms vs k opt t]) (use 9 decode_null [of t] in \<open>auto split: if_splits\<close>)
  with 9 h show ?case by simp
qed (auto split: json.splits)

section \<open>Operations\<close>

lemma exchange_answer:
  "exchange net cx q w = (Inr resp, w') \<Longrightarrow> \<exists>d. net (sent w) q = (d, Inr resp)"
  by (auto simp: exchange_def Let_def split: prod.splits option.splits if_splits)

lemma security_answer_document:
  assumes "accountSecurityRequest rt cx c m path token key bdy t w = (Inr x, w')"
  obtains d resp v where "rt_net rt (sent w) (security_request c m path token key bdy) = (d, Inr resp)"
    and "parse_json (body resp) = Some v" and "no_dups v" and "decode t v (zero_of t) = Some x"
    and "validateSecurityJSON t v"
proof -
  let ?q = "security_request c m path token key bdy"
  obtain e w1 where ex: "exchange (rt_net rt) (client_ctx (cl_timeout c) w cx) ?q w = (e, w1)" by fastforce
  with assms obtain resp v where e: "e = Inr resp" and v: "decodeSecurityJSON t (body resp) = Some (v, x)"
    "validateSecurityJSON t v"
    by (auto simp: accountSecurityRequest_def Let_def split: if_splits sum.splits option.splits)
  from v(1) have "rejectDuplicateJSONMembers (body resp) = Inr v" and "decode t v (zero_of t) = Some x"
    by (auto simp: decodeSecurityJSON_def split: sum.splits)
  moreover from this(1) have "parse_json (body resp) = Some v" "no_dups v" by (simp_all add: rejectDuplicate_Inr)
  ultimately show thesis using ex e v(2) exchange_answer by (blast intro: that)
qed

text \<open>A value that the operation returns satisfies the contract, if the answer spells its members right.\<close>

definition keeps_contract :: "runtime \<Rightarrow> go_type \<Rightarrow> security_op \<Rightarrow> bool" where
  "keeps_contract rt t f \<longleftrightarrow> (\<forall>w x w' q d resp v. f w = (Inr x, w') \<longrightarrow> sent w' = sent w @ [q] \<longrightarrow>
     rt_net rt (sent w) q = (d, Inr resp) \<longrightarrow> parse_json (body resp) = Some v \<longrightarrow> exact t v \<longrightarrow> known t x)"

lemma keeps_request: "fit t \<Longrightarrow> keeps_contract rt t (accountSecurityRequest rt cx c m path token key bdy t)"
  unfolding keeps_contract_def
proof (intro allI impI)
  fix w x w' q d resp v
  assume t: "fit t" and r: "accountSecurityRequest rt cx c m path token key bdy t w = (Inr x, w')"
    and q: "sent w' = sent w @ [q]" "rt_net rt (sent w) q = (d, Inr resp)"
    and v: "parse_json (body resp) = Some v" "exact t v"
  have "q = security_request c m path token key bdy" using security_exchange [OF r] q(1) by auto
  moreover from r obtain d' resp' v' where "rt_net rt (sent w) (security_request c m path token key bdy) = (d', Inr resp')"
    and "parse_json (body resp') = Some v'" and "no_dups v'" and "decode t v' (zero_of t) = Some x"
    and "validateSecurityJSON t v'" by (rule security_answer_document)
  ultimately show "known t x" using q(2) v t validated_known(1) by auto
qed

lemma keeps_secured: "(\<And>token. keeps_contract rt t (f token)) \<Longrightarrow> keeps_contract rt t (secured accessToken ok f)"
  by (auto simp: keeps_contract_def secured_def split: sum.splits if_splits)

lemma keeps_create:
  assumes "\<And>token bdy. keeps_contract rt t (f token bdy)"
  shows "keeps_contract rt t (secured accessToken ok (\<lambda>token. case doc of
     None \<Rightarrow> (\<lambda>w. (Inl (if expired cx (clock w) then SecurityContext else SecurityInput), w)) | Some bdy \<Rightarrow> f token bdy))"
  using assms by (intro keeps_secured) (auto simp: keeps_contract_def split: option.split)

lemma slices_fit: "fit (TSlice LinkableIdentityProvider)" "fit (TSlice IdentityOperation)"
  by (simp_all add: answers_fit)

text \<open>
  C25. The contract of the answers.  When the answer of the server spells its members as the contract
  does, the value that an operation of account security returns satisfies it down to its last field:
  enumerations have one of their values, required fields are there, and the fields of a struct agree
  (material exactly when it is delivered, a result exactly when the operation is committed, as many
  recovery codes as it counts, proof options when a proof is required, no negative count).
\<close>

theorem security_answers_known:
  "keeps_contract rt AccountIdentifiers (ListAccountIdentifiers rt cx c tok) \<and>
   keeps_contract rt AccountLoginMethods (ListAccountLoginMethods rt cx c tok) \<and>
   keeps_contract rt (TSlice LinkableIdentityProvider) (ListLinkableIdentityProviders rt cx c tok) \<and>
   keeps_contract rt IdentityOperation (CreateIdentityOperation rt cx c tok q1 k) \<and>
   keeps_contract rt IdentityOperation (GetIdentityOperation rt cx c tok i) \<and>
   keeps_contract rt (TSlice IdentityOperation) (ListIdentityTransfers rt cx c tok) \<and>
   keeps_contract rt IdentityOperation (ReauthenticateIdentityOperation rt cx c tok i q2) \<and>
   keeps_contract rt IdentityOperation (ChallengeIdentityOperation rt cx c tok i pm) \<and>
   keeps_contract rt IdentityChallengeResult (ChallengeIdentityCurrentAccount rt cx c tok i ident) \<and>
   keeps_contract rt IdentityOperation (CompleteIdentityOperation rt cx c tok i q3) \<and>
   keeps_contract rt IdentityOperation (CancelIdentityOperation rt cx c tok i) \<and>
   keeps_contract rt IdentityOperation (ConfirmIdentityTransfer rt cx c tok i dec) \<and>
   keeps_contract rt ProviderAuthorization (AuthorizeIdentityOperation rt cx c tok i q4) \<and>
   keeps_contract rt IdentityOperation (CompleteIdentityProviderAuthorization rt cx c tok i q5) \<and>
   keeps_contract rt MFACapabilities (GetMFACapabilities rt cx c tok) \<and>
   keeps_contract rt MFAOperation (CreateMFAOperation rt cx c tok q6 k) \<and>
   keeps_contract rt MFAOperation (GetMFAOperation rt cx c tok i) \<and>
   keeps_contract rt MFAOperation (ReauthenticateMFAOperation rt cx c tok i q2) \<and>
   keeps_contract rt MFAChallengeResult (ChallengeMFAOperation rt cx c tok i ident) \<and>
   keeps_contract rt ProviderAuthorization (AuthorizeMFAOperation rt cx c tok i q7) \<and>
   keeps_contract rt MFAOperation (CompleteMFAProviderAuthorization rt cx c tok i q5) \<and>
   keeps_contract rt TOTPBeginResult (BeginTOTPEnrollmentOperation rt cx c tok i) \<and>
   keeps_contract rt MFACompletionResult (CompleteMFAOperation rt cx c tok i code) \<and>
   keeps_contract rt MFAOperation (CancelMFAOperation rt cx c tok i) \<and>
   keeps_contract rt OperationStepUpChallenge (StartIdentityOperationStepUp rt cx c tok i) \<and>
   keeps_contract rt IdentityOperation (VerifyIdentityOperationStepUp rt cx c tok i q8) \<and>
   keeps_contract rt OperationWebAuthnStart (StartIdentityOperationWebAuthn rt cx c tok i ch) \<and>
   keeps_contract rt IdentityOperation (VerifyIdentityOperationWebAuthn rt cx c tok i q9) \<and>
   keeps_contract rt OperationStepUpChallenge (StartMFAOperationStepUp rt cx c tok i) \<and>
   keeps_contract rt MFAOperation (VerifyMFAOperationStepUp rt cx c tok i q8) \<and>
   keeps_contract rt OperationWebAuthnStart (StartMFAOperationWebAuthn rt cx c tok i ch) \<and>
   keeps_contract rt MFAOperation (VerifyMFAOperationWebAuthn rt cx c tok i q9) \<and>
   keeps_contract rt RecoveryCodesRemaining (GetRecoveryCodesRemaining rt cx c tok)"
  unfolding security_ops
  by (intro conjI keeps_create keeps_secured keeps_request answers_fit slices_fit)

section \<open>An answer that is spelt otherwise\<close>

definition count_document :: string where
  "count_document = [CHR 0x7B] @ quoted ''remaining'' @ '':1,'' @ quoted ''Remaining'' @ '':-5'' @ [CHR 0x7D]"

definition count_server :: runtime where
  "count_server = \<lparr>rt_net = (\<lambda>h q. (0, Inr \<lparr>status = 200, resp_headers = [], body = count_document, read_error = False\<rparr>)),
     rt_url_ok = (\<lambda>u. True), rt_text = (\<lambda>f. []), rt_nfc = (\<lambda>s. True)\<rparr>"

lemma count_parsed:
  "parse_json count_document = Some (JObj [(''remaining'', JNum ''1''), (''Remaining'', JNum ''-5'')])"
  by (simp add: count_document_def quoted_def parse_json_def json_eval)

lemma count_members: "equal_fold ''Remaining'' ''remaining''"
  by (simp add: equal_fold_def runes_def fold_rune_def byte_def)

lemma count_numbers: "num_int ''1'' = Some 1" "num_int ''-5'' = Some (- 5)"
  by code_simp+

lemma count_decoded:
  "decodeSecurityJSON RecoveryCodesRemaining count_document =
     Some (JObj [(''remaining'', JNum ''1''), (''Remaining'', JNum ''-5'')], VStruct [(''remaining'', VInt (- 5))])"
proof -
  have "rejectDuplicateJSONMembers count_document = Inr (JObj [(''remaining'', JNum ''1''), (''Remaining'', JNum ''-5'')])"
    using count_parsed by (simp add: rejectDuplicate_Inr)
  moreover have "decode RecoveryCodesRemaining (JObj [(''remaining'', JNum ''1''), (''Remaining'', JNum ''-5'')])
      (zero_of RecoveryCodesRemaining) = Some (VStruct [(''remaining'', VInt (- 5))])"
    by (simp add: RecoveryCodesRemaining_def get_field_def count_members count_numbers)
  ultimately show ?thesis by (simp add: decodeSecurityJSON_def)
qed

lemma count_validated:
  "validateSecurityJSON RecoveryCodesRemaining (JObj [(''remaining'', JNum ''1''), (''Remaining'', JNum ''-5'')])"
  by code_simp


end
