(* ===== verification/Codegen_Render.thy ===== *)
theory Codegen_Render
  imports Authz Go_Encode
begin

text \<open>
  The generator of Go constants (cmd/iam-codegen/generator/generate.go): names of variables, the checks
  on the declarations, and the text of the file.  gofmt (the package go/format) is the parameter
  \<open>gofmt\<close>, the test for normal form C of golang.org/x/text is \<open>nfc\<close>, and \<open>printable\<close> is the table that
  strconv.IsPrint has for the runes outside ASCII.
\<close>

section \<open>Quoted strings\<close>

text \<open>\<open>strconv.Quote\<close>, which the verb \<open>%q\<close> uses for a string.\<close>

definition hex_digits :: "nat \<Rightarrow> nat \<Rightarrow> string" where
  "hex_digits n r = map (\<lambda>i. hex_lower (r div 16 ^ (n - 1 - i) mod 16)) [0..<n]"

definition quote_rune :: "(nat \<Rightarrow> bool) \<Rightarrow> nat \<times> string \<Rightarrow> string" where
  "quote_rune printable p = (let (r, bs) = p in
     if r = 65533 \<and> length bs = 1 then CHR 0x5C # ''x'' @ hex_digits 2 (byte (hd bs))
     else if r = 34 then [CHR 0x5C, CHR 0x22]
     else if r = 92 then [CHR 0x5C, CHR 0x5C]
     else if (if r < 128 then 32 \<le> r \<and> r < 127 else printable r) then bs
     else if r = 7 then CHR 0x5C # ''a''
     else if r = 8 then CHR 0x5C # ''b''
     else if r = 12 then CHR 0x5C # ''f''
     else if r = 10 then CHR 0x5C # ''n''
     else if r = 13 then CHR 0x5C # ''r''
     else if r = 9 then CHR 0x5C # ''t''
     else if r = 11 then CHR 0x5C # ''v''
     else if r < 32 \<or> r = 127 then CHR 0x5C # ''x'' @ hex_digits 2 r
     else if r < 65536 then CHR 0x5C # ''u'' @ hex_digits 4 r
     else CHR 0x5C # ''U'' @ hex_digits 8 r)"

definition go_quote :: "(nat \<Rightarrow> bool) \<Rightarrow> string \<Rightarrow> string" where
  "go_quote printable s = [CHR 0x22] @ concat (map (quote_rune printable) (chunks s)) @ [CHR 0x22]"

section \<open>Names\<close>

text \<open>
  \<open>unicode.ToUpper\<close> is exact on ASCII, which is all that \<open>Render\<close> passes on: it refuses other keys first.
\<close>

definition separator :: "nat \<Rightarrow> bool" where
  "separator r = (r \<in> set (map byte ''-_. /''))"

fun pascal_runes :: "bool \<Rightarrow> nat list \<Rightarrow> string" where
  "pascal_runes upper [] = []"
| "pascal_runes upper (r # rs) =
     (if separator r then pascal_runes True rs
      else if upper then encode_rune (to_upper_rune r) @ pascal_runes False rs
      else encode_rune r @ pascal_runes False rs)"

definition pascal :: "string \<Rightarrow> string" where
  "pascal s = (if s = ''*'' then ''Wildcard'' else pascal_runes True (runes s))"

definition ConstName :: "string \<Rightarrow> string \<Rightarrow> string" where
  "ConstName resource action = (let name = pascal resource @ pascal action in
     case name of [] \<Rightarrow> ''Permission'' | c # cs \<Rightarrow> if digit c then CHR ''P'' # name else name)"

section \<open>Render\<close>

record PermissionDefinition =
  pd_Resource :: string
  pd_Action :: string
  pd_Description :: string

definition pd_Key :: "PermissionDefinition \<Rightarrow> PermissionKey" where
  "pd_Key d = PKey (pd_Resource d) (pd_Action d)"

record Input =
  in_Package :: string
  in_GoImport :: string
  in_Permissions :: "PermissionDefinition list"

record entry =
  en_ConstName :: string
  en_Resource :: string
  en_Action :: string
  en_Description :: string

datatype render_error = EmptyPackage | InvalidKey string | DescriptionNotNFC string | DuplicatePermission string
  | NameCollision string string string | FormatError string

text \<open>The loop over the sorted declarations; \<open>names\<close> maps a name to the key it stands for.\<close>

fun render_entries ::
  "(string \<Rightarrow> bool) \<Rightarrow> (string \<rightharpoonup> string) \<Rightarrow> string set \<Rightarrow> PermissionDefinition list \<Rightarrow> render_error + entry list" where
  "render_entries nfc names keys [] = Inr []"
| "render_entries nfc names keys (d # ds) =
     (let wireKey = pd_Resource d @ '':'' @ pd_Action d; constName = ConstName (pd_Resource d) (pd_Action d) in
      if \<not> IsConcrete (pd_Key d) then Inl (InvalidKey wireKey)
      else if \<not> valid_utf8 (pd_Description d) \<or> \<not> nfc (pd_Description d) then Inl (DescriptionNotNFC wireKey)
      else if wireKey \<in> keys then Inl (DuplicatePermission wireKey)
      else (case names constName of
          Some previous \<Rightarrow> Inl (NameCollision previous wireKey constName)
        | None \<Rightarrow> bind_ok (render_entries nfc (names(constName \<mapsto> wireKey)) (insert wireKey keys) ds) (\<lambda>es.
            Inr (\<lparr>en_ConstName = constName, en_Resource = pd_Resource d, en_Action = pd_Action d,
                  en_Description = pd_Description d\<rparr> # es))))"

definition newline :: string where "newline = [CHR 0x0A]"
definition tab :: string where "tab = [CHR 0x09]"

definition variable_line :: "(nat \<Rightarrow> bool) \<Rightarrow> entry \<Rightarrow> string" where
  "variable_line printable e = newline @ tab @ en_ConstName e @ '' = authz.PermissionKey{Resource: '' @
     go_quote printable (en_Resource e) @ '', Action: '' @ go_quote printable (en_Action e) @ [CHR 0x7D]"

definition element_line :: "(nat \<Rightarrow> bool) \<Rightarrow> entry \<Rightarrow> string" where
  "element_line printable e = newline @ tab @ ''{Resource: '' @ go_quote printable (en_Resource e) @ '', Action: '' @
     go_quote printable (en_Action e) @ '', Description: '' @ go_quote printable (en_Description e) @ [CHR 0x7D] @ '',''"

definition fileTemplate :: "(nat \<Rightarrow> bool) \<Rightarrow> string \<Rightarrow> string \<Rightarrow> entry list \<Rightarrow> string" where
  "fileTemplate printable pkg imp es =
     ''// Code generated by iam-codegen. DO NOT EDIT.'' @ newline @ ''package '' @ pkg @ newline @ newline @
     ''import '' @ [CHR 0x22] @ imp @ [CHR 0x22] @ newline @ newline @
     ''var ('' @ concat (map (variable_line printable) es) @ newline @ '')'' @ newline @ newline @
     ''// All is the concrete list used by request-time authorization helpers.'' @ newline @
     ''var All = []authz.PermissionDefinition{'' @ concat (map (element_line printable) es) @ newline @ [CHR 0x7D] @ newline"

text \<open>The function given to \<open>sort.Slice\<close> is the order of the keys: by resource, then by action.\<close>

instantiation PermissionKey_ext :: (linorder) linorder
begin

definition less_eq_PermissionKey_ext :: "'a PermissionKey_scheme \<Rightarrow> 'a PermissionKey_scheme \<Rightarrow> bool" where
  "less_eq_PermissionKey_ext k l = (pk_resource k < pk_resource l \<or> pk_resource k = pk_resource l \<and>
     (pk_action k < pk_action l \<or> pk_action k = pk_action l \<and> PermissionKey.more k \<le> PermissionKey.more l))"

definition less_PermissionKey_ext :: "'a PermissionKey_scheme \<Rightarrow> 'a PermissionKey_scheme \<Rightarrow> bool" where
  "less_PermissionKey_ext k l = (k \<le> l \<and> \<not> l \<le> k)"

instance
proof
  fix k l m :: "'a PermissionKey_scheme"
  show "(k < l) = (k \<le> l \<and> \<not> l \<le> k)" by (rule less_PermissionKey_ext_def)
  show "k \<le> k" by (simp add: less_eq_PermissionKey_ext_def)
  show "k \<le> l \<Longrightarrow> l \<le> m \<Longrightarrow> k \<le> m" by (auto simp: less_eq_PermissionKey_ext_def)
  show "k \<le> l \<Longrightarrow> l \<le> k \<Longrightarrow> k = l" by (auto simp: less_eq_PermissionKey_ext_def)
  show "k \<le> l \<or> l \<le> k" by (auto simp: less_eq_PermissionKey_ext_def)
qed

end

definition sorted_permissions :: "PermissionDefinition list \<Rightarrow> PermissionDefinition list" where
  "sorted_permissions ds = sort_key pd_Key ds"

definition Render ::
  "(nat \<Rightarrow> bool) \<Rightarrow> (string \<Rightarrow> bool) \<Rightarrow> (string \<Rightarrow> string option) \<Rightarrow> Input \<Rightarrow> render_error + string" where
  "Render printable nfc gofmt i =
     (if in_Package i = [] then Inl EmptyPackage
      else (let imp = (if in_GoImport i = [] then ''github.com/axis-iam/vertex-sdk-go/authz'' else in_GoImport i) in
        bind_ok (render_entries nfc Map.empty {} (sorted_permissions (in_Permissions i))) (\<lambda>es.
          let buf = fileTemplate printable (in_Package i) imp es in
          case gofmt buf of None \<Rightarrow> Inl (FormatError buf) | Some formatted \<Rightarrow> Inr formatted)))"

section \<open>Acceptance\<close>

definition const_of :: "PermissionDefinition \<Rightarrow> string" where
  "const_of d = ConstName (pd_Resource d) (pd_Action d)"

definition wire_of :: "PermissionDefinition \<Rightarrow> string" where
  "wire_of d = pd_Resource d @ '':'' @ pd_Action d"

definition entry_of :: "PermissionDefinition \<Rightarrow> entry" where
  "entry_of d = \<lparr>en_ConstName = const_of d, en_Resource = pd_Resource d, en_Action = pd_Action d,
     en_Description = pd_Description d\<rparr>"

definition renderable :: "(string \<Rightarrow> bool) \<Rightarrow> PermissionDefinition \<Rightarrow> bool" where
  "renderable nfc d \<longleftrightarrow> IsConcrete (pd_Key d) \<and> valid_utf8 (pd_Description d) \<and> nfc (pd_Description d)"

lemma render_step:
  "names (const_of d) = None \<Longrightarrow> render_entries nfc names keys (d # ds) = Inr es \<longleftrightarrow>
     renderable nfc d \<and> wire_of d \<notin> keys \<and>
     (\<exists>es'. render_entries nfc (names(const_of d \<mapsto> wire_of d)) (insert (wire_of d) keys) ds = Inr es' \<and> es = entry_of d # es')"
  by (auto simp: bind_ok_Inr_iff renderable_def wire_of_def const_of_def entry_of_def Let_def)

lemma render_collides: "names (const_of d) = Some k \<Longrightarrow> render_entries nfc names keys (d # ds) \<noteq> Inr es"
  by (simp add: const_of_def Let_def)

lemma render_entries_Inr:
  "render_entries nfc names keys ds = Inr es \<longleftrightarrow>
     list_all (renderable nfc) ds \<and> distinct (map wire_of ds) \<and> distinct (map const_of ds) \<and>
     set (map wire_of ds) \<inter> keys = {} \<and> set (map const_of ds) \<inter> dom names = {} \<and> es = map entry_of ds"
proof (induction ds arbitrary: names keys es)
  case (Cons d ds)
  show ?case
  proof (cases "names (const_of d)")
    case None
    define D where "D = dom names"
    have "const_of d \<notin> D" and dom: "dom (names(const_of d \<mapsto> wire_of d)) = insert (const_of d) D"
      using None by (auto simp: D_def)
    then show ?thesis
      unfolding render_step [where names = names, OF None] Cons.IH dom D_def [symmetric] by auto
  next
    case (Some k)
    then have "const_of d \<in> dom names" by auto
    with Some show ?thesis by (auto simp: render_collides simp del: render_entries.simps)
  qed
qed auto

lemma sorted_permissions_set [simp]:
  "set (sorted_permissions ds) = set ds" "mset (sorted_permissions ds) = mset ds"
  by (simp_all add: sorted_permissions_def)

lemma distinct_map_perm: "mset ds' = mset ds \<Longrightarrow> distinct (map f ds') = distinct (map f ds)"
  by (metis distinct_count_atmost_1 mset_map set_mset_mset)

lemma Render_Inr:
  "Render printable nfc gofmt i = Inr out \<longleftrightarrow> in_Package i \<noteq> [] \<and>
     list_all (renderable nfc) (in_Permissions i) \<and> distinct (map wire_of (in_Permissions i)) \<and>
     distinct (map const_of (in_Permissions i)) \<and>
     gofmt (fileTemplate printable (in_Package i)
       (if in_GoImport i = [] then ''github.com/axis-iam/vertex-sdk-go/authz'' else in_GoImport i)
       (map entry_of (sorted_permissions (in_Permissions i)))) = Some out"
  using distinct_map_perm [OF sorted_permissions_set(2), of wire_of "in_Permissions i"]
    distinct_map_perm [OF sorted_permissions_set(2), of const_of "in_Permissions i"]
  by (auto simp: Render_def bind_ok_Inr_iff render_entries_Inr Let_def list_all_iff split: option.splits)

section \<open>Names are identifiers\<close>

definition upper_case :: "char \<Rightarrow> bool" where
  "upper_case c = (CHR ''A'' \<le> c \<and> c \<le> CHR ''Z'')"

text \<open>An exported identifier, of ASCII letters and digits.\<close>

definition exported :: "string \<Rightarrow> bool" where
  "exported s = (case s of [] \<Rightarrow> False | c # cs \<Rightarrow> upper_case c \<and> list_all alnum cs)"

lemma segment_rune:
  assumes "segment_char c"
  shows "alnum c \<and> \<not> separator (byte c) \<and> encode_rune (byte c) = [c] \<and>
      (\<exists>d. encode_rune (to_upper_rune (byte c)) = [d] \<and> alnum d \<and> (upper_case d \<or> digit d)) \<or>
    separator (byte c)"
proof -
  consider "CHR ''a'' \<le> c" "c \<le> CHR ''z''" | "digit c" | "c = CHR ''_''" | "c = CHR ''-''"
    using assms by (auto simp: segment_char_def lower_alnum_def)
  then show ?thesis
  proof cases
    case 1
    then have b: "97 \<le> byte c" "byte c \<le> 122" by (simp_all add: less_eq_char_def byte_def)
    then have "encode_rune (to_upper_rune (byte c)) = [char_of (byte c - 32)]"
      by (simp add: encode_rune_def to_upper_rune_def)
    moreover have "65 \<le> byte c - 32" "byte c - 32 \<le> 90" using b by linarith+
    then have "upper_case (char_of (byte c - 32))" by (simp add: upper_case_def less_eq_char_def)
    moreover from this have "alnum (char_of (byte c - 32))" by (simp add: upper_case_def alnum_def)
    moreover have "encode_rune (byte c) = [c]" using b by (simp add: encode_rune_def)
    ultimately show ?thesis using 1 by (auto simp: alnum_def lower_alnum_def)
  next
    case 2
    then have b: "48 \<le> byte c" "byte c \<le> 57" by (simp_all add: digit_def less_eq_char_def byte_def)
    then have "encode_rune (to_upper_rune (byte c)) = [c]" "encode_rune (byte c) = [c]"
      by (simp_all add: encode_rune_def to_upper_rune_def)
    with 2 show ?thesis by (auto simp: alnum_def lower_alnum_def)
  qed (simp_all add: separator_def)
qed

lemma pascal_runes_alnum:
  "list_all segment_char s \<Longrightarrow> list_all alnum (pascal_runes u (map byte s)) \<and>
   (u \<longrightarrow> (case pascal_runes u (map byte s) of [] \<Rightarrow> True | c # cs \<Rightarrow> upper_case c \<or> digit c))"
proof (induction s arbitrary: u)
  case (Cons c s)
  have c: "segment_char c" and s: "list_all segment_char s" using Cons.prems by simp_all
  show ?case
  proof (cases "separator (byte c)")
    case True
    with Cons.IH [OF s, of True] show ?thesis by simp
  next
    case False
    with segment_rune [OF c] obtain d where "alnum c" "encode_rune (byte c) = [c]"
      "encode_rune (to_upper_rune (byte c)) = [d]" "alnum d" "upper_case d \<or> digit d" by blast
    with False Cons.IH [OF s, of False] show ?thesis by simp
  qed
qed simp

lemma pascal_concrete:
  assumes "concretePermissionSegment s"
  shows "list_all alnum (pascal s)" and "case pascal s of [] \<Rightarrow> True | c # cs \<Rightarrow> upper_case c \<or> digit c"
proof -
  have s: "list_all segment_char s" using assms by (simp add: concretePermissionSegment_def repeated_def)
  then have "s \<noteq> ''*''" using segment_char_not_punct by auto
  then have "pascal s = pascal_runes True (map byte s)" using s by (simp add: pascal_def runes_ascii segment_ascii)
  with pascal_runes_alnum [OF s, of True]
  show "list_all alnum (pascal s)" and "case pascal s of [] \<Rightarrow> True | c # cs \<Rightarrow> upper_case c \<or> digit c" by simp_all
qed

lemma ConstName_exported:
  assumes "concretePermissionSegment r" and "concretePermissionSegment a"
  shows "exported (ConstName r a)"
proof (cases "pascal r @ pascal a")
  case Nil
  then have "ConstName r a = ''Permission''" by (simp add: ConstName_def Let_def)
  moreover have "exported ''Permission''" by code_simp
  ultimately show ?thesis by simp
next
  case (Cons c cs)
  have "list_all alnum (c # cs)"
    using pascal_concrete(1) [OF assms(1)] pascal_concrete(1) [OF assms(2)] by (simp flip: Cons)
  moreover have "upper_case c \<or> digit c"
    using Cons pascal_concrete(2) [OF assms(1)] pascal_concrete(2) [OF assms(2)] by (cases "pascal r") auto
  moreover have "upper_case (CHR ''P'')" by code_simp
  ultimately show ?thesis using Cons by (auto simp: ConstName_def exported_def Let_def)
qed

section \<open>Reading a literal\<close>

text \<open>The value of an interpreted string literal of Go, from behind its opening quote to its end.\<close>

definition hex_value :: "char \<Rightarrow> nat option" where
  "hex_value c = (if digit c then Some (byte c - 48)
     else if CHR ''a'' \<le> c \<and> c \<le> CHR ''f'' then Some (byte c - 87)
     else if CHR ''A'' \<le> c \<and> c \<le> CHR ''F'' then Some (byte c - 55) else None)"

fun hex_number :: "string \<Rightarrow> nat \<Rightarrow> nat option" where
  "hex_number [] acc = Some acc"
| "hex_number (c # cs) acc = (case hex_value c of None \<Rightarrow> None | Some d \<Rightarrow> hex_number cs (acc * 16 + d))"

definition escapes :: "(char \<times> string) list" where
  "escapes = [(CHR 0x22, [CHR 0x22]), (CHR 0x5C, [CHR 0x5C]), (CHR ''a'', [CHR 0x07]), (CHR ''b'', [CHR 0x08]),
     (CHR ''f'', [CHR 0x0C]), (CHR ''n'', [CHR 0x0A]), (CHR ''r'', [CHR 0x0D]), (CHR ''t'', [CHR 0x09]), (CHR ''v'', [CHR 0x0B])]"

definition hex_escape :: "char \<Rightarrow> (nat \<times> (nat \<Rightarrow> string)) option" where
  "hex_escape c = (if c = CHR ''x'' then Some (2, \<lambda>n. [char_of n])
     else if c = CHR ''u'' then Some (4, encode_rune) else if c = CHR ''U'' then Some (8, encode_rune) else None)"

function read_literal :: "string \<Rightarrow> string option" where
  "read_literal [] = None"
| "read_literal (c # s) =
     (if c = CHR 0x22 then (if s = [] then Some [] else None)
      else if c = CHR 0x0A then None
      else if c \<noteq> CHR 0x5C then map_option (Cons c) (read_literal s)
      else (case s of [] \<Rightarrow> None
        | e # r \<Rightarrow> (case map_of escapes e of
            Some out \<Rightarrow> map_option (append out) (read_literal r)
          | None \<Rightarrow> (case hex_escape e of None \<Rightarrow> None
            | Some (n, f) \<Rightarrow> if length r < n then None else (case hex_number (take n r) 0 of None \<Rightarrow> None
                | Some v \<Rightarrow> map_option (append (f v)) (read_literal (drop n r)))))))"
  by pat_completeness auto
termination by (relation "measure length") auto

declare read_literal.simps [simp del]

lemma hex_value_lower: "n < 16 \<Longrightarrow> hex_value (hex_lower n) = Some n"
  by (cases "n < 10") (auto simp: hex_value_def hex_lower_def digit_def less_eq_char_def byte_def)

lemma hex_digits_Suc: "hex_digits (Suc n) r = hex_lower (r div 16 ^ n mod 16) # hex_digits n r"
  by (simp add: hex_digits_def upt_conv_Cons map_Suc_upt [symmetric] comp_def del: upt_Suc)

lemma hex_digits_length [simp]: "length (hex_digits n r) = n"
  by (simp add: hex_digits_def)

lemma hex_number_digits: "hex_number (hex_digits n r) acc = Some (acc * 16 ^ n + r mod 16 ^ n)"
proof (induction n arbitrary: acc)
  case 0
  then show ?case by (simp add: hex_digits_def)
next
  case (Suc n)
  have "r mod (16 ^ n * 16) = 16 ^ n * (r div 16 ^ n mod 16) + r mod 16 ^ n" by (rule mod_mult2_eq)
  then show ?case by (simp add: hex_digits_Suc hex_value_lower Suc algebra_simps)
qed

lemma read_hex:
  assumes "hex_escape e = Some (n, f)" and "r < 16 ^ n"
  shows "read_literal (CHR 0x5C # e # hex_digits n r @ t) = map_option (append (f r)) (read_literal t)"
proof -
  have "map_of escapes e = None" using assms(1) by (auto simp: escapes_def hex_escape_def split: if_splits)
  with assms show ?thesis by (simp add: read_literal.simps(2) [of "CHR 0x5C"] hex_number_digits)
qed

lemma read_escape:
  "map_of escapes e = Some out \<Longrightarrow> read_literal (CHR 0x5C # e # t) = map_option (append out) (read_literal t)"
  by (simp add: read_literal.simps(2) [of "CHR 0x5C"])

lemma read_plain:
  "list_all (\<lambda>c. c \<notin> {CHR 0x22, CHR 0x0A, CHR 0x5C}) bs \<Longrightarrow>
   read_literal (bs @ t) = map_option (append bs) (read_literal t)"
  by (cases "read_literal t"; induction bs) (auto simp: read_literal.simps(2))

lemma decode_tail_conts:
  "decode_tail b0 (map byte (take 3 cs)) = (r, k) \<Longrightarrow> list_all (\<lambda>c. cont_byte (byte c)) (take k cs)"
  by (cases cs; cases "tl cs"; cases "tl (tl cs)") (auto simp: decode_tail_def split: if_splits)

lemma decode_tail_bound: "decode_tail b0 bs = (r, k) \<Longrightarrow> r < 16 ^ 8"
  by (auto simp: decode_tail_def cont_byte_def split: if_splits list.splits)

lemma chunk_bytes:
  "(r, bs) \<in> set (chunks s) \<Longrightarrow> r < 16 ^ 8 \<and> (128 \<le> r \<longrightarrow> list_all (\<lambda>c. 128 \<le> byte c) bs)"
proof (induction s rule: chunks.induct)
  case (2 c cs)
  obtain q k where d: "decode_tail (byte c) (map byte (take 3 cs)) = (q, k)" by fastforce
  show ?case
  proof (cases "(r, bs) = (q, c # take k cs)")
    case True
    have "128 \<le> byte c \<or> q = byte c" using d by (cases "byte c < 128") simp_all
    moreover have "list_all (\<lambda>c. 128 \<le> byte c) (take k cs)"
      using decode_tail_conts [OF d] by (auto simp: list_all_iff cont_byte_def)
    ultimately show ?thesis using True decode_tail_bound [OF d] by auto
  next
    case False
    with 2(2) d have "(r, bs) \<in> set (chunks (drop k cs))" by auto
    with 2(1) [OF d [symmetric] refl] show ?thesis by blast
  qed
qed simp

lemma escaped_chars:
  "char_of (34 :: nat) = CHR 0x22" "char_of (92 :: nat) = CHR 0x5C" "char_of (7 :: nat) = CHR 0x07"
  "char_of (8 :: nat) = CHR 0x08" "char_of (9 :: nat) = CHR 0x09" "char_of (10 :: nat) = CHR 0x0A"
  "char_of (11 :: nat) = CHR 0x0B" "char_of (12 :: nat) = CHR 0x0C" "char_of (13 :: nat) = CHR 0x0D"
  by code_simp+

lemma read_quoted_rune:
  assumes "valid_utf8 s" and "(r, bs) \<in> set (chunks s)"
  shows "read_literal (quote_rune printable (r, bs) @ t) = map_option (append bs) (read_literal t)"
proof -
  have kept: "\<not> (r = 65533 \<and> length bs = 1)" using assms by (auto simp: valid_utf8_def list_all_iff)
  have bs: "bs = encode_rune r" using chunks_valid [OF assms] by simp
  have small: "bs = [char_of r]" if "r < 128" using bs that by (simp add: encode_rune_def)
  consider "r = 34" | "r = 92" | "r \<noteq> 34" "r \<noteq> 92" "if r < 128 then 32 \<le> r \<and> r < 127 else printable r"
    | "r \<in> {7, 8, 9, 10, 11, 12, 13}" | "r < 32 \<or> r = 127" "r \<notin> {7, 8, 9, 10, 11, 12, 13}"
    | "128 \<le> r" "\<not> printable r"
    by (cases "r < 128"; cases "r < 32"; cases "r < 127") auto
  then show ?thesis
  proof cases
    case 1
    then show ?thesis using small by (simp add: quote_rune_def read_escape escapes_def escaped_chars)
  next
    case 2
    then show ?thesis using small by (simp add: quote_rune_def read_escape escapes_def escaped_chars)
  next
    case 3
    have "list_all (\<lambda>c. c \<notin> {CHR 0x22, CHR 0x0A, CHR 0x5C}) bs"
    proof (cases "r < 128")
      case True
      then have "byte (char_of r) = r" by (simp add: byte_def)
      then have other: "char_of r \<noteq> x" if "byte x \<noteq> r" for x using that by auto
      have "32 \<le> r" using 3 True by simp
      then have "char_of r \<noteq> CHR 0x22" "char_of r \<noteq> CHR 0x0A" "char_of r \<noteq> CHR 0x5C"
        using 3 by (auto intro!: other simp: byte_def)
      then show ?thesis using small [OF True] by simp
    next
      case False
      then show ?thesis using chunk_bytes [OF assms(2)] by (auto simp: list_all_iff byte_def)
    qed
    moreover have "quote_rune printable (r, bs) = bs" using 3 kept by (auto simp: quote_rune_def)
    ultimately show ?thesis by (simp add: read_plain)
  next
    case 4
    then show ?thesis using small
      by (elim insertE emptyE) (simp_all add: quote_rune_def read_escape escapes_def escaped_chars)
  next
    case 5
    then have "read_literal (CHR 0x5C # CHR ''x'' # hex_digits 2 r @ t) = map_option (append [char_of r]) (read_literal t)"
      by (intro read_hex) (auto simp: hex_escape_def)
    moreover have "quote_rune printable (r, bs) = CHR 0x5C # ''x'' @ hex_digits 2 r"
      using 5 by (elim disjE) (simp_all add: quote_rune_def)
    moreover have "bs = [char_of r]" using 5(1) small by (elim disjE) simp_all
    ultimately show ?thesis by simp
  next
    case 6
    have u: "read_literal (CHR 0x5C # CHR ''u'' # hex_digits 4 r @ t) = map_option (append bs) (read_literal t)" if "r < 65536"
      unfolding bs using that by (intro read_hex) (simp_all add: hex_escape_def)
    have "read_literal (CHR 0x5C # CHR ''U'' # hex_digits 8 r @ t) = map_option (append bs) (read_literal t)"
      unfolding bs using chunk_bytes [OF assms(2)] by (intro read_hex) (simp_all add: hex_escape_def)
    moreover have "quote_rune printable (r, bs) = (if r < 65536 then CHR 0x5C # ''u'' @ hex_digits 4 r else CHR 0x5C # ''U'' @ hex_digits 8 r)"
      using 6 kept by (simp add: quote_rune_def)
    ultimately show ?thesis using u by simp
  qed
qed

lemma read_quoted_runes:
  "valid_utf8 s \<Longrightarrow> set cs \<subseteq> set (chunks s) \<Longrightarrow>
   read_literal (concat (map (quote_rune printable) cs) @ t) = map_option (append (concat (map snd cs))) (read_literal t)"
proof (induction cs)
  case (Cons x cs)
  obtain r bs where x: "x = (r, bs)" by fastforce
  with Cons show ?case by (cases "read_literal t") (simp_all add: read_quoted_rune)
qed (cases "read_literal t"; simp)

lemma read_quote:
  "valid_utf8 s \<Longrightarrow> read_literal (tl (go_quote printable s)) = Some s"
  using read_quoted_runes [of s "chunks s" printable "[CHR 0x22]"]
  by (simp add: go_quote_def read_literal.simps(2))

interpretation quote_codec: codec "go_quote printable" "\<lambda>s. read_literal (tl s)" valid_utf8 for printable
  by unfold_locales (rule read_quote)

section \<open>Properties\<close>

text \<open>
  C26. The generated file.  When \<open>Render\<close> returns, the text is gofmt of the template for the given
  permissions, each once, sorted by resource and action; every variable is an exported identifier of
  its own, so the file declares no name twice unless one of them is \<open>All\<close>; and the literals in it
  read back as the resource, the action and the description.
\<close>

theorem render_sound:
  assumes "Render printable nfc gofmt i = Inr out"
  shows "\<exists>es. gofmt (fileTemplate printable (in_Package i)
        (if in_GoImport i = [] then ''github.com/axis-iam/vertex-sdk-go/authz'' else in_GoImport i) es) = Some out \<and>
     mset es = mset (map entry_of (in_Permissions i)) \<and>
     sorted (map (\<lambda>e. PKey (en_Resource e) (en_Action e)) es) \<and>
     distinct (map en_ConstName es) \<and> list_all (\<lambda>e. exported (en_ConstName e)) es \<and>
     distinct (map (\<lambda>e. (en_Resource e, en_Action e)) es) \<and>
     list_all (\<lambda>e. \<forall>s \<in> {en_Resource e, en_Action e, en_Description e}. read_literal (tl (go_quote printable s)) = Some s) es"
proof -
  let ?ds = "sorted_permissions (in_Permissions i)"
  let ?es = "map entry_of ?ds"
  from assms have r: "list_all (renderable nfc) (in_Permissions i)" and w: "distinct (map wire_of (in_Permissions i))"
    and c: "distinct (map const_of (in_Permissions i))"
    and g: "gofmt (fileTemplate printable (in_Package i)
        (if in_GoImport i = [] then ''github.com/axis-iam/vertex-sdk-go/authz'' else in_GoImport i) ?es) = Some out"
    by (simp_all only: Render_Inr)
  have names: "distinct (map en_ConstName ?es)"
    using distinct_map_perm [OF sorted_permissions_set(2), of const_of "in_Permissions i"] c
    by (simp add: entry_of_def comp_def)
  have "sorted (map pd_Key ?ds)" by (simp add: sorted_permissions_def)
  then have "sorted (map (\<lambda>e. PKey (en_Resource e) (en_Action e)) ?es)" by (simp add: entry_of_def comp_def pd_Key_def [abs_def])
  moreover have "exported (const_of d)" if "d \<in> set (in_Permissions i)" for d
    using r that ConstName_exported by (auto simp: list_all_iff renderable_def const_of_def IsConcrete_def pd_Key_def)
  then have "list_all (\<lambda>e. exported (en_ConstName e)) ?es" by (simp add: list_all_iff entry_of_def)
  moreover have "distinct (map const_of ?ds)" using distinct_map_perm [OF sorted_permissions_set(2), of const_of "in_Permissions i"] c by simp
  then have "distinct (map (\<lambda>e. (en_Resource e, en_Action e)) ?es)"
    by (auto simp: distinct_map inj_on_def entry_of_def const_of_def)
  moreover have "valid_utf8 s" if "d \<in> set (in_Permissions i)" and "s \<in> {pd_Resource d, pd_Action d, pd_Description d}" for d s
  proof -
    have "renderable nfc d" using r that(1) by (simp add: list_all_iff)
    then show ?thesis using that(2) segment_ascii valid_utf8_ascii
      by (auto simp: renderable_def IsConcrete_def pd_Key_def concretePermissionSegment_def repeated_def)
  qed
  then have "list_all (\<lambda>e. \<forall>s \<in> {en_Resource e, en_Action e, en_Description e}. read_literal (tl (go_quote printable s)) = Some s) ?es"
    by (auto simp: list_all_iff entry_of_def read_quote)
  ultimately show ?thesis using g names by (intro exI [of _ ?es]) simp
qed

text \<open>
  Generation does not depend on the order of the declarations: a permuted list gives the same text.
\<close>

lemma render_order_insensitive:
  assumes "Render printable nfc gofmt i = Inr out" and "mset ds = mset (in_Permissions i)"
  shows "Render printable nfc gofmt (i\<lparr>in_Permissions := ds\<rparr>) = Inr out"
proof -
  let ?k = pd_Key
  from assms(1) have r: "list_all (renderable nfc) (in_Permissions i)" and w: "distinct (map wire_of (in_Permissions i))"
    by (simp_all only: Render_Inr)
  have "inj_on ?k (set (in_Permissions i))"
  proof (rule inj_onI)
    fix d d' assume h: "d \<in> set (in_Permissions i)" "d' \<in> set (in_Permissions i)" "?k d = ?k d'"
    then have "wire_of d = wire_of d'" by (simp add: wire_of_def pd_Key_def)
    with h(1,2) w show "d = d'" by (auto simp: distinct_map inj_on_def)
  qed
  moreover have st: "set ds = set (in_Permissions i)" using assms(2) by (metis set_mset_mset)
  ultimately have inj: "inj_on ?k (set ds)" by simp
  have "distinct (in_Permissions i)" using w by (simp add: distinct_map)
  then have "distinct ds" using assms(2) by (metis distinct_count_atmost_1 set_mset_mset)
  have "sort_key ?k ds = sort_key ?k (in_Permissions i)"
  proof (rule sorted_perm_unique [of _ _ ?k])
    show "mset (sort_key ?k ds) = mset (sort_key ?k (in_Permissions i))" using assms(2) by simp
    show "distinct (map ?k (sort_key ?k ds))" using inj \<open>distinct ds\<close> by (simp add: distinct_map)
  qed simp_all
  then have "sorted_permissions ds = sorted_permissions (in_Permissions i)" by (simp add: sorted_permissions_def)
  with assms(1) distinct_map_perm [OF assms(2), of wire_of] distinct_map_perm [OF assms(2), of const_of] st show ?thesis
    by (cases "in_GoImport i = []") (simp_all add: Render_Inr list_all_iff)
qed

definition sample_input :: "(string \<times> string) list \<Rightarrow> Input" where
  "sample_input ks = \<lparr>in_Package = ''perms'', in_GoImport = [],
     in_Permissions = map (\<lambda>(r, a). \<lparr>pd_Resource = r, pd_Action = a, pd_Description = ''text''\<rparr>) ks\<rparr>"

lemma sample_renders:
  assumes "list_all (\<lambda>(r, a). concretePermissionSegment r \<and> concretePermissionSegment a) ks"
    and "distinct (map (\<lambda>(r, a). r @ '':'' @ a) ks)" and "distinct (map (\<lambda>(r, a). ConstName r a) ks)"
  shows "\<exists>out. Render (\<lambda>r. True) (\<lambda>s. True) Some (sample_input ks) = Inr out"
  using assms by (auto simp: Render_Inr sample_input_def list_all_iff renderable_def IsConcrete_def pd_Key_def
      wire_of_def const_of_def comp_def case_prod_unfold valid_utf8_ascii byte_def)

theorem render_sound_witness:
  "\<exists>out es. Render (\<lambda>r. True) (\<lambda>s. True) Some (sample_input [(''posts'', ''write''), (''2fa'', ''read'')]) = Inr out \<and>
     mset es = mset (map entry_of (in_Permissions (sample_input [(''posts'', ''write''), (''2fa'', ''read'')]))) \<and>
     distinct (map en_ConstName es)"
proof -
  have "list_all (\<lambda>(r, a). concretePermissionSegment r \<and> concretePermissionSegment a) [(''posts'', ''write''), (''2fa'', ''read'')]"
    by code_simp
  moreover have "ConstName ''posts'' ''write'' = ''PostsWrite''" "ConstName ''2fa'' ''read'' = ''P2faRead''"
    by code_simp+
  ultimately obtain out where out: "Render (\<lambda>r. True) (\<lambda>s. True) Some (sample_input [(''posts'', ''write''), (''2fa'', ''read'')]) = Inr out"
    using sample_renders [of "[(''posts'', ''write''), (''2fa'', ''read'')]"] by auto
  with render_sound [OF this] show ?thesis by blast
qed

text \<open>
  A permission may get the name of the list itself: \<open>all:-\<close> is a valid key, its variable is called
  \<open>All\<close>, and the generated file, which gofmt accepts, declares \<open>All\<close> twice and does not compile.
\<close>

lemma name_of_the_list:
  "\<exists>out. Render (\<lambda>r. True) (\<lambda>s. True) Some (sample_input [(''all'', ''-'')]) = Inr out \<and> ConstName ''all'' ''-'' = ''All''"
proof -
  have "list_all (\<lambda>(r, a). concretePermissionSegment r \<and> concretePermissionSegment a) [(''all'', ''-'')]" by code_simp
  then have "\<exists>out. Render (\<lambda>r. True) (\<lambda>s. True) Some (sample_input [(''all'', ''-'')]) = Inr out"
    using sample_renders [of "[(''all'', ''-'')]"] by simp
  moreover have "ConstName ''all'' ''-'' = ''All''" by code_simp
  ultimately show ?thesis by simp
qed

end
