(* ===== verification/Codegen.thy ===== *)
theory Codegen
  imports Codegen_Render Manifest_Client
begin

text \<open>
  The commands of iam-codegen (cmd/iam-codegen): reading a structured manifest from a file, generating
  the Go file, and the upload.  The file system is a map from paths to contents; what the operating
  system may refuse is the record \<open>os\<close>, and the environment is a map from names to values.  What is
  printed on the way to an error, the usage among it, is left out.
\<close>

section \<open>Reading a manifest\<close>

type_synonym files = "string \<rightharpoonup> string"

datatype cli_error = FlagError | MissingFlags | ReadFailed | DecodeFailed | PrepareFailed manifest_error
  | RenderFailed render_error | MkdirFailed | WriteFailed | ClientFailed cmd_error | CommandFailed cmd_error | BadCliMode

text \<open>The map of the members of an object: a name counts once.\<close>

definition hasExactFields :: "members \<Rightarrow> string list \<Rightarrow> bool" where
  "hasExactFields value names = (length (remdups (map fst value)) = length names \<and>
     list_all (\<lambda>name. raw_field value name \<noteq> None) names)"

definition exact_declaration :: "json \<Rightarrow> bool" where
  "exact_declaration v = (case v of
     JObj ms \<Rightarrow> hasExactFields ms [''resource'', ''action'', ''name'', ''description''] | _ \<Rightarrow> False)"

definition requireExactManifestFields :: "json \<Rightarrow> bool" where
  "requireExactManifestFields v = (case v of
     JObj root \<Rightarrow> hasExactFields root [''manifestId'', ''revision'', ''permissions''] \<and>
       (case raw_field root ''permissions'' of
          Some JNull \<Rightarrow> True | Some (JArr ds) \<Rightarrow> list_all exact_declaration ds | _ \<Rightarrow> False)
   | _ \<Rightarrow> False)"

definition zero_declaration :: PermissionManifestDeclaration where
  "zero_declaration = \<lparr>d_Resource = [], d_Action = [], d_Name = [], d_Description = None\<rparr>"

definition dec_declaration :: "json \<Rightarrow> PermissionManifestDeclaration \<Rightarrow> PermissionManifestDeclaration option" where
  "dec_declaration = dec_struct True [''resource'', ''action'', ''name'', ''description'']
     (\<lambda>ms old. Option.bind (dec_field dec_string (d_Resource old) ''resource'' ms) (\<lambda>r.
       Option.bind (dec_field dec_string (d_Action old) ''action'' ms) (\<lambda>a.
       Option.bind (dec_field dec_string (d_Name old) ''name'' ms) (\<lambda>n.
       Option.bind (dec_field (dec_ptr dec_string []) (d_Description old) ''description'' ms) (\<lambda>t.
         Some \<lparr>d_Resource = r, d_Action = a, d_Name = n, d_Description = t\<rparr>)))))"

definition zero_manifest :: PermissionManifest where
  "zero_manifest = \<lparr>m_ManifestID = [], m_Revision = [], m_Permissions = None\<rparr>"

definition dec_manifest :: "json \<Rightarrow> PermissionManifest \<Rightarrow> PermissionManifest option" where
  "dec_manifest = dec_struct True [''manifestId'', ''revision'', ''permissions'']
     (\<lambda>ms old. Option.bind (dec_field dec_string (m_ManifestID old) ''manifestId'' ms) (\<lambda>i.
       Option.bind (dec_field dec_string (m_Revision old) ''revision'' ms) (\<lambda>r.
       Option.bind (dec_field (dec_slice dec_declaration zero_declaration) (m_Permissions old) ''permissions'' ms) (\<lambda>ps.
         Some \<lparr>m_ManifestID = i, m_Revision = r, m_Permissions = ps\<rparr>))))"

text \<open>
  The command has its own copy of the walk over the tokens of the SDK, which leaves what follows the
  document to its caller.
\<close>

definition cli_rejectDuplicateJSONMembers :: "string \<Rightarrow> json_error + json \<times> string" where
  "cli_rejectDuplicateJSONMembers data = (case decode_first data of
     None \<Rightarrow> Inl JsonSyntax
   | Some (v, rest) \<Rightarrow> (case walk v of Some k \<Rightarrow> Inl (DuplicateMember k) | None \<Rightarrow> Inr (v, rest)))"

definition loadPermissionManifest :: "files \<Rightarrow> string \<Rightarrow> cli_error + PermissionManifest" where
  "loadPermissionManifest fs path = (case fs path of
     None \<Rightarrow> Inl ReadFailed
   | Some data \<Rightarrow> (case cli_rejectDuplicateJSONMembers data of
       Inl e \<Rightarrow> Inl DecodeFailed
     | Inr (v, rest) \<Rightarrow> if \<not> only_space rest then Inl DecodeFailed
         else if \<not> requireExactManifestFields v then Inl DecodeFailed
         else (case dec_manifest v zero_manifest of None \<Rightarrow> Inl DecodeFailed | Some m \<Rightarrow> Inr m)))"

section \<open>Flags\<close>

text \<open>
  The package flag of the standard library, for flags that take a string.  The map holds the value of
  every defined flag, at first its default; \<open>None\<close> is not a flag.  A flag is \<open>-name\<close> or \<open>--name\<close>, with its
  value after an equals sign or in the next argument; \<open>--\<close> and the first argument that is no flag end
  them.  Asking for help is an error here too, as it is for the commands.
\<close>

type_synonym flag_values = "string \<rightharpoonup> string"

definition flag_text :: "string \<Rightarrow> string option" where
  "flag_text s = (case s of
     a # b # r \<Rightarrow> if a \<noteq> CHR ''-'' then None else if b = CHR ''-'' then if r = [] then None else Some r else Some (b # r)
   | _ \<Rightarrow> None)"

definition flag_parts :: "string \<Rightarrow> string \<times> string option" where
  "flag_parts t = (let name = takeWhile (\<lambda>c. c \<noteq> CHR ''='') t in
     (name, if name = t then None else Some (drop (Suc (length name)) t)))"

fun parse_flags :: "flag_values \<Rightarrow> string list \<Rightarrow> cli_error + flag_values" where
  "parse_flags vals [] = Inr vals"
| "parse_flags vals (s # args) = (case flag_text s of
     None \<Rightarrow> Inr vals
   | Some t \<Rightarrow>
      if hd t \<in> {CHR ''-'', CHR ''=''} then Inl FlagError
      else (case flag_parts t of (name, value) \<Rightarrow>
        if vals name = None then Inl FlagError
        else (case value of
          Some v \<Rightarrow> parse_flags (vals(name \<mapsto> v)) args
        | None \<Rightarrow> (case args of [] \<Rightarrow> Inl FlagError | v # rest \<Rightarrow> parse_flags (vals(name \<mapsto> v)) rest))))"

definition flag_value :: "flag_values \<Rightarrow> string \<Rightarrow> string" where
  "flag_value vals k = (case vals k of None \<Rightarrow> [] | Some v \<Rightarrow> v)"

section \<open>generate\<close>

record generate_flags =
  g_manifest :: string
  g_package :: string
  g_output :: string

text \<open>
  \<open>os_mkdir path\<close> tells whether the directories of \<open>path\<close> can be made; \<open>os_write path text\<close> is \<open>None\<close> when the
  file can be written, and else what is left of it.
\<close>

record os =
  os_mkdir :: "string \<Rightarrow> bool"
  os_write :: "string \<Rightarrow> string \<Rightarrow> string option option"

definition definition_of :: "PermissionManifestDeclaration \<Rightarrow> PermissionDefinition" where
  "definition_of p = \<lparr>pd_Resource = d_Resource p, pd_Action = d_Action p,
     pd_Description = (case d_Description p of None \<Rightarrow> [] | Some t \<Rightarrow> t)\<rparr>"

definition generate_run ::
  "(nat \<Rightarrow> bool) \<Rightarrow> (string \<Rightarrow> bool) \<Rightarrow> (string \<Rightarrow> string option) \<Rightarrow> os \<Rightarrow> generate_flags \<Rightarrow> files \<Rightarrow>
   (cli_error + string) \<times> files" where
  "generate_run printable nfc gofmt os flags fs =
     (if g_manifest flags = [] then (Inl MissingFlags, fs)
      else (case loadPermissionManifest fs (g_manifest flags) of
        Inl e \<Rightarrow> (Inl e, fs)
      | Inr manifest \<Rightarrow> (case PreparePermissionManifest nfc manifest PermissionManifestValidate of
          Inl e \<Rightarrow> (Inl (PrepareFailed e), fs)
        | Inr prepared \<Rightarrow>
           (let definitions = map definition_of (p_Permissions prepared) in
            case Render printable nfc gofmt \<lparr>in_Package = g_package flags, in_GoImport = [], in_Permissions = definitions\<rparr> of
              Inl e \<Rightarrow> (Inl (RenderFailed e), fs)
            | Inr source \<Rightarrow>
               if \<not> os_mkdir os (g_output flags) then (Inl MkdirFailed, fs)
               else (case os_write os (g_output flags) source of
                 Some left \<Rightarrow> (Inl WriteFailed, fs(g_output flags := left))
               | None \<Rightarrow> (Inr (''wrote '' @ itoa (int (length definitions)) @ '' permission(s) -> '' @ g_output flags @ newline),
                   fs(g_output flags \<mapsto> source)))))))"

definition generate_defaults :: flag_values where
  "generate_defaults = [''manifest'' \<mapsto> [], ''package'' \<mapsto> ''perms'', ''output'' \<mapsto> ''permissions.gen.go'']"

definition runGenerate ::
  "(nat \<Rightarrow> bool) \<Rightarrow> (string \<Rightarrow> bool) \<Rightarrow> (string \<Rightarrow> string option) \<Rightarrow> os \<Rightarrow> string list \<Rightarrow> files \<Rightarrow>
   (cli_error + string) \<times> files" where
  "runGenerate printable nfc gofmt os args fs = (case parse_flags generate_defaults args of
     Inl e \<Rightarrow> (Inl e, fs)
   | Inr vals \<Rightarrow> generate_run printable nfc gofmt os
       \<lparr>g_manifest = flag_value vals ''manifest'', g_package = flag_value vals ''package'', g_output = flag_value vals ''output''\<rparr> fs)"

section \<open>upload\<close>

record upload_flags =
  u_manifest :: string
  u_issuer :: string
  u_portal :: string
  u_clientID :: string
  u_clientSecret :: string
  u_mode :: string
  u_idempotencyKey :: string

definition client_config :: "upload_flags \<Rightarrow> PermissionManifestClientConfig" where
  "client_config flags = \<lparr>mc_IssuerEndpoint = u_issuer flags, mc_PortalAPIEndpoint = u_portal flags,
     mc_ClientID = u_clientID flags, mc_ClientSecret = u_clientSecret flags, mc_Timeout = 0, mc_TokenSkew = 0,
     mc_MaxRetries = 0, mc_MaxRetryDelay = 0, mc_HTTPClient = None, mc_Observer = False\<rparr>"

definition upload_message :: "PermissionManifestResult \<Rightarrow> string" where
  "upload_message r = (let n = s_Counts r in
     ''mode='' @ s_Mode r @ '' created='' @ itoa (n_Created n) @ '' updated='' @ itoa (n_Updated n) @
     '' unchanged='' @ itoa (n_Unchanged n) @ '' conflict='' @ itoa (n_Conflict n) @ '' drift='' @ itoa (n_Drift n) @ newline)"

text \<open>\<open>context.Background ()\<close> is never done.\<close>

definition never_done :: ctx where "never_done = \<lparr>done_at = None, tie = False\<rparr>"

definition upload_run :: "runtime \<Rightarrow> files \<Rightarrow> upload_flags \<Rightarrow> world \<Rightarrow> (cli_error + string) \<times> world" where
  "upload_run rt fs flags w =
     (if u_manifest flags = [] \<or> u_issuer flags = [] \<or> u_portal flags = [] \<or> u_clientID flags = [] \<or> u_clientSecret flags = []
      then (Inl MissingFlags, w)
      else (case loadPermissionManifest fs (u_manifest flags) of
        Inl e \<Rightarrow> (Inl e, w)
      | Inr manifest \<Rightarrow> (case NewPermissionManifestClient (client_config flags) of
          Inl e \<Rightarrow> (Inl (ClientFailed e), w)
        | Inr c \<Rightarrow>
           (let finish = (\<lambda>(res, obs, c', w'). (case res of Inl e \<Rightarrow> Inl (CommandFailed e) | Inr r \<Rightarrow> Inr (upload_message r), w')) in
            if u_mode flags = ''validate'' then finish (ValidatePermissionManifest rt never_done manifest (c, w))
            else if u_mode flags = ''upsert''
            then finish (UpsertPermissionManifest rt never_done manifest (u_idempotencyKey flags) (c, w))
            else (Inl BadCliMode, w)))))"

definition upload_defaults :: "(string \<Rightarrow> string) \<Rightarrow> flag_values" where
  "upload_defaults env = [''manifest'' \<mapsto> [], ''issuer-endpoint'' \<mapsto> env ''IAM_ISSUER_ENDPOINT'',
     ''portal-api-endpoint'' \<mapsto> env ''IAM_PORTAL_API_ENDPOINT'', ''client-id'' \<mapsto> env ''IAM_CLIENT_ID'',
     ''client-secret'' \<mapsto> env ''IAM_CLIENT_SECRET'', ''mode'' \<mapsto> ''validate'', ''idempotency-key'' \<mapsto> []]"

definition upload_flags_of :: "flag_values \<Rightarrow> upload_flags" where
  "upload_flags_of vals = \<lparr>u_manifest = flag_value vals ''manifest'', u_issuer = flag_value vals ''issuer-endpoint'',
     u_portal = flag_value vals ''portal-api-endpoint'', u_clientID = flag_value vals ''client-id'',
     u_clientSecret = flag_value vals ''client-secret'', u_mode = flag_value vals ''mode'',
     u_idempotencyKey = flag_value vals ''idempotency-key''\<rparr>"

definition runUpload ::
  "runtime \<Rightarrow> (string \<Rightarrow> string) \<Rightarrow> files \<Rightarrow> string list \<Rightarrow> world \<Rightarrow> (cli_error + string) \<times> world" where
  "runUpload rt env fs args w = (case parse_flags (upload_defaults env) args of
     Inl e \<Rightarrow> (Inl e, w) | Inr vals \<Rightarrow> upload_run rt fs (upload_flags_of vals) w)"

section \<open>The program\<close>

text \<open>The flags that the usage calls common; no command attaches them.\<close>

record commonFlags =
  cf_endpoint :: string
  cf_clientID :: string
  cf_clientSecret :: string

definition commonFlags_attach :: "(string \<Rightarrow> string) \<Rightarrow> flag_values \<Rightarrow> flag_values" where
  "commonFlags_attach env vals = vals(''endpoint'' \<mapsto> env ''IAM_ENDPOINT'', ''client-id'' \<mapsto> env ''IAM_CLIENT_ID'',
     ''client-secret'' \<mapsto> env ''IAM_CLIENT_SECRET'')"

definition commonFlags_validate :: "commonFlags \<Rightarrow> string option" where
  "commonFlags_validate f =
     (if cf_endpoint f = [] then Some ''missing --endpoint (or IAM_ENDPOINT)''
      else if cf_clientID f = [] then Some ''missing --client-id (or IAM_CLIENT_ID)''
      else if cf_clientSecret f = [] then Some ''missing --client-secret (or IAM_CLIENT_SECRET)'' else None)"

definition exit_code :: "cli_error + string \<Rightarrow> nat" where
  "exit_code r = (case r of Inl e \<Rightarrow> 1 | Inr out \<Rightarrow> 0)"

definition main_exit ::
  "runtime \<Rightarrow> (nat \<Rightarrow> bool) \<Rightarrow> (string \<Rightarrow> string option) \<Rightarrow> os \<Rightarrow> (string \<Rightarrow> string) \<Rightarrow> string list \<Rightarrow>
   files \<times> world \<Rightarrow> nat \<times> files \<times> world" where
  "main_exit rt printable gofmt os env args s = (case s of (fs, w) \<Rightarrow> (case args of
     [] \<Rightarrow> (2, s)
   | cmd # rest \<Rightarrow>
      (if cmd = ''generate''
       then (case runGenerate printable (rt_nfc rt) gofmt os rest fs of (r, fs') \<Rightarrow> (exit_code r, fs', w))
       else if cmd = ''upload'' then (case runUpload rt env fs rest w of (r, w') \<Rightarrow> (exit_code r, fs, w'))
       else if cmd \<in> set [''help'', ''-h'', ''--help'', ''version''] then (0, s) else (2, s))))"

section \<open>What a manifest file says\<close>

definition text_or_null :: "json \<Rightarrow> bool" where
  "text_or_null v = (case v of JStr s \<Rightarrow> True | JNull \<Rightarrow> True | _ \<Rightarrow> False)"

definition text_in :: "members \<Rightarrow> string \<Rightarrow> string" where
  "text_in ms k = (case map_of ms k of Some (JStr s) \<Rightarrow> s | _ \<Rightarrow> [])"

definition opt_text_in :: "members \<Rightarrow> string \<Rightarrow> string option" where
  "opt_text_in ms k = (case map_of ms k of Some (JStr s) \<Rightarrow> Some s | _ \<Rightarrow> None)"

definition has_text :: "members \<Rightarrow> string \<Rightarrow> bool" where
  "has_text ms k = (case map_of ms k of Some v \<Rightarrow> text_or_null v | None \<Rightarrow> False)"

definition declaration_document :: "json \<Rightarrow> bool" where
  "declaration_document v = (case v of JObj ms \<Rightarrow>
       set (map fst ms) = set [''resource'', ''action'', ''name'', ''description''] \<and>
       list_all (has_text ms) [''resource'', ''action'', ''name'', ''description'']
   | _ \<Rightarrow> False)"

definition declaration_in :: "json \<Rightarrow> PermissionManifestDeclaration" where
  "declaration_in v = (case v of JObj ms \<Rightarrow> \<lparr>d_Resource = text_in ms ''resource'', d_Action = text_in ms ''action'',
       d_Name = text_in ms ''name'', d_Description = opt_text_in ms ''description''\<rparr>
   | _ \<Rightarrow> zero_declaration)"

definition manifest_document :: "members \<Rightarrow> bool" where
  "manifest_document ms \<longleftrightarrow> set (map fst ms) = set [''manifestId'', ''revision'', ''permissions''] \<and>
     list_all (has_text ms) [''manifestId'', ''revision''] \<and>
     (case map_of ms ''permissions'' of Some JNull \<Rightarrow> True | Some (JArr vs) \<Rightarrow> list_all declaration_document vs | _ \<Rightarrow> False)"

definition manifest_in :: "members \<Rightarrow> PermissionManifest" where
  "manifest_in ms = \<lparr>m_ManifestID = text_in ms ''manifestId'', m_Revision = text_in ms ''revision'',
     m_Permissions = (case map_of ms ''permissions'' of Some (JArr vs) \<Rightarrow> Some (map declaration_in vs) | _ \<Rightarrow> None)\<rparr>"

subsection \<open>Exact names\<close>

lemma exact_names:
  assumes "distinct (map fst ms)" and "distinct names"
  shows "hasExactFields ms names \<longleftrightarrow> set (map fst ms) = set names"
proof
  assume "hasExactFields ms names"
  then have l: "length (map fst ms) = length names" and sub: "set names \<subseteq> set (map fst ms)"
    using assms(1) by (auto simp: hasExactFields_def distinct_remdups_id raw_field_map_of list_all_iff image_iff dest!: map_of_SomeD)
      force+
  have "card (set names) = card (set (map fst ms))"
    using l assms by (metis distinct_card)
  with sub show "set (map fst ms) = set names" by (metis List.finite_set card_subset_eq)
next
  assume h: "set (map fst ms) = set names"
  then have "length (map fst ms) = length names" using assms by (metis distinct_card)
  with h assms(1) show "hasExactFields ms names"
    by (auto simp: hasExactFields_def distinct_remdups_id raw_field_map_of list_all_iff map_of_eq_None_iff)
qed

definition apart :: "string list \<Rightarrow> bool" where
  "apart names \<longleftrightarrow> (\<forall>k \<in> set names. \<forall>n \<in> set names. equal_fold k n \<longrightarrow> k = n)"

lemma names_apart:
  "apart [''resource'', ''action'', ''name'', ''description'']" "apart [''manifestId'', ''revision'', ''permissions'']"
  by (simp_all add: apart_def equal_fold_def runes_def fold_rune_def byte_def)

lemma values_of_exact:
  assumes "distinct (map fst ms)" and "\<And>k. k \<in> fst ` set ms \<Longrightarrow> equal_fold k name \<Longrightarrow> k = name"
    and "map_of ms name = Some v"
  shows "values_of name ms = [v]"
  using assms
proof (induction ms)
  case (Cons m ms)
  obtain k w where m: "m = (k, w)" by fastforce
  show ?case
  proof (cases "k = name")
    case True
    with Cons.prems(1) m have "name \<notin> fst ` set ms" by auto
    have "\<not> equal_fold k' name" if "(k', v') \<in> set ms" for k' v'
    proof
      assume "equal_fold k' name"
      then have "k' = name" using that by (intro Cons.prems(2)) (simp add: rev_image_eqI)
      with that \<open>name \<notin> fst ` set ms\<close> show False by (simp add: rev_image_eqI)
    qed
    then have "filter (\<lambda>(k, v). equal_fold k name) ms = []"
      unfolding filter_empty_conv by (metis (mono_tags, lifting) case_prod_beta prod.collapse)
    with True m Cons.prems(3) show ?thesis by (simp add: values_of_def)
  next
    case False
    with Cons.prems(2) [of k] m have "\<not> equal_fold k name" by auto
    moreover have "values_of name ms = [v]" using Cons.prems m False by (intro Cons.IH) auto
    ultimately show ?thesis using m by (simp add: values_of_def)
  qed
qed simp

lemma field_of_exact:
  assumes "distinct (map fst ms)" and "set (map fst ms) = set names" and "apart names" and "name \<in> set names"
  shows "\<exists>v. map_of ms name = Some v \<and> dec_field d z name ms = d v z"
proof -
  obtain v where v: "map_of ms name = Some v" using assms(2,4) by (metis map_of_eq_None_iff not_None_eq set_map)
  have "values_of name ms = [v]"
    by (rule values_of_exact [OF assms(1) _ v]) (use assms(2-4) in \<open>auto simp: apart_def\<close>)
  with v show ?thesis by (simp add: dec_field_def)
qed

lemma only_exact:
  assumes "set (map fst ms) \<subseteq> set names"
  shows "only_fields names ms"
  unfolding only_fields_def list_all_iff list_ex_iff
proof (clarify)
  fix k v
  assume "(k, v) \<in> set ms"
  then have "k \<in> fst ` set ms" by (rule rev_image_eqI) simp
  with assms have "k \<in> set names" by auto
  then show "\<exists>n \<in> set names. equal_fold k n" by (rule bexI [rotated]) (rule equal_fold_refl)
qed

subsection \<open>What is decoded\<close>

lemma dec_text:
  assumes "distinct (map fst ms)" and "set (map fst ms) = set names" and "apart names" and "name \<in> set names"
  shows "dec_field dec_string [] name ms = (if has_text ms name then Some (text_in ms name) else None)"
    and "dec_field (dec_ptr dec_string []) None name ms = (if has_text ms name then Some (opt_text_in ms name) else None)"
proof -
  obtain v where v: "map_of ms name = Some v" "dec_field dec_string [] name ms = dec_string v []"
    using field_of_exact [OF assms, of dec_string "[]"] by blast
  then show "dec_field dec_string [] name ms = (if has_text ms name then Some (text_in ms name) else None)"
    by (cases v) (simp_all add: has_text_def text_in_def text_or_null_def)
  obtain u where u: "map_of ms name = Some u" "dec_field (dec_ptr dec_string []) None name ms = dec_ptr dec_string [] u None"
    using field_of_exact [OF assms, of "dec_ptr dec_string []" None] by blast
  then show "dec_field (dec_ptr dec_string []) None name ms = (if has_text ms name then Some (opt_text_in ms name) else None)"
    by (cases u) (simp_all add: has_text_def opt_text_in_def text_or_null_def)
qed

lemma declaration_decoded:
  assumes "no_dups v" and "exact_declaration v"
  shows "dec_declaration v zero_declaration = (if declaration_document v then Some (declaration_in v) else None)"
proof (cases v)
  case (JObj ms)
  let ?ns = "[''resource'', ''action'', ''name'', ''description'']"
  have d: "distinct (map fst ms)" using assms(1) JObj by simp
  have e: "set (map fst ms) = set ?ns"
    using assms(2) JObj exact_names [OF d, of ?ns] by (simp add: exact_declaration_def del: set_map)
  note str = dec_text [OF d e names_apart(1)]
  have only: "only_fields ?ns ms" by (rule only_exact) (simp only: e)
  have doc: "declaration_document v \<longleftrightarrow> list_all (has_text ms) ?ns"
    by (simp only: declaration_document_def JObj json.case e simp_thms)
  have dec: "dec_declaration v zero_declaration =
      (if list_all (has_text ms) ?ns then Some (declaration_in v) else None)"
    using str(1) [of "''resource''"] str(1) [of "''action''"] str(1) [of "''name''"] str(2) [of "''description''"]
    by (simp add: dec_declaration_def only JObj declaration_in_def zero_declaration_def)
  show ?thesis by (simp only: dec doc)
qed (use assms(2) in \<open>simp_all add: exact_declaration_def\<close>)

lemma declarations_decoded:
  "\<lbrakk>\<forall>v \<in> set vs. no_dups v; list_all exact_declaration vs\<rbrakk> \<Longrightarrow> dec_items dec_declaration zero_declaration vs =
     (if list_all declaration_document vs then Some (map declaration_in vs) else None)"
  by (induction vs) (simp_all add: declaration_decoded)

lemma declaration_document_exact: "no_dups v \<Longrightarrow> declaration_document v \<Longrightarrow> exact_declaration v"
  by (cases v) (simp_all add: declaration_document_def exact_declaration_def exact_names)

lemma manifest_decoded:
  assumes d: "no_dups (JObj ms)" and e: "requireExactManifestFields (JObj ms)"
  shows "dec_manifest (JObj ms) zero_manifest = (if manifest_document ms then Some (manifest_in ms) else None)"
proof -
  let ?ns = "[''manifestId'', ''revision'', ''permissions'']"
  have di: "distinct (map fst ms)" using d by simp
  have n: "set (map fst ms) = set ?ns"
    using e exact_names [OF di, of ?ns] by (simp add: requireExactManifestFields_def del: set_map)
  note str = dec_text(1) [OF di n names_apart(2)]
  have only: "only_fields ?ns ms" by (rule only_exact) (simp only: n)
  obtain v where v: "map_of ms ''permissions'' = Some v"
      "dec_field (dec_slice dec_declaration zero_declaration) None ''permissions'' ms = dec_slice dec_declaration zero_declaration v None"
    using field_of_exact [OF di n names_apart(2), of "''permissions''" "dec_slice dec_declaration zero_declaration" None] by auto
  have items: "v = JNull \<or> (\<exists>vs. v = JArr vs \<and> list_all exact_declaration vs)"
    using e v(1) by (auto simp: requireExactManifestFields_def raw_field_map_of [OF di] split: json.splits)
  have "\<forall>u \<in> set vs. no_dups u" if "v = JArr vs" for vs
  proof -
    have "\<And>k v. (k, v) \<in> set ms \<Longrightarrow> no_dups v" using d by auto
    from this [OF map_of_SomeD [OF v(1)]] that show ?thesis by simp
  qed
  with items have slice: "dec_slice dec_declaration zero_declaration v None =
      (case v of JNull \<Rightarrow> Some None | JArr vs \<Rightarrow> if list_all declaration_document vs then Some (Some (map declaration_in vs)) else None
       | _ \<Rightarrow> None)"
    by (auto simp: declarations_decoded)
  have doc: "manifest_document ms \<longleftrightarrow> has_text ms ''manifestId'' \<and> has_text ms ''revision'' \<and>
      (case v of JNull \<Rightarrow> True | JArr vs \<Rightarrow> list_all declaration_document vs | _ \<Rightarrow> False)"
    unfolding manifest_document_def n v(1) by (simp split: json.split)
  show ?thesis
    unfolding doc using items str [of "''manifestId''"] str [of "''revision''"]
    by (auto simp: dec_manifest_def only zero_manifest_def manifest_in_def v slice)
qed

lemma manifest_document_exact:
  assumes "no_dups (JObj ms)" and "manifest_document ms"
  shows "requireExactManifestFields (JObj ms)"
proof -
  let ?ns = "[''manifestId'', ''revision'', ''permissions'']"
  have d: "distinct (map fst ms)" and m: "\<And>k v. (k, v) \<in> set ms \<Longrightarrow> no_dups v" using assms(1) by auto
  have ds: "list_all exact_declaration vs" if "map_of ms ''permissions'' = Some (JArr vs)" and "list_all declaration_document vs" for vs
    using that m [OF map_of_SomeD [OF that(1)]] by (auto simp: list_all_iff intro: declaration_document_exact)
  have "set (map fst ms) = set ?ns" using assms(2) unfolding manifest_document_def by (rule conjunct1)
  then have "hasExactFields ms ?ns" by (subst exact_names [OF d]) simp_all
  moreover have "case map_of ms ''permissions'' of Some JNull \<Rightarrow> True | Some (JArr vs) \<Rightarrow> list_all exact_declaration vs | _ \<Rightarrow> False"
    using assms(2) ds unfolding manifest_document_def by (auto split: option.splits json.splits)
  ultimately show ?thesis by (simp add: requireExactManifestFields_def raw_field_map_of [OF d])
qed

section \<open>What an upload sends\<close>

lemma upload_run_cases:
  "case upload_run rt fs flags w of (r, w') \<Rightarrow>
     (\<exists>e. r = Inl e \<and> w' = w) \<or>
     (\<exists>c m p access key. NewPermissionManifestClient (client_config flags) = Inr c \<and>
        loadPermissionManifest fs (u_manifest flags) = Inr m \<and>
        (u_mode flags = PermissionManifestValidate \<and> key = [] \<or>
         u_mode flags = PermissionManifestUpsert \<and> key = u_idempotencyKey flags) \<and>
        PreparePermissionManifest (rt_nfc rt) m (u_mode flags) = Inr p \<and>
        only_requests (token_request c) (sync_request c access p key) w w' \<and>
        (case r of Inl e \<Rightarrow> True | Inr out \<Rightarrow> \<exists>res. validateManifestResult res p = Inr () \<and> out = upload_message res))"
proof -
  obtain r w' where run: "upload_run rt fs flags w = (r, w')" by fastforce
  have "(\<exists>e. r = Inl e \<and> w' = w) \<or>
      (\<exists>c m key res obs c'. NewPermissionManifestClient (client_config flags) = Inr c \<and>
         loadPermissionManifest fs (u_manifest flags) = Inr m \<and>
         (u_mode flags = PermissionManifestValidate \<and> key = None \<or>
          u_mode flags = PermissionManifestUpsert \<and> key = Some (u_idempotencyKey flags)) \<and>
         command rt never_done m key (c, w) = (res, obs, c', w') \<and>
         r = (case res of Inl e \<Rightarrow> Inl (CommandFailed e) | Inr x \<Rightarrow> Inr (upload_message x)))"
    using run
    by (auto simp: upload_run_def Let_def command_def PermissionManifestValidate_def PermissionManifestUpsert_def
        split: if_splits sum.splits prod.splits)
  then consider (early) e where "r = Inl e" "w' = w"
    | (command) c m key res obs c' where "NewPermissionManifestClient (client_config flags) = Inr c"
      "loadPermissionManifest fs (u_manifest flags) = Inr m"
      "u_mode flags = PermissionManifestValidate \<and> key = None \<or>
       u_mode flags = PermissionManifestUpsert \<and> key = Some (u_idempotencyKey flags)"
      "command rt never_done m key (c, w) = (res, obs, c', w')"
      "r = (case res of Inl e \<Rightarrow> Inl (CommandFailed e) | Inr x \<Rightarrow> Inr (upload_message x))"
    by blast
  then show ?thesis
  proof cases
    case early
    with run show ?thesis by simp
  next
    case (command c m key res obs c')
    from command(4) show ?thesis
    proof (cases rule: command_cases [case_names local sent])
      case (local e)
      with run command(5) show ?thesis by simp
    next
      case (sent p)
      have checked: "res = Inr x \<Longrightarrow> validateManifestResult x p = Inr ()" for x
        using send_frame(6) [OF sent(2)] by blast
      obtain access where "only_requests (token_request c)
          (sync_request c access p (case key of None \<Rightarrow> [] | Some idem \<Rightarrow> idem)) w w'"
        using send_frame(1) [OF sent(2)] by blast
      with sent(1) run command checked show ?thesis
        unfolding run prod.case
        by (intro disjI2 exI [of _ c] exI [of _ m] exI [of _ p] exI [of _ access]
            exI [of _ "case key of None \<Rightarrow> [] | Some idem \<Rightarrow> idem"])
          (auto split: sum.splits option.splits)
    qed
  qed
qed

section \<open>Flags on the command line\<close>

text \<open>Flags in the form \<open>--name=value\<close>: each is set, and a later one wins.\<close>

lemma flag_parts_given: "CHR ''='' \<notin> set name \<Longrightarrow> flag_parts (name @ CHR ''='' # v) = (name, Some v)"
  by (induction name) (auto simp: flag_parts_def Let_def)

lemma parse_flags_given:
  "list_all (\<lambda>(k, v). k \<noteq> [] \<and> hd k \<noteq> CHR ''-'' \<and> CHR ''='' \<notin> set k \<and> vals k \<noteq> None) kvs \<Longrightarrow>
   parse_flags vals (map (\<lambda>(k, v). ''--'' @ k @ CHR ''='' # v) kvs) = Inr (foldl (\<lambda>m (k, v). m(k \<mapsto> v)) vals kvs)"
proof (induction kvs arbitrary: vals)
  case (Cons x kvs)
  obtain k v where x: "x = (k, v)" by fastforce
  with Cons.prems have k: "k \<noteq> []" "hd k \<noteq> CHR ''-''" "CHR ''='' \<notin> set k" "vals k \<noteq> None" by simp_all
  then have "hd k \<noteq> CHR ''=''" by (metis list.set_sel(1))
  moreover have "parse_flags (vals(k \<mapsto> v)) (map (\<lambda>(k, v). ''--'' @ k @ CHR ''='' # v) kvs) =
      Inr (foldl (\<lambda>m (k, v). m(k \<mapsto> v)) (vals(k \<mapsto> v)) kvs)"
    using Cons.prems by (intro Cons.IH) (auto simp: list_all_iff)
  ultimately show ?case
    using x k flag_parts_given [OF k(3), of v] by (auto simp: flag_text_def simp del: fun_upd_apply)
qed simp

lemma cli_duplicates:
  "(\<exists>rest. cli_rejectDuplicateJSONMembers data = Inr (v, rest) \<and> only_space rest) \<longleftrightarrow> parse_json data = Some v \<and> no_dups v"
  by (auto simp: cli_rejectDuplicateJSONMembers_def parse_json_def walk_iff(1) [symmetric]
      split: option.splits prod.splits if_splits)

section \<open>Properties\<close>

text \<open>
  C28. A manifest file is read exactly.  The tool accepts a file if and only if it holds one JSON document
  without repeated names whose objects have the documented members, all of them and no others, with
  their exact names; what it takes from it is the value of each member.  (The decoders of the SDK
  alone would also take members whose names differ in case.)
\<close>

theorem load_exact:
  "loadPermissionManifest fs path = Inr m \<longleftrightarrow>
     (\<exists>data ms. fs path = Some data \<and> parse_json data = Some (JObj ms) \<and> no_dups (JObj ms) \<and>
        manifest_document ms \<and> m = manifest_in ms)"
proof (cases "fs path")
  case (Some data)
  have "loadPermissionManifest fs path = Inr m \<longleftrightarrow>
      (\<exists>v. parse_json data = Some v \<and> no_dups v \<and> requireExactManifestFields v \<and> dec_manifest v zero_manifest = Some m)"
    unfolding conj_assoc [symmetric] cli_duplicates [symmetric] using Some
    by (auto simp: loadPermissionManifest_def split: sum.splits option.splits if_splits)
  also have "\<dots> \<longleftrightarrow> (\<exists>ms. parse_json data = Some (JObj ms) \<and> no_dups (JObj ms) \<and> requireExactManifestFields (JObj ms) \<and>
      dec_manifest (JObj ms) zero_manifest = Some m)" (is "?l = ?r")
  proof
    assume ?l
    then obtain v where v: "parse_json data = Some v" "no_dups v" "requireExactManifestFields v" "dec_manifest v zero_manifest = Some m"
      by blast
    then show ?r by (cases v) (auto simp: requireExactManifestFields_def)
  qed blast
  also have "\<dots> \<longleftrightarrow> (\<exists>ms. parse_json data = Some (JObj ms) \<and> no_dups (JObj ms) \<and> manifest_document ms \<and> m = manifest_in ms)"
    by (auto simp: manifest_decoded manifest_document_exact simp del: no_dups_simps split: if_splits)
  finally show ?thesis using Some by simp
qed (simp add: loadPermissionManifest_def)

text \<open>
  C27. What an upload does.  The tool sends nothing, and fails, unless the file, the flags and the
  manifest pass every local check; then all it sends is token requests followed by repetitions of one
  request, for the prepared form of the manifest in the file and the mode of the flag, with the
  idempotency key of the flag when it upserts and none otherwise; and it reports success only for a result that has been
  checked against that prepared manifest.
\<close>

theorem upload_sound:
  "case runUpload rt env fs args w of (r, w') \<Rightarrow>
     (\<exists>e. r = Inl e \<and> w' = w) \<or>
     (\<exists>vals flags c m p access key. parse_flags (upload_defaults env) args = Inr vals \<and> flags = upload_flags_of vals \<and>
        NewPermissionManifestClient (client_config flags) = Inr c \<and>
        loadPermissionManifest fs (u_manifest flags) = Inr m \<and>
        (u_mode flags = PermissionManifestValidate \<and> key = [] \<or>
         u_mode flags = PermissionManifestUpsert \<and> key = u_idempotencyKey flags) \<and>
        PreparePermissionManifest (rt_nfc rt) m (u_mode flags) = Inr p \<and>
        only_requests (token_request c) (sync_request c access p key) w w' \<and>
        (case r of Inl e \<Rightarrow> True | Inr out \<Rightarrow> \<exists>res. validateManifestResult res p = Inr () \<and> out = upload_message res))"
proof (cases "parse_flags (upload_defaults env) args")
  case (Inr vals)
  with upload_run_cases [where rt = rt and fs = fs and flags = "upload_flags_of vals" and w = w] show ?thesis by (simp add: runUpload_def)
qed (simp add: runUpload_def)

text \<open>
  C29. What stands between a manifest and its Go file.  A prepared manifest renders if and only if no
  two of its keys give the same Go name and gofmt accepts the text: its keys are concrete and
  different, and its descriptions well formed, because preparing it has already checked them.
\<close>

theorem prepared_renders:
  assumes "PreparePermissionManifest nfc m mode = Inr p" and "nfc []" and "pkg \<noteq> []"
  defines "ds \<equiv> map definition_of (p_Permissions p)"
  shows "(\<exists>out. Render printable nfc gofmt \<lparr>in_Package = pkg, in_GoImport = [], in_Permissions = ds\<rparr> = Inr out) \<longleftrightarrow>
     distinct (map (\<lambda>d. ConstName (d_Resource d) (d_Action d)) (p_Permissions p)) \<and>
     gofmt (fileTemplate printable pkg ''github.com/axis-iam/vertex-sdk-go/authz'' (map entry_of (sorted_permissions ds))) \<noteq> None"
proof -
  obtain es where es: "\<forall>d \<in> set es. validateManifestDeclaration nfc d = Inr ()" "distinct (map Key es)"
    and p: "p_Permissions p = sort_key Key es"
    by (rule Prepare_InrD [OF assms(1)]) auto
  have "renderable nfc (definition_of d)" if "d \<in> set es" for d
    using es(1) that \<open>nfc []\<close> segment_ascii
    by (auto simp: validateManifestDeclaration_def bind_ok_Inr_iff renderable_def definition_of_def IsConcrete_def pd_Key_def
        segmentPattern_def concretePermissionSegment_def valid_utf8_def split: if_splits option.splits)
  then have "list_all (renderable nfc) ds" by (simp add: ds_def p list_all_iff)
  moreover have "map wire_of ds = map Key (p_Permissions p)" by (simp add: ds_def wire_of_def definition_of_def Key_def)
  then have "distinct (map wire_of ds)" using es(2) by (simp add: p distinct_sort_Key)
  moreover have "map const_of ds = map (\<lambda>d. ConstName (d_Resource d) (d_Action d)) (p_Permissions p)"
    by (simp add: ds_def const_of_def definition_of_def)
  ultimately show ?thesis using \<open>pkg \<noteq> []\<close> by (auto simp: Render_Inr)
qed

theorem prepared_renders_witness:
  "\<exists>p out. PreparePermissionManifest (\<lambda>_. True) (sample_manifest [''w'', ''r'']) ''validate'' = Inr p \<and>
     Render (\<lambda>_. True) (\<lambda>_. True) Some
       \<lparr>in_Package = ''perms'', in_GoImport = [], in_Permissions = map definition_of (p_Permissions p)\<rparr> = Inr out"
proof -
  obtain p where p: "PreparePermissionManifest (\<lambda>_. True) (sample_manifest [''w'', ''r'']) ''validate'' = Inr p"
    using sample_prepares by blast
  have "p_Permissions p = sort_key Key (map sample_declaration [''w'', ''r''])"
    by (rule Prepare_InrD [OF p]) (simp add: sample_manifest_def)
  moreover have "ConstName ''posts'' ''w'' = ''PostsW''" "ConstName ''posts'' ''r'' = ''PostsR''" by code_simp+
  ultimately have "distinct (map (\<lambda>d. ConstName (d_Resource d) (d_Action d)) (p_Permissions p))"
    by (simp add: sample_declaration_def)
  with prepared_renders [OF p, of "''perms''" "\<lambda>_. True" Some] p show ?thesis by simp
qed

end
