(* ===== verification/Json_Roundtrip.thy ===== *)
theory Json_Roundtrip
  imports Go_Encode
begin

text \<open>
  The encoder and the decoder of encoding/json fit together: a document that is marshalled is read back
  as it was, whatever follows it.  Strings have to be valid UTF-8 (the encoder replaces other bytes), and
  numbers are integers, the only ones the SDK writes.
\<close>

section \<open>What can be read back\<close>

definition int_literal :: "string \<Rightarrow> bool" where
  "int_literal lit = (let ds = (case lit of [] \<Rightarrow> [] | c # cs \<Rightarrow> if c = CHR ''-'' then cs else lit) in
     ds \<noteq> [] \<and> list_all digit ds \<and> (hd ds = CHR ''0'' \<longrightarrow> tl ds = []))"

fun encodable :: "json \<Rightarrow> bool" where
  "encodable (JNum lit) = int_literal lit"
| "encodable (JStr s) = valid_utf8 s"
| "encodable (JArr vs) = (\<forall>v \<in> set vs. encodable v)"
| "encodable (JObj ms) = (\<forall>m \<in> set ms. valid_utf8 (fst m) \<and> encodable (snd m))"
| "encodable v = True"

text \<open>A number ends where the next character cannot belong to it.\<close>

definition delimited :: "string \<Rightarrow> bool" where
  "delimited r = (case r of [] \<Rightarrow> True | c # _ \<Rightarrow> \<not> digit c \<and> c \<notin> {CHR ''.'', CHR ''e'', CHR ''E''})"

section \<open>Strings\<close>

lemma decode_tail_prefix:
  "decode_tail b0 bs = (r, k) \<Longrightarrow> \<not> (r = 65533 \<and> k = 0) \<Longrightarrow>
   k \<le> length bs \<and> decode_tail b0 (take k bs @ ys) = (r, k)"
  by (cases bs; cases "tl bs"; cases "tl (tl bs)") (auto simp: decode_tail_def split: if_splits)

lemma chunk_shape:
  assumes "valid_utf8 s" and "(r, bs) \<in> set (chunks s)"
  shows "\<exists>c ds. bs = c # ds \<and> length ds \<le> 3 \<and> (\<forall>ys. decode_tail (byte c) (map byte ds @ ys) = (r, length ds))"
  using assms
proof (induction s rule: chunks.induct)
  case (2 c cs)
  obtain q k where d: "decode_tail (byte c) (map byte (take 3 cs)) = (q, k)" by fastforce
  have "\<not> (q = 65533 \<and> k = 0)" "valid_utf8 (drop k cs)" using 2(2) d by (auto simp: valid_utf8_def)
  show ?case
  proof (cases "(r, bs) = (q, c # take k cs)")
    case True
    have k: "k \<le> length (take 3 cs)"
      using decode_tail_prefix [OF d, of "[]"] \<open>\<not> (q = 65533 \<and> k = 0)\<close> by simp
    have "decode_tail (byte c) (map byte (take k cs) @ ys) = (q, k)" for ys
      using decode_tail_prefix [OF d, of ys] \<open>\<not> (q = 65533 \<and> k = 0)\<close> k by (auto simp: take_map min_absorb1)
    with True k show ?thesis by (intro exI [of _ c] exI [of _ "take k cs"]) (simp add: min_absorb2)
  next
    case False
    with 2(3) d have "(r, bs) \<in> set (chunks (drop k cs))" by auto
    with 2(1) [OF d [symmetric] refl] \<open>valid_utf8 (drop k cs)\<close> show ?thesis by blast
  qed
qed simp

lemma hex_val_lower: "n < 16 \<Longrightarrow> hex_val (hex_lower n) = Some n"
  by (cases "n < 10") (auto simp: hex_val_def hex_lower_def digit_def less_eq_char_def byte_def)

lemma unicode_escape_hex:
  "r < 256 \<Longrightarrow> unicode_escape (CHR ''0'' # CHR ''0'' # hex_lower (r div 16) # hex_lower (r mod 16) # t) =
     Some (encode_rune r, t)"
  by (simp add: unicode_escape_def hex_val_lower hex_val_def [of "CHR ''0''"] digit_def less_eq_char_def byte_def)

lemma unicode_escape_separators:
  "unicode_escape (''2028'' @ t) = Some (encode_rune 8232, t)" "unicode_escape (''2029'' @ t) = Some (encode_rune 8233, t)"
  by (simp_all add: unicode_escape_def hex_val_def digit_def less_eq_char_def byte_def)

lemma string_item_rune:
  assumes "valid_utf8 s" and "(r, bs) \<in> set (chunks s)"
  shows "string_item (json_rune (r, bs) @ t) = Some (Some bs, t)"
proof -
  have bs: "bs = encode_rune r" using chunks_valid [OF assms] by simp
  have kept: "\<not> (r = 65533 \<and> length bs = 1)" using assms by (auto simp: valid_utf8_def list_all_iff)
  have small: "bs = [char_of r]" if "r < 128" using bs that by (simp add: encode_rune_def)
  obtain c ds where cd: "bs = c # ds" "length ds \<le> 3" "\<And>ys. decode_tail (byte c) (map byte ds @ ys) = (r, length ds)"
    using chunk_shape [OF assms] by blast
  consider "r \<in> {34, 92, 8, 12, 10, 13, 9}" | "r < 32 \<or> r \<in> {60, 62, 38}" "r \<notin> {34, 92, 8, 12, 10, 13, 9}"
    | "r = 8232" | "r = 8233" | "32 \<le> r" "r \<notin> {34, 92, 60, 62, 38, 8232, 8233}" by fastforce
  then show ?thesis
  proof cases
    case 1
    have "char_of (34 :: nat) = CHR 0x22" "char_of (92 :: nat) = CHR 0x5C" "char_of (8 :: nat) = CHR 0x08"
      "char_of (9 :: nat) = CHR 0x09" "char_of (10 :: nat) = CHR 0x0A" "char_of (12 :: nat) = CHR 0x0C"
      "char_of (13 :: nat) = CHR 0x0D" by code_simp+
    with 1 small show ?thesis by (elim insertE emptyE) (simp_all add: json_rune_def escape_char_def)
  next
    case 2
    then have "r < 256" by auto
    moreover have "json_rune (r, bs) = CHR 0x5C # ''u00'' @ [hex_lower (r div 16), hex_lower (r mod 16)]"
      using 2 by (auto simp: json_rune_def)
    ultimately show ?thesis using bs by (simp add: unicode_escape_hex)
  next
    case 3
    then show ?thesis using bs unicode_escape_separators(1) [of t] by (simp add: json_rune_def)
  next
    case 4
    then show ?thesis using bs unicode_escape_separators(2) [of t] by (simp add: json_rune_def)
  next
    case 5
    have first: "32 \<le> byte c" "c \<noteq> CHR 0x22" "c \<noteq> CHR 0x5C"
    proof -
      have "byte c < 128 \<Longrightarrow> byte c = r" using cd(3) [of "[]"] by simp
      with 5 show "32 \<le> byte c" by linarith
      have "byte c \<noteq> 34" "byte c \<noteq> 92" using \<open>byte c < 128 \<Longrightarrow> byte c = r\<close> 5 by auto
      then show "c \<noteq> CHR 0x22" "c \<noteq> CHR 0x5C" by (auto simp: byte_def)
    qed
    have "take 3 (ds @ t) = ds @ take (3 - length ds) t" using cd(2) by simp
    then have "plain_rune c (ds @ t) = (bs, t)"
      using cd(1) cd(3) [of "map byte (take (3 - length ds) t)"] kept by (auto simp: plain_rune_def)
    moreover have "json_rune (r, bs) = bs" using 5 kept by (auto simp: json_rune_def)
    ultimately show ?thesis using cd(1) first by simp
  qed
qed

lemma lex_string_runes:
  "valid_utf8 s \<Longrightarrow> set cs \<subseteq> set (chunks s) \<Longrightarrow>
   lex_string acc (concat (map json_rune cs) @ CHR 0x22 # t) = Some (acc @ concat (map snd cs), t)"
proof (induction cs arbitrary: acc)
  case Nil
  then show ?case by (simp add: lex_string_end)
next
  case (Cons x cs)
  obtain r bs where x: "x = (r, bs)" by fastforce
  with Cons.prems have "string_item (json_rune (r, bs) @ concat (map json_rune cs) @ CHR 0x22 # t) =
      Some (Some bs, concat (map json_rune cs) @ CHR 0x22 # t)"
    by (intro string_item_rune [of s]) auto
  with x Cons show ?case by (simp add: lex_string.simps [of acc])
qed

lemma lex_json_string:
  assumes "valid_utf8 s"
  shows "lex1 (json_string s @ t) = Some (Atom (JStr s), t)"
  using lex_string_runes [OF assms, of "chunks s" "[]" t]
  by (simp add: json_string_def lex1_def json_space_def punct_def)

section \<open>Numbers and words\<close>

lemma digit_not: "digit c \<Longrightarrow> c \<noteq> CHR ''-''" "digit c \<Longrightarrow> \<not> json_space c" "digit c \<Longrightarrow> punct c = None"
    "digit c \<Longrightarrow> c \<noteq> CHR 0x22"
  by (auto simp: digit_byte byte_def json_space_def punct_def)

lemma takeWhile_digits: "list_all digit ds \<Longrightarrow> delimited r \<Longrightarrow> takeWhile digit (ds @ r) = ds"
  by (induction ds) (auto simp: delimited_def split: list.splits)

lemma dropWhile_digits: "list_all digit ds \<Longrightarrow> delimited r \<Longrightarrow> dropWhile digit (ds @ r) = r"
  by (induction ds) (auto simp: delimited_def split: list.splits)

lemma lex_digits:
  assumes "ds \<noteq> []" "list_all digit ds" "hd ds = CHR ''0'' \<longrightarrow> tl ds = []" "delimited r"
  shows "lex_number (ds @ r) = Some (ds, r)" "lex_number (CHR ''-'' # ds @ r) = Some (CHR ''-'' # ds, r)"
proof -
  obtain d ds' where ds: "ds = d # ds'" using assms(1) by (cases ds) auto
  have d: "d \<noteq> CHR ''-''" using assms(2) ds by (auto simp: digit_not)
  have split: "digits_of (ds @ r) = (ds, r)"
    using takeWhile_digits [OF assms(2,4)] dropWhile_digits [OF assms(2,4)] by (simp add: digits_of_def)
  have whole: "d = CHR ''0'' \<Longrightarrow> ds' = []" using assms(3) ds by simp
  show "lex_number (ds @ r) = Some (ds, r)" "lex_number (CHR ''-'' # ds @ r) = Some (CHR ''-'' # ds, r)"
    using split whole assms(4) d
    by (cases "d = CHR ''0''"; cases r; simp add: ds lex_number_def delimited_def)+
qed

lemma lex_int:
  assumes "int_literal lit" and "delimited r"
  shows "lex1 (lit @ r) = Some (Atom (JNum lit), r)"
proof (cases lit)
  case (Cons c cs)
  show ?thesis
  proof (cases "c = CHR ''-''")
    case True
    then have "lex_number (lit @ r) = Some (lit, r)"
      using assms Cons lex_digits(2) [of cs r] by (auto simp: int_literal_def)
    with Cons True show ?thesis by (simp add: lex1_def json_space_def punct_def)
  next
    case False
    then have "digit c" using assms Cons by (auto simp: int_literal_def)
    moreover have "lex_number (lit @ r) = Some (lit, r)"
      using assms False Cons lex_digits(1) [of lit r] by (auto simp: int_literal_def)
    ultimately show ?thesis using Cons by (simp add: lex1_def digit_not)
  qed
qed (use assms in \<open>simp add: int_literal_def\<close>)

lemma lex_words:
  "lex1 (''null'' @ r) = Some (Atom JNull, r)" "lex1 (''true'' @ r) = Some (Atom (JBool True), r)"
  "lex1 (''false'' @ r) = Some (Atom (JBool False), r)"
  by (simp_all add: lex1_def lex_word_def has_prefix_def json_space_def punct_def digit_def less_eq_char_def)

lemma lex_punct: "punct c = Some t \<Longrightarrow> lex1 (c # r) = Some (t, r)"
  by (auto simp: lex1_def json_space_def punct_def split: if_splits)

section \<open>Documents\<close>

definition after :: "outcome \<Rightarrow> string \<Rightarrow> (json \<times> string) option" where
  "after x r = (case x of Done v \<Rightarrow> Some (v, r) | Go e st \<Rightarrow> build e st r | Bad \<Rightarrow> None)"

lemma build_after: "lex1 s = Some (t, r) \<Longrightarrow> build e st s = after (shift e st t) r"
  by (simp add: build_step after_def)

lemma after_simps [simp]: "after (Go e st) r = build e st r" "after (Done v) r = Some (v, r)"
  by (simp_all add: after_def)

lemma delimited_simps [simp]: "delimited []" "delimited (CHR '','' # r)" "delimited (CHR '']'' # r)" "delimited (CHR ''}'' # r)"
    "delimited (CHR 0x0A # r)"
  by (simp_all add: delimited_def digit_byte byte_def)

lemma punct_simps [simp]:
  "punct (CHR '','') = Some Comma" "punct (CHR '']'') = Some RBrack" "punct (CHR ''['') = Some LBrack"
  "punct (CHR ''}'') = Some RBrace" "punct (CHR ''{'') = Some LBrace" "punct (CHR '':'') = Some Colon"
  by (simp_all add: punct_def)

lemma build_marshal:
  "\<lbrakk>encodable v; delimited r; e = Value \<or> e = ValueOrEnd\<rbrakk> \<Longrightarrow> build e st (marshal v @ r) = after (finish v st) r"
  "\<lbrakk>\<forall>v \<in> set vs. encodable v; vs \<noteq> []; e = Value \<or> e = ValueOrEnd\<rbrakk> \<Longrightarrow>
     build e (InArr acc # st) (marshal_items vs @ CHR '']'' # r) = after (finish (JArr (rev acc @ vs)) st) r"
  "\<lbrakk>\<forall>m \<in> set ms. valid_utf8 (fst m) \<and> encodable (snd m); ms \<noteq> []; e = Key \<or> e = KeyOrEnd\<rbrakk> \<Longrightarrow>
     build e (InObj mem k # st) (marshal_members ms @ CHR ''}'' # r) = after (finish (JObj (rev mem @ ms)) st) r"
proof (induction v and vs and ms arbitrary: e st r and e st r acc and e st r mem k rule: marshal_marshal_items_marshal_members.induct)
  case 1
  then show ?case using lex_words(1) [of r] by (auto simp: build_after shift_def)
next
  case (2 b)
  then show ?case using lex_words(2,3) [of r] by (cases b) (auto simp: build_after shift_def)
next
  case (3 lit)
  then show ?case using lex_int [of lit r] by (auto simp: build_after shift_def)
next
  case (4 s)
  then show ?case using lex_json_string [of s r] by (auto simp: build_after shift_def)
next
  case (5 vs)
  have open1: "build e st (CHR ''['' # q) = build ValueOrEnd (InArr [] # st) q" for q
    using 5(4) by (auto simp: build_after lex_punct shift_def)
  show ?case
  proof (cases "vs = []")
    case True
    then show ?thesis using open1 [of "CHR '']'' # r"] by (simp add: build_after lex_punct shift_def)
  next
    case False
    then show ?thesis using 5(2) open1 5(1) [of ValueOrEnd "[]" st r] by simp
  qed
next
  case (6 ms)
  have open1: "build e st (CHR ''{'' # q) = build KeyOrEnd (InObj [] [] # st) q" for q
    using 6(4) by (auto simp: build_after lex_punct shift_def)
  show ?case
  proof (cases "ms = []")
    case True
    then show ?thesis using open1 [of "CHR ''}'' # r"] by (simp add: build_after lex_punct shift_def)
  next
    case False
    then show ?thesis using 6(2) open1 6(1) [of KeyOrEnd "[]" "[]" st r] by simp
  qed
next
  case 7
  then show ?case by simp
next
  case (8 v vs)
  let ?rest = "(if vs = [] then [] else '','' @ marshal_items vs) @ CHR '']'' # r"
  have "delimited ?rest" by simp
  with 8 have "build e (InArr acc # st) (marshal v @ ?rest) = build CommaOrEnd (InArr (v # acc) # st) ?rest"
    by (simp add: finish_def put_def)
  also have "\<dots> = after (finish (JArr (rev acc @ v # vs)) st) r"
  proof (cases "vs = []")
    case True
    then show ?thesis by (simp add: build_after lex_punct shift_def)
  next
    case False
    with 8(2) [of Value "v # acc" st r] 8(3) show ?thesis by (simp add: build_after lex_punct shift_def)
  qed
  finally show ?case by simp
next
  case 9
  then show ?case by simp
next
  case (10 k' v ms)
  let ?rest = "(if ms = [] then [] else '','' @ marshal_members ms) @ CHR ''}'' # r"
  have "delimited ?rest" by simp
  have "build e (InObj mem k # st) (json_string k' @ '':'' @ marshal v @ ?rest) =
      build Value (InObj mem k' # st) (marshal v @ ?rest)"
    using 10(3,5) lex_json_string [of k'] by (auto simp: build_after shift_def lex_punct)
  also have "\<dots> = build CommaOrEnd (InObj ((k', v) # mem) k' # st) ?rest"
    using 10(1) [of ?rest Value] 10(3) \<open>delimited ?rest\<close> by (simp add: finish_def put_def)
  also have "\<dots> = after (finish (JObj (rev mem @ (k', v) # ms)) st) r"
  proof (cases "ms = []")
    case True
    then show ?thesis by (simp add: build_after lex_punct shift_def)
  next
    case False
    with 10(2) [of Key "(k', v) # mem" k' st r] 10(3) show ?thesis by (simp add: build_after lex_punct shift_def)
  qed
  finally show ?case by simp
qed

theorem decode_marshal: "encodable v \<Longrightarrow> delimited r \<Longrightarrow> decode_first (marshal v @ r) = Some (v, r)"
  by (simp add: decode_first_def build_marshal(1) finish_def)

corollary parse_marshal: "encodable v \<Longrightarrow> parse_json (marshal v) = Some v"
  using decode_marshal [of v "[]"] by (simp add: parse_json_def only_space_def)

text \<open>\<open>json.Encoder\<close> ends the document with a newline.\<close>

corollary parse_marshal_line: "encodable v \<Longrightarrow> parse_json (marshal v @ [CHR 0x0A]) = Some v"
  using decode_marshal [of v "[CHR 0x0A]"] by (simp add: parse_json_def only_space_def json_space_def)

interpretation json_codec: codec marshal parse_json encodable
  by unfold_locales (rule parse_marshal)

end
