(* ===== verification/Manifest_Wire.thy ===== *)
theory Manifest_Wire
  imports Codegen Json_Roundtrip
begin

text \<open>
  The manifest on the wire: what a reader of the request finds in it, by the reading of a manifest
  document of \<open>Codegen\<close>.
\<close>

section \<open>Prepared manifests can be read back\<close>

lemma pattern_ascii:
  "list_all lower_hex s \<Longrightarrow> ascii s" "list_all (\<lambda>c. alnum c \<or> c \<in> set ''._:@/+~-'') s \<Longrightarrow> ascii s"
  "list_all (\<lambda>d. lower_alnum d \<or> d = CHR ''.'' \<or> d = CHR ''_'' \<or> d = CHR ''-'') s \<Longrightarrow> ascii s"
  by (auto simp: ascii_def list_all_iff lower_hex_def lower_alnum_def alnum_def digit_def less_eq_char_def byte_def)

lemma prepared_ascii:
  assumes "PreparePermissionManifest nfc m mode = Inr p"
  shows "ascii (p_Mode p)" "ascii (p_ManifestID p)" "ascii (p_Revision p)" "ascii (p_Fingerprint p)"
proof -
  obtain ds where mode: "mode = PermissionManifestValidate \<or> mode = PermissionManifestUpsert"
    and p: "p = \<lparr>p_Mode = mode, p_ManifestID = m_ManifestID m, p_Revision = m_Revision m,
           p_Fingerprint = sha256Hex (canonicalManifest (sort_key Key ds)), p_Permissions = sort_key Key ds\<rparr>"
    by (rule Prepare_InrD [OF assms]) blast
  show "ascii (p_Mode p)"
    using mode by (auto simp: p PermissionManifestValidate_def PermissionManifestUpsert_def byte_def)
  have "manifestIDPattern (m_ManifestID m)" "revisionPattern (m_Revision m)" using Prepare_patterns [OF assms] by simp_all
  then show "ascii (p_ManifestID p)" "ascii (p_Revision p)"
    using pattern_ascii(2) [of "m_Revision m"] pattern_ascii(3) [of "m_ManifestID m"]
    by (auto simp: p manifestIDPattern_def revisionPattern_def repeated_def split: list.splits)
  show "ascii (p_Fingerprint p)"
    using fingerprint_sha pattern_ascii(1) by (simp add: p fingerprintPattern_def repeated_def)
qed

lemma declaration_encodable:
  assumes "validateManifestDeclaration nfc d = Inr ()"
  shows "encodable (declaration_json d)"
proof -
  have "valid_utf8 (d_Resource d)" "valid_utf8 (d_Action d)" "valid_utf8 (d_Name d)"
    using assms by (auto simp: validateManifestDeclaration_def bind_ok_Inr_iff split: if_splits)
  moreover have "valid_utf8 t" if "d_Description d = Some t" for t
    using assms that by (auto simp: validateManifestDeclaration_def bind_ok_Inr_iff split: if_splits)
  ultimately show ?thesis
    by (auto simp: declaration_json_def valid_utf8_ascii byte_def split: option.split)
qed

lemma prepared_encodable:
  assumes "PreparePermissionManifest nfc m mode = Inr p"
  shows "encodable (prepared_json p)"
proof -
  have "\<forall>d \<in> set (p_Permissions p). validateManifestDeclaration nfc d = Inr ()"
    by (rule Prepare_InrD [OF assms]) simp
  then have "\<forall>d \<in> set (p_Permissions p). encodable (declaration_json d)" using declaration_encodable by blast
  then show ?thesis
    using prepared_ascii [OF assms] by (auto simp: prepared_json_def valid_utf8_ascii byte_def)
qed

lemma declaration_read_back: "declaration_document (declaration_json d)" "declaration_in (declaration_json d) = d"
  by (cases d; auto simp: declaration_json_def declaration_document_def declaration_in_def has_text_def text_or_null_def
      text_in_def opt_text_in_def split: option.split)+

lemma declarations_no_dups: "no_dups (declaration_json d)"
  by (auto simp: declaration_json_def split: option.split)

text \<open>Two prepared manifests are sent with the same body only if they are the same.\<close>

lemma prepared_json_inject: "prepared_json p = prepared_json p' \<longleftrightarrow> p = p'"
proof
  assume h: "prepared_json p = prepared_json p'"
  have "inj declaration_json" by (metis declaration_read_back(2) injI)
  with h have "p_Permissions p = p_Permissions p'"
    by (auto simp: prepared_json_def split: if_splits)
  with h show "p = p'" by (cases p; cases p') (simp add: prepared_json_def)
qed simp

lemma payload_determines:
  assumes "PreparePermissionManifest nfc m mode = Inr p" and "PreparePermissionManifest nfc' m' mode' = Inr p'"
  shows "payload (sync_request c access p idem) = payload (sync_request c' access' p' idem') \<longleftrightarrow> p = p'"
  using json_codec.encode_inject [OF prepared_encodable [OF assms(1)] prepared_encodable [OF assms(2)]] prepared_json_inject
  by (simp add: sync_request_def Let_def)

section \<open>Properties\<close>

text \<open>
  C30. The manifest that arrives.  The body of the request parses as one document without repeated
  names; its members are the mode, the identity and the fingerprint of the prepared manifest, and its
  permissions, read one by one, are the sorted declarations (null when there are none).
\<close>

theorem manifest_on_the_wire:
  assumes "PreparePermissionManifest nfc m mode = Inr p"
  shows "\<exists>ms. parse_json (payload (sync_request c access p idem)) = Some (JObj ms) \<and> no_dups (JObj ms) \<and>
     map fst ms = [''mode'', ''manifestId'', ''revision'', ''fingerprint'', ''permissions''] \<and>
     text_in ms ''mode'' = mode \<and> text_in ms ''manifestId'' = m_ManifestID m \<and> text_in ms ''revision'' = m_Revision m \<and>
     text_in ms ''fingerprint'' = sha256Hex (canonicalManifest (p_Permissions p)) \<and>
     (case map_of ms ''permissions'' of
        Some (JArr vs) \<Rightarrow> list_all declaration_document vs \<and> map declaration_in vs = p_Permissions p
      | Some JNull \<Rightarrow> p_Permissions p = [] | _ \<Rightarrow> False)"
proof -
  have head: "p_Mode p = mode" "p_ManifestID p = m_ManifestID m" "p_Revision p = m_Revision m"
      "p_Fingerprint p = sha256Hex (canonicalManifest (p_Permissions p))"
    by (rule Prepare_InrD [OF assms]; simp)+
  obtain ms where ms: "prepared_json p = JObj ms" by (simp add: prepared_json_def)
  have "parse_json (payload (sync_request c access p idem)) = Some (JObj ms)"
    using parse_marshal [OF prepared_encodable [OF assms]] ms by (simp add: sync_request_def Let_def)
  moreover have "no_dups (prepared_json p)" using declarations_no_dups by (auto simp: prepared_json_def)
  moreover have "list_all declaration_document (map declaration_json (p_Permissions p))"
    by (simp add: list_all_iff declaration_read_back)
  moreover have "map declaration_in (map declaration_json (p_Permissions p)) = p_Permissions p"
    by (simp add: declaration_read_back map_idI)
  ultimately show ?thesis
    using ms head by (intro exI [of _ ms]) (auto simp: prepared_json_def text_in_def)
qed

theorem manifest_on_the_wire_witness:
  "\<forall>c. \<exists>p ms. PreparePermissionManifest (\<lambda>_. True) (sample_manifest [''w'', ''r'']) ''validate'' = Inr p \<and>
     parse_json (payload (sync_request c [] p [])) = Some (JObj ms) \<and> text_in ms ''manifestId'' = ''m1''"
proof
  fix c
  obtain p where p: "PreparePermissionManifest (\<lambda>_. True) (sample_manifest [''w'', ''r'']) ''validate'' = Inr p"
    using sample_prepares by blast
  have "m_ManifestID (sample_manifest [''w'', ''r'']) = ''m1''" by (simp add: sample_manifest_def)
  with manifest_on_the_wire [OF p, of c "[]" "[]"] p
  show "\<exists>p ms. PreparePermissionManifest (\<lambda>_. True) (sample_manifest [''w'', ''r'']) ''validate'' = Inr p \<and>
     parse_json (payload (sync_request c [] p [])) = Some (JObj ms) \<and> text_in ms ''manifestId'' = ''m1''"
    by auto
qed

end
