(* ===== verification/Mock_Server.thy ===== *)
theory Mock_Server
  imports Json_Roundtrip Permission_Client "HOL-Library.AList"
begin

text \<open>
  The fake IAM server for tests (iamtest/mock_server.go) and the contexts for tests (iamtest/context.go).
  The server is a state and a handler from a request to a response; requests are handled one after the
  other, as the mutex of the source has it.  The key pair and the signing of tokens belong to go-jose: the
  key set document is part of the state and \<open>sign\<close> is a parameter.  The map of permissions is a list of
  pairs: its order is the order in which \<open>range\<close> visits the map, which may be any.
\<close>

section \<open>Requests as the server sees them\<close>

text \<open>
  \<open>Path\<close> is decoded and \<open>RawQuery\<close> is not.  The server refuses a path with a bad escape before
  any handler runs.
\<close>

record http_request =
  hr_Method :: string
  hr_Path :: string
  hr_RawQuery :: string
  hr_Header :: header
  hr_Body :: string

fun unescape :: "bool \<Rightarrow> string \<Rightarrow> string option" where
  "unescape spaces [] = Some []"
| "unescape spaces (c # cs) =
     (if c = CHR ''%'' then
        (case cs of a # b # r \<Rightarrow>
           (case (hex_val a, hex_val b) of
              (Some x, Some y) \<Rightarrow> map_option (Cons (char_of (16 * x + y))) (unescape spaces r)
            | _ \<Rightarrow> None)
         | _ \<Rightarrow> None)
      else map_option (Cons (if spaces \<and> c = CHR ''+'' then CHR '' '' else c)) (unescape spaces cs))"

definition received :: "string \<Rightarrow> request \<Rightarrow> http_request option option" where
  "received base r = (if \<not> has_prefix base (url r) then None
     else (let rest = drop (length base) (url r); raw = takeWhile (\<lambda>c. c \<noteq> CHR ''?'') rest;
               query = tl (dropWhile (\<lambda>c. c \<noteq> CHR ''?'') rest) in
       Some (map_option (\<lambda>p. \<lparr>hr_Method = meth r, hr_Path = (if p = [] then ''/'' else p),
                hr_RawQuery = (if length raw = length rest then [] else query), hr_Header = headers r,
                hr_Body = payload r\<rparr>) (unescape False raw))))"

text \<open>\<open>url.ParseQuery\<close>: the pairs that are well formed, and whether all were.\<close>

fun parse_pairs :: "string list \<Rightarrow> (string \<times> string) list \<times> bool" where
  "parse_pairs [] = ([], True)"
| "parse_pairs (p # ps) = (let (kvs, ok) = parse_pairs ps in
     if CHR '';'' \<in> set p then (kvs, False)
     else if p = [] then (kvs, ok)
     else (case (unescape True (takeWhile (\<lambda>c. c \<noteq> CHR ''='') p), unescape True (drop 1 (dropWhile (\<lambda>c. c \<noteq> CHR ''='') p))) of
        (Some k, Some v) \<Rightarrow> ((k, v) # kvs, ok)
      | _ \<Rightarrow> (kvs, False)))"

definition parse_query :: "string \<Rightarrow> (string \<times> string) list \<times> bool" where
  "parse_query q = parse_pairs (split_on (CHR ''&'') q)"

definition form_get :: "(string \<times> string) list \<Rightarrow> string \<Rightarrow> string" where
  "form_get kvs k = (case map_of kvs k of None \<Rightarrow> [] | Some v \<Rightarrow> v)"

text \<open>
  \<open>Request.ParseForm\<close> of a POST: the pairs of a form body, then those of the query.  What follows the
  media type in the Content-Type is ignored here.
\<close>

definition media_type :: "string \<Rightarrow> string" where
  "media_type ct = concat (map (encode_rune \<circ> to_lower_rune) (runes (trim_space (takeWhile (\<lambda>c. c \<noteq> CHR '';'') ct))))"

definition ParseForm :: "http_request \<Rightarrow> (string \<times> string) list \<times> bool" where
  "ParseForm r = (let (bs, ok) = (if media_type (header_get ''Content-Type'' (hr_Header r)) = ''application/x-www-form-urlencoded''
           then parse_query (hr_Body r) else ([], True));
         (qs, ok') = parse_query (hr_RawQuery r) in (bs @ qs, ok \<and> ok'))"

text \<open>\<open>base64.StdEncoding.DecodeString\<close>, which skips line ends, and \<open>Request.BasicAuth\<close>.\<close>

definition b64_value :: "char \<Rightarrow> nat option" where
  "b64_value c = (case filter (\<lambda>i. base64_alphabet ! i = c) [0..<64] of [] \<Rightarrow> None | i # _ \<Rightarrow> Some i)"

fun b64_groups :: "string \<Rightarrow> string option" where
  "b64_groups [] = Some []"
| "b64_groups (a # b # c # d # s) = (case (b64_value a, b64_value b) of
     (Some w, Some x) \<Rightarrow>
       (let first = char_of (4 * w + x div 16) in
        if c = CHR ''='' then (if d = CHR ''='' \<and> s = [] then Some [first] else None)
        else (case b64_value c of None \<Rightarrow> None | Some y \<Rightarrow>
          (let second' = char_of (16 * (x mod 16) + y div 4) in
           if d = CHR ''='' then (if s = [] then Some [first, second'] else None)
           else (case b64_value d of None \<Rightarrow> None | Some z \<Rightarrow>
             map_option (append [first, second', char_of (64 * (y mod 4) + z)]) (b64_groups s)))))
   | _ \<Rightarrow> None)"
| "b64_groups s = None"

definition DecodeString :: "string \<Rightarrow> string option" where
  "DecodeString s = b64_groups (filter (\<lambda>c. c \<noteq> CHR 0x0A \<and> c \<noteq> CHR 0x0D) s)"

definition BasicAuth :: "http_request \<Rightarrow> (string \<times> string) option" where
  "BasicAuth r = (let auth = header_get ''Authorization'' (hr_Header r) in
     if length auth < 6 \<or> \<not> equal_fold (take 6 auth) ''Basic '' then None
     else (case DecodeString (drop 6 auth) of
         None \<Rightarrow> None
       | Some c \<Rightarrow> if CHR '':'' \<in> set c
           then Some (takeWhile (\<lambda>x. x \<noteq> CHR '':'') c, tl (dropWhile (\<lambda>x. x \<noteq> CHR '':'') c)) else None))"

section \<open>The server\<close>

record AccountOrganizationDTO =
  ao_OrganizationID :: string
  ao_Name :: string
  ao_Slug :: string
  ao_Role :: string
  ao_JoinedAt :: string
  ao_Current :: bool

record UserProfileDTO =
  up_UserID :: string
  up_ApplicationID :: string
  up_GlobalIdentityID :: "string option"
  up_Email :: "string option"
  up_EmailVerified :: bool
  up_Username :: "string option"
  up_DisplayName :: "string option"
  up_AvatarURL :: "string option"
  up_Status :: string
  up_CreatedAt :: string
  up_UpdatedAt :: string
  up_CurrentOrganization :: "AccountOrganizationDTO option"

record MockServer =
  ms_roleToPerms :: "(string \<times> string list) list"
  ms_meCalls :: int
  ms_tokenCalls :: "string \<Rightarrow> int"
  ms_userProfiles :: "string \<rightharpoonup> UserProfileDTO"
  ms_keySet :: json
  ms_issuer :: string
  ms_audienceFor :: string

text \<open>The listener picks the address; creating the key pair may fail.\<close>

definition NewMockServer :: "json option \<Rightarrow> string \<Rightarrow> MockServer option" where
  "NewMockServer keys address = map_option (\<lambda>k. \<lparr>ms_roleToPerms = [], ms_meCalls = 0, ms_tokenCalls = (\<lambda>_. 0),
     ms_userProfiles = (\<lambda>_. None), ms_keySet = k, ms_issuer = address, ms_audienceFor = []\<rparr>) keys"

definition Issuer :: "MockServer \<Rightarrow> string" where "Issuer m = ms_issuer m"
definition WithAudience :: "string \<Rightarrow> MockServer \<Rightarrow> MockServer" where "WithAudience aud m = m\<lparr>ms_audienceFor := aud\<rparr>"
definition MeCalls :: "MockServer \<Rightarrow> int" where "MeCalls m = ms_meCalls m"
definition TokenCalls :: "string \<Rightarrow> MockServer \<Rightarrow> int" where "TokenCalls scope m = ms_tokenCalls m scope"

definition server_Given :: "string \<Rightarrow> string list \<Rightarrow> MockServer \<Rightarrow> MockServer" where
  "server_Given role perms m = m\<lparr>ms_roleToPerms := AList.update role perms (ms_roleToPerms m)\<rparr>"

definition GivenUserProfile :: "string \<Rightarrow> UserProfileDTO \<Rightarrow> MockServer \<Rightarrow> MockServer" where
  "GivenUserProfile subject profile m = m\<lparr>ms_userProfiles := (ms_userProfiles m)(subject \<mapsto> profile)\<rparr>"

text \<open>\<open>sign\<close> is the serialiser of go-jose with the key of the server, \<open>now\<close> the clock in seconds.\<close>

definition TokenForWith ::
  "((string \<rightharpoonup> json) \<Rightarrow> string option) \<Rightarrow> int \<Rightarrow> string \<Rightarrow> string list option \<Rightarrow> (string \<rightharpoonup> json) \<Rightarrow> MockServer \<Rightarrow> string option" where
  "TokenForWith sign now subject roles extra m = sign (
     [''iss'' \<mapsto> JStr (ms_issuer m), ''sub'' \<mapsto> JStr subject, ''roles'' \<mapsto> (case roles of None \<Rightarrow> JNull | Some rs \<Rightarrow> JArr (map JStr rs)),
      ''iat'' \<mapsto> JNum (itoa now), ''exp'' \<mapsto> JNum (itoa (now + 300))] ++
     (if ms_audienceFor m = [] then Map.empty else [''aud'' \<mapsto> JStr (ms_audienceFor m)]) ++ extra)"

definition TokenFor ::
  "((string \<rightharpoonup> json) \<Rightarrow> string option) \<Rightarrow> int \<Rightarrow> string \<Rightarrow> string list option \<Rightarrow> MockServer \<Rightarrow> string option" where
  "TokenFor sign now subject roles m = TokenForWith sign now subject roles Map.empty m"

section \<open>Answers\<close>

text \<open>encoding/json writes a map with its keys sorted and a nil slice as null.\<close>

definition gomap :: "(string \<times> json) list \<Rightarrow> json" where
  "gomap ms = JObj (sort_key fst ms)"

definition nullable :: "string option \<Rightarrow> json" where
  "nullable v = (case v of None \<Rightarrow> JNull | Some s \<Rightarrow> JStr s)"

definition organization_json :: "AccountOrganizationDTO \<Rightarrow> json" where
  "organization_json g = JObj ([(''organizationId'', JStr (ao_OrganizationID g)), (''name'', JStr (ao_Name g))] @
     (if ao_Slug g = [] then [] else [(''slug'', JStr (ao_Slug g))]) @ [(''role'', JStr (ao_Role g))] @
     (if ao_JoinedAt g = [] then [] else [(''joinedAt'', JStr (ao_JoinedAt g))]) @ [(''current'', JBool (ao_Current g))])"

definition profile_json :: "UserProfileDTO \<Rightarrow> json" where
  "profile_json u = JObj [(''userId'', JStr (up_UserID u)), (''applicationId'', JStr (up_ApplicationID u)),
     (''globalIdentityId'', nullable (up_GlobalIdentityID u)), (''email'', nullable (up_Email u)),
     (''emailVerified'', JBool (up_EmailVerified u)), (''username'', nullable (up_Username u)),
     (''displayName'', nullable (up_DisplayName u)), (''avatarUrl'', nullable (up_AvatarURL u)),
     (''status'', JStr (up_Status u)), (''createdAt'', JStr (up_CreatedAt u)), (''updatedAt'', JStr (up_UpdatedAt u)),
     (''currentOrganization'', case up_CurrentOrganization u of None \<Rightarrow> JNull | Some g \<Rightarrow> organization_json g)]"

definition writeJSONStatus :: "int \<Rightarrow> json \<Rightarrow> response" where
  "writeJSONStatus st v = \<lparr>status = st, resp_headers = [(''Content-Type'', ''application/json'')],
     body = marshal v @ [CHR 0x0A], read_error = False\<rparr>"

definition writeJSON :: "json \<Rightarrow> response" where
  "writeJSON v = writeJSONStatus 200 v"

text \<open>\<open>http.Error\<close>, \<open>http.NotFound\<close> and an answer without a body.\<close>

definition http_error :: "string \<Rightarrow> int \<Rightarrow> response" where
  "http_error msg st = \<lparr>status = st, resp_headers = [(''Content-Type'', ''text/plain; charset=utf-8''),
     (''X-Content-Type-Options'', ''nosniff'')], body = msg @ [CHR 0x0A], read_error = False\<rparr>"

definition NotFound :: response where "NotFound = http_error ''404 page not found'' 404"

definition NoContent :: response where
  "NoContent = \<lparr>status = 204, resp_headers = [], body = [], read_error = False\<rparr>"

section \<open>Handlers\<close>

definition bearer_ok :: "http_request \<Rightarrow> bool" where
  "bearer_ok r = has_prefix ''Bearer '' (header_get ''Authorization'' (hr_Header r))"

definition requireBearer :: "http_request \<Rightarrow> response \<Rightarrow> response" where
  "requireBearer r resp = (if bearer_ok r then resp else http_error ''missing bearer token'' 401)"

definition token_handler :: "http_request \<Rightarrow> MockServer \<Rightarrow> response \<times> MockServer" where
  "token_handler r m =
     (if BasicAuth r = None then (writeJSONStatus 401 (gomap [(''error'', JStr ''invalid_client'')]), m)
      else (case ParseForm r of (form, ok) \<Rightarrow>
        if \<not> ok then (writeJSONStatus 400 (gomap [(''error'', JStr ''invalid_request'')]), m)
        else if form_get form ''grant_type'' \<noteq> ''client_credentials''
        then (writeJSONStatus 400 (gomap [(''error'', JStr ''unsupported_grant_type'')]), m)
        else (let scope = form_get form ''scope'' in
          if scope = [] then (writeJSONStatus 400 (gomap [(''error'', JStr ''invalid_scope'')]), m)
          else (let m' = m\<lparr>ms_tokenCalls := (ms_tokenCalls m)(scope := ms_tokenCalls m scope + 1)\<rparr> in
            (writeJSON (gomap [(''access_token'', JStr (''mock-'' @ scope @ ''-'' @ itoa (ms_tokenCalls m' scope))),
               (''token_type'', JStr ''Bearer''), (''expires_in'', JNum ''120''), (''scope'', JStr scope)]), m')))))"

text \<open>The request of the resolve endpoint; \<open>err\<close> is the text of a decoding error.\<close>

definition dec_resolve_request :: "json \<Rightarrow> string \<times> string list option \<Rightarrow> (string \<times> string list option) option" where
  "dec_resolve_request = dec_struct False [] (\<lambda>ms old.
     Option.bind (dec_field dec_string (fst old) ''clientId'' ms) (\<lambda>c.
     Option.bind (dec_field (dec_slice dec_string []) (snd old) ''roles'' ms) (\<lambda>r. Some (c, r))))"

definition resolve_handler :: "(string \<Rightarrow> string) \<Rightarrow> http_request \<Rightarrow> MockServer \<Rightarrow> response" where
  "resolve_handler err r m = (case decodeFirstJSON dec_resolve_request ([], None) (hr_Body r) of
     Inl e \<Rightarrow> http_error (err (hr_Body r)) 400
   | Inr (cid, roles) \<Rightarrow>
      (let out = collect_roles (map_of (ms_roleToPerms m)) [] (case roles of None \<Rightarrow> [] | Some rs \<Rightarrow> rs) in
       writeJSON (gomap [(''permissions'', if out = [] then JNull else JArr (map JStr out))])))"

definition default_profile :: UserProfileDTO where
  "default_profile = \<lparr>up_UserID = ''u1'', up_ApplicationID = ''app-1'', up_GlobalIdentityID = None,
     up_Email = Some ''u1@example.com'', up_EmailVerified = True, up_Username = Some ''u1'', up_DisplayName = None,
     up_AvatarURL = None, up_Status = ''ACTIVE'', up_CreatedAt = [], up_UpdatedAt = [], up_CurrentOrganization = None\<rparr>"

definition me_handler :: "http_request \<Rightarrow> MockServer \<Rightarrow> response \<times> MockServer" where
  "me_handler r m =
     (if \<not> bearer_ok r then (http_error ''missing bearer token'' 401, m)
      else (let m' = m\<lparr>ms_meCalls := ms_meCalls m + 1\<rparr> in
        (writeJSON (profile_json (case ms_userProfiles m ''u1'' of None \<Rightarrow> default_profile | Some p \<Rightarrow> p)), m')))"

definition extractClientID :: "string \<Rightarrow> string \<Rightarrow> string" where
  "extractClientID path suffix =
     (if \<not> has_prefix ''/open/v1/apps/'' path then []
      else (let rest = drop (length ''/open/v1/apps/'') path; s = ''/permissions'' @ suffix in
        if has_suffix s rest then take (length rest - length s) rest else rest))"

text \<open>The loop over the map; a permission without a colon is seen but not listed.\<close>

fun list_keys :: "string list \<Rightarrow> string list \<Rightarrow> string list" where
  "list_keys seen [] = []"
| "list_keys seen (key # keys) =
     (if key \<in> set seen then list_keys seen keys
      else if CHR '':'' \<in> set key then key # list_keys (key # seen) keys else list_keys (key # seen) keys)"

definition list_handler :: "http_request \<Rightarrow> MockServer \<Rightarrow> response" where
  "list_handler r m = writeJSON (gomap [(''applicationId'', JStr ''123e4567-e89b-42d3-a456-426614174000''),
     (''clientId'', JStr (extractClientID (hr_Path r) [])),
     (''roles'', JArr [gomap [(''key'', JStr ''registered''), (''name'', JStr ''Registered''),
        (''permissions'', JArr (map JStr (list_keys [] (concat (map snd (ms_roleToPerms m))))))]])])"

definition acme :: AccountOrganizationDTO where
  "acme = \<lparr>ao_OrganizationID = ''org-1'', ao_Name = ''Acme'', ao_Slug = ''acme'', ao_Role = ''ADMIN'',
     ao_JoinedAt = ''2026-07-06T00:00:00Z'', ao_Current = True\<rparr>"

text \<open>The answers that do not depend on the request.\<close>

definition discovery_json :: "MockServer \<Rightarrow> json" where
  "discovery_json m = gomap [(''issuer'', JStr (ms_issuer m)), (''jwks_uri'', JStr (ms_issuer m @ ''/.well-known/jwks.json''))]"

definition security_json :: json where
  "security_json = gomap [(''emailVerified'', JBool True), (''passwordCredentialPresent'', JBool True),
     (''mfaEnrolled'', JBool False), (''totpEnrolled'', JBool False), (''webAuthnEnrolled'', JBool False),
     (''activeSessionCount'', JNum ''2'')]"

definition sessions_json :: json where
  "sessions_json = JArr [gomap [(''sessionId'', JStr ''sid-current''), (''ipAddress'', JStr ''127.0.0.1''),
     (''userAgent'', JStr ''iamtest''), (''deviceId'', JNull), (''createdAt'', JStr ''2026-07-07T00:00:00Z''),
     (''lastSeenAt'', JStr ''2026-07-07T01:00:00Z''), (''current'', JBool True)]]"

definition switch_json :: json where
  "switch_json = gomap [(''organizationId'', JStr ''org-2''),
     (''continuation'', JStr ''REFRESH_OR_REAUTHENTICATE_WITH_ORGANIZATION''), (''tokenRefreshRequired'', JBool True),
     (''message'', JStr ''Refresh token to receive the new organization context.'')]"

definition permissions_json :: "string \<Rightarrow> json" where
  "permissions_json organizationID = gomap [(''applicationId'', JStr ''app-1''), (''organizationId'', JStr organizationID),
     (''roles'', JArr [JStr ''admin'']), (''permissions'', JArr [JStr ''orders:read'', JStr ''orders:*''])]"

definition check_json :: json where
  "check_json = gomap [(''applicationId'', JStr ''app-1''), (''organizationId'', JStr ''org-1''),
     (''permission'', JStr ''orders:write''), (''allowed'', JBool True), (''roles'', JArr [JStr ''admin''])]"

definition accept_json :: json where
  "accept_json = gomap [(''status'', JStr ''LOGIN_REQUIRED''), (''continuation'', JStr ''LOGIN_OR_REGISTER_THEN_RETRY_ACCEPT''),
     (''applicationId'', JStr ''app-1''), (''organizationId'', JStr ''org-1''), (''organizationName'', JStr ''Acme''),
     (''role'', JStr ''MEMBER'')]"

definition preview_json :: json where
  "preview_json = gomap [(''applicationId'', JStr ''app-1''), (''applicationName'', JStr ''Demo''),
     (''organizationId'', JStr ''org-1''), (''organizationName'', JStr ''Acme''), (''inviteeEmail'', JStr ''a***@example.com''),
     (''role'', JStr ''MEMBER''), (''status'', JStr ''PENDING''), (''expiresAt'', JStr ''2026-07-08T00:00:00Z'')]"

definition invitations_path :: string where "invitations_path = ''/api/v1/auth/organization-invitations/''"

definition handle :: "(string \<Rightarrow> string) \<Rightarrow> http_request \<Rightarrow> MockServer \<Rightarrow> response \<times> MockServer" where
  "handle err r m = (let path = hr_Path r; method = hr_Method r in
     if path = ''/.well-known/openid-configuration'' then (writeJSON (discovery_json m), m)
     else if path = ''/.well-known/jwks.json'' then (writeJSON (ms_keySet m), m)
     else if path = ''/oauth2/token'' \<and> method = ''POST'' then token_handler r m
     else if path = ''/open/v1/permissions:resolve'' \<and> method = ''POST'' then (resolve_handler err r m, m)
     else if path = ''/api/v1/auth/me/profile'' \<and> method = ''GET'' then me_handler r m
     else if path = ''/api/v1/auth/me/profile'' \<and> method = ''PATCH'' then me_handler r m
     else
       (if path = ''/api/v1/auth/me/security'' \<and> method = ''GET'' then requireBearer r (writeJSON security_json)
        else if path = ''/api/v1/auth/email/verification/send'' \<and> method = ''POST'' then
          writeJSON (gomap [(''message'', JStr ''If eligible, a verification email has been sent. Please wait before retrying.''),
            (''retryAfterSeconds'', JNum ''60'')])
        else if path = ''/api/v1/auth/email/verification/verify'' \<and> method = ''POST'' then
          writeJSON (gomap [(''message'', JStr ''Email verified''), (''retryAfterSeconds'', JNull)])
        else if path = ''/api/v1/auth/password/change'' \<and> method = ''POST'' then requireBearer r NoContent
        else if path = ''/api/v1/auth/password/forgot'' \<and> method = ''POST'' then NoContent
        else if path = ''/api/v1/auth/password/reset'' \<and> method = ''POST'' then NoContent
        else if path = ''/api/v1/auth/sessions'' \<and> method = ''GET'' then requireBearer r (writeJSON sessions_json)
        else if has_prefix ''/api/v1/auth/sessions/'' path \<and> method = ''DELETE'' then requireBearer r NoContent
        else if path = ''/api/v1/auth/sessions'' \<and> method = ''DELETE'' then requireBearer r NoContent
        else if path = ''/api/v1/auth/logout'' \<and> method = ''POST'' then requireBearer r NoContent
        else if path = ''/api/v1/auth/me/organizations'' \<and> method = ''GET''
        then requireBearer r (writeJSON (JArr [organization_json acme]))
        else if path = ''/api/v1/auth/me/organizations/current'' \<and> method = ''GET''
        then requireBearer r (writeJSON (organization_json acme))
        else if path = ''/api/v1/auth/me/organizations/current'' \<and> method = ''POST''
        then requireBearer r (writeJSONStatus 202 switch_json)
        else if path = ''/api/v1/auth/me/permissions'' \<and> method = ''GET''
        then requireBearer r (writeJSON (permissions_json
          (let g = form_get (fst (parse_query (hr_RawQuery r))) ''organizationId'' in if g = [] then ''org-1'' else g)))
        else if path = ''/api/v1/auth/me/permissions:check'' \<and> method = ''POST'' then requireBearer r (writeJSON check_json)
        else if has_prefix invitations_path path \<and> has_suffix ''/accept'' path \<and> method = ''POST''
        then writeJSONStatus 202 accept_json
        else if has_prefix invitations_path path \<and> method = ''GET'' then writeJSON preview_json
        else if has_suffix ''/permissions'' path \<and> method = ''GET'' then list_handler r m
        else NotFound, m))"

text \<open>The server on the network: it has handled the requests sent so far, and answers after a delay.\<close>

definition serve1 :: "(string \<Rightarrow> string) \<Rightarrow> request \<Rightarrow> MockServer \<Rightarrow> (net_error + response) \<times> MockServer" where
  "serve1 err r m = (case received (ms_issuer m) r of
     None \<Rightarrow> (Inl (Refused ''no route to host''), m)
   | Some None \<Rightarrow> (Inr (http_error ''400 Bad Request'' 400), m)
   | Some (Some h) \<Rightarrow> apfst Inr (handle err h m))"

definition run_server :: "(string \<Rightarrow> string) \<Rightarrow> request list \<Rightarrow> MockServer \<Rightarrow> MockServer" where
  "run_server err h m = fold (\<lambda>r m. snd (serve1 err r m)) h m"

definition mock_net :: "(string \<Rightarrow> string) \<Rightarrow> (request list \<Rightarrow> request \<Rightarrow> nat) \<Rightarrow> MockServer \<Rightarrow> network" where
  "mock_net err delay m h r = (delay h r, fst (serve1 err r (run_server err h m)))"

section \<open>Contexts for tests\<close>

definition zero_user :: User where
  "zero_user = \<lparr>u_Subject = [], u_AppID = [], u_Email = [], u_OrgID = [], u_OrgRole = [], u_WorkspaceID = [], u_SessionID = [],
     u_Roles = [], u_Permissions = [], u_AMR = [], u_ACR = [], u_Actor = None\<rparr>"

definition WithSubject :: "string \<Rightarrow> User \<Rightarrow> User" where "WithSubject sub u = u\<lparr>u_Subject := sub\<rparr>"
definition WithEmail :: "string \<Rightarrow> User \<Rightarrow> User" where "WithEmail email u = u\<lparr>u_Email := email\<rparr>"
definition WithAppID :: "string \<Rightarrow> User \<Rightarrow> User" where "WithAppID i u = u\<lparr>u_AppID := i\<rparr>"
definition WithRoles :: "string list \<Rightarrow> User \<Rightarrow> User" where "WithRoles roles u = u\<lparr>u_Roles := roles\<rparr>"
definition WithPermissions :: "string list \<Rightarrow> User \<Rightarrow> User" where "WithPermissions perms u = u\<lparr>u_Permissions := perms\<rparr>"
definition WithOrg :: "string \<Rightarrow> string \<Rightarrow> User \<Rightarrow> User" where
  "WithOrg orgID orgRole u = u\<lparr>u_OrgID := orgID, u_OrgRole := orgRole\<rparr>"
definition WithACR :: "string \<Rightarrow> User \<Rightarrow> User" where "WithACR acr u = u\<lparr>u_ACR := acr\<rparr>"
definition WithImpersonator :: "string \<Rightarrow> User \<Rightarrow> User" where "WithImpersonator actor u = u\<lparr>u_Actor := Some actor\<rparr>"

definition NewContext :: "user_ctx \<Rightarrow> (User \<Rightarrow> User) list \<Rightarrow> user_ctx" where
  "NewContext ctx opts = WithUser ctx (Some (fold (\<lambda>f u. f u) opts zero_user))"

section \<open>Facts\<close>

text \<open>Requests change the two counters and nothing else.\<close>

definition same_setup :: "MockServer \<Rightarrow> MockServer \<Rightarrow> bool" where
  "same_setup m m' \<longleftrightarrow> ms_roleToPerms m' = ms_roleToPerms m \<and> ms_userProfiles m' = ms_userProfiles m \<and>
     ms_keySet m' = ms_keySet m \<and> ms_issuer m' = ms_issuer m \<and> ms_audienceFor m' = ms_audienceFor m"

lemma same_setup_refl: "same_setup m m"
  by (simp add: same_setup_def)

lemma same_setup_trans: "same_setup m m' \<Longrightarrow> same_setup m' m'' \<Longrightarrow> same_setup m m''"
  by (simp add: same_setup_def)

lemma token_handler_frame: "same_setup m (snd (token_handler r m))"
  by (auto simp: token_handler_def Let_def same_setup_def split: prod.splits)

lemma me_handler_frame: "same_setup m (snd (me_handler r m))"
  by (simp add: me_handler_def Let_def same_setup_def)

lemma handle_frame: "same_setup m (snd (handle err r m))"
  using same_setup_refl [of m] token_handler_frame [of m r] me_handler_frame [of m r] by (simp add: handle_def Let_def)

lemma serve1_frame: "same_setup m (snd (serve1 err r m))"
  using same_setup_refl [of m] handle_frame [of m err] by (auto simp: serve1_def split: option.splits)

lemma run_server_frame: "same_setup m (run_server err h m)"
  unfolding run_server_def
  by (induction h arbitrary: m) (auto intro: same_setup_refl same_setup_trans serve1_frame)

section \<open>What is counted\<close>

definition profile_request :: "http_request \<Rightarrow> bool" where
  "profile_request r \<longleftrightarrow> hr_Path r = ''/api/v1/auth/me/profile'' \<and> hr_Method r \<in> {''GET'', ''PATCH''} \<and> bearer_ok r"

definition grant_request :: "string \<Rightarrow> http_request \<Rightarrow> bool" where
  "grant_request scope r \<longleftrightarrow> hr_Path r = ''/oauth2/token'' \<and> hr_Method r = ''POST'' \<and> BasicAuth r \<noteq> None \<and> snd (ParseForm r) \<and>
     form_get (fst (ParseForm r)) ''grant_type'' = ''client_credentials'' \<and> scope \<noteq> [] \<and>
     form_get (fst (ParseForm r)) ''scope'' = scope"

text \<open>The requests among \<open>h\<close> that reach the handler of the server at \<open>base\<close> and satisfy \<open>P\<close>.\<close>

definition handled :: "string \<Rightarrow> (http_request \<Rightarrow> bool) \<Rightarrow> request list \<Rightarrow> nat" where
  "handled base P h = length (filter (\<lambda>r. case received base r of Some (Some q) \<Rightarrow> P q | _ \<Rightarrow> False) h)"

lemma token_handler_counts:
  "ms_tokenCalls (snd (token_handler r m)) scope = ms_tokenCalls m scope +
     (if BasicAuth r \<noteq> None \<and> snd (ParseForm r) \<and> form_get (fst (ParseForm r)) ''grant_type'' = ''client_credentials'' \<and>
         scope \<noteq> [] \<and> form_get (fst (ParseForm r)) ''scope'' = scope then 1 else 0)"
  "ms_meCalls (snd (token_handler r m)) = ms_meCalls m"
  by (auto simp: token_handler_def Let_def split: prod.splits)

lemma me_handler_counts:
  "ms_meCalls (snd (me_handler r m)) = ms_meCalls m + (if bearer_ok r then 1 else 0)"
  "ms_tokenCalls (snd (me_handler r m)) = ms_tokenCalls m"
  by (simp_all add: me_handler_def Let_def)

lemma handle_state:
  "snd (handle err r m) =
     (if hr_Path r = ''/oauth2/token'' \<and> hr_Method r = ''POST'' then snd (token_handler r m)
      else if hr_Path r = ''/api/v1/auth/me/profile'' \<and> hr_Method r \<in> {''GET'', ''PATCH''} then snd (me_handler r m) else m)"
  by (auto simp: handle_def Let_def)

lemma handle_counts:
  "ms_meCalls (snd (handle err r m)) = ms_meCalls m + (if profile_request r then 1 else 0)"
  "ms_tokenCalls (snd (handle err r m)) scope = ms_tokenCalls m scope + (if grant_request scope r then 1 else 0)"
  by (auto simp: handle_state token_handler_counts me_handler_counts profile_request_def grant_request_def)

lemma run_server_counts:
  "ms_meCalls (run_server err h m) = ms_meCalls m + int (handled (ms_issuer m) profile_request h) \<and>
   ms_tokenCalls (run_server err h m) scope = ms_tokenCalls m scope + int (handled (ms_issuer m) (grant_request scope) h)"
proof (induction h arbitrary: m)
  case Nil
  then show ?case by (simp add: run_server_def handled_def)
next
  case (Cons r h)
  have "run_server err (r # h) m = run_server err h (snd (serve1 err r m))" by (simp add: run_server_def)
  moreover have "ms_issuer (snd (serve1 err r m)) = ms_issuer m" using serve1_frame [of m err r] by (simp add: same_setup_def)
  ultimately show ?case
    using Cons.IH [of "snd (serve1 err r m)"]
    by (auto simp: serve1_def handled_def handle_counts split: option.splits)
qed


text \<open>A profile set up for a subject other than \<open>u1\<close> is never served.\<close>

lemma profile_of_other_subject:
  "subject \<noteq> ''u1'' \<Longrightarrow> fst (me_handler r (GivenUserProfile subject p m)) = fst (me_handler r m)"
  by (simp add: me_handler_def GivenUserProfile_def Let_def)

lemma NewContext_user: "FromContext (NewContext ctx opts) = Some (fold (\<lambda>f u. f u) opts zero_user)"
  by (simp add: NewContext_def WithUser_def FromContext_def)

end
