(* ===== verification/Mock_Client.thy ===== *)
theory Mock_Client
  imports Mock_Server
begin

text \<open>
  The client of the SDK against the test server: what an application under test gets back for the roles
  and permissions it has set up, through the encoders, the paths and the checks of both sides.
\<close>

section \<open>Both sides of the wire\<close>

lemma hex_val_upper: "n < 16 \<Longrightarrow> hex_val (hex_upper n) = Some n"
  by (cases "n < 10") (auto simp: hex_val_def hex_upper_def digit_def less_eq_char_def byte_def)

text \<open>An escaped path segment is read back, whatever follows it.\<close>

lemma unescape_PathEscape: "unescape False (PathEscape s @ t) = map_option (append s) (unescape False t)"
proof (induction s)
  case Nil
  then show ?case by (cases "unescape False t") (simp_all add: PathEscape_def)
next
  case (Cons c s)
  have split: "PathEscape (c # s) = (if unreserved c \<or> c \<in> set ''$&+=:@'' then [c] else percent c) @ PathEscape s"
    by (simp add: PathEscape_def)
  have "c \<noteq> CHR ''%''" if "unreserved c \<or> c \<in> set ''$&+=:@''"
  proof
    assume "c = CHR ''%''"
    moreover have "\<not> unreserved (CHR ''%'')" by code_simp
    ultimately show False using that by simp
  qed
  moreover have "char_of (16 * (byte c div 16) + byte c mod 16) = c" by (simp add: byte_def)
  moreover have "byte c div 16 < 16" "byte c mod 16 < 16" using byte_less [of c] by auto
  ultimately show ?case
    using Cons by (cases "unescape False t") (auto simp: split percent_def hex_val_upper)
qed

interpretation path_codec: codec PathEscape "unescape False" "\<lambda>_. True"
  using unescape_PathEscape [where t = "[]"] by unfold_locales simp

text \<open>So different clients are listed under different paths.\<close>

lemma list_paths_differ:
  "''/open/v1/apps/'' @ PathEscape cid @ ''/permissions'' = ''/open/v1/apps/'' @ PathEscape cid' @ ''/permissions'' \<longleftrightarrow> cid = cid'"
  by (simp add: path_codec.encode_inject)

lemma unescape_plain: "CHR ''%'' \<notin> set s \<Longrightarrow> unescape False s = Some s"
  by (induction s) auto

lemma received_at:
  assumes "url r = base @ raw" and "CHR ''?'' \<notin> set raw" and "unescape False raw = Some p" and "p \<noteq> []"
  shows "received base r = Some (Some \<lparr>hr_Method = meth r, hr_Path = p, hr_RawQuery = [], hr_Header = headers r,
      hr_Body = payload r\<rparr>)"
proof -
  have "takeWhile (\<lambda>c. c \<noteq> CHR ''?'') raw = raw" using assms(2) unfolding takeWhile_eq_all_conv by blast
  moreover have "take (length base) (base @ raw) = base" "drop (length base) (base @ raw) = raw" by simp_all
  ultimately show ?thesis
    using assms(3,4) by (simp only: received_def has_prefix_def assms(1) Let_def option.map if_False if_True not_True_eq_False simp_thms)
qed

section \<open>The answer to a resolution\<close>

lemma collect_first:
  "collect_perms (first_occurrences past) ps = first_occurrences (past @ ps)"
proof (induction ps arbitrary: past)
  case (Cons p ps)
  have "collect_perms (first_occurrences past) (p # ps) = collect_perms (first_occurrences (past @ [p])) ps"
    by (simp add: first_occurrences_snoc)
  then show ?case using Cons [of "past @ [p]"] by simp
qed simp

text \<open>What a test has given a role, and the union over roles in the order of first occurrence.\<close>

definition given_to :: "MockServer \<Rightarrow> string \<Rightarrow> string list" where
  "given_to m role = (case map_of (ms_roleToPerms m) role of None \<Rightarrow> [] | Some ps \<Rightarrow> ps)"

definition given_union :: "MockServer \<Rightarrow> string list \<Rightarrow> string list" where
  "given_union m roles = first_occurrences (concat (map (given_to m) roles))"

lemma collect_given:
  "collect_roles (map_of (ms_roleToPerms m)) (first_occurrences past) roles =
     first_occurrences (past @ concat (map (given_to m) roles))"
proof (induction roles arbitrary: past)
  case (Cons r rs)
  then show ?case
    using collect_first [of past "given_to m r"] Cons [of "past @ given_to m r"] by (simp add: given_to_def)
qed simp

lemma given_union_collected: "collect_roles (map_of (ms_roleToPerms m)) [] roles = given_union m roles"
  using collect_given [of m "[]" roles] by (simp add: given_union_def)

lemma given_union_set: "set (given_union m roles) = (\<Union>r \<in> set roles. set (given_to m r))" "distinct (given_union m roles)"
  by (auto simp: given_union_def)

lemma decode_resolve_body:
  assumes "valid_utf8 cid" and "\<forall>r \<in> set roles. valid_utf8 r"
  shows "decodeFirstJSON dec_resolve_request ([], None) (marshal (resolve_body cid roles)) = Inr (cid, Some roles)"
proof -
  have "encodable (resolve_body cid roles)"
    using assms by (simp add: resolve_body_def valid_utf8_ascii byte_def)
  then have "decode_first (marshal (resolve_body cid roles)) = Some (resolve_body cid roles, [])"
    using decode_marshal [of "resolve_body cid roles" "[]"] by simp
  moreover have "dec_resolve_request (resolve_body cid roles) ([], None) = Some (cid, Some roles)"
    by (simp add: dec_resolve_request_def resolve_body_def dec_field_def values_of_def equal_fold_def runes_def
        fold_rune_def byte_def dec_strings_map)
  ultimately show ?thesis by (simp add: decodeFirstJSON_def)
qed

definition resolution :: "MockServer \<Rightarrow> string list \<Rightarrow> json" where
  "resolution m roles = JObj [(''permissions'',
     if given_union m roles = [] then JNull else JArr (map JStr (given_union m roles)))]"

lemma resolve_served:
  assumes "ms_issuer m = ClientEndpoint c" and "valid_utf8 cid" and "\<forall>r \<in> set roles. valid_utf8 r"
  shows "fst (serve1 err (resolve_request c cid roles) m) = Inr (writeJSON (resolution m roles))"
proof -
  let ?q = "resolve_request c cid roles"
  have "received (ms_issuer m) ?q = Some (Some \<lparr>hr_Method = ''POST'', hr_Path = ''/open/v1/permissions:resolve'',
      hr_RawQuery = [], hr_Header = headers ?q, hr_Body = marshal (resolve_body cid roles)\<rparr>)"
    using received_at [of ?q "ms_issuer m" "''/open/v1/permissions:resolve''" "''/open/v1/permissions:resolve''"] assms(1)
    by (simp add: unescape_plain resolve_request_def client_request_def)
  then show ?thesis
    using decode_resolve_body [OF assms(2,3)]
    by (simp add: serve1_def handle_def resolve_handler_def given_union_collected resolution_def gomap_def)
qed

lemma grant_encodable:
  assumes "grants ks"
  shows "\<forall>k \<in> set ks. valid_utf8 k"
proof
  fix k assume "k \<in> set ks"
  with assms have "valid_resolved_key k" by (auto simp: grants_def valid_key_iff)
  then have "ascii k"
    unfolding valid_key_cases using segment_ascii
    by (auto simp: concretePermissionSegment_def repeated_def byte_def)
  then show "valid_utf8 k" by (rule valid_utf8_ascii)
qed

lemma resolution_decodes:
  assumes "grants (given_union m roles)"
  shows "decodeStrictJSON dec_resolve_wire zero_resolve (body (writeJSON (resolution m roles))) =
    Inr \<lparr>rw_permissions = (if given_union m roles = [] then None else Some (Some (given_union m roles)))\<rparr>"
proof (rule decodeStrictJSON_eval)
  have "encodable (resolution m roles)"
    using grant_encodable [OF assms] by (auto simp: resolution_def valid_utf8_ascii byte_def)
  then have "parse_json (body (writeJSON (resolution m roles))) = Some (resolution m roles)"
    using parse_marshal_line by (simp add: writeJSON_def writeJSONStatus_def)
  then show "rejectDuplicateJSONMembers (body (writeJSON (resolution m roles))) = Inr (resolution m roles)"
    by (auto simp: rejectDuplicate_Inr resolution_def)
  show "dec_resolve_wire (resolution m roles) zero_resolve =
      Some \<lparr>rw_permissions = (if given_union m roles = [] then None else Some (Some (given_union m roles)))\<rparr>"
    using resolve_document_decodes
    by (simp add: resolution_def dec_resolve_wire_def zero_resolve_def dec_field_def values_of_def only_fields_def dec_slice_ptr_def)
qed

section \<open>The answer to a listing\<close>

definition listed :: "MockServer \<Rightarrow> string list" where
  "listed m = list_keys [] (concat (map snd (ms_roleToPerms m)))"

lemma list_keys_props:
  "set (list_keys seen keys) = {k \<in> set keys. CHR '':'' \<in> set k} - set seen" "distinct (list_keys seen keys)"
proof -
  have "set (list_keys seen keys) = {k \<in> set keys. CHR '':'' \<in> set k} - set seen \<and> distinct (list_keys seen keys)"
    by (induction seen keys rule: list_keys.induct) auto
  then show "set (list_keys seen keys) = {k \<in> set keys. CHR '':'' \<in> set k} - set seen" "distinct (list_keys seen keys)"
    by simp_all
qed

definition list_request :: "Client \<Rightarrow> string \<Rightarrow> request" where
  "list_request c cid = client_request c ''GET'' (''/open/v1/apps/'' @ PathEscape cid @ ''/permissions'') None (signRequest (cl_cfg c))"

definition listing :: "MockServer \<Rightarrow> string \<Rightarrow> json" where
  "listing m cid = JObj [(''applicationId'', JStr ''123e4567-e89b-42d3-a456-426614174000''), (''clientId'', JStr cid),
     (''roles'', JArr [JObj [(''key'', JStr ''registered''), (''name'', JStr ''Registered''),
        (''permissions'', JArr (map JStr (listed m)))]])]"

lemma extract_listed: "extractClientID (''/open/v1/apps/'' @ cid @ ''/permissions'') [] = cid"
  by (simp add: extractClientID_def has_prefix_def has_suffix_def)

lemma list_served:
  assumes "ms_issuer m = ClientEndpoint c"
  shows "fst (serve1 err (list_request c cid) m) = Inr (writeJSON (listing m cid))"
proof -
  let ?q = "list_request c cid" and ?p = "''/open/v1/apps/'' @ cid @ ''/permissions''"
  let ?h = "\<lparr>hr_Method = ''GET'', hr_Path = ?p, hr_RawQuery = [], hr_Header = headers ?q, hr_Body = []\<rparr>"
  have plain: "unescape False ''/permissions'' = Some ''/permissions''"
    by (rule unescape_plain) simp
  have "unescape False (PathEscape cid @ ''/permissions'') = Some (cid @ ''/permissions'')"
    unfolding unescape_PathEscape plain by simp
  then have "unescape False (''/open/v1/apps/'' @ PathEscape cid @ ''/permissions'') = Some ?p" by simp
  moreover have "CHR ''?'' \<notin> set (''/open/v1/apps/'' @ PathEscape cid @ ''/permissions'')"
    using PathEscape_chars by auto
  ultimately have "received (ms_issuer m) ?q = Some (Some ?h)"
    using received_at [of ?q "ms_issuer m" "''/open/v1/apps/'' @ PathEscape cid @ ''/permissions''" ?p] assms
    by (simp add: list_request_def client_request_def)
  moreover have "has_suffix ''/permissions'' ?p" by (simp add: has_suffix_def)
  then have "handle err ?h m = (list_handler ?h m, m)"
    by (simp add: handle_def invitations_path_def has_prefix_def)
  moreover have "list_handler ?h m = writeJSON (listing m cid)"
    using extract_listed [of cid] by (simp add: list_handler_def gomap_def listing_def listed_def)
  ultimately show ?thesis by (simp add: serve1_def)
qed

lemma valid_utf8_grants: "list_all valid_resolved_key ks \<Longrightarrow> distinct ks \<Longrightarrow> \<forall>k \<in> set ks. valid_utf8 k"
  by (rule grant_encodable) (auto simp: grants_def list_all_iff valid_key_iff)

lemma listing_decodes:
  assumes "list_all valid_resolved_key (listed m)" and "valid_utf8 cid"
  shows "\<exists>wire. decodeStrictJSON dec_snapshot zero_snapshot (body (writeJSON (listing m cid))) = Inr wire \<and>
     parsePermissionSnapshot wire cid = Inr (map split_key (listed m))"
proof -
  let ?role = "\<lparr>sr_key = Some ''registered'', sr_name = Some ''Registered'', sr_permissions = Some (Some (listed m))\<rparr>"
  let ?wire = "\<lparr>sw_applicationId = Some ''123e4567-e89b-42d3-a456-426614174000'', sw_clientId = Some cid,
      sw_roles = Some (Some [?role])\<rparr>"
  have d: "distinct (listed m)" by (simp add: listed_def list_keys_props)
  have "encodable (listing m cid)"
    using valid_utf8_grants [OF assms(1) d] assms(2) by (auto simp: listing_def valid_utf8_ascii byte_def)
  then have "parse_json (body (writeJSON (listing m cid))) = Some (listing m cid)"
    using parse_marshal_line by (simp add: writeJSON_def writeJSONStatus_def)
  then have doc: "rejectDuplicateJSONMembers (body (writeJSON (listing m cid))) = Inr (listing m cid)"
    by (auto simp: rejectDuplicate_Inr listing_def)
  have "dec_snapshot_role (JObj [(''key'', JStr ''registered''), (''name'', JStr ''Registered''),
        (''permissions'', JArr (map JStr (listed m)))]) zero_snapshot_role = Some ?role"
    by (simp add: dec_snapshot_role_def zero_snapshot_role_def dec_field_def values_of_def only_fields_def equal_fold_def
        runes_def fold_rune_def byte_def dec_slice_ptr_def dec_strings_map)
  then have "dec_snapshot (listing m cid) zero_snapshot = Some ?wire"
    by (simp add: listing_def dec_snapshot_def zero_snapshot_def dec_field_def values_of_def only_fields_def equal_fold_def
        runes_def fold_rune_def byte_def dec_slice_ptr_def)
  with doc have "decodeStrictJSON dec_snapshot zero_snapshot (body (writeJSON (listing m cid))) = Inr ?wire"
    by (rule decodeStrictJSON_eval)
  moreover have "canonicalPermissionSnapshotUUID ''123e4567-e89b-42d3-a456-426614174000''"
    by (simp add: canonicalPermissionSnapshotUUID_def repeated_def lower_hex_def less_eq_char_def)
  moreover have "permissionSegment ''registered''" by code_simp
  moreover have "\<not> blank ''Registered''" by (simp add: blank_def trim_space_def is_space_def byte_def)
  moreover have "first_occurrences (listed m) = listed m"
    using d by (simp add: first_occurrences_def distinct_remdups_id)
  ultimately show ?thesis
    using assms(1) d
    by (intro exI [of _ ?wire]) (simp add: parsePermissionSnapshot_iff role_ok_def role_permissions_def slice_of_def)
qed

text \<open>Listing against the test server gives every permission it was given, each once.\<close>

lemma mock_listing:
  assumes "retry_law retry" and "rt_net rt = mock_net err delay m" and "\<And>h r. int (delay h r) \<le> d"
    and "answers_within c d" and "ms_issuer m = ClientEndpoint c" and "rt_url_ok rt (url (list_request c cid))"
    and "done_at cx = None" and "valid_utf8 cid" and "list_all valid_resolved_key (listed m)"
  shows "fst (ClientListPermissions retry rt cx c cid w) = Inr (map split_key (listed m))"
proof -
  let ?q = "list_request c cid" and ?resp = "writeJSON (listing m cid)" and ?m = "run_server err (sent w) m"
  have frame: "ms_issuer ?m = ms_issuer m" "listed ?m = listed m"
    using run_server_frame [of m err "sent w"] by (simp_all add: same_setup_def listed_def)
  then have "fst (serve1 err ?q ?m) = Inr ?resp"
    using list_served [of ?m c err cid] assms(5) by (simp add: listing_def)
  then have net: "recovers (rt_net rt) ?q (sent w) d 0 ?resp"
    using assms(2,3) by (simp add: recovers_def mock_net_def)
  obtain wire where wire: "decodeStrictJSON dec_snapshot zero_snapshot (body ?resp) = Inr wire"
      "parsePermissionSnapshot wire cid = Inr (map split_key (listed m))"
    using listing_decodes [OF assms(9,8)] by blast
  obtain w' where "doJSONStrictRetry retry rt cx c ''GET'' (''/open/v1/apps/'' @ PathEscape cid @ ''/permissions'') None
      dec_snapshot (zero_snapshot, w) = (None, wire, w')"
    using strict_retry_survives [OF assms(1) list_request_def net assms(4,6,7) _ _ _ _ wire(1)]
    by (auto simp: writeJSON_def writeJSONStatus_def max_elapsed_def)
  with wire(2) show ?thesis by (simp add: ClientListPermissions_def)
qed

section \<open>Properties\<close>


definition sample_mock :: MockServer where
  "sample_mock = server_Given ''admin'' [''posts:read''] (the (NewMockServer (Some JNull) ''https://iam''))"


end
