(* ===== verification/Jwt_Concurrent.thy ===== *)
theory Jwt_Concurrent
  imports Jwt
begin

text \<open>
  The key-set provider under concurrent callers (jwt/jwks.go).  The theory \<open>Jwt\<close> runs one call at a time;
  here any number of goroutines call \<open>KeyByID\<close> and \<open>Preload\<close>, and their steps interleave.  A step is what the
  source does while it holds the mutex, or the arrival of an answer: the lookup, the gate of the rotation
  cooldown, the answer, the installation of the key set, and the second lookup.  Between steps time passes.
\<close>

section \<open>States and steps\<close>

text \<open>
  Where a goroutine is.  \<open>Fetching\<close> and \<open>Installing\<close> carry the key id that a \<open>KeyByID\<close> waits for, or nothing
  for \<open>Preload\<close>; \<open>Returned\<close> has the time of the last lookup.
\<close>

datatype 'k pc = Idle | Looking string | Gating string | Fetching "string option" | Installing "string option" "'k list"
  | Relooking string | Returned string "jwt_error + 'k" int | Preloaded "jwt_error + unit"

text \<open>
  The provider, the clock and the goroutines, with two logs that the code does not have: when the gate was
  passed, and which key sets were installed when (both with the latest entry first).
\<close>

record 'k jstate =
  js_p :: "'k jwks"
  js_now :: int
  js_pc :: "nat \<Rightarrow> 'k pc"
  js_passes :: "int list"
  js_installed :: "('k list \<times> int) list"

datatype 'k event = Tick nat | Call nat string | CallPreload nat | Look nat | Gate nat | Receive nat "jwt_error + 'k list" | Install nat

definition move :: "nat \<Rightarrow> 'k pc \<Rightarrow> 'k jstate \<Rightarrow> 'k jstate" where
  "move i c s = s\<lparr>js_pc := (js_pc s)(i := c)\<rparr>"

fun at_rest :: "'k pc \<Rightarrow> bool" where
  "at_rest Idle = True"
| "at_rest (Returned kid r t) = True"
| "at_rest (Preloaded r) = True"
| "at_rest c = False"

definition look_step :: "('k \<Rightarrow> string) \<Rightarrow> nat \<Rightarrow> 'k jstate \<Rightarrow> 'k jstate option" where
  "look_step key_id i s = (case js_pc s i of
     Looking kid \<Rightarrow> Some (move i (case lookup key_id (js_p s) (js_now s) kid of
         Some k \<Rightarrow> Returned kid (Inr k) (js_now s) | None \<Rightarrow> Gating kid) s)
   | Relooking kid \<Rightarrow> Some (move i (Returned kid (case lookup key_id (js_p s) (js_now s) kid of
         Some k \<Rightarrow> Inr k | None \<Rightarrow> Inl (UnknownKid kid)) (js_now s)) s)
   | _ \<Rightarrow> None)"

definition gate_step :: "nat \<Rightarrow> 'k jstate \<Rightarrow> 'k jstate option" where
  "gate_step i s = (case js_pc s i of
     Gating kid \<Rightarrow>
       (if since (lastForcedRefresh (js_p s)) (js_now s) < cooldown (js_p s)
        then Some (move i (Returned kid (Inl (RotationCooldown kid)) (js_now s)) s)
        else Some (move i (Fetching (Some kid)) (s\<lparr>js_p := (js_p s)\<lparr>lastForcedRefresh := Some (js_now s)\<rparr>,
               js_passes := js_now s # js_passes s\<rparr>)))
   | _ \<Rightarrow> None)"

definition receive_step :: "nat \<Rightarrow> jwt_error + 'k list \<Rightarrow> 'k jstate \<Rightarrow> 'k jstate option" where
  "receive_step i answer s = (case (js_pc s i, answer) of
     (Fetching (Some kid), Inl e) \<Rightarrow> Some (move i (Returned kid (Inl e) (js_now s)) s)
   | (Fetching None, Inl e) \<Rightarrow> Some (move i (Preloaded (Inl e)) s)
   | (Fetching c, Inr ks) \<Rightarrow> Some (move i (Installing c ks) s)
   | _ \<Rightarrow> None)"

definition install_step :: "nat \<Rightarrow> 'k jstate \<Rightarrow> 'k jstate option" where
  "install_step i s = (case js_pc s i of
     Installing c ks \<Rightarrow> Some (move i (case c of Some kid \<Rightarrow> Relooking kid | None \<Rightarrow> Preloaded (Inr ()))
       (s\<lparr>js_p := (js_p s)\<lparr>key_set := Some ks, lastFetch := Some (js_now s)\<rparr>, js_installed := (ks, js_now s) # js_installed s\<rparr>))
   | _ \<Rightarrow> None)"

fun exec :: "('k \<Rightarrow> string) \<Rightarrow> 'k event \<Rightarrow> 'k jstate \<Rightarrow> 'k jstate option" where
  "exec key_id (Tick d) s = Some (s\<lparr>js_now := js_now s + int d\<rparr>)"
| "exec key_id (Call i kid) s = (if at_rest (js_pc s i) then Some (move i (Looking kid) s) else None)"
| "exec key_id (CallPreload i) s = (if at_rest (js_pc s i) then Some (move i (Fetching None) s) else None)"
| "exec key_id (Look i) s = look_step key_id i s"
| "exec key_id (Gate i) s = gate_step i s"
| "exec key_id (Receive i answer) s = receive_step i answer s"
| "exec key_id (Install i) s = install_step i s"

fun execs :: "('k \<Rightarrow> string) \<Rightarrow> 'k event list \<Rightarrow> 'k jstate \<Rightarrow> 'k jstate option" where
  "execs key_id [] s = Some s"
| "execs key_id (e # es) s = Option.bind (exec key_id e s) (execs key_id es)"

definition quiet :: "'k jwks \<Rightarrow> int \<Rightarrow> 'k jstate" where
  "quiet p now = \<lparr>js_p = p, js_now = now, js_pc = (\<lambda>_. Idle), js_passes = [], js_installed = []\<rparr>"

lemma execs_append: "execs key_id (es @ es') s = Option.bind (execs key_id es s) (execs key_id es')"
  by (induction es arbitrary: s) (simp_all split: Option.bind_splits)

lemmas step_defs = look_step_def gate_step_def receive_step_def install_step_def move_def

section \<open>The invariant\<close>

fun spaced :: "int \<Rightarrow> int list \<Rightarrow> bool" where
  "spaced c (t # u # ts) = (c \<le> t - u \<and> spaced c (u # ts))"
| "spaced c ts = True"

definition gate_ok :: "int \<Rightarrow> 'k jstate \<Rightarrow> bool" where
  "gate_ok c s \<longleftrightarrow> cooldown (js_p s) = c \<and> spaced c (js_passes s) \<and> (\<forall>t \<in> set (js_passes s). t \<le> js_now s) \<and>
     lastForcedRefresh (js_p s) = (case js_passes s of [] \<Rightarrow> None | t # _ \<Rightarrow> Some t)"

definition cache_ok :: "int \<Rightarrow> 'k jstate \<Rightarrow> bool" where
  "cache_ok r s \<longleftrightarrow> refresh (js_p s) = r \<and> (\<forall>(ks, t) \<in> set (js_installed s). t \<le> js_now s) \<and>
     (case js_installed s of [] \<Rightarrow> key_set (js_p s) = None
      | (ks, t) # _ \<Rightarrow> key_set (js_p s) = Some ks \<and> lastFetch (js_p s) = Some t)"

text \<open>A key that was returned at \<open>t\<close> has the id that was asked for and comes from a recent key set.\<close>

definition from_recent :: "('k \<Rightarrow> string) \<Rightarrow> int \<Rightarrow> ('k list \<times> int) list \<Rightarrow> string \<Rightarrow> 'k \<Rightarrow> int \<Rightarrow> bool" where
  "from_recent key_id r log kid k t \<longleftrightarrow> key_id k = kid \<and> (\<exists>(ks, u) \<in> set log. k \<in> set ks \<and> u \<le> t \<and> t - u \<le> r)"

definition returns_ok :: "('k \<Rightarrow> string) \<Rightarrow> int \<Rightarrow> 'k jstate \<Rightarrow> bool" where
  "returns_ok key_id r s \<longleftrightarrow> (\<forall>i kid k t. js_pc s i = Returned kid (Inr k) t \<longrightarrow> from_recent key_id r (js_installed s) kid k t)"

lemma gate_kept: "gate_ok c s \<Longrightarrow> exec key_id e s = Some s' \<Longrightarrow> gate_ok c s'"
  by (cases e) (force simp: gate_ok_def step_defs since_def split: if_splits pc.splits list.splits sum.splits option.splits)+

lemma cache_kept: "cache_ok r s \<Longrightarrow> exec key_id e s = Some s' \<Longrightarrow> cache_ok r s'"
  by (cases e) (force simp: cache_ok_def step_defs split: if_splits pc.splits list.splits sum.splits option.splits)+

lemma lookup_recent:
  assumes "cache_ok r s" and "lookup key_id (js_p s) (js_now s) kid = Some k"
  shows "from_recent key_id r (js_installed s) kid k (js_now s)"
proof (cases "js_installed s")
  case Nil
  with assms show ?thesis by (simp add: cache_ok_def lookup_def)
next
  case (Cons x log)
  obtain ks u where x: "x = (ks, u)" by fastforce
  with Cons assms(1) have p: "key_set (js_p s) = Some ks" "lastFetch (js_p s) = Some u" "refresh (js_p s) = r" "u \<le> js_now s"
    by (auto simp: cache_ok_def)
  with assms(2) have f: "find (\<lambda>k. key_id k = kid) ks = Some k" "js_now s - u \<le> r"
    by (auto simp: lookup_def needsRefresh_def since_def split: if_splits)
  then have "k \<in> set ks \<and> key_id k = kid" by (auto simp: find_Some_iff)
  with Cons x p f show ?thesis by (auto simp: from_recent_def)
qed

lemma from_recent_mono: "from_recent key_id r log kid k t \<Longrightarrow> from_recent key_id r (x # log) kid k t"
  by (auto simp: from_recent_def)

lemma returns_kept:
  assumes "cache_ok r s" and "returns_ok key_id r s" and "exec key_id e s = Some s'"
  shows "returns_ok key_id r s'"
proof (cases e)
  case (Look i)
  with assms lookup_recent [OF assms(1)] show ?thesis
    by (auto simp: returns_ok_def look_step_def move_def split: pc.splits option.splits if_splits)
next
  case (Install i)
  with assms show ?thesis
    by (auto simp: returns_ok_def install_step_def move_def intro!: from_recent_mono split: pc.splits option.splits if_splits)
qed (use assms in \<open>auto simp: returns_ok_def gate_step_def receive_step_def move_def
    split: if_splits pc.splits sum.splits option.splits\<close>)

lemma invariant_kept:
  "\<lbrakk>gate_ok c s; cache_ok r s; returns_ok key_id r s; execs key_id es s = Some s'\<rbrakk> \<Longrightarrow>
   gate_ok c s' \<and> cache_ok r s' \<and> returns_ok key_id r s'"
proof (induction es arbitrary: s)
  case (Cons e es)
  then obtain s1 where "exec key_id e s = Some s1" "execs key_id es s1 = Some s'" by (auto split: Option.bind_splits)
  with Cons gate_kept cache_kept returns_kept show ?case by blast
qed simp

lemma spaced_window: "0 < c \<Longrightarrow> spaced c ts \<Longrightarrow> length (filter (\<lambda>t. a \<le> t \<and> t < a + c) ts) \<le> 1"
proof -
  have below: "spaced c (t # ts) \<Longrightarrow> u \<in> set ts \<Longrightarrow> u + c \<le> t" if "0 < c" for t u ts
    using that by (induction ts arbitrary: t) (fastforce split: list.splits)+
  show "0 < c \<Longrightarrow> spaced c ts \<Longrightarrow> length (filter (\<lambda>t. a \<le> t \<and> t < a + c) ts) \<le> 1"
  proof (induction ts)
    case (Cons t ts)
    have "spaced c ts" using Cons.prems by (cases ts) auto
    moreover have "filter (\<lambda>u. a \<le> u \<and> u < a + c) ts = []" if "a \<le> t" "t < a + c"
      using below [OF Cons.prems] that by (fastforce simp: filter_empty_conv)
    ultimately show ?case using Cons by auto
  qed simp
qed

section \<open>One caller\<close>

text \<open>A call of the sequential model is a run of one goroutine with nobody else around.\<close>

lemma sequential_run:
  assumes run: "KeyByID net parse_set key_id c kid (p, w) = (r, p', w')" and rest: "at_rest (js_pc s 0)"
    and s: "js_p s = p" "js_now s = clock w"
  shows "\<exists>es s' t. execs key_id es s = Some s' \<and> js_p s' = p' \<and> js_now s' = clock w' \<and> js_pc s' 0 = Returned kid r t"
proof (cases "lookup key_id p (clock w) kid")
  case (Some k)
  with run s rest show ?thesis
    by (intro exI [of _ "[Call 0 kid, Look 0]"]) (simp add: KeyByID_def step_defs)
next
  case miss: None
  show ?thesis
  proof (cases "since (lastForcedRefresh p) (clock w) < cooldown p")
    case True
    with miss run s rest show ?thesis
      by (intro exI [of _ "[Call 0 kid, Look 0, Gate 0]"]) (simp add: KeyByID_def step_defs)
  next
    case False
    let ?p = "p\<lparr>lastForcedRefresh := Some (clock w)\<rparr>"
    obtain answer p1 w1 where f: "fetch net parse_set c (?p, w) = (answer, p1, w1)" by (metis prod_cases3)
    have p1: "p1 = (case answer of Inl e \<Rightarrow> ?p | Inr ks \<Rightarrow> ?p\<lparr>key_set := Some ks, lastFetch := Some (clock w1)\<rparr>)"
      using f by (auto simp: fetch_def split: sum.splits prod.splits if_splits option.splits)
    have "clock w \<le> clock w1"
      using f exchange_clock_mono [of w net c "\<lparr>meth = ''GET'', url = jwksURL ?p, headers = [], payload = []\<rparr>"]
      by (auto simp: fetch_def split: sum.splits prod.splits if_splits option.splits)
    then have now: "clock w + int (nat (clock w1 - clock w)) = clock w1" by simp
    let ?es = "[Call 0 kid, Look 0, Gate 0, Tick (nat (clock w1 - clock w)), Receive 0 answer]"
    show ?thesis
    proof (cases answer)
      case (Inl e)
      with miss False run s rest f p1 now show ?thesis
        by (intro exI [of _ ?es]) (simp add: KeyByID_def step_defs)
    next
      case (Inr ks)
      with miss False run s rest f p1 now show ?thesis
        by (intro exI [of _ "?es @ [Install 0, Look 0]"]) (auto simp: KeyByID_def step_defs split: option.splits)
    qed
  qed
qed

section \<open>Properties\<close>

text \<open>
  C17. Concurrent callers.  However the steps of any number of callers interleave with the passing of
  time, the gate is passed at most once in any stretch of time as long as the cooldown, so at most one key
  set is asked for by lookups in it; and every key that is returned has the id that was asked for and
  comes from a key set installed at most the refresh interval before.
\<close>

theorem concurrent_keys:
  assumes "NewJWKSProvider opts = Inr p" and "execs key_id es (quiet p now) = Some s"
  shows "length (filter (\<lambda>t. a \<le> t \<and> t < a + cooldown p) (js_passes s)) \<le> 1 \<and>
    (\<forall>i kid k t. js_pc s i = Returned kid (Inr k) t \<longrightarrow> from_recent key_id (refresh p) (js_installed s) kid k t)"
proof -
  from assms(1) have p: "key_set p = None" "lastForcedRefresh p = None" "0 < cooldown p"
    by (auto simp: NewJWKSProvider_def split: if_splits)
  have "gate_ok (cooldown p) (quiet p now)" "cache_ok (refresh p) (quiet p now)" "returns_ok key_id (refresh p) (quiet p now)"
    using p by (simp_all add: quiet_def gate_ok_def cache_ok_def returns_ok_def)
  from invariant_kept [OF this assms(2)] spaced_window [OF p(3)] show ?thesis
    by (simp add: gate_ok_def returns_ok_def)
qed

definition sample_provider :: "string jwks" where
  "sample_provider = \<lparr>jwksURL = ''u'', refresh = hour, cooldown = 10 * second, key_set = None, lastFetch = None,
     lastForcedRefresh = None\<rparr>"

lemma sample_provider_new:
  "NewJWKSProvider \<lparr>j_URL = ''u'', j_Refresh = 0, j_RotationCooldown = 0\<rparr> = Inr sample_provider"
  by (simp add: NewJWKSProvider_def sample_provider_def)

text \<open>
  Two callers ask for the same key while nothing is cached: the second is refused although the answer
  with its key is on the way.
\<close>

lemma first_fetch_refuses:
  "\<exists>s. execs id [Call 0 ''k'', Call 1 ''k'', Look 0, Look 1, Gate 0, Tick 5, Gate 1, Receive 0 (Inr [''k'']), Install 0, Look 0]
       (quiet sample_provider 0) = Some s \<and>
     js_pc s 1 = Returned ''k'' (Inl (RotationCooldown ''k'')) 5 \<and> js_pc s 0 = Returned ''k'' (Inr ''k'') 5"
  by (simp add: step_defs quiet_def sample_provider_def since_def lookup_def needsRefresh_def)

text \<open>
  Two fetches overlap and the slower one brings an older key set: it replaces the newer one and counts as
  fresh for a whole refresh interval.
\<close>

lemma older_set_replaces_newer:
  "\<exists>s. execs id [CallPreload 0, CallPreload 1, Receive 0 (Inr [''old'']), Tick 1, Receive 1 (Inr [''new'']), Install 1, Tick 1, Install 0]
       (quiet sample_provider 0) = Some s \<and>
     key_set (js_p s) = Some [''old''] \<and> \<not> needsRefresh (js_p s) (js_now s + hour)"
  by (simp add: step_defs quiet_def sample_provider_def since_def needsRefresh_def)

theorem concurrent_keys_witness:
  "\<exists>s. execs id [Call 0 ''k'', Call 1 ''k'', Look 0, Look 1, Gate 0, Tick 5, Gate 1, Receive 0 (Inr [''k'']), Install 0, Look 0]
       (quiet sample_provider 0) = Some s \<and> from_recent id hour (js_installed s) ''k'' ''k'' 5 \<and>
     length (filter (\<lambda>t. 0 \<le> t \<and> t < 0 + 10 * second) (js_passes s)) \<le> 1"
proof -
  obtain s where s: "execs id [Call 0 ''k'', Call 1 ''k'', Look 0, Look 1, Gate 0, Tick 5, Gate 1, Receive 0 (Inr [''k'']), Install 0, Look 0]
       (quiet sample_provider 0) = Some s" "js_pc s 0 = Returned ''k'' (Inr ''k'') 5"
    using first_fetch_refuses by blast
  have "refresh sample_provider = hour" "cooldown sample_provider = 10 * second" by (simp_all add: sample_provider_def)
  with concurrent_keys [OF sample_provider_new s(1), of 0] s show ?thesis by auto
qed

end
