(* ===== verification/Resolver_Concurrent.thy ===== *)
theory Resolver_Concurrent
  imports Resolver
begin

text \<open>
  The resolver under concurrent callers (authz/http_resolver.go with golang.org/x/sync/singleflight).  The
  steps of any number of calls of \<open>Resolve\<close>, \<open>Invalidate\<close> and \<open>Clear\<close> interleave: the lookup in the cache,
  joining or opening a flight for the key, the answer of the server, the store, and the end of the flight,
  which hands its outcome to everyone who joined.  singleflight is a third-party package: \<open>join_step\<close> and
  \<open>finish_step\<close> state what \<open>Do\<close> documents, that a caller who comes while a call for its key is in flight
  waits for it and gets its results.
\<close>

section \<open>States and steps\<close>

datatype 'e rpc = RIdle
  | RLooking string "string list"
  | RJoining string "string list"
  | RLeading string "string list"
  | RWaiting string "string list"
  | RStoring string "string list" "string list"
  | RFinishing string "string list" "'e + string list"
  | RReturned string "string list" bool "'e + string list" int

text \<open>
  The cache, the clock, the flights with their leaders and the callers, with logs of the answers of the server
  and of the stores, which the code does not have.  \<open>RReturned\<close> says whether the cache was hit.
\<close>

record ('c, 'e) rstate =
  rs_cache :: 'c
  rs_now :: int
  rs_flights :: "string \<rightharpoonup> nat"
  rs_pc :: "nat \<Rightarrow> 'e rpc"
  rs_answers :: "(string \<times> string list \<times> int) list"
  rs_stores :: "(string \<times> string list \<times> int) list"

datatype 'e revent = RTick nat | RCall nat string "string list" | RLook nat | RJoin nat | RAnswer nat "'e + string list"
  | RStore nat | RFinish nat | RInvalidate string "string list" | RClear

definition rmove :: "nat \<Rightarrow> 'e rpc \<Rightarrow> ('c, 'e) rstate \<Rightarrow> ('c, 'e) rstate" where
  "rmove i c s = s\<lparr>rs_pc := (rs_pc s)(i := c)\<rparr>"

definition call_step :: "nat \<Rightarrow> string \<Rightarrow> string list \<Rightarrow> ('c, 'e) rstate \<Rightarrow> ('c, 'e) rstate option" where
  "call_step i cid roles s = (if (case rs_pc s i of RIdle \<Rightarrow> True | RReturned c r h res t \<Rightarrow> True | _ \<Rightarrow> False)
     then Some (rmove i (if roles = [] then RReturned cid roles False (Inr []) (rs_now s) else RLooking cid roles) s) else None)"

definition cached_step ::
  "('c, string list) cache_ops \<Rightarrow> nat \<Rightarrow> ('c, 'e) rstate \<Rightarrow> ('c, 'e) rstate option" where
  "cached_step ops i s = (case rs_pc s i of
     RLooking cid roles \<Rightarrow> (case c_get ops (rs_cache s) (cacheKey cid roles) (rs_now s) of (hit, c) \<Rightarrow>
       Some (rmove i (case hit of Some v \<Rightarrow> RReturned cid roles True (Inr v) (rs_now s) | None \<Rightarrow> RJoining cid roles)
         (s\<lparr>rs_cache := c\<rparr>)))
   | _ \<Rightarrow> None)"

definition join_step :: "nat \<Rightarrow> ('c, 'e) rstate \<Rightarrow> ('c, 'e) rstate option" where
  "join_step i s = (case rs_pc s i of
     RJoining cid roles \<Rightarrow>
       (if rs_flights s (cacheKey cid roles) = None
        then Some (rmove i (RLeading cid roles) (s\<lparr>rs_flights := (rs_flights s)(cacheKey cid roles \<mapsto> i)\<rparr>))
        else Some (rmove i (RWaiting cid roles) s))
   | _ \<Rightarrow> None)"

definition answer_step :: "nat \<Rightarrow> 'e + string list \<Rightarrow> ('c, 'e) rstate \<Rightarrow> ('c, 'e) rstate option" where
  "answer_step i answer s = (case rs_pc s i of
     RLeading cid roles \<Rightarrow> (case answer of
         Inl e \<Rightarrow> Some (rmove i (RFinishing cid roles (Inl e)) s)
       | Inr perms \<Rightarrow> Some (rmove i (RStoring cid roles perms)
           (s\<lparr>rs_answers := (cacheKey cid roles, perms, rs_now s) # rs_answers s\<rparr>)))
   | _ \<Rightarrow> None)"

definition store_step ::
  "('c, string list) cache_ops \<Rightarrow> HttpResolverOptions \<Rightarrow> nat \<Rightarrow> ('c, 'e) rstate \<Rightarrow> ('c, 'e) rstate option" where
  "store_step ops opts i s = (case rs_pc s i of
     RStoring cid roles perms \<Rightarrow> Some (rmove i (RFinishing cid roles (Inr perms))
       (s\<lparr>rs_cache := c_set ops (rs_cache s) (cacheKey cid roles) perms (o_TTL opts) (rs_now s),
          rs_stores := (cacheKey cid roles, perms, rs_now s) # rs_stores s\<rparr>))
   | _ \<Rightarrow> None)"

definition outcome_of :: "HttpResolverOptions \<Rightarrow> 'e + string list \<Rightarrow> 'e + string list" where
  "outcome_of opts res = (case res of Inl e \<Rightarrow> if o_FailOpen opts then Inr [] else Inl e | Inr perms \<Rightarrow> Inr perms)"

text \<open>The end of a flight: the leader and all who wait for its key return what it brought.\<close>

definition landed :: "string \<Rightarrow> 'e + string list \<Rightarrow> int \<Rightarrow> 'e rpc \<Rightarrow> 'e rpc" where
  "landed k res t pc = (case pc of RWaiting c r \<Rightarrow> if cacheKey c r = k then RReturned c r False res t else pc | _ \<Rightarrow> pc)"

definition finish_step :: "HttpResolverOptions \<Rightarrow> nat \<Rightarrow> ('c, 'e) rstate \<Rightarrow> ('c, 'e) rstate option" where
  "finish_step opts i s = (case rs_pc s i of
     RFinishing cid roles res \<Rightarrow>
       Some (s\<lparr>rs_flights := (rs_flights s)(cacheKey cid roles := None),
         rs_pc := (\<lambda>j. if j = i then RReturned cid roles False (outcome_of opts res) (rs_now s)
           else landed (cacheKey cid roles) (outcome_of opts res) (rs_now s) (rs_pc s j))\<rparr>)
   | _ \<Rightarrow> None)"

fun rexec ::
  "('c, string list) cache_ops \<Rightarrow> HttpResolverOptions \<Rightarrow> 'e revent \<Rightarrow> ('c, 'e) rstate \<Rightarrow> ('c, 'e) rstate option" where
  "rexec ops opts (RTick d) s = Some (s\<lparr>rs_now := rs_now s + int d\<rparr>)"
| "rexec ops opts (RCall i cid roles) s = call_step i cid roles s"
| "rexec ops opts (RLook i) s = cached_step ops i s"
| "rexec ops opts (RJoin i) s = join_step i s"
| "rexec ops opts (RAnswer i answer) s = answer_step i answer s"
| "rexec ops opts (RStore i) s = store_step ops opts i s"
| "rexec ops opts (RFinish i) s = finish_step opts i s"
| "rexec ops opts (RInvalidate cid roles) s = Some (s\<lparr>rs_cache := Invalidate ops cid roles (rs_cache s)\<rparr>)"
| "rexec ops opts RClear s = Some (s\<lparr>rs_cache := Clear ops (rs_cache s)\<rparr>)"

fun rexecs ::
  "('c, string list) cache_ops \<Rightarrow> HttpResolverOptions \<Rightarrow> 'e revent list \<Rightarrow> ('c, 'e) rstate \<Rightarrow> ('c, 'e) rstate option" where
  "rexecs ops opts [] s = Some s"
| "rexecs ops opts (e # es) s = Option.bind (rexec ops opts e s) (rexecs ops opts es)"

definition fresh_resolver :: "'c \<Rightarrow> int \<Rightarrow> ('c, 'e) rstate" where
  "fresh_resolver c now = \<lparr>rs_cache = c, rs_now = now, rs_flights = (\<lambda>_. None), rs_pc = (\<lambda>_. RIdle),
     rs_answers = [], rs_stores = []\<rparr>"

lemmas rstep_defs = call_step_def cached_step_def join_step_def answer_step_def store_step_def finish_step_def rmove_def

section \<open>Flights\<close>

text \<open>The key whose flight a caller leads.\<close>

fun leads :: "'e rpc \<Rightarrow> string option" where
  "leads (RLeading c r) = Some (cacheKey c r)"
| "leads (RStoring c r ps) = Some (cacheKey c r)"
| "leads (RFinishing c r res) = Some (cacheKey c r)"
| "leads pc = None"

text \<open>A key has one leader at most, and nobody waits for a flight that has none.\<close>

definition flights_ok :: "('c, 'e) rstate \<Rightarrow> bool" where
  "flights_ok s \<longleftrightarrow> (\<forall>i k. leads (rs_pc s i) = Some k \<longleftrightarrow> rs_flights s k = Some i) \<and>
     (\<forall>i c r. rs_pc s i = RWaiting c r \<longrightarrow> rs_flights s (cacheKey c r) \<noteq> None)"

lemma flights_move:
  "flights_ok s \<Longrightarrow> leads c = leads (rs_pc s i) \<Longrightarrow> \<forall>d r. c \<noteq> RWaiting d r \<Longrightarrow> flights_ok (rmove i c s)"
  by (auto simp: flights_ok_def rmove_def)

lemma flights_update [simp]:
  "flights_ok (s\<lparr>rs_now := t\<rparr>) = flights_ok s"
  "flights_ok (s\<lparr>rs_cache := d\<rparr>) = flights_ok s"
  "flights_ok (s\<lparr>rs_answers := as\<rparr>) = flights_ok s"
  "flights_ok (s\<lparr>rs_stores := ss\<rparr>) = flights_ok s"
  by (simp_all add: flights_ok_def)

lemma leads_landed [simp]: "leads (landed k res t pc) = leads pc"
  by (simp add: landed_def split: rpc.splits)

lemma landed_waiting: "landed k res t pc = RWaiting c r \<Longrightarrow> pc = RWaiting c r \<and> cacheKey c r \<noteq> k"
  by (auto simp: landed_def split: rpc.splits if_splits)

lemma flights_kept:
  assumes "flights_ok s" and "rexec ops opts e s = Some s'"
  shows "flights_ok s'"
proof (cases e)
  case (RJoin i)
  with assms obtain cid roles where pc: "rs_pc s i = RJoining cid roles" by (auto simp: join_step_def split: rpc.splits)
  then have idle: "rs_flights s k \<noteq> Some i" for k using assms(1) by (force simp: flights_ok_def)
  show ?thesis
  proof (cases "rs_flights s (cacheKey cid roles)")
    case None
    with pc assms RJoin have s': "s' = rmove i (RLeading cid roles) (s\<lparr>rs_flights := (rs_flights s)(cacheKey cid roles \<mapsto> i)\<rparr>)"
      by (simp add: join_step_def)
    have "leads (rs_pc s j) \<noteq> Some (cacheKey cid roles)" for j using assms(1) None by (simp add: flights_ok_def)
    with idle assms(1) show ?thesis by (auto simp: s' flights_ok_def rmove_def)
  next
    case (Some l)
    with idle pc assms RJoin show ?thesis by (auto simp: flights_ok_def join_step_def rmove_def split: if_splits)
  qed
next
  case (RFinish i)
  with assms obtain cid roles res where pc: "rs_pc s i = RFinishing cid roles res"
    by (auto simp: finish_step_def split: rpc.splits)
  then have own: "rs_flights s (cacheKey cid roles) = Some i" using assms(1) by (force simp: flights_ok_def)
  have s': "rs_flights s' = (rs_flights s)(cacheKey cid roles := None)"
    "rs_pc s' j = (if j = i then RReturned cid roles False (outcome_of opts res) (rs_now s)
       else landed (cacheKey cid roles) (outcome_of opts res) (rs_now s) (rs_pc s j))" for j
    using pc assms(2) RFinish by (auto simp: finish_step_def)
  have led: "leads (rs_pc s j) = Some k \<longleftrightarrow> rs_flights s k = Some j" for j k using assms(1) by (simp add: flights_ok_def)
  have "leads (rs_pc s' j) = Some k \<longleftrightarrow> rs_flights s' k = Some j" for j k
  proof (cases "j = i")
    case True
    have "rs_flights s k = Some i \<Longrightarrow> k = cacheKey cid roles" using led [of i k] pc by simp
    with True show ?thesis by (auto simp: s')
  next
    case False
    then have "leads (rs_pc s' j) = leads (rs_pc s j)" by (simp add: s')
    with False led [of j k] own show ?thesis by (simp add: s')
  qed
  moreover have "rs_flights s' (cacheKey c r) \<noteq> None" if "rs_pc s' j = RWaiting c r" for j c r
    using assms(1) that by (auto simp: s' flights_ok_def dest!: landed_waiting split: if_splits)
  ultimately show ?thesis unfolding flights_ok_def by blast
qed (use assms in \<open>auto simp: call_step_def cached_step_def answer_step_def store_step_def intro!: flights_move
    split: rpc.splits prod.splits sum.splits option.splits if_splits\<close>)

section \<open>Where results come from\<close>

text \<open>An answer of the server for the key came by \<open>t\<close>.\<close>

definition answered_by :: "(string \<times> string list \<times> int) list \<Rightarrow> string \<Rightarrow> string list \<Rightarrow> int \<Rightarrow> bool" where
  "answered_by answers k ps t \<longleftrightarrow> (\<exists>u \<le> t. (k, ps, u) \<in> set answers)"

text \<open>
  A hit was stored for the key at most the lifetime before, and everything else that is granted is an answer
  of the server, or nothing at all.
\<close>

definition served :: "HttpResolverOptions \<Rightarrow> (string \<times> string list \<times> int) list \<Rightarrow> (string \<times> string list \<times> int) list \<Rightarrow>
  string \<Rightarrow> string list \<Rightarrow> bool \<Rightarrow> 'e + string list \<Rightarrow> int \<Rightarrow> bool" where
  "served opts answers stores cid roles hit res t \<longleftrightarrow> (case res of
     Inl e \<Rightarrow> \<not> o_FailOpen opts \<and> \<not> hit
   | Inr ps \<Rightarrow> (if hit then \<exists>u. (cacheKey cid roles, ps, u) \<in> set stores \<and> t \<le> u + o_TTL opts
       else ps = [] \<and> (roles = [] \<or> o_FailOpen opts) \<or> answered_by answers (cacheKey cid roles) ps t))"

fun pc_ok :: "HttpResolverOptions \<Rightarrow> ('c, 'e) rstate \<Rightarrow> 'e rpc \<Rightarrow> bool" where
  "pc_ok opts s (RStoring c r ps) = answered_by (rs_answers s) (cacheKey c r) ps (rs_now s)"
| "pc_ok opts s (RFinishing c r (Inr ps)) = answered_by (rs_answers s) (cacheKey c r) ps (rs_now s)"
| "pc_ok opts s (RReturned c r hit res t) = served opts (rs_answers s) (rs_stores s) c r hit res t"
| "pc_ok opts s pc = True"

definition stores_ok :: "HttpResolverOptions \<Rightarrow> ('c \<Rightarrow> (string \<times> string list \<times> int) set) \<Rightarrow> ('c, 'e) rstate \<Rightarrow> bool" where
  "stores_ok opts stored s \<longleftrightarrow> fresh_store (\<lambda>k v t. (k, v, t) \<in> set (rs_stores s)) (o_TTL opts) (stored (rs_cache s)) \<and>
     (\<forall>(k, v, t) \<in> set (rs_stores s). answered_by (rs_answers s) k v t)"

definition results_ok :: "HttpResolverOptions \<Rightarrow> ('c, 'e) rstate \<Rightarrow> bool" where
  "results_ok opts s \<longleftrightarrow> (\<forall>i. pc_ok opts s (rs_pc s i))"

lemma answered_by_mono: "answered_by as k ps t \<Longrightarrow> set as \<subseteq> set as' \<Longrightarrow> t \<le> t' \<Longrightarrow> answered_by as' k ps t'"
  unfolding answered_by_def by (meson in_mono order_trans)

lemma served_mono: "served opts as ss c r h res t \<Longrightarrow> set as \<subseteq> set as' \<Longrightarrow> set ss \<subseteq> set ss' \<Longrightarrow> served opts as' ss' c r h res t"
  by (auto simp: served_def split: sum.splits if_splits intro: answered_by_mono)

lemma pc_ok_mono:
  assumes "pc_ok opts s c" and "set (rs_answers s) \<subseteq> set (rs_answers s')" and "set (rs_stores s) \<subseteq> set (rs_stores s')"
    and "rs_now s \<le> rs_now s'"
  shows "pc_ok opts s' c"
  using assms by (cases "(opts, s, c)" rule: pc_ok.cases) (auto intro: answered_by_mono served_mono)

lemma pc_ok_update [simp]:
  "pc_ok opts (s\<lparr>rs_pc := f\<rparr>) c = pc_ok opts s c"
  "pc_ok opts (s\<lparr>rs_flights := g\<rparr>) c = pc_ok opts s c"
  "pc_ok opts (s\<lparr>rs_cache := d\<rparr>) c = pc_ok opts s c"
  by (cases "(opts, s, c)" rule: pc_ok.cases; simp)+

lemma fresh_store_ok_mono: "fresh_store ok ttl S \<Longrightarrow> (\<And>k v t. ok k v t \<Longrightarrow> ok' k v t) \<Longrightarrow> fresh_store ok' ttl S"
  by (fastforce simp: fresh_store_def)

lemma results_move:
  assumes "results_ok opts s" and "rs_pc s' = (rs_pc s)(i := c)" and "pc_ok opts s' c"
    and "set (rs_answers s) \<subseteq> set (rs_answers s')" and "set (rs_stores s) \<subseteq> set (rs_stores s')" and "rs_now s \<le> rs_now s'"
  shows "results_ok opts s'"
  using assms pc_ok_mono [of opts s _ s'] by (auto simp: results_ok_def)

lemma stores_same:
  assumes "stores_ok opts stored s" and "stored (rs_cache s') \<subseteq> stored (rs_cache s)" and "rs_stores s' = rs_stores s"
    and "set (rs_answers s) \<subseteq> set (rs_answers s')"
  shows "stores_ok opts stored s'"
  using assms by (fastforce simp: stores_ok_def fresh_store_def intro: answered_by_mono)

lemma stores_kept:
  assumes law: "cache_law ops stored" and inv: "stores_ok opts stored s" "results_ok opts s"
    and run: "rexec ops opts e s = Some s'"
  shows "stores_ok opts stored s'"
proof (cases e)
  case (RLook i)
  with run obtain cid roles where pc: "rs_pc s i = RLooking cid roles" by (auto simp: cached_step_def split: rpc.splits)
  obtain h c1 where get: "c_get ops (rs_cache s) (cacheKey cid roles) (rs_now s) = (h, c1)" by fastforce
  then have "stored c1 \<subseteq> stored (rs_cache s)"
    using cache_lawD(2) [OF law, of _ "rs_cache s" "cacheKey cid roles" "rs_now s"] by auto
  with run RLook pc get show ?thesis
    by (intro stores_same [OF inv(1)]) (auto simp: cached_step_def rmove_def)
next
  case (RStore i)
  with run obtain cid roles ps where pc: "rs_pc s i = RStoring cid roles ps"
    by (auto simp: store_step_def split: rpc.splits)
  have "answered_by (rs_answers s) (cacheKey cid roles) ps (rs_now s)"
    using inv(2) [unfolded results_ok_def, rule_format, of i] pc by simp
  moreover have "fresh_store (\<lambda>k v t. (k, v, t) \<in> set (rs_stores s')) (o_TTL opts) (stored (rs_cache s))"
    using inv(1) run RStore pc by (auto simp: stores_ok_def store_step_def rmove_def elim!: fresh_store_ok_mono)
  ultimately show ?thesis
    using run RStore pc inv(1) by (auto simp: stores_ok_def store_step_def rmove_def intro!: fresh_store_set [OF law])
next
  case (RInvalidate cid roles)
  with run inv(1) show ?thesis
    by (auto simp: Invalidate_def intro!: stores_same [of opts stored s] dest: cache_lawD(4) [OF law])
next
  case RClear
  with run inv(1) show ?thesis
    by (auto simp: Clear_def intro!: stores_same [of opts stored s] dest: cache_lawD(5) [OF law])
qed (use run inv(1) in \<open>auto simp: call_step_def join_step_def answer_step_def finish_step_def rmove_def
    intro!: stores_same [of opts stored s] split: if_splits rpc.splits sum.splits\<close>)

lemma results_kept:
  assumes law: "cache_law ops stored" and inv: "stores_ok opts stored s" "results_ok opts s"
    and run: "rexec ops opts e s = Some s'"
  shows "results_ok opts s'"
proof (cases e)
  case (RTick d)
  with run inv(2) pc_ok_mono [of opts s _ s'] show ?thesis by (auto simp: results_ok_def)
next
  case (RLook i)
  with run obtain cid roles where pc: "rs_pc s i = RLooking cid roles" by (auto simp: cached_step_def split: rpc.splits)
  obtain h c1 where get: "c_get ops (rs_cache s) (cacheKey cid roles) (rs_now s) = (h, c1)" by fastforce
  have "\<exists>u. (cacheKey cid roles, v, u) \<in> set (rs_stores s) \<and> rs_now s \<le> u + o_TTL opts" if "h = Some v" for v
    using inv(1) get that by (auto simp: stores_ok_def elim!: fresh_store_hit [OF law])
  with run RLook pc get inv(2) show ?thesis
    by (auto simp: cached_step_def rmove_def served_def intro!: results_move [of opts s _ i] split: option.splits)
next
  case (RFinish i)
  with run obtain cid roles res where pc: "rs_pc s i = RFinishing cid roles res"
    by (auto simp: finish_step_def split: rpc.splits)
  then have "pc_ok opts s (RFinishing cid roles res)" using inv(2) by (metis results_ok_def)
  then have new: "served opts (rs_answers s) (rs_stores s) c r False (outcome_of opts res) (rs_now s)"
    if "cacheKey c r = cacheKey cid roles" for c r
    using that by (cases res) (auto simp: served_def outcome_of_def)
  have logs: "rs_answers s' = rs_answers s" "rs_stores s' = rs_stores s" "rs_now s' = rs_now s"
    using run RFinish pc by (auto simp: finish_step_def)
  have "pc_ok opts s' (rs_pc s' j)" for j
  proof -
    have old: "pc_ok opts s' (rs_pc s j)"
      using inv(2) logs pc_ok_mono [of opts s "rs_pc s j" s'] by (simp add: results_ok_def)
    have "rs_pc s' j = (if j = i then RReturned cid roles False (outcome_of opts res) (rs_now s)
        else landed (cacheKey cid roles) (outcome_of opts res) (rs_now s) (rs_pc s j))"
      using run RFinish pc by (auto simp: finish_step_def)
    then consider "rs_pc s' j = rs_pc s j"
      | c r where "rs_pc s' j = RReturned c r False (outcome_of opts res) (rs_now s)" "cacheKey c r = cacheKey cid roles"
      by (cases "j = i"; cases "rs_pc s j") (auto simp: landed_def split: if_splits)
    then show ?thesis using old new logs by cases simp_all
  qed
  then show ?thesis by (simp add: results_ok_def)
next
  case (RAnswer i answer)
  with run inv(2) show ?thesis
    by (auto simp: answer_step_def rmove_def answered_by_def intro!: results_move [of opts s _ i] split: rpc.splits sum.splits)
next
  case (RStore i)
  with run obtain cid roles ps where pc: "rs_pc s i = RStoring cid roles ps"
    by (auto simp: store_step_def split: rpc.splits)
  have "answered_by (rs_answers s) (cacheKey cid roles) ps (rs_now s)"
    using inv(2) [unfolded results_ok_def, rule_format, of i] pc by simp
  with pc run RStore inv(2) show ?thesis
    by (auto simp: store_step_def rmove_def intro!: results_move [of opts s _ i])
qed (use run inv(2) in \<open>auto simp: call_step_def join_step_def rmove_def served_def results_ok_def
    split: if_splits rpc.splits\<close>)

lemma run_kept:
  assumes law: "cache_law ops stored"
  shows "\<lbrakk>flights_ok s; stores_ok opts stored s; results_ok opts s; rexecs ops opts es s = Some s'\<rbrakk> \<Longrightarrow>
    flights_ok s' \<and> stores_ok opts stored s' \<and> results_ok opts s'"
proof (induction es arbitrary: s)
  case (Cons e es)
  then obtain s1 where "rexec ops opts e s = Some s1" "rexecs ops opts es s1 = Some s'" by (auto split: Option.bind_splits)
  with Cons flights_kept stores_kept [OF law] results_kept [OF law] show ?case by blast
qed simp

section \<open>Waiting ends\<close>

text \<open>Whoever waits has a leader, and the leader's own steps bring the answer to the waiter.\<close>

lemma waiter_served:
  assumes ok: "flights_ok s" and wait: "rs_pc s i = RWaiting cid roles"
  shows "\<exists>es s' res. rexecs ops opts es s = Some s' \<and> rs_pc s' i = RReturned cid roles False res (rs_now s)"
proof -
  from ok wait obtain l where "leads (rs_pc s l) = Some (cacheKey cid roles)" unfolding flights_ok_def by blast
  then consider c r where "rs_pc s l = RLeading c r" "cacheKey c r = cacheKey cid roles"
    | c r ps where "rs_pc s l = RStoring c r ps" "cacheKey c r = cacheKey cid roles"
    | c r res where "rs_pc s l = RFinishing c r res" "cacheKey c r = cacheKey cid roles"
    by (cases "rs_pc s l") auto
  moreover from wait have "rs_pc s l \<noteq> RWaiting cid roles \<Longrightarrow> i \<noteq> l" by auto
  ultimately show ?thesis
  proof cases
    case (1 c r)
    with wait \<open>_ \<Longrightarrow> i \<noteq> l\<close> show ?thesis
      by (intro exI [of _ "[RAnswer l (Inr []), RStore l, RFinish l]"]) (auto simp: rstep_defs landed_def)
  next
    case (2 c r ps)
    with wait \<open>_ \<Longrightarrow> i \<noteq> l\<close> show ?thesis
      by (intro exI [of _ "[RStore l, RFinish l]"]) (auto simp: rstep_defs landed_def)
  next
    case (3 c r res)
    with wait \<open>_ \<Longrightarrow> i \<noteq> l\<close> show ?thesis
      by (intro exI [of _ "[RFinish l]"]) (auto simp: rstep_defs landed_def)
  qed
qed

section \<open>One caller\<close>

text \<open>A call of the sequential model is a run of one caller with nobody else around.\<close>

lemma resolve_run:
  assumes run: "Resolve ops client opts cid roles (c, w) = (res, c', w')"
    and time: "\<And>a w1. client cid roles w = (a, w1) \<Longrightarrow> clock w \<le> clock w1"
    and s: "rs_cache s = c" "rs_now s = clock w" "rs_flights s = (\<lambda>_. None)" "rs_pc s = (\<lambda>_. RIdle)"
  shows "\<exists>es s' hit. rexecs ops opts es s = Some s' \<and> rs_cache s' = c' \<and> rs_now s' = clock w' \<and>
    rs_flights s' = (\<lambda>_. None) \<and> rs_pc s' 0 = RReturned cid roles hit res (clock w')"
proof (cases "roles = []")
  case True
  with run s show ?thesis
    by (intro exI [of _ "[RCall 0 cid []]"]) (auto simp: Resolve_def rstep_defs)
next
  case False
  obtain h c1 where get: "c_get ops c (cacheKey cid roles) (clock w) = (h, c1)" by fastforce
  obtain a w1 where cl: "client cid roles w = (a, w1)" by fastforce
  with time have now: "clock w + int (nat (clock w1 - clock w)) = clock w1" by simp
  let ?ask = "[RCall 0 cid roles, RLook 0, RJoin 0, RTick (nat (clock w1 - clock w)), RAnswer 0 a]"
  consider v where "h = Some v" | e where "h = None" "a = Inl e" | ps where "h = None" "a = Inr ps"
    by (cases h; cases a) auto
  then show ?thesis
  proof cases
    case 1
    with run False get s show ?thesis
      by (intro exI [of _ "[RCall 0 cid roles, RLook 0]"]) (auto simp: Resolve_hit rstep_defs)
  next
    case 2
    with run False get cl s now show ?thesis
      by (intro exI [of _ "?ask @ [RFinish 0]"]) (auto simp: Resolve_miss_Inl rstep_defs outcome_of_def fun_eq_iff)
  next
    case 3
    with run False get cl s now show ?thesis
      by (intro exI [of _ "?ask @ [RStore 0, RFinish 0]"]) (auto simp: Resolve_miss_Inr rstep_defs outcome_of_def fun_eq_iff)
  qed
qed

section \<open>Properties\<close>

text \<open>
  C8. Concurrent resolution.  However the steps of any number of callers, of invalidations and of the passing
  of time interleave, a key has one request in flight at most, nobody waits without one, and every result is
  accounted for: a hit was stored for the very key at most the lifetime before, after the server had
  answered it, anything else is an answer of the server for the key, nothing is granted unless the caller
  has no roles or failures are open, and errors only come out when they are not.
\<close>

theorem concurrent_resolver:
  assumes "cache_law ops stored" and "stored c = {}" and "rexecs ops opts es (fresh_resolver c now) = Some s"
  shows "(\<forall>i j k. leads (rs_pc s i) = Some k \<longrightarrow> leads (rs_pc s j) = Some k \<longrightarrow> i = j) \<and>
    (\<forall>i cid roles. rs_pc s i = RWaiting cid roles \<longrightarrow> (\<exists>l. leads (rs_pc s l) = Some (cacheKey cid roles))) \<and>
    (\<forall>i cid roles hit res t. rs_pc s i = RReturned cid roles hit res t \<longrightarrow>
       served opts (rs_answers s) (rs_stores s) cid roles hit res t) \<and>
    (\<forall>(k, ps, t) \<in> set (rs_stores s). answered_by (rs_answers s) k ps t)"
proof -
  have start: "flights_ok (fresh_resolver c now :: ('a, 'c) rstate)"
    "stores_ok opts stored (fresh_resolver c now :: ('a, 'c) rstate)"
    "results_ok opts (fresh_resolver c now :: ('a, 'c) rstate)"
    using assms(2) by (simp_all add: fresh_resolver_def flights_ok_def stores_ok_def results_ok_def fresh_store_def)
  from run_kept [OF assms(1) start assms(3)]
  have ok: "flights_ok s" "stores_ok opts stored s" "results_ok opts s" by blast+
  have "served opts (rs_answers s) (rs_stores s) cid roles hit res t"
    if "rs_pc s i = RReturned cid roles hit res t" for i cid roles hit res t
    using ok(3) that by (metis results_ok_def pc_ok.simps(3))
  moreover have "\<forall>i cid roles. rs_pc s i = RWaiting cid roles \<longrightarrow> (\<exists>l. leads (rs_pc s l) = Some (cacheKey cid roles))"
    using ok(1) by (fastforce simp: flights_ok_def)
  moreover have "\<forall>i j k. leads (rs_pc s i) = Some k \<longrightarrow> leads (rs_pc s j) = Some k \<longrightarrow> i = j"
    using ok(1) by (simp add: flights_ok_def)
  moreover have "\<forall>(k, ps, t) \<in> set (rs_stores s). answered_by (rs_answers s) k ps t"
    using ok(2) by (simp add: stores_ok_def)
  ultimately show ?thesis by blast
qed

text \<open>
  An invalidation while a request is in flight is lost: the request stores what it was answered before, and
  the next caller gets the old permissions from the cache.
\<close>

lemma invalidation_lost:
  assumes "o_TTL opts = 60"
  shows "\<exists>s. rexecs list_cache opts [RCall 0 ''app'' [''r''], RLook 0, RJoin 0, RAnswer 0 (Inr [''old'']), RTick 1,
         RInvalidate ''app'' [''r''], RStore 0, RFinish 0, RTick 5, RCall 1 ''app'' [''r''], RLook 1] (fresh_resolver [] 0) =
       Some (s :: ((string \<times> string list \<times> int) list, unit) rstate) \<and>
     rs_pc s 1 = RReturned ''app'' [''r''] True (Inr [''old'']) 6"
  using assms by (simp add: rstep_defs fresh_resolver_def list_cache_def Invalidate_def landed_def outcome_of_def)

text \<open>The error of the leader, for instance the end of its own context, is what those who joined get too.\<close>

lemma error_shared:
  assumes "\<not> o_FailOpen opts"
  shows "\<exists>s. rexecs list_cache opts [RCall 0 ''app'' [''r''], RCall 1 ''app'' [''r''], RLook 0, RLook 1, RJoin 0, RJoin 1,
         RAnswer 0 (Inl e), RFinish 0] (fresh_resolver [] 0) = Some s \<and>
     rs_pc s 1 = RReturned ''app'' [''r''] False (Inl e) 0"
  using assms by (simp add: rstep_defs fresh_resolver_def list_cache_def landed_def outcome_of_def)

theorem concurrent_resolver_witness:
  "\<exists>s. rexecs list_cache \<lparr>o_TTL = 60, o_MaxEntries = 1, o_FailOpen = False\<rparr> [RCall 0 ''app'' [''r''], RLook 0, RJoin 0,
         RAnswer 0 (Inr [''old'']), RTick 1, RInvalidate ''app'' [''r''], RStore 0, RFinish 0, RTick 5,
         RCall 1 ''app'' [''r''], RLook 1] (fresh_resolver [] 0) =
       Some (s :: ((string \<times> string list \<times> int) list, unit) rstate) \<and>
     served \<lparr>o_TTL = 60, o_MaxEntries = 1, o_FailOpen = False\<rparr> (rs_answers s) (rs_stores s) ''app'' [''r''] True
       (Inr [''old''] :: unit + string list) 6"
proof -
  let ?opts = "\<lparr>o_TTL = 60, o_MaxEntries = 1, o_FailOpen = False\<rparr>"
  obtain s where s: "rexecs list_cache ?opts [RCall 0 ''app'' [''r''], RLook 0, RJoin 0,
         RAnswer 0 (Inr [''old'']), RTick 1, RInvalidate ''app'' [''r''], RStore 0, RFinish 0, RTick 5,
         RCall 1 ''app'' [''r''], RLook 1] (fresh_resolver [] 0) =
       Some (s :: ((string \<times> string list \<times> int) list, unit) rstate)"
     "rs_pc s 1 = RReturned ''app'' [''r''] True (Inr [''old'']) 6"
    using invalidation_lost [of ?opts] by auto
  with concurrent_resolver [OF list_cache_law _ s(1)] show ?thesis by (intro exI [of _ s]) auto
qed

end
